(* ===== verification/Prelude.thy ===== *)
theory Prelude
  imports Main "HOL-Library.AList" "HOL-Library.List_Lexorder" "HOL-Library.Char_ord"
    "HOL-Library.Product_Lexorder" "HOL-Library.Multiset" "HOL-Library.Word"
begin

text \<open>
  Shared vocabulary of the development.

  Go values used by every component: strings are byte strings (\<^typ>\<open>string\<close>, a list of
  8-bit characters, so \<^const>\<open>length\<close> is Go's \<open>len\<close>); a Go map is an association
  list with distinct keys (\<open>gomap\<close>), whose list order stands for the order in which one
  \<open>range\<close> loop happens to visit it; a \<open>(T, error)\<close> result is a sum with the error on
  the left; \<open>time.Time\<close> is the number of nanoseconds since Go's zero time, so that
  \<open>t.IsZero()\<close> is \<open>t = 0\<close>, and \<open>time.Now()\<close> is an argument \<open>now\<close>.

  The theory also holds the error values of all packages with \<open>errors.Is\<close>, the lemmas on
  association lists and sorting that the stores share, and the named collections used by the
  component proofs.
\<close>

section \<open>Fact collections\<close>

named_theorems gomap_simps \<open>lookup and update on Go maps\<close>
named_theorems inv_intros \<open>preservation of component invariants\<close>
named_theorems model_defs \<open>definitions unfolded when a handler is analysed\<close>

section \<open>Go maps as association lists\<close>

type_synonym ('k, 'v) gomap = "('k \<times> 'v) list"
type_synonym strmap = "(string, string) gomap"

abbreviation gm_get :: "('k, 'v) gomap \<Rightarrow> 'k \<Rightarrow> 'v option" where
  "gm_get m k \<equiv> map_of m k"

abbreviation gm_put :: "'k \<Rightarrow> 'v \<Rightarrow> ('k, 'v) gomap \<Rightarrow> ('k, 'v) gomap" where
  "gm_put k v m \<equiv> AList.update k v m"

abbreviation gm_del :: "'k \<Rightarrow> ('k, 'v) gomap \<Rightarrow> ('k, 'v) gomap" where
  "gm_del k m \<equiv> AList.delete k m"

definition gm_wf :: "('k, 'v) gomap \<Rightarrow> bool" where
  "gm_wf m \<longleftrightarrow> distinct (map fst m)"

text \<open>Indexing a \<open>map[string]string\<close>: the zero value for a missing key.\<close>

definition gm_str :: "strmap \<Rightarrow> string \<Rightarrow> string" where
  "gm_str m k = (case gm_get m k of None \<Rightarrow> '''' | Some v \<Rightarrow> v)"

text \<open>Go's \<open>range\<close> over the values of a map.\<close>

definition gm_vals :: "('k, 'v) gomap \<Rightarrow> 'v list" where
  "gm_vals m = map snd m"

lemma gm_wf_Nil [simp]: "gm_wf []"
  by (simp add: gm_wf_def)

lemma gm_get_put [gomap_simps, simp]: "gm_get (gm_put k v m) k' = (if k' = k then Some v else gm_get m k')"
  by (simp add: update_conv')

lemma gm_get_del [gomap_simps, simp]: "gm_get (gm_del k m) k' = (if k' = k then None else gm_get m k')"
  by (simp add: delete_conv')

lemma gm_wf_put [inv_intros, simp]: "gm_wf m \<Longrightarrow> gm_wf (gm_put k v m)"
  by (simp add: gm_wf_def distinct_update)

lemma gm_wf_del [inv_intros, simp]: "gm_wf m \<Longrightarrow> gm_wf (gm_del k m)"
  by (simp add: gm_wf_def distinct_delete)

lemma gm_wf_map [inv_intros, simp]:
  "gm_wf m \<Longrightarrow> gm_wf (map (\<lambda>(k, v). (k, f k v)) m)"
  by (simp add: gm_wf_def comp_def case_prod_beta)

lemma gm_get_map [gomap_simps]:
  "gm_get (map (\<lambda>(k, v). (k, f k v)) m) k' = map_option (f k') (gm_get m k')"
  by (induction m) auto

lemma gm_wf_filter [inv_intros, simp]: "gm_wf m \<Longrightarrow> gm_wf (filter P m)"
  by (simp add: gm_wf_def distinct_map_filter)

lemma gm_get_filter [gomap_simps]:
  "gm_wf m \<Longrightarrow> gm_get (filter P m) k =
     (case gm_get m k of None \<Rightarrow> None | Some v \<Rightarrow> if P (k, v) then Some v else None)"
proof (induction m)
  case (Cons p m)
  obtain a b where p: "p = (a, b)" by (cases p)
  have wf: "gm_wf m" and notin: "a \<notin> fst ` set m"
    using Cons.prems p by (auto simp: gm_wf_def)
  have none: "gm_get (filter P m) a = None"
    using notin by (auto simp: map_of_eq_None_iff)
  show ?case
    using Cons.IH [OF wf] notin none p by (auto split: option.splits)
qed simp

lemma gm_vals_iff [gomap_simps]:
  "gm_wf m \<Longrightarrow> v \<in> set (gm_vals m) \<longleftrightarrow> (\<exists>k. gm_get m k = Some v)"
  by (force simp: gm_wf_def gm_vals_def map_of_eq_Some_iff)

lemma set_gm_vals: "gm_wf m \<Longrightarrow> set (gm_vals m) = ran (gm_get m)"
  by (auto simp: gm_vals_iff ran_def)

lemma gm_valsD: "gm_get m k = Some v \<Longrightarrow> v \<in> set (gm_vals m)"
  by (force simp: gm_vals_def dest: map_of_SomeD)

lemma length_gm_vals [simp]: "length (gm_vals m) = length m"
  by (simp add: gm_vals_def)

text \<open>The number of entries does not depend on the order in which the map is visited.\<close>

lemma gm_card: "gm_wf m \<Longrightarrow> length m = card (dom (gm_get m))"
  by (metis distinct_card dom_map_of_conv_image_fst gm_wf_def length_map list.set_map)

lemma gm_length_put:
  "length (gm_put k v m) = (if gm_get m k = None then Suc (length m) else length m)"
  by (induction m) auto

section \<open>Sorting\<close>

text \<open>
  \<open>sort.Slice\<close> is not stable and a map is visited in an arbitrary order. When the sort keys
  are distinct the result is nevertheless determined by the set of entries.
\<close>

lemma sort_key_unique:
  fixes f :: "'a \<Rightarrow> 'b::linorder"
  assumes "mset xs = mset ys" and "inj_on f (set xs)"
  shows "sort_key f xs = sort_key f ys"
  by (rule sort_key_inj_key_eq) (use assms in simp_all)

section \<open>Time\<close>

type_synonym gotime = int
type_synonym duration = int

abbreviation (input) second :: duration where "second \<equiv> 1000000000"
abbreviation (input) minute :: duration where "minute \<equiv> 60000000000"
abbreviation (input) hour :: duration where "hour \<equiv> 3600000000000"

text \<open>\<open>time.Time.Unix\<close>: whole seconds since 1970, counted from Go's zero time.\<close>

definition unix :: "gotime \<Rightarrow> int" where
  "unix t = t div 1000000000 - 62135596800"

lemma unix_mono: "s \<le> t \<Longrightarrow> unix s \<le> unix t"
  by (simp add: unix_def zdiv_mono1)

section \<open>Errors\<close>

text \<open>
  One constructor per sentinel error or error type of the packages, \<open>EText\<close> for
  \<open>errors.New\<close>/\<open>fmt.Errorf\<close> without a wrapped cause and \<open>EWrap\<close> for
  \<open>fmt.Errorf("...: %w", err)\<close>, \<open>ESuffix\<close> for \<open>fmt.Errorf("%w ...", err)\<close>.
\<close>

datatype grpc_code = InvalidArgument | NotFound | AlreadyExists | Internal
  | FailedPrecondition | ResourceExhausted | Unauthenticated | Unavailable

datatype error =
    ErrStoreNotFound
  | ErrRegistryNotFound
  | ErrRejected
  | ERejection (rej_plugin: string) (rej_reason: string)
  | ESMTP (smtp_code: nat) (smtp_enhanced: "nat \<times> nat \<times> nat") (smtp_msg: string)
  | EStatus (status_code: grpc_code) (status_msg: string)
  | ErrQueueFull
  | ErrContext
  | ErrAuthRequired
  | ErrAuthUnknownMechanism
  | ErrSMTPAlreadyRunning
  | ErrSMTPNotRunning
  | ErrLMTPAlreadyRunning
  | ErrLMTPNotRunning
  | ErrAlreadyRunning
  | ErrNotRunning
  | ErrLMTPServerAlreadyRunning
  | ErrLMTPServerNotRunning
  | EText string
  | EWrap string error
  | ESuffix error string

type_synonym 'a result = "error + 'a"

text \<open>\<open>errors.Is\<close>: unwraps \<open>%w\<close> chains; a plugin rejection's \<open>Is\<close> method
  answers for the sentinel \<open>plugin.ErrRejected\<close>.\<close>

fun errors_Is :: "error \<Rightarrow> error \<Rightarrow> bool" where
  "errors_Is (EWrap m e) t = (EWrap m e = t \<or> errors_Is e t)"
| "errors_Is (ESuffix e m) t = (ESuffix e m = t \<or> errors_Is e t)"
| "errors_Is (ERejection p r) t = (ERejection p r = t \<or> t = ErrRejected)"
| "errors_Is e t = (e = t)"

lemma errors_Is_refl [simp]: "errors_Is e e"
  by (cases e) simp_all

text \<open>The \<open>Error()\<close> method.\<close>

fun grpc_code_text :: "grpc_code \<Rightarrow> string" where
  "grpc_code_text InvalidArgument = ''InvalidArgument''"
| "grpc_code_text NotFound = ''NotFound''"
| "grpc_code_text AlreadyExists = ''AlreadyExists''"
| "grpc_code_text Internal = ''Internal''"
| "grpc_code_text FailedPrecondition = ''FailedPrecondition''"
| "grpc_code_text ResourceExhausted = ''ResourceExhausted''"
| "grpc_code_text Unauthenticated = ''Unauthenticated''"
| "grpc_code_text Unavailable = ''Unavailable''"

fun error_text :: "error \<Rightarrow> string" where
  "error_text ErrStoreNotFound = ''store: not found''"
| "error_text ErrRegistryNotFound = ''registry: not found''"
| "error_text ErrRejected = ''message rejected by plugin''"
| "error_text (ERejection p r) = ''['' @ p @ ''] '' @ r"
| "error_text (ESMTP c h m) = m"
| "error_text (EStatus c m) = ''rpc error: code = '' @ grpc_code_text c @ '' desc = '' @ m"
| "error_text ErrQueueFull = ''relay: queue full''"
| "error_text ErrContext = ''context canceled''"
| "error_text ErrAuthRequired = ''Please authenticate first''"
| "error_text ErrAuthUnknownMechanism = ''Unsupported authentication mechanism''"
| "error_text ErrSMTPAlreadyRunning = ''smtp: already running''"
| "error_text ErrSMTPNotRunning = ''smtp: not running''"
| "error_text ErrLMTPAlreadyRunning = ''lmtp: already running''"
| "error_text ErrLMTPNotRunning = ''lmtp: not running''"
| "error_text ErrAlreadyRunning = ''smtp: server already running''"
| "error_text ErrNotRunning = ''smtp: server not running''"
| "error_text ErrLMTPServerAlreadyRunning = ''lmtp: server already running''"
| "error_text ErrLMTPServerNotRunning = ''lmtp: server not running''"
| "error_text (EText m) = m"
| "error_text (EWrap m e) = m @ '': '' @ error_text e"
| "error_text (ESuffix e m) = error_text e @ m"

section \<open>Results\<close>

abbreviation ok :: "'a result \<Rightarrow> bool" where
  "ok r \<equiv> \<not> isl r"

end
