(* ===== verification/Go_Strings.thy ===== *)
theory Go_Strings
  imports Prelude "HOL-Library.Sublist"
begin

text \<open>
  The parts of Go's standard library that the program uses on strings: \<open>strings\<close>
  (\<open>Contains\<close>, \<open>HasPrefix\<close>, \<open>Index\<close>, \<open>LastIndex\<close>, \<open>Cut\<close>/\<open>SplitN\<close>,
  \<open>Split\<close>, \<open>Join\<close>, \<open>ToLower\<close>, \<open>EqualFold\<close>, \<open>TrimSpace\<close>,
  \<open>TrimRight\<close>, \<open>TrimPrefix\<close>), the UTF-8 decoding done by \<open>range\<close> over a string,
  \<open>strings.Builder.WriteRune\<close>, \<open>strconv\<close>'s decimal and quoting verbs of \<open>fmt\<close>,
  and \<open>net.SplitHostPort\<close>.

  Strings of ASCII bytes are treated exactly. What depends on the Unicode tables, and the
  parsers of \<open>net/mail\<close>, \<open>mime\<close>, \<open>net\<close> and \<open>regexp\<close>, are the fields of the record
  \<open>golib\<close>, an argument of every definition that needs one of them; the theorems hold for
  every value of it.
\<close>

section \<open>Library functions kept as parameters\<close>

datatype ipaddr = IPv4 nat nat nat nat | IPv6 string

record golib =
  uc_ToLower :: "string \<Rightarrow> string"
  uc_EqualFold :: "string \<Rightarrow> string \<Rightarrow> bool"
  uc_TrimSpace :: "string \<Rightarrow> string"
  uc_Quote :: "string \<Rightarrow> string"
  mail_ParseAddress :: "string \<Rightarrow> string option"
  mime_ParseMediaType :: "string \<Rightarrow> string option"
  net_ParseIP :: "string \<Rightarrow> ipaddr option"
  regexp_Compile :: "string \<Rightarrow> error option"
  regexp_MatchString :: "string \<Rightarrow> string \<Rightarrow> bool"

section \<open>Bytes\<close>

abbreviation byte :: "char \<Rightarrow> nat" where
  "byte c \<equiv> of_char c"

lemma byte_less [simp]: "byte c < 256"
  by (rule nat_of_char_less_256)

lemma byte_inject [simp]: "byte c = byte d \<longleftrightarrow> c = d"
  by (rule of_char_eq_iff)

lemma byte_char_of [simp]: "n < 256 \<Longrightarrow> byte (char_of n) = n"
  by simp

definition ascii :: "string \<Rightarrow> bool" where
  "ascii s \<longleftrightarrow> list_all (\<lambda>c. byte c < 128) s"

lemma ascii_simps [simp]:
  "ascii []" "ascii (c # s) \<longleftrightarrow> byte c < 128 \<and> ascii s" "ascii (s @ t) \<longleftrightarrow> ascii s \<and> ascii t"
  by (auto simp: ascii_def)

section \<open>Searching\<close>

fun has_prefix :: "string \<Rightarrow> string \<Rightarrow> bool" where
  "has_prefix s [] = True"
| "has_prefix [] (p # ps) = False"
| "has_prefix (c # s) (p # ps) = (c = p \<and> has_prefix s ps)"

lemma has_prefix_iff: "has_prefix s p \<longleftrightarrow> prefix p s"
  by (induction s p rule: has_prefix.induct) auto

fun contains :: "string \<Rightarrow> string \<Rightarrow> bool" where
  "contains [] sub = (sub = [])"
| "contains (c # s) sub = (has_prefix (c # s) sub \<or> contains s sub)"

lemma contains_iff: "contains s sub \<longleftrightarrow> sublist sub s"
  by (induction s) (auto simp: has_prefix_iff sublist_Cons_right)

lemma contains_Nil [simp]: "contains s []"
  by (cases s) auto

text \<open>\<open>strings.IndexByte\<close> and \<open>LastIndexByte\<close>; \<open>None\<close> is -1.\<close>

fun index_byte :: "char \<Rightarrow> string \<Rightarrow> nat option" where
  "index_byte c [] = None"
| "index_byte c (x # s) = (if x = c then Some 0 else map_option Suc (index_byte c s))"

fun last_index_byte :: "char \<Rightarrow> string \<Rightarrow> nat option" where
  "last_index_byte c [] = None"
| "last_index_byte c (x # s) =
     (case last_index_byte c s of Some i \<Rightarrow> Some (Suc i) | None \<Rightarrow> if x = c then Some 0 else None)"

lemma index_byte_None [simp]: "index_byte c s = None \<longleftrightarrow> c \<notin> set s"
  by (induction s) auto

lemma last_index_byte_None [simp]: "last_index_byte c s = None \<longleftrightarrow> c \<notin> set s"
  by (induction s) (auto split: option.splits)

lemma index_byte_SomeD:
  "index_byte c s = Some i \<Longrightarrow> i < length s \<and> s ! i = c \<and> c \<notin> set (take i s)"
  by (induction s arbitrary: i) (auto split: if_splits)

lemma last_index_byte_SomeD:
  "last_index_byte c s = Some i \<Longrightarrow> i < length s \<and> s ! i = c \<and> c \<notin> set (drop (Suc i) s)"
  by (induction s arbitrary: i) (auto split: if_splits option.splits)

lemma index_byte_append [simp]:
  "c \<notin> set a \<Longrightarrow> index_byte c (a @ c # b) = Some (length a)"
  by (induction a) auto

lemma last_index_byte_append [simp]:
  "c \<notin> set b \<Longrightarrow> last_index_byte c (a @ c # b) = Some (length a)"
proof (induction a)
  case Nil
  then show ?case by (simp split: option.splits)
qed (simp split: option.splits)

text \<open>\<open>strings.Cut\<close>, which is also \<open>strings.SplitN(s, sep, 2)\<close> when the separator occurs.\<close>

definition cut :: "char \<Rightarrow> string \<Rightarrow> (string \<times> string) option" where
  "cut c s = (case index_byte c s of None \<Rightarrow> None | Some i \<Rightarrow> Some (take i s, drop (Suc i) s))"

lemma cut_None [simp]: "cut c s = None \<longleftrightarrow> c \<notin> set s"
  by (auto simp: cut_def split: option.splits dest: index_byte_SomeD)

lemma cut_append [simp]: "c \<notin> set a \<Longrightarrow> cut c (a @ c # b) = Some (a, b)"
  by (simp add: cut_def)

lemma cut_SomeD: "cut c s = Some (a, b) \<Longrightarrow> s = a @ c # b \<and> c \<notin> set a"
  by (auto simp: cut_def id_take_nth_drop dest!: index_byte_SomeD split: option.splits)

text \<open>\<open>strings.Split\<close> on one byte and \<open>strings.Join\<close>.\<close>

fun split_byte :: "char \<Rightarrow> string \<Rightarrow> string list" where
  "split_byte c [] = [[]]"
| "split_byte c (x # s) =
     (if x = c then [] # split_byte c s
      else (case split_byte c s of [] \<Rightarrow> [[x]] | w # ws \<Rightarrow> (x # w) # ws))"

fun join :: "string \<Rightarrow> string list \<Rightarrow> string" where
  "join sep [] = []"
| "join sep [w] = w"
| "join sep (w # v # ws) = w @ sep @ join sep (v # ws)"

lemma split_byte_nonempty [simp]: "split_byte c s \<noteq> []"
  by (induction s) (auto split: list.splits)

lemma split_byte_no_sep: "w \<in> set (split_byte c s) \<Longrightarrow> c \<notin> set w"
  by (induction s arbitrary: w) (auto split: list.splits if_splits)

lemma split_byte_whole: "c \<notin> set b \<Longrightarrow> split_byte c b = [b]"
  by (induction b) auto

lemma split_byte_append: "split_byte c (a @ c # b) = split_byte c a @ split_byte c b"
proof (induction a)
  case (Cons x a)
  show ?case using Cons split_byte_nonempty [of c a] by (auto split: list.split)
qed simp

lemma join_split: "join [c] (split_byte c s) = s"
proof (induction s)
  case (Cons x s)
  obtain w ws where ws: "split_byte c s = w # ws" by (cases "split_byte c s") simp_all
  then show ?case using Cons by (cases ws) auto
qed simp

section \<open>Case and white space\<close>

definition ascii_lower :: "char \<Rightarrow> char" where
  "ascii_lower c = (if 65 \<le> byte c \<and> byte c \<le> 90 then char_of (byte c + 32) else c)"

definition to_lower :: "golib \<Rightarrow> string \<Rightarrow> string" where
  "to_lower G s = (if ascii s then map ascii_lower s else uc_ToLower G s)"

definition equal_fold :: "golib \<Rightarrow> string \<Rightarrow> string \<Rightarrow> bool" where
  "equal_fold G s t =
     (if ascii s \<and> ascii t then map ascii_lower s = map ascii_lower t else uc_EqualFold G s t)"

definition ascii_space :: "char \<Rightarrow> bool" where
  "ascii_space c \<longleftrightarrow> byte c = 32 \<or> 9 \<le> byte c \<and> byte c \<le> 13"

definition trim_space :: "golib \<Rightarrow> string \<Rightarrow> string" where
  "trim_space G s =
     (if ascii s then rev (dropWhile ascii_space (rev (dropWhile ascii_space s))) else uc_TrimSpace G s)"

definition trim_right :: "char list \<Rightarrow> string \<Rightarrow> string" where
  "trim_right cutset s = rev (dropWhile (\<lambda>c. c \<in> set cutset) (rev s))"

definition trim_prefix :: "string \<Rightarrow> string \<Rightarrow> string" where
  "trim_prefix p s = (if has_prefix s p then drop (length p) s else s)"

lemma byte_ascii_lower:
  "byte (ascii_lower c) = (if 65 \<le> byte c \<and> byte c \<le> 90 then byte c + 32 else byte c)"
  by (simp add: ascii_lower_def)

lemma ascii_lower_idem [simp]: "ascii_lower (ascii_lower c) = ascii_lower c"
  by (rule byte_inject [THEN iffD1]) (auto simp: byte_ascii_lower)

lemma ascii_lower_ascii [simp]: "byte (ascii_lower c) < 128 \<longleftrightarrow> byte c < 128"
  by (auto simp: byte_ascii_lower)

lemma ascii_map_lower [simp]: "ascii (map ascii_lower s) \<longleftrightarrow> ascii s"
  by (induction s) auto

lemma to_lower_ascii [simp]: "ascii s \<Longrightarrow> to_lower G s = map ascii_lower s"
  by (simp add: to_lower_def)

lemma to_lower_idem: "ascii s \<Longrightarrow> to_lower G (to_lower G s) = to_lower G s"
  by (simp add: comp_def)

lemma equal_fold_ascii: "ascii s \<Longrightarrow> ascii t \<Longrightarrow> equal_fold G s t \<longleftrightarrow> to_lower G s = to_lower G t"
  by (simp add: equal_fold_def)

text \<open>Two upper/lower case variants of one letter; everything but the letters is its own
  lower case.\<close>

lemma ascii_lower_eq_nonletter:
  assumes "\<not> (97 \<le> byte d \<and> byte d \<le> 122)"
  shows "ascii_lower c = d \<longleftrightarrow> c = d \<and> \<not> (65 \<le> byte c \<and> byte c \<le> 90)"
proof -
  have "ascii_lower c = d \<longleftrightarrow> byte (ascii_lower c) = byte d"
    by (simp only: byte_inject)
  also have "\<dots> \<longleftrightarrow> byte c = byte d \<and> \<not> (65 \<le> byte c \<and> byte c \<le> 90)"
    using assms by (auto simp: byte_ascii_lower)
  finally show ?thesis by simp
qed

lemma trim_right_prefix: "prefix (trim_right cs s) s"
  by (metis prefixI rev_append rev_rev_ident takeWhile_dropWhile_id trim_right_def)

lemma trim_right_last: "trim_right cs s \<noteq> [] \<Longrightarrow> last (trim_right cs s) \<notin> set cs"
  using hd_dropWhile [of "\<lambda>c. c \<in> set cs" "rev s"] by (simp add: trim_right_def last_rev)

section \<open>UTF-8\<close>

type_synonym rune = nat

definition rune_error :: rune where "rune_error = 65533"

definition cont :: "char \<Rightarrow> bool" where
  "cont c \<longleftrightarrow> 128 \<le> byte c \<and> byte c \<le> 191"

text \<open>\<open>utf8.DecodeRuneInString\<close>: the rune at the start of the string and its width; an
  invalid sequence is \<open>(RuneError, 1)\<close>.\<close>

fun decode_rune :: "string \<Rightarrow> rune \<times> nat" where
  "decode_rune [] = (rune_error, 0)"
| "decode_rune (c # t) =
     (let b = byte c in
      if b < 128 then (b, 1)
      else if b < 194 \<or> 244 < b then (rune_error, 1)
      else if b < 224 then
        (case t of c1 # _ \<Rightarrow>
           if cont c1 then ((b - 192) * 64 + (byte c1 - 128), 2) else (rune_error, 1)
         | _ \<Rightarrow> (rune_error, 1))
      else if b < 240 then
        (case t of c1 # c2 # _ \<Rightarrow>
           if (if b = 224 then 160 else 128) \<le> byte c1 \<and> byte c1 \<le> (if b = 237 then 159 else 191) \<and> cont c2
           then ((b - 224) * 4096 + (byte c1 - 128) * 64 + (byte c2 - 128), 3) else (rune_error, 1)
         | _ \<Rightarrow> (rune_error, 1))
      else
        (case t of c1 # c2 # c3 # _ \<Rightarrow>
           if (if b = 240 then 144 else 128) \<le> byte c1 \<and> byte c1 \<le> (if b = 244 then 143 else 191) \<and> cont c2 \<and> cont c3
           then ((b - 240) * 262144 + (byte c1 - 128) * 4096 + (byte c2 - 128) * 64 + (byte c3 - 128), 4)
           else (rune_error, 1)
         | _ \<Rightarrow> (rune_error, 1)))"

text \<open>The runes a \<open>for _, r := range s\<close> loop visits.\<close>

fun runes :: "string \<Rightarrow> rune list" where
  "runes [] = []"
| "runes (c # t) = (let (r, w) = decode_rune (c # t) in r # runes (drop (w - 1) t))"

text \<open>\<open>utf8.AppendRune\<close>, as used by \<open>strings.Builder.WriteRune\<close>.\<close>

definition encode_rune :: "rune \<Rightarrow> string" where
  "encode_rune r =
     (let r' = (if 1114111 < r \<or> 55296 \<le> r \<and> r \<le> 57343 then rune_error else r) in
      if r' < 128 then [char_of r']
      else if r' < 2048 then [char_of (192 + r' div 64), char_of (128 + r' mod 64)]
      else if r' < 65536 then
        [char_of (224 + r' div 4096), char_of (128 + r' div 64 mod 64), char_of (128 + r' mod 64)]
      else [char_of (240 + r' div 262144), char_of (128 + r' div 4096 mod 64),
            char_of (128 + r' div 64 mod 64), char_of (128 + r' mod 64)])"

lemma runes_ascii_Cons [simp]: "byte c < 128 \<Longrightarrow> runes (c # t) = byte c # runes t"
  by simp

lemma runes_ascii: "ascii s \<Longrightarrow> runes s = map byte s"
  by (induction s) (simp_all del: runes.simps(2))

lemma decode_rune_non_ascii:
  assumes "128 \<le> byte c"
  shows "128 \<le> fst (decode_rune (c # t))"
proof -
  define b where "b = byte c"
  have b: "128 \<le> b" using assms by (simp add: b_def)
  have r: "128 \<le> rune_error" by (simp add: rune_error_def)
  consider (bad) "b < 194 \<or> 244 < b" | (two) "194 \<le> b" "b < 224"
    | (three) "224 \<le> b" "b < 240" | (four) "240 \<le> b" "b \<le> 244" by linarith
  then show ?thesis
  proof cases
    case bad
    then show ?thesis using b r by (simp add: Let_def flip: b_def)
  next
    case two
    then have "128 \<le> (b - 192) * 64 + y" for y by linarith
    then show ?thesis using two r by (simp add: Let_def flip: b_def split: list.split)
  next
    case three
    have "128 \<le> (b - 224) * 4096 + (x - 128) * 64 + y" if "(if b = 224 then 160 else 128) \<le> x" for x y
      using that three by (cases "b = 224") simp_all
    then show ?thesis using three r
      by (cases "b = 224") (auto simp: Let_def simp flip: b_def split: list.split)
  next
    case four
    have "128 \<le> (b - 240) * 262144 + (x - 128) * 4096 + z + y" if "(if b = 240 then 144 else 128) \<le> x" for x y z
      using that four by (cases "b = 240") simp_all
    then show ?thesis using four r
      by (cases "b = 240") (auto simp: Let_def simp flip: b_def split: list.split)
  qed
qed

lemma runes_ge_128: "c \<in> set s \<Longrightarrow> list_all (\<lambda>r. r < 128) (runes s) \<Longrightarrow> byte c < 128"
proof (induction s rule: runes.induct)
  case (2 d t)
  show ?case
  proof (cases "byte d < 128")
    case True
    then show ?thesis using 2 by auto
  next
    case False
    then have "128 \<le> fst (decode_rune (d # t))" by (intro decode_rune_non_ascii) simp
    then show ?thesis using 2 by (simp add: case_prod_beta del: decode_rune.simps)
  qed
qed simp

lemma runes_ascii_iff: "list_all (\<lambda>r. r < 128) (runes s) \<longleftrightarrow> ascii s"
  by (auto simp: ascii_def list_all_iff runes_ascii dest: runes_ge_128 [unfolded list_all_iff])

lemma encode_rune_ascii [simp]: "r < 128 \<Longrightarrow> encode_rune r = [char_of r]"
  by (simp add: encode_rune_def)

lemma encode_rune_non_ascii: "128 \<le> r \<Longrightarrow> c \<in> set (encode_rune r) \<Longrightarrow> 128 \<le> byte c"
proof -
  have aux: "r div 64 < 32 \<longleftrightarrow> r < 2048" "r div 4096 < 16 \<longleftrightarrow> r < 65536" "r div 262144 < 5 \<longleftrightarrow> r < 1310720"
    for r :: nat by (simp_all add: div_less_iff_less_mult)
  have byte: "byte (char_of n :: char) = n mod 256" for n by simp
  have m: "(128 + k mod 64) mod 256 = 128 + k mod 64" for k :: nat
    by (rule mod_less) (use mod_less_divisor [of 64 k] in linarith)
  assume r: "128 \<le> r" and c: "c \<in> set (encode_rune r)"
  define r' where "r' = (if 1114111 < r \<or> 55296 \<le> r \<and> r \<le> 57343 then rune_error else r)"
  have r': "128 \<le> r'" "r' \<le> 1114111" using r by (auto simp: r'_def rune_error_def)
  then have "r' div 262144 < 5" using aux by simp
  then show ?thesis
    using c r' aux [of r'] by (auto simp: encode_rune_def byte m simp flip: r'_def split: if_splits)
qed

section \<open>Decimal numbers and quoting\<close>

text \<open>The verb \<open>%d\<close> of \<open>fmt\<close>.\<close>

fun digits :: "nat \<Rightarrow> string" where
  "digits n = (if n < 10 then [char_of (48 + n)] else digits (n div 10) @ [char_of (48 + n mod 10)])"

declare digits.simps [simp del]

definition itoa :: "int \<Rightarrow> string" where
  "itoa i = (if i < 0 then CHR ''-'' # digits (nat (- i)) else digits (nat i))"

text \<open>The verb \<open>%q\<close> on a string of printable ASCII bytes; everything else goes through
  \<open>strconv.Quote\<close>'s Unicode tables.\<close>

definition printable :: "char \<Rightarrow> bool" where
  "printable c \<longleftrightarrow> 32 \<le> byte c \<and> byte c < 127"

definition quote_char :: "char \<Rightarrow> string" where
  "quote_char c = (if c = char_of (34 :: nat) \<or> c = char_of (92 :: nat) then [char_of (92 :: nat), c] else [c])"

definition quote :: "golib \<Rightarrow> string \<Rightarrow> string" where
  "quote G s = (if list_all printable s
     then char_of (34 :: nat) # concat (map quote_char s) @ [char_of (34 :: nat)] else uc_Quote G s)"

section \<open>Host and port\<close>

text \<open>\<open>net.SplitHostPort\<close>; its four kinds of address error are all \<open>None\<close>.\<close>

definition split_host_port :: "string \<Rightarrow> (string \<times> string) option" where
  "split_host_port hp =
     (case last_index_byte CHR '':'' hp of
        None \<Rightarrow> None
      | Some i \<Rightarrow>
          (let port = drop (Suc i) hp in
           if hp \<noteq> [] \<and> hd hp = CHR ''['' then
             (case index_byte CHR '']'' hp of
                None \<Rightarrow> None
              | Some e \<Rightarrow>
                  if Suc e \<noteq> i then None
                  else if CHR ''['' \<in> set (drop 1 hp) \<or> CHR '']'' \<in> set (drop (Suc e) hp) then None
                  else Some (take (e - 1) (drop 1 hp), port))
           else
             (let host = take i hp in
              if CHR '':'' \<in> set host then None
              else if CHR ''['' \<in> set hp \<or> CHR '']'' \<in> set hp then None
              else Some (host, port))))"

lemma split_host_port_plain:
  assumes "CHR '':'' \<notin> set h" "CHR '':'' \<notin> set p"
    and "CHR ''['' \<notin> set h" "CHR '']'' \<notin> set h" "CHR ''['' \<notin> set p" "CHR '']'' \<notin> set p"
  shows "split_host_port (h @ CHR '':'' # p) = Some (h, p)"
proof -
  have i: "last_index_byte CHR '':'' (h @ CHR '':'' # p) = Some (length h)"
    using assms by (intro last_index_byte_append)
  have "hd (h @ CHR '':'' # p) \<noteq> CHR ''[''"
    using assms by (cases h) auto
  then show ?thesis
    unfolding split_host_port_def i using assms by simp
qed

section \<open>An instance of the parameters\<close>

definition golib_ex :: golib where
  "golib_ex = \<lparr>uc_ToLower = id, uc_EqualFold = (=), uc_TrimSpace = id, uc_Quote = id, mail_ParseAddress = Some,
     mime_ParseMediaType = Some, net_ParseIP = (\<lambda>_. None), regexp_Compile = (\<lambda>_. None), regexp_MatchString = (=)\<rparr>"

end
