(* ===== verification/Store.thy ===== *)
theory Store
  imports Go_Strings
begin

text \<open>
  The persistence interface of a node (\<open>internal/store/store.go\<close>): the records for nodes,
  domains, users and webhook delivery jobs, the Go interface \<open>store.Store\<close> as a record of
  operations on an explicit state, the pure helpers \<open>UserMatchesFilters\<close> and
  \<open>IsValidMetaKey\<close>, and the contract of the interface as the locale \<open>node_store\<close>, which the
  in-memory store and the two SQL stores discharge.

  A method that only returns an \<open>error\<close> yields the new state and \<open>None\<close> for \<open>nil\<close>; a
  query yields a result and leaves the state alone. The clock read by a method is its first
  argument. The contexts of the calls only carry cancellation and are left out.
\<close>

section \<open>Records\<close>

record node =
  ID :: string
  PrivateKeyB64 :: string
  PublicKeyB64 :: string

record domain =
  Name :: string
  NodeID :: string
  IsDefault :: bool

record user =
  Email :: string
  Type :: string
  UserKeyB64 :: string
  Metadata :: strmap
  UserCreatedAt :: gotime

text \<open>\<open>DeliveryStatus\<close> is a Go string type; the four named values are the states of the
  delivery life cycle and the empty string is used as "any status" by a query.\<close>

type_synonym DeliveryStatus = string

definition DeliveryPending :: DeliveryStatus where "DeliveryPending = ''pending''"
definition DeliveryDelivered :: DeliveryStatus where "DeliveryDelivered = ''delivered''"
definition DeliveryFailed :: DeliveryStatus where "DeliveryFailed = ''failed''"
definition DeliveryDead :: DeliveryStatus where "DeliveryDead = ''dead''"

lemmas status_defs = DeliveryPending_def DeliveryDelivered_def DeliveryFailed_def DeliveryDead_def

record DeliveryJob =
  MessageID :: string
  RecipientID :: string
  EndpointURL :: string
  Status :: DeliveryStatus
  Attempts :: int
  MaxAttempts :: int
  LastError :: string
  NextRetryAt :: gotime
  DeliveredAt :: "gotime option"
  CreatedAt :: gotime
  UpdatedAt :: gotime

section \<open>The interface as a record of operations\<close>

record 's store_ops =
  op_SaveNode :: "'s \<Rightarrow> node \<Rightarrow> 's \<times> error option"
  op_GetNode :: "'s \<Rightarrow> string \<Rightarrow> node result"
  op_SaveDomain :: "'s \<Rightarrow> domain \<Rightarrow> 's \<times> error option"
  op_GetDomain :: "'s \<Rightarrow> string \<Rightarrow> domain result"
  op_GetDefaultDomain :: "'s \<Rightarrow> domain result"
  op_ListDomains :: "'s \<Rightarrow> domain list result"
  op_CountDomains :: "'s \<Rightarrow> int result"
  op_SaveUser :: "gotime \<Rightarrow> 's \<Rightarrow> user \<Rightarrow> 's \<times> error option"
  op_GetUser :: "'s \<Rightarrow> string \<Rightarrow> user result"
  op_ListUsers :: "'s \<Rightarrow> user list result"
  op_SearchUsers :: "'s \<Rightarrow> strmap \<Rightarrow> user list result"
  op_CountUsers :: "'s \<Rightarrow> int result"
  op_SaveDeliveryJob :: "gotime \<Rightarrow> 's \<Rightarrow> DeliveryJob \<Rightarrow> 's \<times> error option"
  op_UpdateDeliveryJob :: "gotime \<Rightarrow> 's \<Rightarrow> DeliveryJob \<Rightarrow> 's \<times> error option"
  op_GetDeliveryJob :: "'s \<Rightarrow> string \<Rightarrow> string \<Rightarrow> DeliveryJob result"
  op_ListPendingDeliveryJobs :: "'s \<Rightarrow> gotime \<Rightarrow> int \<Rightarrow> DeliveryJob list result"
  op_ListDeliveryJobsByRecipient :: "'s \<Rightarrow> string \<Rightarrow> DeliveryStatus \<Rightarrow> DeliveryJob list result"

section \<open>Pure helpers\<close>

definition UserMatchesFilters :: "user \<Rightarrow> strmap \<Rightarrow> bool" where
  "UserMatchesFilters u filters \<longleftrightarrow>
     list_all (\<lambda>(k, v). if k = ''type'' then contains (Type u) v
                        else contains (gm_str (Metadata u) k) v) filters"

definition meta_rune :: "rune \<Rightarrow> bool" where
  "meta_rune c \<longleftrightarrow> (97 \<le> c \<and> c \<le> 122) \<or> (65 \<le> c \<and> c \<le> 90) \<or> (48 \<le> c \<and> c \<le> 57) \<or> c = 95 \<or> c = 45"

definition IsValidMetaKey :: "string \<Rightarrow> bool" where
  "IsValidMetaKey k \<longleftrightarrow> k \<noteq> [] \<and> list_all meta_rune (runes k)"

lemma meta_rune_ascii: "meta_rune r \<Longrightarrow> r < 128"
  by (auto simp: meta_rune_def)

lemma IsValidMetaKey_iff: "IsValidMetaKey k \<longleftrightarrow> k \<noteq> [] \<and> list_all (\<lambda>c. meta_rune (byte c)) k"
proof -
  have "list_all meta_rune (runes k) \<longleftrightarrow> list_all (\<lambda>c. meta_rune (byte c)) k"
  proof
    assume a: "list_all meta_rune (runes k)"
    then have "ascii k" by (auto simp: meta_rune_ascii list_all_iff simp flip: runes_ascii_iff)
    then show "list_all (\<lambda>c. meta_rune (byte c)) k" using a by (simp add: runes_ascii list_all_iff)
  next
    assume a: "list_all (\<lambda>c. meta_rune (byte c)) k"
    then have "ascii k" by (auto simp: ascii_def list_all_iff meta_rune_ascii)
    then show "list_all meta_rune (runes k)" using a by (simp add: runes_ascii list_all_iff)
  qed
  then show ?thesis by (simp add: IsValidMetaKey_def)
qed

lemma UserMatchesFilters_Nil [simp]: "UserMatchesFilters u []"
  by (simp add: UserMatchesFilters_def)

lemma UserMatchesFilters_append:
  "UserMatchesFilters u (f @ g) \<longleftrightarrow> UserMatchesFilters u f \<and> UserMatchesFilters u g"
  by (auto simp: UserMatchesFilters_def)

section \<open>The records a write stores\<close>

text \<open>What the three stores agree on: keys left empty keep their stored value, a first
  insert of a job fills in the defaults, and an update touches six fields only.\<close>

definition merge_node :: "node option \<Rightarrow> node \<Rightarrow> node" where
  "merge_node old n =
     (case old of None \<Rightarrow> n
      | Some e \<Rightarrow> n\<lparr>PrivateKeyB64 := (if PrivateKeyB64 n = '''' then PrivateKeyB64 e else PrivateKeyB64 n),
                    PublicKeyB64 := (if PublicKeyB64 n = '''' then PublicKeyB64 e else PublicKeyB64 n)\<rparr>)"

definition job_defaults :: "gotime \<Rightarrow> DeliveryJob \<Rightarrow> DeliveryJob" where
  "job_defaults now j =
     j\<lparr>CreatedAt := (if CreatedAt j = 0 then now else CreatedAt j),
       UpdatedAt := (if UpdatedAt j = 0 then now else UpdatedAt j),
       MaxAttempts := (if MaxAttempts j = 0 then 5 else MaxAttempts j)\<rparr>"

definition job_merge :: "gotime \<Rightarrow> DeliveryJob \<Rightarrow> DeliveryJob \<Rightarrow> DeliveryJob" where
  "job_merge now job existing =
     existing\<lparr>Status := Status job, Attempts := Attempts job, LastError := LastError job,
              NextRetryAt := NextRetryAt job, DeliveredAt := DeliveredAt job, UpdatedAt := now\<rparr>"

abbreviation job_key :: "DeliveryJob \<Rightarrow> string \<times> string" where
  "job_key j \<equiv> (MessageID j, RecipientID j)"

lemma merge_node_simps [simp]:
  "ID (merge_node old n) = ID n"
  "PrivateKeyB64 n \<noteq> '''' \<Longrightarrow> PrivateKeyB64 (merge_node old n) = PrivateKeyB64 n"
  "PublicKeyB64 n \<noteq> '''' \<Longrightarrow> PublicKeyB64 (merge_node old n) = PublicKeyB64 n"
  by (simp_all add: merge_node_def split: option.split)

lemma job_defaults_simps [simp]:
  "MessageID (job_defaults now j) = MessageID j" "RecipientID (job_defaults now j) = RecipientID j"
  "EndpointURL (job_defaults now j) = EndpointURL j" "Status (job_defaults now j) = Status j"
  "Attempts (job_defaults now j) = Attempts j" "LastError (job_defaults now j) = LastError j"
  "NextRetryAt (job_defaults now j) = NextRetryAt j" "DeliveredAt (job_defaults now j) = DeliveredAt j"
  "MaxAttempts (job_defaults now j) = (if MaxAttempts j = 0 then 5 else MaxAttempts j)"
  by (simp_all add: job_defaults_def)

lemma job_merge_simps [simp]:
  "MessageID (job_merge now j e) = MessageID e" "RecipientID (job_merge now j e) = RecipientID e"
  "EndpointURL (job_merge now j e) = EndpointURL e" "MaxAttempts (job_merge now j e) = MaxAttempts e"
  "CreatedAt (job_merge now j e) = CreatedAt e" "Status (job_merge now j e) = Status j"
  "Attempts (job_merge now j e) = Attempts j" "LastError (job_merge now j e) = LastError j"
  "NextRetryAt (job_merge now j e) = NextRetryAt j" "DeliveredAt (job_merge now j e) = DeliveredAt j"
  by (simp_all add: job_merge_def)

text \<open>The rows a pending-jobs query selects, and its optional cap.\<close>

definition due :: "gotime \<Rightarrow> DeliveryJob \<Rightarrow> bool" where
  "due before j \<longleftrightarrow> (Status j = DeliveryPending \<or> Status j = DeliveryFailed) \<and> NextRetryAt j \<le> before"

definition cap :: "int \<Rightarrow> 'a list \<Rightarrow> 'a list" where
  "cap limit xs = (if 0 < limit \<and> limit < int (length xs) then take (nat limit) xs else xs)"

lemma set_cap: "set (cap n xs) \<subseteq> set xs"
  by (auto simp: cap_def dest: in_set_takeD)

lemma sorted_cap: "sorted (map f xs) \<Longrightarrow> sorted (map f (cap n xs))"
  by (simp add: cap_def sorted_wrt_take flip: take_map)

lemma length_cap: "0 < n \<Longrightarrow> int (length (cap n xs)) \<le> n"
  by (auto simp: cap_def)

lemma distinct_cap: "distinct (map f xs) \<Longrightarrow> distinct (map f (cap n xs))"
  by (simp add: cap_def flip: take_map)

section \<open>Abstract store\<close>

text \<open>What a store promises, independently of its representation: four finite maps, with the
  writes as map updates. \<open>tm\<close> is the instant a store keeps for a given instant and \<open>nm\<close>
  the metadata it keeps for given metadata; both are the identity for the in-memory store.\<close>

record astore =
  a_nodes :: "string \<rightharpoonup> node"
  a_domains :: "string \<rightharpoonup> domain"
  a_users :: "string \<rightharpoonup> user"
  a_jobs :: "string \<times> string \<rightharpoonup> DeliveryJob"

definition lookup :: "('k \<rightharpoonup> 'v) \<Rightarrow> 'k \<Rightarrow> 'v result" where
  "lookup m k = (case m k of None \<Rightarrow> Inl ErrStoreNotFound | Some v \<Rightarrow> Inr v)"

lemma lookup_simps [simp]:
  "lookup m k = Inr v \<longleftrightarrow> m k = Some v"
  "lookup m k = Inl e \<longleftrightarrow> m k = None \<and> e = ErrStoreNotFound"
  "Inr v = lookup m k \<longleftrightarrow> m k = Some v"
  by (auto simp: lookup_def split: option.splits)

definition one_default :: "(string \<rightharpoonup> domain) \<Rightarrow> bool" where
  "one_default m \<longleftrightarrow>
     (\<forall>j k d e. m j = Some d \<longrightarrow> m k = Some e \<longrightarrow> IsDefault d \<longrightarrow> IsDefault e \<longrightarrow> j = k)"

definition awf :: "astore \<Rightarrow> bool" where
  "awf a \<longleftrightarrow> (\<forall>k n. a_nodes a k = Some n \<longrightarrow> ID n = k) \<and> (\<forall>k d. a_domains a k = Some d \<longrightarrow> Name d = k)
     \<and> (\<forall>k u. a_users a k = Some u \<longrightarrow> Email u = k) \<and> (\<forall>k j. a_jobs a k = Some j \<longrightarrow> job_key j = k)
     \<and> one_default (a_domains a)"

definition clear_default :: "domain \<Rightarrow> string \<Rightarrow> domain \<Rightarrow> domain" where
  "clear_default d k e = (if IsDefault d \<and> k \<noteq> Name d then e\<lparr>IsDefault := False\<rparr> else e)"

definition a_SaveDomain :: "domain \<Rightarrow> astore \<Rightarrow> astore" where
  "a_SaveDomain d a = a\<lparr>a_domains := (\<lambda>k. map_option (clear_default d k) (a_domains a k))(Name d \<mapsto> d)\<rparr>"

definition a_SaveNode :: "node \<Rightarrow> astore \<Rightarrow> astore" where
  "a_SaveNode n a = a\<lparr>a_nodes := (a_nodes a)(ID n \<mapsto> merge_node (a_nodes a (ID n)) n)\<rparr>"

definition job_tm :: "(gotime \<Rightarrow> gotime) \<Rightarrow> DeliveryJob \<Rightarrow> DeliveryJob" where
  "job_tm tm j = j\<lparr>NextRetryAt := tm (NextRetryAt j), DeliveredAt := map_option tm (DeliveredAt j),
                  CreatedAt := tm (CreatedAt j), UpdatedAt := tm (UpdatedAt j)\<rparr>"

definition a_SaveJob :: "DeliveryJob \<Rightarrow> astore \<Rightarrow> astore" where
  "a_SaveJob j a = (case a_jobs a (job_key j) of
       None \<Rightarrow> a\<lparr>a_jobs := (a_jobs a)(job_key j \<mapsto> j)\<rparr> | Some _ \<Rightarrow> a)"

text \<open>The six fields an update writes, each instant as the store keeps it.\<close>

definition a_UpdateJob :: "(gotime \<Rightarrow> gotime) \<Rightarrow> gotime \<Rightarrow> DeliveryJob \<Rightarrow> astore \<Rightarrow> astore" where
  "a_UpdateJob tm now j a = (case a_jobs a (job_key j) of
       None \<Rightarrow> a | Some e \<Rightarrow> a\<lparr>a_jobs := (a_jobs a)(job_key j \<mapsto> job_merge (tm now) (job_tm tm j) e)\<rparr>)"

lemma job_tm_simps [simp]:
  "MessageID (job_tm tm j) = MessageID j" "RecipientID (job_tm tm j) = RecipientID j"
  "EndpointURL (job_tm tm j) = EndpointURL j" "Status (job_tm tm j) = Status j"
  "Attempts (job_tm tm j) = Attempts j" "MaxAttempts (job_tm tm j) = MaxAttempts j"
  "LastError (job_tm tm j) = LastError j" "NextRetryAt (job_tm tm j) = tm (NextRetryAt j)"
  "DeliveredAt (job_tm tm j) = map_option tm (DeliveredAt j)"
  by (simp_all add: job_tm_def)

lemma job_tm_id [simp]: "job_tm (\<lambda>t. t) j = j"
  by (simp add: job_tm_def option.map_ident)

lemma one_default_update:
  "one_default m \<Longrightarrow> one_default ((\<lambda>k. map_option (clear_default d k) (m k))(Name d \<mapsto> d))"
  unfolding one_default_def
  by (auto simp: clear_default_def dest: arg_cong [of _ _ IsDefault] split: if_splits)

lemma Name_clear_default [simp]: "Name (clear_default d k e) = Name e"
  by (simp add: clear_default_def)

lemma clear_default_eq:
  "clear_default d k = (\<lambda>e. if IsDefault d \<and> IsDefault e \<and> k \<noteq> Name d then e\<lparr>IsDefault := False\<rparr> else e)"
proof
  fix e :: domain
  show "clear_default d k e = (if IsDefault d \<and> IsDefault e \<and> k \<noteq> Name d then e\<lparr>IsDefault := False\<rparr> else e)"
    by (cases e) (simp add: clear_default_def)
qed

lemma awf_SaveDomain [inv_intros]: "awf a \<Longrightarrow> awf (a_SaveDomain d a)"
  unfolding awf_def a_SaveDomain_def by (auto simp: one_default_update simp del: fun_upd_apply) (auto split: if_splits)

lemma awf_SaveNode [inv_intros]: "awf a \<Longrightarrow> awf (a_SaveNode n a)"
  by (auto simp: awf_def a_SaveNode_def)

lemma awf_SaveJob [inv_intros]: "awf a \<Longrightarrow> awf (a_SaveJob j a)"
  by (auto simp: awf_def a_SaveJob_def split: option.split)

lemma awf_UpdateJob [inv_intros]: "awf a \<Longrightarrow> awf (a_UpdateJob tm now j a)"
  by (auto simp: awf_def a_UpdateJob_def split: option.split)

lemma awf_SaveUser [inv_intros]:
  "awf a \<Longrightarrow> Email u = k \<Longrightarrow> awf (a\<lparr>a_users := (a_users a)(k \<mapsto> u)\<rparr>)"
  by (auto simp: awf_def)

text \<open>The part of a job that no update changes.\<close>

definition same_identity :: "DeliveryJob \<Rightarrow> DeliveryJob \<Rightarrow> bool" where
  "same_identity e e' \<longleftrightarrow> job_key e' = job_key e \<and> EndpointURL e' = EndpointURL e
     \<and> MaxAttempts e' = MaxAttempts e \<and> CreatedAt e' = CreatedAt e"

section \<open>Histories of a store\<close>

text \<open>The states a store can reach by any sequence of its writes, failed ones included.\<close>

inductive store_reach :: "'s store_ops \<Rightarrow> 's \<Rightarrow> 's \<Rightarrow> bool" for S s0 where
  start: "store_reach S s0 s0"
| save_node: "store_reach S s0 s \<Longrightarrow> store_reach S s0 (fst (op_SaveNode S s n))"
| save_domain: "store_reach S s0 s \<Longrightarrow> store_reach S s0 (fst (op_SaveDomain S s d))"
| save_user: "store_reach S s0 s \<Longrightarrow> store_reach S s0 (fst (op_SaveUser S now s u))"
| save_job: "store_reach S s0 s \<Longrightarrow> store_reach S s0 (fst (op_SaveDeliveryJob S now s j))"
| update_job: "store_reach S s0 s \<Longrightarrow> store_reach S s0 (fst (op_UpdateDeliveryJob S now s j))"

section \<open>The contract\<close>

locale store_base =
  fixes S :: "'s store_ops" and abs :: "'s \<Rightarrow> astore" and inv :: "'s \<Rightarrow> bool" and up :: "'s \<Rightarrow> bool"
  assumes inv_awf: "inv s \<Longrightarrow> awf (abs s)"

locale domain_store = store_base +
  assumes save_domain_ok: "inv s \<Longrightarrow> op_SaveDomain S s d = (s', None) \<Longrightarrow> inv s' \<and> up s' \<and> abs s' = a_SaveDomain d (abs s)"
    and save_domain_err: "inv s \<Longrightarrow> op_SaveDomain S s d = (s', Some e) \<Longrightarrow> s' = s"
    and get_domain: "inv s \<Longrightarrow> up s \<Longrightarrow> op_GetDomain S s k = lookup (a_domains (abs s)) k"
    and get_domain_down: "inv s \<Longrightarrow> \<not> up s \<Longrightarrow> \<exists>e. op_GetDomain S s k = Inl e \<and> \<not> errors_Is e ErrStoreNotFound"
    and get_default: "inv s \<Longrightarrow> op_GetDefaultDomain S s = Inr d \<Longrightarrow> a_domains (abs s) (Name d) = Some d \<and> IsDefault d"
    and get_default_none: "inv s \<Longrightarrow> op_GetDefaultDomain S s = Inl ErrStoreNotFound
      \<Longrightarrow> a_domains (abs s) k = Some d \<Longrightarrow> \<not> IsDefault d"
    and list_domains: "inv s \<Longrightarrow> op_ListDomains S s = Inr ds
      \<Longrightarrow> set ds = ran (a_domains (abs s)) \<and> distinct (map Name ds)"
    and count_domains: "inv s \<Longrightarrow> op_CountDomains S s = Inr n \<Longrightarrow> n = int (card (dom (a_domains (abs s))))"
begin

lemma get_domain_Inr: "inv s \<Longrightarrow> op_GetDomain S s k = Inr d \<Longrightarrow> up s \<and> a_domains (abs s) k = Some d"
  using get_domain [of s k] get_domain_down [of s k] by (cases "up s") auto

text \<open>A saved domain is read back, and no other domain changes owner.\<close>

lemma domain_roundtrip:
  assumes "inv s" and "op_SaveDomain S s d = (s', None)"
  shows "op_GetDomain S s' (Name d) = Inr d"
  using save_domain_ok [OF assms] get_domain [of s' "Name d"] by (simp add: a_SaveDomain_def)

lemma domain_frame:
  assumes "inv s" and "op_SaveDomain S s d = (s', None)" and "k \<noteq> Name d"
    and "op_GetDomain S s k = Inr e"
  shows "\<exists>e'. op_GetDomain S s' k = Inr e' \<and> NodeID e' = NodeID e"
  using save_domain_ok [OF assms(1,2)] get_domain [of s' k] get_domain_Inr [of s k] assms(1,3,4)
  by (auto simp: a_SaveDomain_def clear_default_def)

lemma default_unique:
  assumes "inv s" and "op_GetDomain S s j = Inr d" and "op_GetDomain S s k = Inr e"
    and "IsDefault d" and "IsDefault e"
  shows "d = e"
proof -
  have "a_domains (abs s) j = Some d" "a_domains (abs s) k = Some e"
    using assms get_domain_Inr by blast+
  moreover from this have "j = k"
    using inv_awf [OF assms(1)] assms(4,5) unfolding awf_def one_default_def by blast
  ultimately show ?thesis by simp
qed

lemma save_default_wins:
  assumes "inv s" and "op_SaveDomain S s d = (s', None)" and "IsDefault d"
    and "op_GetDefaultDomain S s' = Inr e"
  shows "e = d"
proof -
  have s': "inv s'" "abs s' = a_SaveDomain d (abs s)" using save_domain_ok [OF assms(1,2)] by auto
  have e: "a_domains (abs s') (Name e) = Some e" "IsDefault e" using get_default [OF s'(1) assms(4)] by auto
  show ?thesis
  proof (cases "Name e = Name d")
    case True
    then have "a_domains (abs s') (Name e) = Some d" unfolding s'(2) a_SaveDomain_def by simp
    then show ?thesis using e(1) by (simp only: option.inject)
  next
    case False
    then have "a_domains (abs s') (Name e) = map_option (clear_default d (Name e)) (a_domains (abs s) (Name e))"
      using s'(2) by (simp add: a_SaveDomain_def)
    moreover have "\<not> IsDefault (clear_default d (Name e) z)" for z
      using False assms(3) by (simp add: clear_default_def)
    ultimately show ?thesis using e by (metis map_option_eq_Some)
  qed
qed

lemma count_list:
  assumes "inv s" and "op_ListDomains S s = Inr ds" and "op_CountDomains S s = Inr n"
  shows "int (length ds) = n"
proof -
  have a: "set ds = ran (a_domains (abs s))" "distinct (map Name ds)"
    using list_domains [OF assms(1,2)] by blast+
  have "\<And>k d. a_domains (abs s) k = Some d \<Longrightarrow> Name d = k"
    using inv_awf [OF assms(1)] by (simp add: awf_def)
  then have "Name ` ran (a_domains (abs s)) = dom (a_domains (abs s))"
    by (fastforce simp: ran_def dom_def)
  then have "card (dom (a_domains (abs s))) = length ds"
    using a distinct_card [of "map Name ds"] by simp
  then show ?thesis using count_domains [OF assms(1,3)] by simp
qed

end

locale node_user_store = store_base +
  fixes nm :: "strmap \<Rightarrow> strmap"
  assumes save_node_ok: "inv s \<Longrightarrow> op_SaveNode S s n = (s', None) \<Longrightarrow> inv s' \<and> up s' \<and> abs s' = a_SaveNode n (abs s)"
    and save_node_err: "inv s \<Longrightarrow> op_SaveNode S s n = (s', Some e) \<Longrightarrow> s' = s"
    and get_node: "inv s \<Longrightarrow> up s \<Longrightarrow> op_GetNode S s k = lookup (a_nodes (abs s)) k"
    and save_user_ok: "inv s \<Longrightarrow> op_SaveUser S now s u = (s', None) \<Longrightarrow> inv s' \<and> up s' \<and>
      (\<exists>c. abs s' = (abs s)\<lparr>a_users := (a_users (abs s))(Email u \<mapsto> u\<lparr>Metadata := nm (Metadata u), UserCreatedAt := c\<rparr>)\<rparr>
         \<and> (\<forall>e. a_users (abs s) (Email u) = Some e \<longrightarrow> UserCreatedAt e \<noteq> 0 \<longrightarrow> c = UserCreatedAt e))"
    and save_user_err: "inv s \<Longrightarrow> op_SaveUser S now s u = (s', Some e) \<Longrightarrow> s' = s"
    and get_user: "inv s \<Longrightarrow> up s \<Longrightarrow> op_GetUser S s k = lookup (a_users (abs s)) k"
    and get_user_down: "inv s \<Longrightarrow> \<not> up s \<Longrightarrow> \<exists>e. op_GetUser S s k = Inl e \<and> \<not> errors_Is e ErrStoreNotFound"
    and list_users: "inv s \<Longrightarrow> op_ListUsers S s = Inr us
      \<Longrightarrow> set us = ran (a_users (abs s)) \<and> distinct (map Email us)"
    and search_users: "inv s \<Longrightarrow> op_SearchUsers S s fs = Inr us
      \<Longrightarrow> set us \<subseteq> ran (a_users (abs s)) \<and> distinct (map Email us)"
begin

text \<open>Saving a node without keys never loses the keys stored for it.\<close>

lemma save_node_keeps_keys:
  assumes "inv s" and "up s" and "op_GetNode S s k = Inr e"
    and "op_SaveNode S s n = (s', None)" and "PrivateKeyB64 n = ''''"
  shows "\<exists>e'. op_GetNode S s' k = Inr e' \<and> PrivateKeyB64 e' = PrivateKeyB64 e"
  using save_node_ok [OF assms(1,4)] get_node [of s' k] get_node [of s k] assms
  by (auto simp: a_SaveNode_def merge_node_def)

text \<open>Registering a user again keeps the creation time of the first registration.\<close>

lemma save_user_keeps_created:
  assumes "inv s" and "up s" and "op_GetUser S s (Email u) = Inr e" and "UserCreatedAt e \<noteq> 0"
    and "op_SaveUser S now s u = (s', None)"
  shows "op_GetUser S s' (Email u) = Inr (u\<lparr>Metadata := nm (Metadata u), UserCreatedAt := UserCreatedAt e\<rparr>)"
  using save_user_ok [OF assms(1,5)] get_user [of s' "Email u"] get_user [of s "Email u"] assms by auto

end

locale job_store = store_base +
  fixes tm :: "gotime \<Rightarrow> gotime"
  assumes save_job_ok: "inv s \<Longrightarrow> op_SaveDeliveryJob S now s j = (s', None)
      \<Longrightarrow> inv s' \<and> up s' \<and> abs s' = a_SaveJob (job_tm tm (job_defaults now j)) (abs s)"
    and save_job_err: "inv s \<Longrightarrow> op_SaveDeliveryJob S now s j = (s', Some e) \<Longrightarrow> s' = s"
    and update_job_ok: "inv s \<Longrightarrow> op_UpdateDeliveryJob S now s j = (s', None)
      \<Longrightarrow> inv s' \<and> up s' \<and> abs s' = a_UpdateJob tm now j (abs s)"
    and update_job_err: "inv s \<Longrightarrow> op_UpdateDeliveryJob S now s j = (s', Some e) \<Longrightarrow> s' = s"
    and get_job: "inv s \<Longrightarrow> up s \<Longrightarrow> op_GetDeliveryJob S s m r = lookup (a_jobs (abs s)) (m, r)"
    and list_pending: "inv s \<Longrightarrow> op_ListPendingDeliveryJobs S s before limit = Inr js \<Longrightarrow>
      set js \<subseteq> {j \<in> ran (a_jobs (abs s)). due (tm before) j} \<and> sorted (map NextRetryAt js) \<and> distinct (map job_key js)
      \<and> (limit \<le> 0 \<longrightarrow> set js = {j \<in> ran (a_jobs (abs s)). due (tm before) j}) \<and> (0 < limit \<longrightarrow> int (length js) \<le> limit)"
    and list_by_recipient: "inv s \<Longrightarrow> op_ListDeliveryJobsByRecipient S s r st = Inr js \<Longrightarrow>
      set js = {j \<in> ran (a_jobs (abs s)). RecipientID j = r \<and> (st = '''' \<or> Status j = st)}"
    and save_job_live: "inv s \<Longrightarrow> up s \<Longrightarrow> snd (op_SaveDeliveryJob S now s j) = None"
    and update_job_live: "inv s \<Longrightarrow> up s \<Longrightarrow> a_jobs (abs s) (job_key j) \<noteq> None \<Longrightarrow> snd (op_UpdateDeliveryJob S now s j) = None"
begin

text \<open>A job is written once: saving it again changes nothing; an update is read back and
  never changes its key, endpoint or attempt limit.\<close>

lemma save_job_idem:
  assumes "inv s" and "up s" and "op_GetDeliveryJob S s (MessageID j) (RecipientID j) = Inr e"
    and "op_SaveDeliveryJob S now s j = (s', None)"
  shows "op_GetDeliveryJob S s' (MessageID j) (RecipientID j) = Inr e"
  using save_job_ok [OF assms(1,4)] get_job [of s' "MessageID j" "RecipientID j"]
    get_job [of s "MessageID j" "RecipientID j"] assms
  by (auto simp: a_SaveJob_def)

lemma update_job_roundtrip:
  assumes "inv s" and "up s" and "op_GetDeliveryJob S s (MessageID j) (RecipientID j) = Inr e"
    and "op_UpdateDeliveryJob S now s j = (s', None)"
  shows "op_GetDeliveryJob S s' (MessageID j) (RecipientID j) = Inr (job_merge (tm now) (job_tm tm j) e)"
  using update_job_ok [OF assms(1,4)] get_job [of s' "MessageID j" "RecipientID j"]
    get_job [of s "MessageID j" "RecipientID j"] assms
  by (auto simp: a_UpdateJob_def)

text \<open>A delivered or dead job is not handed out again by the pending query.\<close>

lemma finished_not_pending:
  assumes "inv s" and "op_ListPendingDeliveryJobs S s before limit = Inr js" and "j \<in> set js"
  shows "Status j \<noteq> DeliveryDelivered \<and> Status j \<noteq> DeliveryDead"
  using list_pending [OF assms(1,2)] assms(3) by (auto simp: due_def status_defs)

end

locale node_store = domain_store S abs inv up + node_user_store S abs inv up nm + job_store S abs inv up tm
  for S :: "'s store_ops" and abs inv up nm tm
begin

lemma save_node_write:
  assumes "inv s"
  shows "inv (fst (op_SaveNode S s n)) \<and> (abs (fst (op_SaveNode S s n)) = abs s \<or> abs (fst (op_SaveNode S s n)) = a_SaveNode n (abs s))"
proof -
  obtain s' r where r: "op_SaveNode S s n = (s', r)" by (cases "op_SaveNode S s n")
  show ?thesis
  proof (cases r)
    case None
    show ?thesis using save_node_ok [OF assms r [unfolded None]] unfolding r by auto
  next
    case (Some e)
    show ?thesis using save_node_err [OF assms r [unfolded Some]] assms unfolding r by simp
  qed
qed

lemma save_domain_write:
  assumes "inv s"
  shows "inv (fst (op_SaveDomain S s d)) \<and> (abs (fst (op_SaveDomain S s d)) = abs s \<or> abs (fst (op_SaveDomain S s d)) = a_SaveDomain d (abs s))"
proof -
  obtain s' r where r: "op_SaveDomain S s d = (s', r)" by (cases "op_SaveDomain S s d")
  show ?thesis
  proof (cases r)
    case None
    show ?thesis using save_domain_ok [OF assms r [unfolded None]] unfolding r by auto
  next
    case (Some e)
    show ?thesis using save_domain_err [OF assms r [unfolded Some]] assms unfolding r by simp
  qed
qed

lemma save_user_write:
  assumes "inv s"
  shows "inv (fst (op_SaveUser S now s u)) \<and> (abs (fst (op_SaveUser S now s u)) = abs s \<or> (\<exists>v. abs (fst (op_SaveUser S now s u)) = (abs s)\<lparr>a_users := (a_users (abs s))(Email u \<mapsto> v)\<rparr>))"
proof -
  obtain s' r where r: "op_SaveUser S now s u = (s', r)" by (cases "op_SaveUser S now s u")
  show ?thesis
  proof (cases r)
    case None
    show ?thesis using save_user_ok [OF assms r [unfolded None]] unfolding r by auto
  next
    case (Some e)
    show ?thesis using save_user_err [OF assms r [unfolded Some]] assms unfolding r by simp
  qed
qed

lemma save_job_write:
  assumes "inv s"
  shows "inv (fst (op_SaveDeliveryJob S now s j)) \<and> (abs (fst (op_SaveDeliveryJob S now s j)) = abs s \<or> abs (fst (op_SaveDeliveryJob S now s j)) = a_SaveJob (job_tm tm (job_defaults now j)) (abs s))"
proof -
  obtain s' r where r: "op_SaveDeliveryJob S now s j = (s', r)" by (cases "op_SaveDeliveryJob S now s j")
  show ?thesis
  proof (cases r)
    case None
    show ?thesis using save_job_ok [OF assms r [unfolded None]] unfolding r by auto
  next
    case (Some e)
    show ?thesis using save_job_err [OF assms r [unfolded Some]] assms unfolding r by simp
  qed
qed

lemma update_job_write:
  assumes "inv s"
  shows "inv (fst (op_UpdateDeliveryJob S now s j)) \<and> (abs (fst (op_UpdateDeliveryJob S now s j)) = abs s \<or> abs (fst (op_UpdateDeliveryJob S now s j)) = a_UpdateJob tm now j (abs s))"
proof -
  obtain s' r where r: "op_UpdateDeliveryJob S now s j = (s', r)" by (cases "op_UpdateDeliveryJob S now s j")
  show ?thesis
  proof (cases r)
    case None
    show ?thesis using update_job_ok [OF assms r [unfolded None]] unfolding r by auto
  next
    case (Some e)
    show ?thesis using update_job_err [OF assms r [unfolded Some]] assms unfolding r by simp
  qed
qed

lemmas writes = save_node_write save_domain_write save_user_write save_job_write update_job_write

lemma reach_inv: "store_reach S s0 s \<Longrightarrow> inv s0 \<Longrightarrow> inv s"
  by (induction rule: store_reach.induct) (simp_all add: writes)

lemma reach_default_unique:
  assumes "store_reach S s0 s" and "inv s0" and "op_GetDomain S s j = Inr d" and "op_GetDomain S s k = Inr e"
    and "IsDefault d" and "IsDefault e"
  shows "d = e"
  using default_unique reach_inv assms by blast

text \<open>Once stored, the key, the endpoint, the attempt limit and the creation time of a job never
  change again.\<close>

lemma reach_job_identity:
  assumes "store_reach S s0 s" and "inv s0" and "a_jobs (abs s0) k = Some e"
  shows "\<exists>e'. a_jobs (abs s) k = Some e' \<and> same_identity e e'"
  using assms
proof (induction rule: store_reach.induct)
  case start
  then show ?case by (simp add: same_identity_def)
next
  case (save_node s n)
  then show ?case using save_node_write [OF reach_inv, of s0 s n] by (auto simp: a_SaveNode_def)
next
  case (save_domain s d)
  then show ?case using save_domain_write [OF reach_inv, of s0 s d] by (auto simp: a_SaveDomain_def)
next
  case (save_user s now u)
  then show ?case using save_user_write [OF reach_inv, of s0 s now u] by auto
next
  case (save_job s now j)
  then show ?case using save_job_write [OF reach_inv, of s0 s now j]
    by (auto simp: a_SaveJob_def split: option.splits)
next
  case (update_job s now j)
  then show ?case using update_job_write [OF reach_inv, of s0 s now j]
    by (auto simp: a_UpdateJob_def same_identity_def split: option.splits)
qed

end

section \<open>Metadata keys\<close>

text \<open>\<open>IsValidMetaKey\<close> looks at the runes of the key, but what is embedded in the SQL text is
  its bytes: a key is accepted exactly when it is not empty and each of its bytes is an ASCII
  letter, digit, underscore or hyphen. In particular no quote, backslash or byte of a multi-byte
  or invalid UTF-8 sequence gets through.\<close>

theorem IsValidMetaKey_bytes:
  "IsValidMetaKey k \<longleftrightarrow> k \<noteq> [] \<and> set k \<subseteq> {CHR ''a''..CHR ''z''} \<union> {CHR ''A''..CHR ''Z''} \<union> {CHR ''0''..CHR ''9''}
      \<union> {CHR ''_'', CHR ''-''}"
proof -
  have eq: "byte c = 95 \<longleftrightarrow> c = CHR ''_''" "byte c = 45 \<longleftrightarrow> c = CHR ''-''" for c
    using byte_inject [of c "CHR ''_''"] byte_inject [of c "CHR ''-''"] by simp_all
  have "meta_rune (byte c) \<longleftrightarrow> c \<in> {CHR ''a''..CHR ''z''} \<union> {CHR ''A''..CHR ''Z''} \<union> {CHR ''0''..CHR ''9''}
      \<union> {CHR ''_'', CHR ''-''}" for c
    by (auto simp: meta_rune_def less_eq_char_def eq)
  then show ?thesis by (auto simp only: IsValidMetaKey_iff list_all_iff)
qed

end
