(* ===== verification/Memstore.thy ===== *)
theory Memstore
  imports Store
begin

text \<open>
  The in-memory store (\<open>internal/store/memstore/memstore.go\<close>): four Go maps behind one
  read-write mutex. Every method takes the mutex for its whole body, so a method is one atomic
  step on the state. The store is shown to refine the abstract store: it is an interpretation of
  the locale \<open>node_store\<close>.
\<close>

section \<open>State\<close>

record memstore =
  nodes :: "(string, node) gomap"
  domains :: "(string, domain) gomap"
  users :: "(string, user) gomap"
  deliveryJobs :: "(string \<times> string, DeliveryJob) gomap"

definition mem_New :: memstore where
  "mem_New = \<lparr>nodes = [], domains = [], users = [], deliveryJobs = []\<rparr>"

definition errInvalid :: "string \<Rightarrow> error" where
  "errInvalid s = EText (''memstore: '' @ s)"

section \<open>Operations\<close>

definition mem_SaveNode :: "memstore \<Rightarrow> node \<Rightarrow> memstore \<times> error option" where
  "mem_SaveNode s n =
     (if ID n = '''' then (s, Some (errInvalid ''node id is required''))
      else
        (let n' = (case gm_get (nodes s) (ID n) of
                     None \<Rightarrow> n
                   | Some existing \<Rightarrow>
                       (let n1 = (if PrivateKeyB64 n = '''' then n\<lparr>PrivateKeyB64 := PrivateKeyB64 existing\<rparr> else n)
                        in if PublicKeyB64 n1 = '''' then n1\<lparr>PublicKeyB64 := PublicKeyB64 existing\<rparr> else n1))
         in (s\<lparr>nodes := gm_put (ID n) n' (nodes s)\<rparr>, None)))"

definition mem_GetNode :: "memstore \<Rightarrow> string \<Rightarrow> node result" where
  "mem_GetNode s k = (case gm_get (nodes s) k of None \<Rightarrow> Inl ErrStoreNotFound | Some n \<Rightarrow> Inr n)"

definition mem_SaveDomain :: "memstore \<Rightarrow> domain \<Rightarrow> memstore \<times> error option" where
  "mem_SaveDomain s d =
     (if Name d = '''' then (s, Some (errInvalid ''domain name is required''))
      else
        (let ds = (if IsDefault d
                   then map (\<lambda>(k, existing). (k, if IsDefault existing \<and> k \<noteq> Name d
                                                 then existing\<lparr>IsDefault := False\<rparr> else existing)) (domains s)
                   else domains s)
         in (s\<lparr>domains := gm_put (Name d) d ds\<rparr>, None)))"

definition mem_GetDomain :: "memstore \<Rightarrow> string \<Rightarrow> domain result" where
  "mem_GetDomain s k = (case gm_get (domains s) k of None \<Rightarrow> Inl ErrStoreNotFound | Some d \<Rightarrow> Inr d)"

definition mem_GetDefaultDomain :: "memstore \<Rightarrow> domain result" where
  "mem_GetDefaultDomain s =
     (case find IsDefault (gm_vals (domains s)) of None \<Rightarrow> Inl ErrStoreNotFound | Some d \<Rightarrow> Inr d)"

definition mem_ListDomains :: "memstore \<Rightarrow> domain list result" where
  "mem_ListDomains s = Inr (sort_key Name (gm_vals (domains s)))"

definition mem_CountDomains :: "memstore \<Rightarrow> int result" where
  "mem_CountDomains s = Inr (int (length (domains s)))"

definition mem_SaveUser :: "gotime \<Rightarrow> memstore \<Rightarrow> user \<Rightarrow> memstore \<times> error option" where
  "mem_SaveUser now s u =
     (if Email u = '''' then (s, Some (errInvalid ''user email is required''))
      else
        (let u' = (case gm_get (users s) (Email u) of
                     None \<Rightarrow> u
                   | Some existing \<Rightarrow>
                       if UserCreatedAt existing \<noteq> 0 then u\<lparr>UserCreatedAt := UserCreatedAt existing\<rparr> else u)
         in (s\<lparr>users := gm_put (Email u) u' (users s)\<rparr>, None)))"

definition mem_GetUser :: "memstore \<Rightarrow> string \<Rightarrow> user result" where
  "mem_GetUser s k = (case gm_get (users s) k of None \<Rightarrow> Inl ErrStoreNotFound | Some u \<Rightarrow> Inr u)"

definition mem_ListUsers :: "memstore \<Rightarrow> user list result" where
  "mem_ListUsers s = Inr (sort_key Email (gm_vals (users s)))"

definition mem_SearchUsers :: "memstore \<Rightarrow> strmap \<Rightarrow> user list result" where
  "mem_SearchUsers s filters =
     Inr (sort_key Email (filter (\<lambda>u. UserMatchesFilters u filters) (gm_vals (users s))))"

definition mem_CountUsers :: "memstore \<Rightarrow> int result" where
  "mem_CountUsers s = Inr (int (length (users s)))"

definition mem_SaveDeliveryJob :: "gotime \<Rightarrow> memstore \<Rightarrow> DeliveryJob \<Rightarrow> memstore \<times> error option" where
  "mem_SaveDeliveryJob now s job =
     (let j1 = (if CreatedAt job = 0 then job\<lparr>CreatedAt := now\<rparr> else job);
          j2 = (if UpdatedAt j1 = 0 then j1\<lparr>UpdatedAt := now\<rparr> else j1);
          j3 = (if MaxAttempts j2 = 0 then j2\<lparr>MaxAttempts := 5\<rparr> else j2);
          key = (MessageID j3, RecipientID j3)
      in case gm_get (deliveryJobs s) key of
           None \<Rightarrow> (s\<lparr>deliveryJobs := gm_put key j3 (deliveryJobs s)\<rparr>, None)
         | Some _ \<Rightarrow> (s, None))"

definition mem_UpdateDeliveryJob :: "gotime \<Rightarrow> memstore \<Rightarrow> DeliveryJob \<Rightarrow> memstore \<times> error option" where
  "mem_UpdateDeliveryJob now s job =
     (let job = job\<lparr>UpdatedAt := now\<rparr>; key = (MessageID job, RecipientID job)
      in case gm_get (deliveryJobs s) key of
           None \<Rightarrow> (s, Some ErrStoreNotFound)
         | Some existing \<Rightarrow>
             (s\<lparr>deliveryJobs := gm_put key
                  (existing\<lparr>Status := Status job, Attempts := Attempts job, LastError := LastError job,
                            NextRetryAt := NextRetryAt job, DeliveredAt := DeliveredAt job,
                            UpdatedAt := UpdatedAt job\<rparr>) (deliveryJobs s)\<rparr>, None))"

definition mem_GetDeliveryJob :: "memstore \<Rightarrow> string \<Rightarrow> string \<Rightarrow> DeliveryJob result" where
  "mem_GetDeliveryJob s messageID recipientID =
     (case gm_get (deliveryJobs s) (messageID, recipientID) of None \<Rightarrow> Inl ErrStoreNotFound | Some j \<Rightarrow> Inr j)"

definition mem_ListPendingDeliveryJobs :: "memstore \<Rightarrow> gotime \<Rightarrow> int \<Rightarrow> DeliveryJob list result" where
  "mem_ListPendingDeliveryJobs s before limit =
     (let out = filter (\<lambda>j. (Status j = DeliveryPending \<or> Status j = DeliveryFailed) \<and> \<not> before < NextRetryAt j)
                       (gm_vals (deliveryJobs s));
          out = sort_key NextRetryAt out
      in Inr (if 0 < limit \<and> limit < int (length out) then take (nat limit) out else out))"

definition mem_ListDeliveryJobsByRecipient :: "memstore \<Rightarrow> string \<Rightarrow> DeliveryStatus \<Rightarrow> DeliveryJob list result" where
  "mem_ListDeliveryJobsByRecipient s recipientID status =
     Inr (sort_key (\<lambda>j. - CreatedAt j)
       (filter (\<lambda>j. RecipientID j = recipientID \<and> \<not> (status \<noteq> '''' \<and> Status j \<noteq> status)) (gm_vals (deliveryJobs s))))"

definition mem_ops :: "memstore store_ops" where
  "mem_ops = \<lparr>op_SaveNode = mem_SaveNode, op_GetNode = mem_GetNode, op_SaveDomain = mem_SaveDomain,
     op_GetDomain = mem_GetDomain, op_GetDefaultDomain = mem_GetDefaultDomain,
     op_ListDomains = mem_ListDomains, op_CountDomains = mem_CountDomains, op_SaveUser = mem_SaveUser,
     op_GetUser = mem_GetUser, op_ListUsers = mem_ListUsers, op_SearchUsers = mem_SearchUsers,
     op_CountUsers = mem_CountUsers, op_SaveDeliveryJob = mem_SaveDeliveryJob,
     op_UpdateDeliveryJob = mem_UpdateDeliveryJob, op_GetDeliveryJob = mem_GetDeliveryJob,
     op_ListPendingDeliveryJobs = mem_ListPendingDeliveryJobs,
     op_ListDeliveryJobsByRecipient = mem_ListDeliveryJobsByRecipient\<rparr>"

lemmas mem_op_defs = mem_SaveNode_def mem_GetNode_def mem_SaveDomain_def mem_GetDomain_def
  mem_GetDefaultDomain_def mem_ListDomains_def mem_CountDomains_def mem_SaveUser_def mem_GetUser_def
  mem_ListUsers_def mem_SearchUsers_def mem_CountUsers_def mem_SaveDeliveryJob_def
  mem_UpdateDeliveryJob_def mem_GetDeliveryJob_def mem_ListPendingDeliveryJobs_def
  mem_ListDeliveryJobsByRecipient_def

section \<open>Refinement of the abstract store\<close>

definition mem_abs :: "memstore \<Rightarrow> astore" where
  "mem_abs s = \<lparr>a_nodes = gm_get (nodes s), a_domains = gm_get (domains s), a_users = gm_get (users s),
     a_jobs = gm_get (deliveryJobs s)\<rparr>"

definition mem_inv :: "memstore \<Rightarrow> bool" where
  "mem_inv s \<longleftrightarrow> gm_wf (nodes s) \<and> gm_wf (domains s) \<and> gm_wf (users s) \<and> gm_wf (deliveryJobs s) \<and> awf (mem_abs s)"

lemma mem_abs_simps [simp]:
  "a_nodes (mem_abs s) = gm_get (nodes s)" "a_domains (mem_abs s) = gm_get (domains s)"
  "a_users (mem_abs s) = gm_get (users s)" "a_jobs (mem_abs s) = gm_get (deliveryJobs s)"
  by (simp_all add: mem_abs_def)

lemma mem_inv_New: "mem_inv mem_New"
  by (simp add: mem_inv_def mem_New_def awf_def mem_abs_def one_default_def)

text \<open>A map keyed by a field of its values, listed in the order of that field.\<close>

lemma sorted_vals:
  assumes wf: "gm_wf m" and key: "\<And>k v. gm_get m k = Some v \<Longrightarrow> f v = k"
  shows "set (sort_key f (filter P (gm_vals m))) = {v \<in> ran (gm_get m). P v}"
    and "sorted_wrt (<) (map f (sort_key f (filter P (gm_vals m))))"
proof -
  show "set (sort_key f (filter P (gm_vals m))) = {v \<in> ran (gm_get m). P v}"
    using gm_vals_iff [OF wf] by (auto simp: ran_def)
  have "map f (gm_vals m) = map fst m"
    using key wf by (auto simp: gm_vals_def gm_wf_def)
  then have "distinct (map f (gm_vals m))" using wf by (simp add: gm_wf_def)
  then have "inj_on f (set (gm_vals m))" "distinct (gm_vals m)" by (auto simp: distinct_map)
  then have "distinct (map f (sort_key f (filter P (gm_vals m))))"
    by (auto simp: distinct_map intro: inj_on_subset)
  then show "sorted_wrt (<) (map f (sort_key f (filter P (gm_vals m))))"
    by (simp add: strict_sorted_iff)
qed

lemma mem_inv_keys:
  assumes "mem_inv s"
  shows "gm_get (nodes s) k = Some n \<Longrightarrow> ID n = k" "gm_get (domains s) k = Some d \<Longrightarrow> Name d = k"
    "gm_get (users s) k = Some u \<Longrightarrow> Email u = k" "gm_get (deliveryJobs s) q = Some j \<Longrightarrow> job_key j = q"
  using assms by (simp_all add: mem_inv_def awf_def, cases q, simp)

text \<open>Each write is the abstract write.\<close>

lemma mem_SaveDomain_abs:
  assumes "mem_SaveDomain s d = (s', None)"
  shows "mem_abs s' = a_SaveDomain d (mem_abs s)"
proof (cases "IsDefault d")
  case True
  then have "s' = s\<lparr>domains := gm_put (Name d) d (map (\<lambda>(k, e). (k, clear_default d k e)) (domains s))\<rparr>"
    using assms by (auto simp: mem_SaveDomain_def Let_def clear_default_eq split: if_splits)
  then show ?thesis
    by (simp add: mem_abs_def a_SaveDomain_def fun_eq_iff gm_get_map [of "clear_default d"])
next
  case False
  then have "s' = s\<lparr>domains := gm_put (Name d) d (domains s)\<rparr>"
    using assms by (auto simp: mem_SaveDomain_def Let_def split: if_splits)
  then show ?thesis
    using False by (simp add: mem_abs_def a_SaveDomain_def fun_eq_iff clear_default_eq option.map_ident)
qed

lemma mem_SaveDomain_wf:
  "mem_inv s \<Longrightarrow> mem_SaveDomain s d = (s', None) \<Longrightarrow> mem_inv s'"
  using mem_SaveDomain_abs [of s d s'] awf_SaveDomain [of "mem_abs s" d]
  by (auto simp: mem_inv_def mem_SaveDomain_def Let_def split: if_splits)

lemma mem_SaveNode_abs:
  "mem_SaveNode s n = (s', None) \<Longrightarrow> mem_abs s' = a_SaveNode n (mem_abs s)"
  by (auto simp: mem_SaveNode_def a_SaveNode_def mem_abs_def merge_node_def Let_def fun_eq_iff
      split: if_splits option.splits)

lemma mem_SaveNode_wf: "mem_inv s \<Longrightarrow> mem_SaveNode s n = (s', None) \<Longrightarrow> mem_inv s'"
  using mem_SaveNode_abs [of s n s'] awf_SaveNode [of "mem_abs s" n]
  by (auto simp: mem_inv_def mem_SaveNode_def Let_def split: if_splits)

lemma mem_SaveDeliveryJob_eq:
  "mem_SaveDeliveryJob now s j =
     (case gm_get (deliveryJobs s) (job_key j) of
        None \<Rightarrow> (s\<lparr>deliveryJobs := gm_put (job_key j) (job_defaults now j) (deliveryJobs s)\<rparr>, None)
      | Some _ \<Rightarrow> (s, None))"
  by (cases j) (auto simp: mem_SaveDeliveryJob_def job_defaults_def Let_def split: option.split)

lemma mem_UpdateDeliveryJob_eq:
  "mem_UpdateDeliveryJob now s j =
     (case gm_get (deliveryJobs s) (job_key j) of
        None \<Rightarrow> (s, Some ErrStoreNotFound)
      | Some e \<Rightarrow> (s\<lparr>deliveryJobs := gm_put (job_key j) (job_merge now j e) (deliveryJobs s)\<rparr>, None))"
  by (simp add: mem_UpdateDeliveryJob_def job_merge_def Let_def split: option.split)

lemma mem_SaveDeliveryJob_ok:
  assumes "mem_inv s" and "mem_SaveDeliveryJob now s j = (s', None)"
  shows "mem_inv s' \<and> mem_abs s' = a_SaveJob (job_defaults now j) (mem_abs s)"
proof -
  have a: "mem_abs s' = a_SaveJob (job_defaults now j) (mem_abs s)"
    using assms(2) by (auto simp: mem_SaveDeliveryJob_eq a_SaveJob_def mem_abs_def fun_eq_iff split: option.splits)
  have "awf (mem_abs s')"
    unfolding a using assms(1) by (intro awf_SaveJob) (simp add: mem_inv_def)
  then have "mem_inv s'"
    using assms by (auto simp: mem_inv_def mem_SaveDeliveryJob_eq split: option.splits)
  with a show ?thesis by blast
qed

lemma mem_UpdateDeliveryJob_ok:
  assumes "mem_inv s" and "mem_UpdateDeliveryJob now s j = (s', None)"
  shows "mem_inv s' \<and> mem_abs s' = a_UpdateJob (\<lambda>t. t) now j (mem_abs s)"
proof -
  have a: "mem_abs s' = a_UpdateJob (\<lambda>t. t) now j (mem_abs s)"
    using assms(2) by (auto simp: mem_UpdateDeliveryJob_eq a_UpdateJob_def mem_abs_def fun_eq_iff split: option.splits)
  have "awf (mem_abs s')"
    unfolding a using assms(1) by (intro awf_UpdateJob) (simp add: mem_inv_def)
  then have "mem_inv s'"
    using assms by (auto simp: mem_inv_def mem_UpdateDeliveryJob_eq split: option.splits)
  with a show ?thesis by blast
qed

lemma mem_SaveUser_ok:
  assumes "mem_inv s" and "mem_SaveUser now s u = (s', None)"
  shows "mem_inv s' \<and> (\<exists>c. mem_abs s' = (mem_abs s)\<lparr>a_users := (a_users (mem_abs s))(Email u \<mapsto> u\<lparr>UserCreatedAt := c\<rparr>)\<rparr>
     \<and> (\<forall>e. a_users (mem_abs s) (Email u) = Some e \<longrightarrow> UserCreatedAt e \<noteq> 0 \<longrightarrow> c = UserCreatedAt e))"
proof -
  define c where "c = (case gm_get (users s) (Email u) of None \<Rightarrow> UserCreatedAt u
    | Some e \<Rightarrow> if UserCreatedAt e \<noteq> 0 then UserCreatedAt e else UserCreatedAt u)"
  have s': "s' = s\<lparr>users := gm_put (Email u) (u\<lparr>UserCreatedAt := c\<rparr>) (users s)\<rparr>"
    using assms(2) by (cases u) (auto simp: mem_SaveUser_def c_def Let_def split: if_splits option.splits)
  then have a: "mem_abs s' = (mem_abs s)\<lparr>a_users := (a_users (mem_abs s))(Email u \<mapsto> u\<lparr>UserCreatedAt := c\<rparr>)\<rparr>"
    by (simp add: mem_abs_def fun_eq_iff)
  have "awf (mem_abs s')"
    unfolding a using assms(1) by (intro awf_SaveUser) (simp_all add: mem_inv_def)
  then have "mem_inv s'" using assms(1) s' by (simp add: mem_inv_def)
  moreover have "\<forall>e. a_users (mem_abs s) (Email u) = Some e \<longrightarrow> UserCreatedAt e \<noteq> 0 \<longrightarrow> c = UserCreatedAt e"
    by (simp add: c_def)
  ultimately show ?thesis using a by blast
qed

lemma mem_pending:
  assumes "mem_inv s" and "mem_ListPendingDeliveryJobs s before limit = Inr js"
  shows "js = cap limit (sort_key NextRetryAt (filter (due before) (gm_vals (deliveryJobs s))))"
    and "set (filter (due before) (gm_vals (deliveryJobs s))) = {j \<in> ran (a_jobs (mem_abs s)). due before j}"
    and "distinct (map job_key (sort_key NextRetryAt (filter (due before) (gm_vals (deliveryJobs s)))))"
proof -
  have "due before = (\<lambda>j. (Status j = DeliveryPending \<or> Status j = DeliveryFailed) \<and> \<not> before < NextRetryAt j)"
    by (auto simp: due_def fun_eq_iff)
  then show "js = cap limit (sort_key NextRetryAt (filter (due before) (gm_vals (deliveryJobs s))))"
    using assms(2) by (simp add: mem_ListPendingDeliveryJobs_def cap_def Let_def)
  have wf: "gm_wf (deliveryJobs s)" using assms(1) by (simp add: mem_inv_def)
  show "set (filter (due before) (gm_vals (deliveryJobs s))) = {j \<in> ran (a_jobs (mem_abs s)). due before j}"
    using gm_vals_iff [OF wf] by (auto simp: ran_def)
  have "map job_key (gm_vals (deliveryJobs s)) = map fst (deliveryJobs s)"
    using mem_inv_keys(4) [OF assms(1)] wf by (auto simp: gm_vals_def gm_wf_def)
  then have "distinct (map job_key (gm_vals (deliveryJobs s)))" using wf by (simp add: gm_wf_def)
  then have "inj_on job_key (set (gm_vals (deliveryJobs s)))" "distinct (gm_vals (deliveryJobs s))"
    by (auto simp: distinct_map)
  then show "distinct (map job_key (sort_key NextRetryAt (filter (due before) (gm_vals (deliveryJobs s)))))"
    by (auto simp: distinct_map intro: inj_on_subset)
qed

interpretation ms: domain_store mem_ops mem_abs mem_inv "\<lambda>s. True"
proof (unfold_locales, goal_cases)
  case (1 s)
  then show ?case by (simp add: mem_inv_def)
next
  case (2 s d s')
  then show ?case using mem_SaveDomain_abs mem_SaveDomain_wf by (simp add: mem_ops_def)
next
  case (3 s d s' e)
  then show ?case by (auto simp: mem_ops_def mem_SaveDomain_def Let_def split: if_splits)
next
  case (4 s k)
  then show ?case by (simp add: mem_ops_def mem_GetDomain_def lookup_def)
next
  case (6 s d)
  then have "find IsDefault (gm_vals (domains s)) = Some d"
    by (simp add: mem_ops_def mem_GetDefaultDomain_def split: option.splits)
  then have "IsDefault d" "d \<in> set (gm_vals (domains s))" by (auto simp: find_Some_iff)
  then show ?case using 6(1) mem_inv_keys(2) [OF 6(1)] by (auto simp: mem_inv_def gm_vals_iff)
next
  case (7 s k d)
  then have "find IsDefault (gm_vals (domains s)) = None"
    by (simp add: mem_ops_def mem_GetDefaultDomain_def split: option.splits)
  then show ?case using gm_valsD 7(3) by (fastforce simp: find_None_iff)
next
  case (8 s ds)
  then show ?case
    using sorted_vals [of "domains s" Name "\<lambda>_. True"] mem_inv_keys(2) [OF 8(1)]
    by (auto simp: mem_ops_def mem_ListDomains_def mem_inv_def strict_sorted_iff)
next
  case (9 s n)
  then show ?case by (simp add: mem_ops_def mem_CountDomains_def mem_inv_def gm_card)
qed simp_all

interpretation ms: node_user_store mem_ops mem_abs mem_inv "\<lambda>s. True" "\<lambda>m. m"
proof (unfold_locales, goal_cases)
  case (1 s n s')
  then show ?case using mem_SaveNode_abs mem_SaveNode_wf by (simp add: mem_ops_def)
next
  case (2 s n s' e)
  then show ?case by (auto simp: mem_ops_def mem_SaveNode_def Let_def split: if_splits)
next
  case (3 s k)
  then show ?case by (simp add: mem_ops_def mem_GetNode_def lookup_def)
next
  case (4 s now u s')
  then show ?case using mem_SaveUser_ok by (simp add: mem_ops_def)
next
  case (5 s now u s' e)
  then show ?case by (auto simp: mem_ops_def mem_SaveUser_def Let_def split: if_splits)
next
  case (6 s k)
  then show ?case by (simp add: mem_ops_def mem_GetUser_def lookup_def)
next
  case (8 s us)
  then show ?case
    using sorted_vals [of "users s" Email "\<lambda>_. True"] mem_inv_keys(3) [OF 8(1)]
    by (auto simp: mem_ops_def mem_ListUsers_def mem_inv_def strict_sorted_iff)
next
  case (9 s fs us)
  then show ?case
    using sorted_vals [of "users s" Email "\<lambda>u. UserMatchesFilters u fs"] mem_inv_keys(3) [OF 9(1)]
    by (auto simp: mem_ops_def mem_SearchUsers_def mem_inv_def strict_sorted_iff)
qed simp_all

interpretation ms: job_store mem_ops mem_abs mem_inv "\<lambda>s. True" "\<lambda>t. t"
proof (unfold_locales, goal_cases)
  case (1 s now j s')
  then show ?case using mem_SaveDeliveryJob_ok by (simp add: mem_ops_def)
next
  case (2 s now j s' e)
  then show ?case by (auto simp: mem_ops_def mem_SaveDeliveryJob_eq split: option.splits)
next
  case (3 s now j s')
  then show ?case using mem_UpdateDeliveryJob_ok by (simp add: mem_ops_def)
next
  case (4 s now j s' e)
  then show ?case by (auto simp: mem_ops_def mem_UpdateDeliveryJob_eq split: option.splits)
next
  case (5 s m r)
  then show ?case by (simp add: mem_ops_def mem_GetDeliveryJob_def lookup_def)
next
  case (6 s before limit js)
  then have m: "mem_ListPendingDeliveryJobs s before limit = Inr js" by (simp add: mem_ops_def)
  note p = mem_pending [OF 6(1) m]
  have "set js \<subseteq> {j \<in> ran (a_jobs (mem_abs s)). due before j}"
    using p(2) set_cap [of limit "sort_key NextRetryAt (filter (due before) (gm_vals (deliveryJobs s)))"]
    by (simp add: p(1) set_filter del: mem_abs_simps)
  moreover have "limit \<le> 0 \<Longrightarrow> set js = {j \<in> ran (a_jobs (mem_abs s)). due before j}"
    using p(2) by (simp add: p(1) cap_def set_filter del: mem_abs_simps)
  ultimately show ?case
    unfolding p(1) using p(3) by (simp add: sorted_cap distinct_cap length_cap)
next
  case (7 s r st js)
  then have "gm_wf (deliveryJobs s)" by (simp add: mem_inv_def)
  then show ?case
    using 7 by (auto simp: mem_ops_def mem_ListDeliveryJobsByRecipient_def set_gm_vals)
next
  case (8 s now j)
  then show ?case by (simp add: mem_ops_def mem_SaveDeliveryJob_eq split: option.split)
next
  case (9 s j now)
  then show ?case by (auto simp: mem_ops_def mem_UpdateDeliveryJob_eq split: option.split)
qed

interpretation ms: node_store mem_ops mem_abs mem_inv "\<lambda>s. True" "\<lambda>m. m" "\<lambda>t. t"
  by unfold_locales

section \<open>Properties\<close>

text \<open>In every state the in-memory store can reach from \<open>New()\<close> by any sequence of writes,
  at most one domain is the default domain.\<close>

theorem mem_default_unique:
  assumes "store_reach mem_ops mem_New s"
    and "mem_GetDomain s j = Inr d" and "mem_GetDomain s k = Inr e" and "IsDefault d" and "IsDefault e"
  shows "d = e"
  using ms.reach_default_unique [OF assms(1) mem_inv_New, of j d k e] assms(2-) by (simp add: mem_ops_def)

lemma mem_default_unique_witness:
  "(let s = fst (mem_SaveDomain (fst (mem_SaveDomain mem_New \<lparr>Name = ''a'', NodeID = ''n1'', IsDefault = True\<rparr>))
                                \<lparr>Name = ''b'', NodeID = ''n2'', IsDefault = True\<rparr>);
        d = \<lparr>Name = ''b'', NodeID = ''n2'', IsDefault = True\<rparr>
    in mem_GetDomain s ''b'' = Inr d \<and> (\<forall>k e. mem_GetDomain s k = Inr e \<longrightarrow> IsDefault e \<longrightarrow> e = d))"
proof -
  define d1 where "d1 = \<lparr>Name = ''a'', NodeID = ''n1'', IsDefault = True\<rparr>"
  define d2 where "d2 = \<lparr>Name = ''b'', NodeID = ''n2'', IsDefault = True\<rparr>"
  define s where "s = fst (mem_SaveDomain (fst (mem_SaveDomain mem_New d1)) d2)"
  have r: "store_reach mem_ops mem_New s"
    using store_reach.save_domain [OF store_reach.save_domain [OF store_reach.start [of mem_ops mem_New], of d1], of d2]
    by (simp add: mem_ops_def s_def)
  have g: "mem_GetDomain s ''b'' = Inr d2"
    by (simp add: s_def d1_def d2_def mem_SaveDomain_def mem_GetDomain_def mem_New_def)
  have "e = d2" if "mem_GetDomain s k = Inr e" "IsDefault e" for k e
    using mem_default_unique [OF r that(1) g that(2)] by (simp add: d2_def)
  then show ?thesis using g by (auto simp: Let_def s_def d1_def d2_def)
qed

text \<open>The pending-jobs query of the in-memory store returns, in the order of their retry
  time and without repetition, stored jobs that are pending or failed and due; without a limit it
  returns all of them, with a limit never more than that many.\<close>

theorem mem_pending_spec:
  assumes "store_reach mem_ops mem_New s" and "mem_ListPendingDeliveryJobs s before limit = Inr js"
  shows "set js \<subseteq> {j. (\<exists>m r. mem_GetDeliveryJob s m r = Inr j) \<and> due before j}
    \<and> sorted (map NextRetryAt js) \<and> distinct (map job_key js)
    \<and> (limit \<le> 0 \<longrightarrow> set js = {j. (\<exists>m r. mem_GetDeliveryJob s m r = Inr j) \<and> due before j})
    \<and> (0 < limit \<longrightarrow> int (length js) \<le> limit)"
proof -
  have inv: "mem_inv s" using ms.reach_inv [OF assms(1) mem_inv_New] .
  have "{j \<in> ran (a_jobs (mem_abs s)). due before j}
      = {j. (\<exists>m r. mem_GetDeliveryJob s m r = Inr j) \<and> due before j}"
    using ms.get_job [OF inv] by (auto simp: mem_ops_def ran_def simp del: mem_abs_simps)
  then show ?thesis
    using ms.list_pending [OF inv, of before limit js] assms(2) by (simp add: mem_ops_def del: mem_abs_simps)
qed

definition job_ex :: "string \<Rightarrow> DeliveryStatus \<Rightarrow> gotime \<Rightarrow> DeliveryJob" where
  "job_ex m st t = \<lparr>MessageID = m, RecipientID = ''r'', EndpointURL = ''u'', Status = st, Attempts = 0,
     MaxAttempts = 5, LastError = [], NextRetryAt = t, DeliveredAt = None, CreatedAt = 1, UpdatedAt = 1\<rparr>"

lemma mem_pending_spec_witness:
  "(let s = fst (mem_SaveDeliveryJob 9 (fst (mem_SaveDeliveryJob 9 mem_New (job_ex ''m1'' ''failed'' 7)))
              (job_ex ''m2'' ''pending'' 3));
        js = [job_ex ''m2'' ''pending'' 3, job_ex ''m1'' ''failed'' 7]
    in mem_ListPendingDeliveryJobs s 8 0 = Inr js
       \<and> set js = {j. (\<exists>m r. mem_GetDeliveryJob s m r = Inr j) \<and> due 8 j})"
proof -
  define s where "s = fst (mem_SaveDeliveryJob 9 (fst (mem_SaveDeliveryJob 9 mem_New (job_ex ''m1'' ''failed'' 7)))
              (job_ex ''m2'' ''pending'' 3))"
  have r: "store_reach mem_ops mem_New s"
    using store_reach.save_job [OF store_reach.save_job [OF store_reach.start [of mem_ops mem_New], of 9 "job_ex ''m1'' ''failed'' 7"],
        of 9 "job_ex ''m2'' ''pending'' 3"]
    by (simp add: mem_ops_def s_def)
  have l: "mem_ListPendingDeliveryJobs s 8 0 = Inr [job_ex ''m2'' ''pending'' 3, job_ex ''m1'' ''failed'' 7]"
    by (simp add: s_def mem_ListPendingDeliveryJobs_def mem_SaveDeliveryJob_def mem_New_def job_ex_def
        gm_vals_def status_defs)
  show ?thesis
    using mem_pending_spec [OF r l] l by (simp add: Let_def flip: s_def)
qed

end
