(* ===== verification/Sqlstore.thy ===== *)
theory Sqlstore
  imports Store
begin

text \<open>
  The two SQL stores: \<open>internal/store/sqlite/store.go\<close> (SQLite) and
  \<open>internal/store/sqlstore/store.go\<close> (PostgreSQL).

  The tables of the schema are the fields of the state, each keyed by its primary key; every
  method of either package runs one SQL statement, and its definition is the Go code around the
  meaning of that statement (\<open>INSERT ... ON CONFLICT\<close>, \<open>UPDATE ... WHERE\<close>, \<open>SELECT ... ORDER BY\<close>)
  on the tables. What the engines add is a parameter, the record \<open>sqlengine\<close>: the instant a
  \<open>TIMESTAMP\<close> column keeps, the pattern match of \<open>LIKE\<close>, the collation of \<open>ORDER BY\<close> in
  PostgreSQL and the text of the error of a violated unique index. The field \<open>db_fault\<close> of the
  state is the error the engine answers with when it cannot run a statement.
\<close>

section \<open>Engine and tables\<close>

record sqlengine =
  eng_time :: "gotime \<Rightarrow> gotime"
  eng_like :: "string \<Rightarrow> string \<Rightarrow> bool"
  eng_collate :: "string \<Rightarrow> string"
  eng_unique :: string

text \<open>One row type per table. The default flag is an \<open>INTEGER\<close> in SQLite and a \<open>BOOLEAN\<close> in
  PostgreSQL. The metadata column is \<open>None\<close> when it holds other JSON than an object of strings,
  which no method of the stores writes (\<open>sql_inv\<close> below).\<close>

record 'b domain_row =
  r_node_id :: string
  r_is_default :: 'b

record user_row =
  r_type :: string
  r_public_key :: string
  r_metadata :: "strmap option"
  r_created_at :: gotime

record 'b sqldb =
  t_nodes :: "(string, string \<times> string) gomap"
  t_domains :: "(string, 'b domain_row) gomap"
  t_users :: "(string, user_row) gomap"
  t_jobs :: "(string \<times> string, DeliveryJob) gomap"
  db_fault :: "string option"

definition sql_exec :: "'b sqldb \<Rightarrow> 'b sqldb \<Rightarrow> 'b sqldb \<times> error option" where
  "sql_exec db db' = (case db_fault db of Some m \<Rightarrow> (db, Some (EText m)) | None \<Rightarrow> (db', None))"

definition sql_query :: "'b sqldb \<Rightarrow> 'a \<Rightarrow> 'a result" where
  "sql_query db x = (case db_fault db of Some m \<Rightarrow> Inl (EText m) | None \<Rightarrow> Inr x)"

section \<open>Metadata as JSON\<close>

text \<open>\<open>json.Marshal\<close> writes the keys in sorted order with invalid UTF-8 replaced;
  \<open>json.Unmarshal\<close> assigns them in that order. \<open>valid_utf8\<close> is what one pass does to a string.\<close>

definition valid_utf8 :: "string \<Rightarrow> string" where
  "valid_utf8 s = concat (map encode_rune (runes s))"

definition json_meta :: "strmap \<Rightarrow> strmap" where
  "json_meta m = fold (\<lambda>(k, v). gm_put (valid_utf8 k) (valid_utf8 v)) (sort_key fst m) []"

section \<open>Statements shared by both stores\<close>

definition upsert_node :: "node \<Rightarrow> 'b sqldb \<Rightarrow> 'b sqldb" where
  "upsert_node n db =
     db\<lparr>t_nodes := gm_put (ID n)
          (case gm_get (t_nodes db) (ID n) of
             None \<Rightarrow> (PrivateKeyB64 n, PublicKeyB64 n)
           | Some (priv, pub) \<Rightarrow>
               (if PrivateKeyB64 n \<noteq> '''' then PrivateKeyB64 n else priv,
                if PublicKeyB64 n \<noteq> '''' then PublicKeyB64 n else pub)) (t_nodes db)\<rparr>"

definition node_of_row :: "string \<Rightarrow> string \<times> string \<Rightarrow> node" where
  "node_of_row k r = \<lparr>ID = k, PrivateKeyB64 = fst r, PublicKeyB64 = snd r\<rparr>"

text \<open>The partial unique index \<open>idx_domains_default\<close>: a second row with the flag set is refused.\<close>

definition upsert_domain :: "sqlengine \<Rightarrow> ('b \<Rightarrow> bool) \<Rightarrow> string \<Rightarrow> 'b domain_row \<Rightarrow> 'b sqldb \<Rightarrow> 'b sqldb \<times> error option" where
  "upsert_domain E flag k row db =
     (if flag (r_is_default row) \<and> list_ex (\<lambda>(k', r). k' \<noteq> k \<and> flag (r_is_default r)) (t_domains db)
      then (db, Some (case db_fault db of Some m \<Rightarrow> EText m | None \<Rightarrow> EText (eng_unique E)))
      else sql_exec db (db\<lparr>t_domains := gm_put k row (t_domains db)\<rparr>))"

definition upsert_user :: "sqlengine \<Rightarrow> gotime \<Rightarrow> user \<Rightarrow> 'b sqldb \<Rightarrow> 'b sqldb" where
  "upsert_user E createdAt u db =
     db\<lparr>t_users := gm_put (Email u)
          \<lparr>r_type = Type u, r_public_key = UserKeyB64 u, r_metadata = Some (json_meta (Metadata u)),
           r_created_at = (case gm_get (t_users db) (Email u) of
                             None \<Rightarrow> eng_time E createdAt | Some r \<Rightarrow> r_created_at r)\<rparr> (t_users db)\<rparr>"

definition user_of_row :: "string \<Rightarrow> string \<Rightarrow> user_row \<Rightarrow> user result" where
  "user_of_row pkg k r =
     (case r_metadata r of
        None \<Rightarrow> Inl (EWrap (pkg @ '': unmarshal metadata'') (EText ''json''))
      | Some m \<Rightarrow> Inr \<lparr>Email = k, Type = r_type r, UserKeyB64 = r_public_key r, Metadata = m,
                        UserCreatedAt = r_created_at r\<rparr>)"

text \<open>The scan loops stop at the first row whose metadata cannot be decoded.\<close>

fun scan_rows :: "('r \<Rightarrow> 'a result) \<Rightarrow> 'r list \<Rightarrow> 'a list result" where
  "scan_rows f [] = Inr []"
| "scan_rows f (r # rs) =
     (case f r of Inl e \<Rightarrow> Inl e | Inr x \<Rightarrow>
        (case scan_rows f rs of Inl e \<Rightarrow> Inl e | Inr xs \<Rightarrow> Inr (x # xs)))"

definition insert_job :: "sqlengine \<Rightarrow> DeliveryJob \<Rightarrow> 'b sqldb \<Rightarrow> 'b sqldb" where
  "insert_job E j db =
     (case gm_get (t_jobs db) (job_key j) of
        None \<Rightarrow> db\<lparr>t_jobs := gm_put (job_key j) (job_tm (eng_time E) j) (t_jobs db)\<rparr>
      | Some _ \<Rightarrow> db)"

definition update_job :: "sqlengine \<Rightarrow> DeliveryJob \<Rightarrow> 'b sqldb \<Rightarrow> 'b sqldb" where
  "update_job E j db =
     (case gm_get (t_jobs db) (job_key j) of
        None \<Rightarrow> db
      | Some e \<Rightarrow> db\<lparr>t_jobs := gm_put (job_key j)
          (e\<lparr>Status := Status j, Attempts := Attempts j, LastError := LastError j,
             NextRetryAt := eng_time E (NextRetryAt j), DeliveredAt := map_option (eng_time E) (DeliveredAt j),
             UpdatedAt := eng_time E (UpdatedAt j)\<rparr>) (t_jobs db)\<rparr>)"

definition select_pending :: "sqlengine \<Rightarrow> gotime \<Rightarrow> 'b sqldb \<Rightarrow> DeliveryJob list" where
  "select_pending E before db =
     sort_key NextRetryAt (filter (\<lambda>j. Status j \<in> {''pending'', ''failed''} \<and> NextRetryAt j \<le> eng_time E before)
       (gm_vals (t_jobs db)))"

definition select_by_recipient :: "string \<Rightarrow> (DeliveryStatus \<Rightarrow> bool) \<Rightarrow> 'b sqldb \<Rightarrow> DeliveryJob list" where
  "select_by_recipient r st db =
     sort_key (\<lambda>j. - CreatedAt j) (filter (\<lambda>j. RecipientID j = r \<and> st (Status j)) (gm_vals (t_jobs db)))"

text \<open>The search clauses: one \<open>LIKE\<close> per usable filter key; \<open>NULL LIKE p\<close> is not true, so a
  user without the key is not selected.\<close>

datatype clause = TypeLike string | MetaLike string string

definition search_clauses :: "strmap \<Rightarrow> clause list" where
  "search_clauses filters =
     concat (map (\<lambda>(k, v). if k = ''type'' then [TypeLike (''%'' @ v @ ''%'')]
                           else if IsValidMetaKey k then [MetaLike k (''%'' @ v @ ''%'')] else [])
                 (sort_key fst filters))"

definition clause_holds :: "sqlengine \<Rightarrow> user_row \<Rightarrow> clause \<Rightarrow> bool" where
  "clause_holds E r c =
     (case c of
        TypeLike p \<Rightarrow> eng_like E (r_type r) p
      | MetaLike k p \<Rightarrow> (case r_metadata r of None \<Rightarrow> False
          | Some m \<Rightarrow> (case gm_get m k of None \<Rightarrow> False | Some v \<Rightarrow> eng_like E v p)))"

section \<open>SQLite\<close>

definition sqlite_SaveNode :: "int sqldb \<Rightarrow> node \<Rightarrow> int sqldb \<times> error option" where
  "sqlite_SaveNode db n =
     (if ID n = '''' then (db, Some (EText ''sqlite: node id is required''))
      else sql_exec db (upsert_node n db))"

definition sqlite_GetNode :: "int sqldb \<Rightarrow> string \<Rightarrow> node result" where
  "sqlite_GetNode db k =
     (case sql_query db (gm_get (t_nodes db) k) of
        Inl e \<Rightarrow> Inl (EWrap ''sqlite: get node'' e)
      | Inr None \<Rightarrow> Inl ErrStoreNotFound
      | Inr (Some r) \<Rightarrow> Inr (node_of_row k r))"

definition sqlite_SaveDomain :: "sqlengine \<Rightarrow> int sqldb \<Rightarrow> domain \<Rightarrow> int sqldb \<times> error option" where
  "sqlite_SaveDomain E db d =
     (let isDefault = (if IsDefault d then 1 else 0 :: int)
      in upsert_domain E (\<lambda>b. b = 1) (Name d) \<lparr>r_node_id = NodeID d, r_is_default = isDefault\<rparr> db)"

definition sqlite_domain :: "string \<Rightarrow> int domain_row \<Rightarrow> domain" where
  "sqlite_domain k r = \<lparr>Name = k, NodeID = r_node_id r, IsDefault = (r_is_default r \<noteq> 0)\<rparr>"

definition sqlite_GetDomain :: "int sqldb \<Rightarrow> string \<Rightarrow> domain result" where
  "sqlite_GetDomain db k =
     (case sql_query db (gm_get (t_domains db) k) of
        Inl e \<Rightarrow> Inl e
      | Inr None \<Rightarrow> Inl ErrStoreNotFound
      | Inr (Some r) \<Rightarrow> Inr (sqlite_domain k r))"

definition sqlite_GetDefaultDomain :: "int sqldb \<Rightarrow> domain result" where
  "sqlite_GetDefaultDomain db =
     (case sql_query db (find (\<lambda>(k, r). r_is_default r = 1) (t_domains db)) of
        Inl e \<Rightarrow> Inl e
      | Inr None \<Rightarrow> Inl ErrStoreNotFound
      | Inr (Some (k, r)) \<Rightarrow> Inr (sqlite_domain k r))"

definition sqlite_ListDomains :: "int sqldb \<Rightarrow> domain list result" where
  "sqlite_ListDomains db =
     (case sql_query db (sort_key fst (t_domains db)) of
        Inl e \<Rightarrow> Inl e
      | Inr rows \<Rightarrow> Inr (map (\<lambda>(k, r). sqlite_domain k r) rows))"

definition sqlite_CountDomains :: "int sqldb \<Rightarrow> int result" where
  "sqlite_CountDomains db = sql_query db (int (length (t_domains db)))"

definition sqlite_SaveUser :: "sqlengine \<Rightarrow> gotime \<Rightarrow> int sqldb \<Rightarrow> user \<Rightarrow> int sqldb \<times> error option" where
  "sqlite_SaveUser E now db u =
     (let createdAt = (if UserCreatedAt u = 0 then now else UserCreatedAt u)
      in sql_exec db (upsert_user E createdAt u db))"

definition sqlite_GetUser :: "int sqldb \<Rightarrow> string \<Rightarrow> user result" where
  "sqlite_GetUser db k =
     (case sql_query db (gm_get (t_users db) k) of
        Inl e \<Rightarrow> Inl e
      | Inr None \<Rightarrow> Inl ErrStoreNotFound
      | Inr (Some r) \<Rightarrow> user_of_row ''sqlite'' k r)"

definition sqlite_scanUsers :: "(string \<times> user_row) list \<Rightarrow> user list result" where
  "sqlite_scanUsers rows = scan_rows (\<lambda>(k, r). user_of_row ''sqlite'' k r) rows"

definition sqlite_ListUsers :: "int sqldb \<Rightarrow> user list result" where
  "sqlite_ListUsers db =
     (case sql_query db (sort_key fst (t_users db)) of Inl e \<Rightarrow> Inl e | Inr rows \<Rightarrow> sqlite_scanUsers rows)"

definition sqlite_SearchUsers :: "sqlengine \<Rightarrow> int sqldb \<Rightarrow> strmap \<Rightarrow> user list result" where
  "sqlite_SearchUsers E db filters =
     (if filters = [] then sqlite_ListUsers db
      else
        (let clauses = search_clauses filters
         in if clauses = [] then sqlite_ListUsers db
            else (case sql_query db (sort_key fst (filter (\<lambda>(k, r). list_all (clause_holds E r) clauses) (t_users db))) of
                    Inl e \<Rightarrow> Inl e | Inr rows \<Rightarrow> sqlite_scanUsers rows)))"

definition sqlite_CountUsers :: "int sqldb \<Rightarrow> int result" where
  "sqlite_CountUsers db = sql_query db (int (length (t_users db)))"

definition sqlite_SaveDeliveryJob :: "sqlengine \<Rightarrow> gotime \<Rightarrow> int sqldb \<Rightarrow> DeliveryJob \<Rightarrow> int sqldb \<times> error option" where
  "sqlite_SaveDeliveryJob E now db job =
     (let j1 = (if CreatedAt job = 0 then job\<lparr>CreatedAt := now\<rparr> else job);
          j2 = (if UpdatedAt j1 = 0 then j1\<lparr>UpdatedAt := now\<rparr> else j1);
          j3 = (if MaxAttempts j2 = 0 then j2\<lparr>MaxAttempts := 5\<rparr> else j2)
      in sql_exec db (insert_job E j3 db))"

definition sqlite_UpdateDeliveryJob :: "sqlengine \<Rightarrow> gotime \<Rightarrow> int sqldb \<Rightarrow> DeliveryJob \<Rightarrow> int sqldb \<times> error option" where
  "sqlite_UpdateDeliveryJob E now db job = sql_exec db (update_job E (job\<lparr>UpdatedAt := now\<rparr>) db)"

definition sqlite_GetDeliveryJob :: "int sqldb \<Rightarrow> string \<Rightarrow> string \<Rightarrow> DeliveryJob result" where
  "sqlite_GetDeliveryJob db m r =
     (case sql_query db (gm_get (t_jobs db) (m, r)) of
        Inl e \<Rightarrow> Inl (EWrap ''sqlite: get delivery job'' e)
      | Inr None \<Rightarrow> Inl ErrStoreNotFound
      | Inr (Some j) \<Rightarrow> Inr j)"

definition sqlite_ListPendingDeliveryJobs :: "sqlengine \<Rightarrow> int sqldb \<Rightarrow> gotime \<Rightarrow> int \<Rightarrow> DeliveryJob list result" where
  "sqlite_ListPendingDeliveryJobs E db before limit =
     sql_query db (if 0 < limit then take (nat limit) (select_pending E before db) else select_pending E before db)"

definition sqlite_ListDeliveryJobsByRecipient :: "int sqldb \<Rightarrow> string \<Rightarrow> DeliveryStatus \<Rightarrow> DeliveryJob list result" where
  "sqlite_ListDeliveryJobsByRecipient db r status =
     sql_query db (if status = '''' then select_by_recipient r (\<lambda>_. True) db
                   else select_by_recipient r (\<lambda>s. s = status) db)"

definition sqlite_ops :: "sqlengine \<Rightarrow> int sqldb store_ops" where
  "sqlite_ops E = \<lparr>op_SaveNode = sqlite_SaveNode, op_GetNode = sqlite_GetNode, op_SaveDomain = sqlite_SaveDomain E,
     op_GetDomain = sqlite_GetDomain, op_GetDefaultDomain = sqlite_GetDefaultDomain,
     op_ListDomains = sqlite_ListDomains, op_CountDomains = sqlite_CountDomains, op_SaveUser = sqlite_SaveUser E,
     op_GetUser = sqlite_GetUser, op_ListUsers = sqlite_ListUsers, op_SearchUsers = sqlite_SearchUsers E,
     op_CountUsers = sqlite_CountUsers, op_SaveDeliveryJob = sqlite_SaveDeliveryJob E,
     op_UpdateDeliveryJob = sqlite_UpdateDeliveryJob E, op_GetDeliveryJob = sqlite_GetDeliveryJob,
     op_ListPendingDeliveryJobs = sqlite_ListPendingDeliveryJobs E,
     op_ListDeliveryJobsByRecipient = sqlite_ListDeliveryJobsByRecipient\<rparr>"

section \<open>PostgreSQL\<close>

definition pg_SaveNode :: "bool sqldb \<Rightarrow> node \<Rightarrow> bool sqldb \<times> error option" where
  "pg_SaveNode db n =
     (if ID n = '''' then (db, Some (EText ''sqlstore: node id is required''))
      else (case sql_exec db (upsert_node n db) of
              (db', Some e) \<Rightarrow> (db', Some (EWrap ''sqlstore: save node'' e))
            | (db', None) \<Rightarrow> (db', None)))"

definition pg_GetNode :: "bool sqldb \<Rightarrow> string \<Rightarrow> node result" where
  "pg_GetNode db k =
     (case sql_query db (gm_get (t_nodes db) k) of
        Inl e \<Rightarrow> Inl (EWrap ''sqlstore: get node'' e)
      | Inr None \<Rightarrow> Inl ErrStoreNotFound
      | Inr (Some r) \<Rightarrow> Inr (node_of_row k r))"

definition pg_SaveDomain :: "sqlengine \<Rightarrow> bool sqldb \<Rightarrow> domain \<Rightarrow> bool sqldb \<times> error option" where
  "pg_SaveDomain E db d =
     upsert_domain E (\<lambda>b. b) (Name d) \<lparr>r_node_id = NodeID d, r_is_default = IsDefault d\<rparr> db"

definition pg_domain :: "string \<Rightarrow> bool domain_row \<Rightarrow> domain" where
  "pg_domain k r = \<lparr>Name = k, NodeID = r_node_id r, IsDefault = r_is_default r\<rparr>"

definition pg_GetDomain :: "bool sqldb \<Rightarrow> string \<Rightarrow> domain result" where
  "pg_GetDomain db k =
     (case sql_query db (gm_get (t_domains db) k) of
        Inl e \<Rightarrow> Inl e
      | Inr None \<Rightarrow> Inl ErrStoreNotFound
      | Inr (Some r) \<Rightarrow> Inr (pg_domain k r))"

definition pg_GetDefaultDomain :: "bool sqldb \<Rightarrow> domain result" where
  "pg_GetDefaultDomain db =
     (case sql_query db (find (\<lambda>(k, r). r_is_default r) (t_domains db)) of
        Inl e \<Rightarrow> Inl e
      | Inr None \<Rightarrow> Inl ErrStoreNotFound
      | Inr (Some (k, r)) \<Rightarrow> Inr (pg_domain k r))"

definition pg_ListDomains :: "sqlengine \<Rightarrow> bool sqldb \<Rightarrow> domain list result" where
  "pg_ListDomains E db =
     (case sql_query db (sort_key (\<lambda>(k, r). eng_collate E k) (t_domains db)) of
        Inl e \<Rightarrow> Inl e
      | Inr rows \<Rightarrow> Inr (map (\<lambda>(k, r). pg_domain k r) rows))"

definition pg_CountDomains :: "bool sqldb \<Rightarrow> int result" where
  "pg_CountDomains db = sql_query db (int (length (t_domains db)))"

definition pg_SaveUser :: "sqlengine \<Rightarrow> gotime \<Rightarrow> bool sqldb \<Rightarrow> user \<Rightarrow> bool sqldb \<times> error option" where
  "pg_SaveUser E now db u =
     (let createdAt = (if UserCreatedAt u = 0 then now else UserCreatedAt u)
      in sql_exec db (upsert_user E createdAt u db))"

definition pg_GetUser :: "bool sqldb \<Rightarrow> string \<Rightarrow> user result" where
  "pg_GetUser db k =
     (case sql_query db (gm_get (t_users db) k) of
        Inl e \<Rightarrow> Inl e
      | Inr None \<Rightarrow> Inl ErrStoreNotFound
      | Inr (Some r) \<Rightarrow> user_of_row ''sqlstore'' k r)"

definition pg_scanUserRows :: "(string \<times> user_row) list \<Rightarrow> user list result" where
  "pg_scanUserRows rows = scan_rows (\<lambda>(k, r). user_of_row ''sqlstore'' k r) rows"

definition pg_ListUsers :: "sqlengine \<Rightarrow> bool sqldb \<Rightarrow> user list result" where
  "pg_ListUsers E db =
     (case sql_query db (sort_key (\<lambda>(k, r). eng_collate E k) (t_users db)) of
        Inl e \<Rightarrow> Inl e | Inr rows \<Rightarrow> pg_scanUserRows rows)"

definition pg_SearchUsers :: "sqlengine \<Rightarrow> bool sqldb \<Rightarrow> strmap \<Rightarrow> user list result" where
  "pg_SearchUsers E db filters =
     (if filters = [] then pg_ListUsers E db
      else
        (let clauses = search_clauses filters
         in if clauses = [] then pg_ListUsers E db
            else (case sql_query db (sort_key (\<lambda>(k, r). eng_collate E k)
                         (filter (\<lambda>(k, r). list_all (clause_holds E r) clauses) (t_users db))) of
                    Inl e \<Rightarrow> Inl e | Inr rows \<Rightarrow> pg_scanUserRows rows)))"

definition pg_CountUsers :: "bool sqldb \<Rightarrow> int result" where
  "pg_CountUsers db = sql_query db (int (length (t_users db)))"

definition pg_SaveDeliveryJob :: "sqlengine \<Rightarrow> gotime \<Rightarrow> bool sqldb \<Rightarrow> DeliveryJob \<Rightarrow> bool sqldb \<times> error option" where
  "pg_SaveDeliveryJob E now db job =
     (let j1 = (if CreatedAt job = 0 then job\<lparr>CreatedAt := now\<rparr> else job);
          j2 = (if UpdatedAt j1 = 0 then j1\<lparr>UpdatedAt := now\<rparr> else j1);
          j3 = (if MaxAttempts j2 = 0 then j2\<lparr>MaxAttempts := 5\<rparr> else j2)
      in sql_exec db (insert_job E j3 db))"

definition pg_UpdateDeliveryJob :: "sqlengine \<Rightarrow> gotime \<Rightarrow> bool sqldb \<Rightarrow> DeliveryJob \<Rightarrow> bool sqldb \<times> error option" where
  "pg_UpdateDeliveryJob E now db job = sql_exec db (update_job E (job\<lparr>UpdatedAt := now\<rparr>) db)"

definition pg_GetDeliveryJob :: "bool sqldb \<Rightarrow> string \<Rightarrow> string \<Rightarrow> DeliveryJob result" where
  "pg_GetDeliveryJob db m r =
     (case sql_query db (gm_get (t_jobs db) (m, r)) of
        Inl e \<Rightarrow> Inl (EWrap ''sqlstore: get delivery job'' e)
      | Inr None \<Rightarrow> Inl ErrStoreNotFound
      | Inr (Some j) \<Rightarrow> Inr j)"

definition pg_ListPendingDeliveryJobs :: "sqlengine \<Rightarrow> bool sqldb \<Rightarrow> gotime \<Rightarrow> int \<Rightarrow> DeliveryJob list result" where
  "pg_ListPendingDeliveryJobs E db before limit =
     sql_query db (if 0 < limit then take (nat limit) (select_pending E before db) else select_pending E before db)"

definition pg_ListDeliveryJobsByRecipient :: "bool sqldb \<Rightarrow> string \<Rightarrow> DeliveryStatus \<Rightarrow> DeliveryJob list result" where
  "pg_ListDeliveryJobsByRecipient db r status =
     sql_query db (if status = '''' then select_by_recipient r (\<lambda>_. True) db
                   else select_by_recipient r (\<lambda>s. s = status) db)"

definition pg_ops :: "sqlengine \<Rightarrow> bool sqldb store_ops" where
  "pg_ops E = \<lparr>op_SaveNode = pg_SaveNode, op_GetNode = pg_GetNode, op_SaveDomain = pg_SaveDomain E,
     op_GetDomain = pg_GetDomain, op_GetDefaultDomain = pg_GetDefaultDomain,
     op_ListDomains = pg_ListDomains E, op_CountDomains = pg_CountDomains, op_SaveUser = pg_SaveUser E,
     op_GetUser = pg_GetUser, op_ListUsers = pg_ListUsers E, op_SearchUsers = pg_SearchUsers E,
     op_CountUsers = pg_CountUsers, op_SaveDeliveryJob = pg_SaveDeliveryJob E,
     op_UpdateDeliveryJob = pg_UpdateDeliveryJob E, op_GetDeliveryJob = pg_GetDeliveryJob,
     op_ListPendingDeliveryJobs = pg_ListPendingDeliveryJobs E,
     op_ListDeliveryJobsByRecipient = pg_ListDeliveryJobsByRecipient\<rparr>"

section \<open>Refinement of the abstract store\<close>

text \<open>The lemmas on the shared statements are proved once, for any representation of the default
  flag: \<open>flag\<close> is the condition of the partial index, \<open>dm\<close> reads a row back, \<open>okb\<close> holds of
  the flag values a store writes.\<close>

definition row_user :: "string \<Rightarrow> user_row \<Rightarrow> user" where
  "row_user k r = \<lparr>Email = k, Type = r_type r, UserKeyB64 = r_public_key r,
     Metadata = (case r_metadata r of None \<Rightarrow> [] | Some m \<Rightarrow> m), UserCreatedAt = r_created_at r\<rparr>"

definition sql_abs :: "(string \<Rightarrow> 'b domain_row \<Rightarrow> domain) \<Rightarrow> 'b sqldb \<Rightarrow> astore" where
  "sql_abs dm db = \<lparr>a_nodes = (\<lambda>k. map_option (node_of_row k) (gm_get (t_nodes db) k)),
     a_domains = (\<lambda>k. map_option (dm k) (gm_get (t_domains db) k)),
     a_users = (\<lambda>k. map_option (row_user k) (gm_get (t_users db) k)), a_jobs = gm_get (t_jobs db)\<rparr>"

definition sql_up :: "'b sqldb \<Rightarrow> bool" where
  "sql_up db \<longleftrightarrow> db_fault db = None"

definition sql_inv :: "('b \<Rightarrow> bool) \<Rightarrow> (string \<Rightarrow> 'b domain_row \<Rightarrow> domain) \<Rightarrow> 'b sqldb \<Rightarrow> bool" where
  "sql_inv okb dm db \<longleftrightarrow> gm_wf (t_nodes db) \<and> gm_wf (t_domains db) \<and> gm_wf (t_users db) \<and> gm_wf (t_jobs db)
     \<and> list_all (\<lambda>(k, r). okb (r_is_default r)) (t_domains db)
     \<and> list_all (\<lambda>(k, r). r_metadata r \<noteq> None) (t_users db) \<and> awf (sql_abs dm db)"

lemma sql_abs_simps [simp]:
  "a_nodes (sql_abs dm db) k = map_option (node_of_row k) (gm_get (t_nodes db) k)"
  "a_domains (sql_abs dm db) k = map_option (dm k) (gm_get (t_domains db) k)"
  "a_users (sql_abs dm db) k = map_option (row_user k) (gm_get (t_users db) k)"
  "a_jobs (sql_abs dm db) = gm_get (t_jobs db)"
  by (simp_all add: sql_abs_def)

lemma sql_exec_None [simp]: "sql_exec db db' = (db'', None) \<longleftrightarrow> sql_up db \<and> db'' = db'"
  by (auto simp: sql_exec_def sql_up_def split: option.splits)

lemma sql_exec_SomeD: "sql_exec db db' = (db'', Some e) \<Longrightarrow> db'' = db"
  by (auto simp: sql_exec_def split: option.splits)

lemma sql_query_Inr [simp]: "sql_query db x = Inr y \<longleftrightarrow> sql_up db \<and> y = x"
  by (auto simp: sql_query_def sql_up_def split: option.splits)

lemma sql_query_up [simp]: "sql_up db \<Longrightarrow> sql_query db x = Inr x"
  by (simp add: sql_query_def sql_up_def)

lemma sql_query_down: "\<not> sql_up db \<Longrightarrow> \<exists>m. sql_query db x = Inl (EText m)"
  by (auto simp: sql_query_def sql_up_def)

lemma list_all_update:
  "list_all P m \<Longrightarrow> P (k, v) \<Longrightarrow> list_all P (gm_put k v m)"
  by (induction m) auto

lemma scan_rows_Inr:
  "(\<And>r. r \<in> set rs \<Longrightarrow> f r = Inr (g r)) \<Longrightarrow> scan_rows f rs = Inr (map g rs)"
  by (induction rs) auto

text \<open>Rows of a table in the order of any key, read back as records.\<close>

lemma rows_read_back:
  assumes wf: "gm_wf m" and key: "\<And>k r. f (g k r) = k"
  shows "set (map (\<lambda>(k, r). g k r) (sort_key h (filter P m))) \<subseteq> ran (\<lambda>k. map_option (g k) (gm_get m k))"
    and "set (map (\<lambda>(k, r). g k r) (sort_key h m)) = ran (\<lambda>k. map_option (g k) (gm_get m k))"
    and "distinct (map f (map (\<lambda>(k, r). g k r) (sort_key h (filter P m))))"
proof -
  have ran: "ran (\<lambda>k. map_option (g k) (gm_get m k)) = (\<lambda>(k, r). g k r) ` set m"
    using wf by (force simp: ran_def gm_wf_def map_of_eq_Some_iff)
  show "set (map (\<lambda>(k, r). g k r) (sort_key h (filter P m))) \<subseteq> ran (\<lambda>k. map_option (g k) (gm_get m k))"
    by (auto simp: ran)
  show "set (map (\<lambda>(k, r). g k r) (sort_key h m)) = ran (\<lambda>k. map_option (g k) (gm_get m k))"
    by (simp add: ran)
  have "f \<circ> (\<lambda>(k, r). g k r) = fst" by (auto simp: key)
  moreover have "distinct (map fst (sort_key h (filter P m)))"
    using wf by (auto simp: gm_wf_def distinct_map inj_on_def)
  ultimately show "distinct (map f (map (\<lambda>(k, r). g k r) (sort_key h (filter P m))))" by simp
qed

locale sql_dialect =
  fixes flag :: "'b \<Rightarrow> bool" and dm :: "string \<Rightarrow> 'b domain_row \<Rightarrow> domain" and okb :: "'b \<Rightarrow> bool"
  assumes dm_Name: "Name (dm k r) = k"
    and dm_default: "okb (r_is_default r) \<Longrightarrow> IsDefault (dm k r) = flag (r_is_default r)"
begin

lemma upsert_node_ok:
  assumes "sql_inv okb dm db"
  shows "sql_inv okb dm (upsert_node n db) \<and> sql_abs dm (upsert_node n db) = a_SaveNode n (sql_abs dm db)"
proof -
  have a: "sql_abs dm (upsert_node n db) = a_SaveNode n (sql_abs dm db)"
    by (cases n) (auto simp: sql_abs_def a_SaveNode_def upsert_node_def merge_node_def node_of_row_def
        fun_eq_iff split: option.split)
  have "awf (sql_abs dm (upsert_node n db))"
    unfolding a using assms by (intro awf_SaveNode) (simp add: sql_inv_def)
  then show ?thesis using assms a by (simp add: sql_inv_def upsert_node_def)
qed

lemma upsert_domain_ok:
  assumes inv: "sql_inv okb dm db" and ok: "okb (r_is_default row)"
    and ex: "upsert_domain E flag k row db = (db', None)"
  shows "sql_inv okb dm db' \<and> sql_up db' \<and> sql_abs dm db' = a_SaveDomain (dm k row) (sql_abs dm db)"
proof -
  have db': "db' = db\<lparr>t_domains := gm_put k row (t_domains db)\<rparr>" and up: "sql_up db"
    using ex by (auto simp: upsert_domain_def split: if_splits)
  have free: "\<not> flag (r_is_default r)" if "gm_get (t_domains db) j = Some r" "j \<noteq> k" "flag (r_is_default row)" for j r
    using ex that by (auto simp: upsert_domain_def list_ex_iff dest: map_of_SomeD split: if_splits)
  have okr: "okb (r_is_default r)" if "gm_get (t_domains db) j = Some r" for j r
    using inv that by (auto simp: sql_inv_def list_all_iff dest: map_of_SomeD)
  have keep: "clear_default (dm k row) j (dm j r) = dm j r" if "gm_get (t_domains db) j = Some r" "j \<noteq> k" for j r
    using free [OF that] okr [OF that(1)] ok by (auto simp: clear_default_eq dm_default)
  have a: "sql_abs dm db' = a_SaveDomain (dm k row) (sql_abs dm db)"
    unfolding db' a_SaveDomain_def
    by (auto simp: sql_abs_def fun_eq_iff dm_Name keep option.map_comp comp_def intro!: option.map_cong)
  have "awf (sql_abs dm db')"
    unfolding a using inv by (intro awf_SaveDomain) (simp add: sql_inv_def)
  then have "sql_inv okb dm db'"
    using inv ok by (auto simp: sql_inv_def db' intro: list_all_update)
  then show ?thesis using a up by (simp add: db' sql_up_def)
qed

lemma find_default:
  assumes inv: "sql_inv okb dm db"
  shows "find (\<lambda>(k, r). flag (r_is_default r)) (t_domains db) = Some (k, r)
           \<Longrightarrow> a_domains (sql_abs dm db) k = Some (dm k r) \<and> IsDefault (dm k r)"
    and "find (\<lambda>(k, r). flag (r_is_default r)) (t_domains db) = None
           \<Longrightarrow> a_domains (sql_abs dm db) j = Some d \<Longrightarrow> \<not> IsDefault d"
proof -
  have okr: "okb (r_is_default r)" if "(j, r) \<in> set (t_domains db)" for j r
    using inv that by (auto simp: sql_inv_def list_all_iff)
  have wf: "distinct (map fst (t_domains db))" using inv by (simp add: sql_inv_def gm_wf_def)
  {
    assume "find (\<lambda>(k, r). flag (r_is_default r)) (t_domains db) = Some (k, r)"
    then have "(k, r) \<in> set (t_domains db)" "flag (r_is_default r)"
      by (auto simp: find_Some_iff) (metis nth_mem)
    then show "a_domains (sql_abs dm db) k = Some (dm k r) \<and> IsDefault (dm k r)"
      using okr wf by (auto simp: dm_default)
  next
    assume "find (\<lambda>(k, r). flag (r_is_default r)) (t_domains db) = None" "a_domains (sql_abs dm db) j = Some d"
    then show "\<not> IsDefault d"
      using okr by (auto simp: find_None_iff dm_default dest!: map_of_SomeD)
  }
qed

lemma upsert_user_ok:
  assumes "sql_inv okb dm db"
  shows "sql_inv okb dm (upsert_user E c u db) \<and>
    (\<exists>c'. sql_abs dm (upsert_user E c u db) = (sql_abs dm db)\<lparr>a_users := (a_users (sql_abs dm db))
            (Email u \<mapsto> u\<lparr>Metadata := json_meta (Metadata u), UserCreatedAt := c'\<rparr>)\<rparr>
       \<and> (\<forall>e. a_users (sql_abs dm db) (Email u) = Some e \<longrightarrow> c' = UserCreatedAt e))"
proof -
  define c' where "c' = (case gm_get (t_users db) (Email u) of None \<Rightarrow> eng_time E c | Some r \<Rightarrow> r_created_at r)"
  have a: "sql_abs dm (upsert_user E c u db) = (sql_abs dm db)\<lparr>a_users := (a_users (sql_abs dm db))
            (Email u \<mapsto> u\<lparr>Metadata := json_meta (Metadata u), UserCreatedAt := c'\<rparr>)\<rparr>"
    by (cases u) (auto simp: sql_abs_def upsert_user_def row_user_def c'_def fun_eq_iff)
  have "awf (sql_abs dm (upsert_user E c u db))"
    unfolding a using assms by (intro awf_SaveUser) (simp_all add: sql_inv_def)
  then have "sql_inv okb dm (upsert_user E c u db)"
    using assms by (auto simp: sql_inv_def upsert_user_def intro: list_all_update)
  then show ?thesis using a by (auto simp: c'_def row_user_def)
qed

lemma insert_job_ok:
  assumes "sql_inv okb dm db"
  shows "sql_inv okb dm (insert_job E j db) \<and> sql_abs dm (insert_job E j db) = a_SaveJob (job_tm (eng_time E) j) (sql_abs dm db)"
proof -
  have a: "sql_abs dm (insert_job E j db) = a_SaveJob (job_tm (eng_time E) j) (sql_abs dm db)"
    by (auto simp: sql_abs_def a_SaveJob_def insert_job_def fun_eq_iff split: option.split)
  have "awf (sql_abs dm (insert_job E j db))"
    unfolding a using assms by (intro awf_SaveJob) (simp add: sql_inv_def)
  then have "sql_inv okb dm (insert_job E j db)"
    using assms by (auto simp: sql_inv_def insert_job_def split: option.splits)
  with a show ?thesis by blast
qed

lemma update_job_ok:
  assumes "sql_inv okb dm db"
  shows "sql_inv okb dm (update_job E (j\<lparr>UpdatedAt := now\<rparr>) db)
    \<and> sql_abs dm (update_job E (j\<lparr>UpdatedAt := now\<rparr>) db) = a_UpdateJob (eng_time E) now j (sql_abs dm db)"
proof -
  have a: "sql_abs dm (update_job E (j\<lparr>UpdatedAt := now\<rparr>) db) = a_UpdateJob (eng_time E) now j (sql_abs dm db)"
    by (auto simp: sql_abs_def a_UpdateJob_def update_job_def job_merge_def fun_eq_iff split: option.split)
  have "awf (sql_abs dm (update_job E (j\<lparr>UpdatedAt := now\<rparr>) db))"
    unfolding a using assms by (intro awf_UpdateJob) (simp add: sql_inv_def)
  then have "sql_inv okb dm (update_job E (j\<lparr>UpdatedAt := now\<rparr>) db)"
    using assms by (auto simp: sql_inv_def update_job_def split: option.splits)
  with a show ?thesis by blast
qed

lemma select_pending_ok:
  assumes "sql_inv okb dm db"
  shows "set (select_pending E before db) = {j \<in> ran (a_jobs (sql_abs dm db)). due (eng_time E before) j}"
    and "sorted (map NextRetryAt (select_pending E before db))"
    and "distinct (map job_key (select_pending E before db))"
proof -
  have wf: "gm_wf (t_jobs db)" using assms by (simp add: sql_inv_def)
  show "set (select_pending E before db) = {j \<in> ran (a_jobs (sql_abs dm db)). due (eng_time E before) j}"
    using set_gm_vals [OF wf] by (auto simp: select_pending_def due_def status_defs)
  show "sorted (map NextRetryAt (select_pending E before db))" by (simp add: select_pending_def)
  have "\<And>k j. gm_get (t_jobs db) k = Some j \<Longrightarrow> job_key j = k"
    using assms by (auto simp: sql_inv_def awf_def)
  then have "map job_key (gm_vals (t_jobs db)) = map fst (t_jobs db)"
    using wf by (auto simp: gm_vals_def gm_wf_def)
  then have "distinct (map job_key (gm_vals (t_jobs db)))" using wf by (simp add: gm_wf_def)
  then have "inj_on job_key (set (gm_vals (t_jobs db)))" "distinct (gm_vals (t_jobs db))"
    by (auto simp: distinct_map)
  then show "distinct (map job_key (select_pending E before db))"
    by (auto simp: select_pending_def distinct_map intro: inj_on_subset)
qed

lemma users_read_back:
  assumes "sql_inv okb dm db" and "set rows \<subseteq> set (t_users db)"
  shows "scan_rows (\<lambda>(k, r). user_of_row pkg k r) rows = Inr (map (\<lambda>(k, r). row_user k r) rows)"
  using assms by (intro scan_rows_Inr) (fastforce simp: sql_inv_def list_all_iff user_of_row_def row_user_def)

end

subsection \<open>The SQLite store\<close>

abbreviation sqlite_inv :: "int sqldb \<Rightarrow> bool" where
  "sqlite_inv \<equiv> sql_inv (\<lambda>b. b = 0 \<or> b = 1) sqlite_domain"

interpretation sqd: sql_dialect "\<lambda>b. b = 1" sqlite_domain "\<lambda>b. b = 0 \<or> b = 1"
  by unfold_locales (auto simp: sqlite_domain_def)

lemma sqlite_domain_row: "sqlite_domain (Name d) \<lparr>r_node_id = NodeID d, r_is_default = (if IsDefault d then 1 else 0)\<rparr> = d"
  by (cases d) (simp add: sqlite_domain_def)

interpretation sq: domain_store "sqlite_ops E" "sql_abs sqlite_domain" sqlite_inv sql_up for E
proof (unfold_locales, goal_cases)
  case (1 s)
  then show ?case by (simp add: sql_inv_def)
next
  case (2 s d s')
  then show ?case
    using sqd.upsert_domain_ok [OF 2(1), of "\<lparr>r_node_id = NodeID d, r_is_default = (if IsDefault d then 1 else 0)\<rparr>" E "Name d" s'] sqlite_domain_row [of d]
    by (simp add: sqlite_ops_def sqlite_SaveDomain_def Let_def)
next
  case (3 s d s' e)
  then show ?case
    by (auto simp: sqlite_ops_def sqlite_SaveDomain_def upsert_domain_def Let_def dest: sql_exec_SomeD split: if_splits)
next
  case (4 s k)
  then show ?case by (auto simp: sqlite_ops_def sqlite_GetDomain_def lookup_def split: option.split)
next
  case (5 s k)
  then show ?case
    using sql_query_down [of s "gm_get (t_domains s) k"] by (auto simp: sqlite_ops_def sqlite_GetDomain_def)
next
  case (6 s d)
  then show ?case
    using sqd.find_default(1) [OF 6(1)]
    by (auto simp: sqlite_ops_def sqlite_GetDefaultDomain_def sqlite_domain_def split: sum.splits option.splits)
next
  case (7 s k d)
  then show ?case
    using sqd.find_default(2) [OF 7(1), of k d]
    by (auto simp: sqlite_ops_def sqlite_GetDefaultDomain_def sql_query_def split: sum.splits option.splits)
next
  case (8 s ds)
  then have ds: "ds = map (\<lambda>(k, r). sqlite_domain k r) (sort_key fst (t_domains s))" and wf: "gm_wf (t_domains s)"
    by (auto simp: sqlite_ops_def sqlite_ListDomains_def sql_inv_def split: sum.splits)
  show ?case
    using rows_read_back(2) [OF wf, where g = sqlite_domain and f = Name and h = fst]
      rows_read_back(3) [OF wf, where g = sqlite_domain and f = Name and h = fst and P = "\<lambda>_. True"]
    by (simp add: ds sql_abs_def sqlite_domain_def)
next
  case (9 s n)
  then show ?case
    by (simp add: sqlite_ops_def sqlite_CountDomains_def sql_inv_def gm_card dom_map_option sql_abs_def)
qed

interpretation sq: node_user_store "sqlite_ops E" "sql_abs sqlite_domain" sqlite_inv sql_up json_meta for E
proof (unfold_locales, goal_cases)
  case (1 s n s')
  then show ?case
    using sqd.upsert_node_ok [OF 1(1), of n]
    by (auto simp: sqlite_ops_def sqlite_SaveNode_def upsert_node_def sql_up_def split: if_splits prod.splits option.splits)
next
  case (2 s n s' e)
  then show ?case by (auto simp: sqlite_ops_def sqlite_SaveNode_def dest: sql_exec_SomeD split: if_splits)
next
  case (3 s k)
  then show ?case by (auto simp: sqlite_ops_def sqlite_GetNode_def lookup_def split: option.split)
next
  case (4 s now u s')
  then obtain c where up: "sql_up s" and s': "s' = upsert_user E c u s"
    by (auto simp: sqlite_ops_def sqlite_SaveUser_def Let_def)
  have "sql_up s'" using up by (simp add: s' upsert_user_def sql_up_def)
  then show ?case
    unfolding s' using sqd.upsert_user_ok [OF 4(1), of E c u] by metis
next
  case (5 s now u s' e)
  then show ?case by (auto simp: sqlite_ops_def sqlite_SaveUser_def Let_def dest: sql_exec_SomeD)
next
  case (6 s k)
  then show ?case
    by (auto simp: sqlite_ops_def sqlite_GetUser_def lookup_def user_of_row_def row_user_def sql_inv_def list_all_iff
        dest!: map_of_SomeD split: option.split)
next
  case (7 s k)
  then show ?case
    using sql_query_down [of s "gm_get (t_users s) k"] by (auto simp: sqlite_ops_def sqlite_GetUser_def)
next
  case (8 s us)
  have wf: "gm_wf (t_users s)" using 8(1) by (simp add: sql_inv_def)
  have us: "us = map (\<lambda>(k, r). row_user k r) (sort_key fst (t_users s))"
    using 8 sqd.users_read_back [OF 8(1)]
    by (auto simp: sqlite_ops_def sqlite_ListUsers_def sqlite_scanUsers_def split: sum.splits)
  show ?case
    using rows_read_back(2) [OF wf, where g = row_user and f = Email and h = fst]
      rows_read_back(3) [OF wf, where g = row_user and f = Email and h = fst and P = "\<lambda>_. True"]
    by (simp add: us sql_abs_def row_user_def)
next
  case (9 s fs us)
  have wf: "gm_wf (t_users s)" using 9(1) by (simp add: sql_inv_def)
  have "\<exists>P. us = map (\<lambda>(k, r). row_user k r) (sort_key fst (filter P (t_users s)))"
  proof (cases "fs = [] \<or> search_clauses fs = []")
    case True
    then have "us = map (\<lambda>(k, r). row_user k r) (sort_key fst (filter (\<lambda>_. True) (t_users s)))"
      using 9 sqd.users_read_back [OF 9(1)]
      by (auto simp: sqlite_ops_def sqlite_SearchUsers_def sqlite_ListUsers_def sqlite_scanUsers_def Let_def split: sum.splits if_splits)
    then show ?thesis by blast
  next
    case False
    then have "us = map (\<lambda>(k, r). row_user k r) (sort_key fst
        (filter (\<lambda>(k, r). list_all (clause_holds E r) (search_clauses fs)) (t_users s)))"
      using 9 sqd.users_read_back [OF 9(1)]
      by (auto simp: sqlite_ops_def sqlite_SearchUsers_def sqlite_scanUsers_def Let_def split: sum.splits if_splits)
    then show ?thesis by blast
  qed
  then obtain P where us: "us = map (\<lambda>(k, r). row_user k r) (sort_key fst (filter P (t_users s)))" ..
  show ?case
    using rows_read_back(1,3) [OF wf, where g = row_user and f = Email and h = fst and P = P]
    by (simp add: us sql_abs_def row_user_def)
qed

interpretation sq: job_store "sqlite_ops E" "sql_abs sqlite_domain" sqlite_inv sql_up "eng_time E" for E
proof (unfold_locales, goal_cases)
  case (1 s now j s')
  then have s': "s' = insert_job E (job_defaults now j) s" and "sql_up s"
    by (cases j; auto simp: sqlite_ops_def sqlite_SaveDeliveryJob_def job_defaults_def Let_def split: if_splits)+
  then show ?case
    using sqd.insert_job_ok [OF 1(1), of E "job_defaults now j"]
    by (auto simp: insert_job_def sql_up_def split: option.splits)
next
  case (2 s now j s' e)
  then show ?case by (auto simp: sqlite_ops_def sqlite_SaveDeliveryJob_def Let_def dest: sql_exec_SomeD)
next
  case (3 s now j s')
  then show ?case
    using sqd.update_job_ok [OF 3(1), where E = E and j = j and now = now]
    by (auto simp: sqlite_ops_def sqlite_UpdateDeliveryJob_def update_job_def sql_up_def split: option.splits)
next
  case (4 s now j s' e)
  then show ?case by (auto simp: sqlite_ops_def sqlite_UpdateDeliveryJob_def dest: sql_exec_SomeD)
next
  case (5 s m r)
  then show ?case by (auto simp: sqlite_ops_def sqlite_GetDeliveryJob_def lookup_def split: option.split)
next
  case (6 s before limit js)
  then have js: "js = (if 0 < limit then take (nat limit) (select_pending E before s) else select_pending E before s)"
    by (simp add: sqlite_ops_def sqlite_ListPendingDeliveryJobs_def)
  note p = sqd.select_pending_ok [OF 6(1), of E before]
  show ?case
  proof (cases "0 < limit")
    case True
    then show ?thesis
      using p set_take_subset [of "nat limit" "select_pending E before s"]
      by (auto simp: js sorted_wrt_take simp del: sql_abs_simps simp flip: take_map)
  next
    case False
    then show ?thesis using p by (simp add: js del: sql_abs_simps)
  qed
next
  case (7 s r st js)
  then have "gm_wf (t_jobs s)" by (simp add: sql_inv_def)
  then show ?case
    using 7 by (auto simp: sqlite_ops_def sqlite_ListDeliveryJobsByRecipient_def select_by_recipient_def set_gm_vals split: if_splits)
next
  case (8 s now j)
  then show ?case by (simp add: sqlite_ops_def sqlite_SaveDeliveryJob_def sql_exec_def sql_up_def Let_def)
next
  case (9 s j now)
  then show ?case by (simp add: sqlite_ops_def sqlite_UpdateDeliveryJob_def sql_exec_def sql_up_def)
qed

interpretation sq: node_store "sqlite_ops E" "sql_abs sqlite_domain" sqlite_inv sql_up json_meta "eng_time E" for E
  by unfold_locales

subsection \<open>The PostgreSQL store\<close>

abbreviation pg_inv :: "bool sqldb \<Rightarrow> bool" where
  "pg_inv \<equiv> sql_inv (\<lambda>b. True) pg_domain"

interpretation pgd: sql_dialect "\<lambda>b. b" pg_domain "\<lambda>b. True"
  by unfold_locales (auto simp: pg_domain_def)

lemma pg_domain_row: "pg_domain (Name d) \<lparr>r_node_id = NodeID d, r_is_default = IsDefault d\<rparr> = d"
  by (cases d) (simp add: pg_domain_def)

interpretation pg: domain_store "pg_ops E" "sql_abs pg_domain" pg_inv sql_up for E
proof (unfold_locales, goal_cases)
  case (1 s)
  then show ?case by (simp add: sql_inv_def)
next
  case (2 s d s')
  then show ?case
    using pgd.upsert_domain_ok [OF 2(1), where row = "\<lparr>r_node_id = NodeID d, r_is_default = IsDefault d\<rparr>"
      and E = E and k = "Name d" and db' = s'] pg_domain_row [of d]
    by (simp add: pg_ops_def pg_SaveDomain_def Let_def)
next
  case (3 s d s' e)
  then show ?case
    by (auto simp: pg_ops_def pg_SaveDomain_def upsert_domain_def Let_def dest: sql_exec_SomeD split: if_splits)
next
  case (4 s k)
  then show ?case by (auto simp: pg_ops_def pg_GetDomain_def lookup_def split: option.split)
next
  case (5 s k)
  then show ?case
    using sql_query_down [of s "gm_get (t_domains s) k"] by (auto simp: pg_ops_def pg_GetDomain_def)
next
  case (6 s d)
  then show ?case
    using pgd.find_default(1) [OF 6(1)]
    by (auto simp: pg_ops_def pg_GetDefaultDomain_def pg_domain_def split: sum.splits option.splits)
next
  case (7 s k d)
  then show ?case
    using pgd.find_default(2) [OF 7(1), of k d]
    by (auto simp: pg_ops_def pg_GetDefaultDomain_def sql_query_def split: sum.splits option.splits)
next
  case (8 s ds)
  then have ds: "ds = map (\<lambda>(k, r). pg_domain k r) (sort_key (\<lambda>(k, r). eng_collate E k) (t_domains s))" and wf: "gm_wf (t_domains s)"
    by (auto simp: pg_ops_def pg_ListDomains_def sql_inv_def split: sum.splits)
  show ?case
    using rows_read_back(2) [OF wf, where g = pg_domain and f = Name and h = "\<lambda>(k, r). eng_collate E k"]
      rows_read_back(3) [OF wf, where g = pg_domain and f = Name and h = "\<lambda>(k, r). eng_collate E k" and P = "\<lambda>_. True"]
    by (simp add: ds sql_abs_def pg_domain_def)
next
  case (9 s n)
  then show ?case
    by (simp add: pg_ops_def pg_CountDomains_def sql_inv_def gm_card dom_map_option sql_abs_def)
qed

interpretation pg: node_user_store "pg_ops E" "sql_abs pg_domain" pg_inv sql_up json_meta for E
proof (unfold_locales, goal_cases)
  case (1 s n s')
  then show ?case
    using pgd.upsert_node_ok [OF 1(1), of n]
    by (auto simp: pg_ops_def pg_SaveNode_def upsert_node_def sql_up_def split: if_splits prod.splits option.splits)
next
  case (2 s n s' e)
  then show ?case by (auto simp: pg_ops_def pg_SaveNode_def dest: sql_exec_SomeD split: if_splits prod.splits option.splits)
next
  case (3 s k)
  then show ?case by (auto simp: pg_ops_def pg_GetNode_def lookup_def split: option.split)
next
  case (4 s now u s')
  then obtain c where up: "sql_up s" and s': "s' = upsert_user E c u s"
    by (auto simp: pg_ops_def pg_SaveUser_def Let_def)
  have "sql_up s'" using up by (simp add: s' upsert_user_def sql_up_def)
  then show ?case
    unfolding s' using pgd.upsert_user_ok [OF 4(1), of E c u] by metis
next
  case (5 s now u s' e)
  then show ?case by (auto simp: pg_ops_def pg_SaveUser_def Let_def dest: sql_exec_SomeD)
next
  case (6 s k)
  then show ?case
    by (auto simp: pg_ops_def pg_GetUser_def lookup_def user_of_row_def row_user_def sql_inv_def list_all_iff
        dest!: map_of_SomeD split: option.split)
next
  case (7 s k)
  then show ?case
    using sql_query_down [of s "gm_get (t_users s) k"] by (auto simp: pg_ops_def pg_GetUser_def)
next
  case (8 s us)
  have wf: "gm_wf (t_users s)" using 8(1) by (simp add: sql_inv_def)
  have us: "us = map (\<lambda>(k, r). row_user k r) (sort_key (\<lambda>(k, r). eng_collate E k) (t_users s))"
    using 8 pgd.users_read_back [OF 8(1)]
    by (auto simp: pg_ops_def pg_ListUsers_def pg_scanUserRows_def split: sum.splits)
  show ?case
    using rows_read_back(2) [OF wf, where g = row_user and f = Email and h = "\<lambda>(k, r). eng_collate E k"]
      rows_read_back(3) [OF wf, where g = row_user and f = Email and h = "\<lambda>(k, r). eng_collate E k" and P = "\<lambda>_. True"]
    by (simp add: us sql_abs_def row_user_def)
next
  case (9 s fs us)
  have wf: "gm_wf (t_users s)" using 9(1) by (simp add: sql_inv_def)
  have "\<exists>P. us = map (\<lambda>(k, r). row_user k r) (sort_key (\<lambda>(k, r). eng_collate E k) (filter P (t_users s)))"
  proof (cases "fs = [] \<or> search_clauses fs = []")
    case True
    then have "us = map (\<lambda>(k, r). row_user k r) (sort_key (\<lambda>(k, r). eng_collate E k) (filter (\<lambda>_. True) (t_users s)))"
      using 9 pgd.users_read_back [OF 9(1)]
      by (auto simp: pg_ops_def pg_SearchUsers_def pg_ListUsers_def pg_scanUserRows_def Let_def split: sum.splits if_splits)
    then show ?thesis by blast
  next
    case False
    then have "us = map (\<lambda>(k, r). row_user k r) (sort_key (\<lambda>(k, r). eng_collate E k)
        (filter (\<lambda>(k, r). list_all (clause_holds E r) (search_clauses fs)) (t_users s)))"
      using 9 pgd.users_read_back [OF 9(1)]
      by (auto simp: pg_ops_def pg_SearchUsers_def pg_scanUserRows_def Let_def split: sum.splits if_splits)
    then show ?thesis by blast
  qed
  then obtain P where us: "us = map (\<lambda>(k, r). row_user k r) (sort_key (\<lambda>(k, r). eng_collate E k) (filter P (t_users s)))" ..
  show ?case
    using rows_read_back(1,3) [OF wf, where g = row_user and f = Email and h = "\<lambda>(k, r). eng_collate E k" and P = P]
    by (simp add: us sql_abs_def row_user_def)
qed

interpretation pg: job_store "pg_ops E" "sql_abs pg_domain" pg_inv sql_up "eng_time E" for E
proof (unfold_locales, goal_cases)
  case (1 s now j s')
  then have s': "s' = insert_job E (job_defaults now j) s" and "sql_up s"
    by (cases j; auto simp: pg_ops_def pg_SaveDeliveryJob_def job_defaults_def Let_def split: if_splits)+
  then show ?case
    using pgd.insert_job_ok [OF 1(1), of E "job_defaults now j"]
    by (auto simp: insert_job_def sql_up_def split: option.splits)
next
  case (2 s now j s' e)
  then show ?case by (auto simp: pg_ops_def pg_SaveDeliveryJob_def Let_def dest: sql_exec_SomeD)
next
  case (3 s now j s')
  then show ?case
    using pgd.update_job_ok [OF 3(1), where E = E and j = j and now = now]
    by (auto simp: pg_ops_def pg_UpdateDeliveryJob_def update_job_def sql_up_def split: option.splits)
next
  case (4 s now j s' e)
  then show ?case by (auto simp: pg_ops_def pg_UpdateDeliveryJob_def dest: sql_exec_SomeD)
next
  case (5 s m r)
  then show ?case by (auto simp: pg_ops_def pg_GetDeliveryJob_def lookup_def split: option.split)
next
  case (6 s before limit js)
  then have js: "js = (if 0 < limit then take (nat limit) (select_pending E before s) else select_pending E before s)"
    by (simp add: pg_ops_def pg_ListPendingDeliveryJobs_def)
  note p = pgd.select_pending_ok [OF 6(1), of E before]
  show ?case
  proof (cases "0 < limit")
    case True
    then show ?thesis
      using p set_take_subset [of "nat limit" "select_pending E before s"]
      by (auto simp: js sorted_wrt_take simp del: sql_abs_simps simp flip: take_map)
  next
    case False
    then show ?thesis using p by (simp add: js del: sql_abs_simps)
  qed
next
  case (7 s r st js)
  then have "gm_wf (t_jobs s)" by (simp add: sql_inv_def)
  then show ?case
    using 7 by (auto simp: pg_ops_def pg_ListDeliveryJobsByRecipient_def select_by_recipient_def set_gm_vals split: if_splits)
next
  case (8 s now j)
  then show ?case by (simp add: pg_ops_def pg_SaveDeliveryJob_def sql_exec_def sql_up_def Let_def)
next
  case (9 s j now)
  then show ?case by (simp add: pg_ops_def pg_UpdateDeliveryJob_def sql_exec_def sql_up_def)
qed

interpretation pg: node_store "pg_ops E" "sql_abs pg_domain" pg_inv sql_up json_meta "eng_time E" for E
  by unfold_locales

section \<open>Properties\<close>

definition sql_empty :: "'b sqldb" where
  "sql_empty = \<lparr>t_nodes = [], t_domains = [], t_users = [], t_jobs = [], db_fault = None\<rparr>"

lemma sql_inv_empty: "sql_inv okb dm (sql_empty\<lparr>db_fault := f\<rparr>)"
  by (simp add: sql_inv_def sql_empty_def awf_def sql_abs_def one_default_def)

lemma sql_inv_fresh: "sql_inv okb dm sql_empty"
  using sql_inv_empty [of okb dm None] by (simp add: sql_empty_def)

text \<open>C19: in every state the two SQL stores can reach from an empty database by any sequence of
  writes, at most one domain is the default domain.\<close>

theorem sql_default_unique:
  "(store_reach (sqlite_ops E) sql_empty s \<and> sqlite_GetDomain s j = Inr d \<and> sqlite_GetDomain s k = Inr e
      \<and> IsDefault d \<and> IsDefault e \<longrightarrow> d = e)
   \<and> (store_reach (pg_ops E) sql_empty t \<and> pg_GetDomain t j = Inr d \<and> pg_GetDomain t k = Inr e
      \<and> IsDefault d \<and> IsDefault e \<longrightarrow> d = e)"
  using sq.reach_default_unique [OF _ sql_inv_fresh, of E s j d k e]
    pg.reach_default_unique [OF _ sql_inv_fresh, of E t j d k e]
  by (auto simp: sqlite_ops_def pg_ops_def)

text \<open>A concrete engine: instants kept exactly, \<open>LIKE\<close> on a pattern \<open>%v%\<close>, byte order.\<close>

definition engine_ex :: sqlengine where
  "engine_ex = \<lparr>eng_time = (\<lambda>t. t), eng_like = (\<lambda>t p. contains t (butlast (tl p))),
     eng_collate = (\<lambda>s. s), eng_unique = ''UNIQUE constraint failed''\<rparr>"

text \<open>The second default domain is refused, so the first one stays the only one.\<close>

lemma sql_default_unique_witness:
  "(let d1 = \<lparr>Name = ''a'', NodeID = ''n1'', IsDefault = True\<rparr>; d2 = \<lparr>Name = ''b'', NodeID = ''n2'', IsDefault = True\<rparr>;
        s1 = fst (sqlite_SaveDomain engine_ex sql_empty d1); s = fst (sqlite_SaveDomain engine_ex s1 d2)
    in sqlite_GetDomain s ''a'' = Inr d1 \<and> snd (sqlite_SaveDomain engine_ex s1 d2) \<noteq> None
       \<and> (\<forall>k e. sqlite_GetDomain s k = Inr e \<longrightarrow> IsDefault e \<longrightarrow> e = d1))"
proof -
  define d1 where "d1 = \<lparr>Name = ''a'', NodeID = ''n1'', IsDefault = True\<rparr>"
  define d2 where "d2 = \<lparr>Name = ''b'', NodeID = ''n2'', IsDefault = True\<rparr>"
  define s1 where "s1 = fst (sqlite_SaveDomain engine_ex sql_empty d1)"
  define s where "s = fst (sqlite_SaveDomain engine_ex s1 d2)"
  have r: "store_reach (sqlite_ops engine_ex) sql_empty s"
    using store_reach.save_domain [OF store_reach.save_domain [OF store_reach.start [of "sqlite_ops engine_ex" sql_empty], of d1], of d2]
    by (simp add: sqlite_ops_def s_def s1_def)
  have s1: "s1 = sql_empty\<lparr>t_domains := [(''a'', \<lparr>r_node_id = ''n1'', r_is_default = 1\<rparr>)]\<rparr>"
    by (simp add: s1_def d1_def sqlite_SaveDomain_def upsert_domain_def sql_exec_def sql_empty_def)
  have s: "s = s1" "snd (sqlite_SaveDomain engine_ex s1 d2) \<noteq> None"
    by (simp_all add: s_def s1 d2_def sqlite_SaveDomain_def upsert_domain_def)
  have g: "sqlite_GetDomain s ''a'' = Inr d1"
    by (simp add: s s1 d1_def sqlite_GetDomain_def sql_query_def sql_empty_def sqlite_domain_def)
  have "e = d1" if "sqlite_GetDomain s k = Inr e" "IsDefault e" for k e
    using sql_default_unique [of engine_ex s k e "''a''" d1] r that g by (simp add: d1_def)
  then show ?thesis using g s(2) by (auto simp: Let_def s_def s1_def d1_def d2_def)
qed

lemma map_of_sort_key: "gm_wf m \<Longrightarrow> map_of (sort_key fst m) = map_of m"
  by (rule map_of_inject_set [THEN iffD2]) (auto simp: gm_wf_def distinct_map inj_on_def)

lemma gm_get_fold_put:
  "distinct (map fst xs) \<Longrightarrow>
     gm_get (fold (\<lambda>(k, v). gm_put k v) xs acc) k = (case map_of xs k of None \<Rightarrow> gm_get acc k | Some v \<Rightarrow> Some v)"
  by (induction xs arbitrary: acc) (auto split: option.split dest!: map_of_SomeD intro: rev_image_eqI)

lemma json_meta_get:
  assumes "gm_wf m" and "\<forall>(k, v) \<in> set m. valid_utf8 k = k \<and> valid_utf8 v = v"
  shows "gm_get (json_meta m) = gm_get m"
proof -
  have "json_meta m = fold (\<lambda>(k, v). gm_put k v) (sort_key fst m) []"
    unfolding json_meta_def using assms(2) by (intro fold_cong) auto
  moreover have "distinct (map fst (sort_key fst m))"
    using assms(1) by (auto simp: gm_wf_def distinct_map inj_on_def)
  ultimately show ?thesis
    by (auto simp: fun_eq_iff gm_get_fold_put map_of_sort_key [OF assms(1)] split: option.split)
qed

lemma valid_utf8_ascii [simp]: "ascii s \<Longrightarrow> valid_utf8 s = s"
proof -
  have "ascii s \<Longrightarrow> concat (map encode_rune (map byte s)) = s"
    by (induction s) auto
  then show "ascii s \<Longrightarrow> valid_utf8 s = s" by (simp add: valid_utf8_def runes_ascii)
qed

text \<open>A user registered in the SQLite store is read back with the same type, the same key and
  the same metadata, provided the metadata is valid UTF-8; a second registration does not change
  the creation time.\<close>

theorem sqlite_user_roundtrip:
  assumes "sqlite_inv db" and "sqlite_SaveUser E now db u = (db', None)"
    and "gm_wf (Metadata u)" and "\<forall>(k, v) \<in> set (Metadata u). valid_utf8 k = k \<and> valid_utf8 v = v"
  shows "\<exists>u'. sqlite_GetUser db' (Email u) = Inr u' \<and> Email u' = Email u \<and> Type u' = Type u
           \<and> UserKeyB64 u' = UserKeyB64 u \<and> gm_get (Metadata u') = gm_get (Metadata u)
           \<and> (\<forall>e. sqlite_GetUser db (Email u) = Inr e \<longrightarrow> UserCreatedAt u' = UserCreatedAt e)"
proof -
  obtain c where up: "sql_up db" and db': "db' = upsert_user E c u db"
    using assms(2) by (auto simp: sqlite_SaveUser_def Let_def)
  show ?thesis
    using up by (auto simp: db' sqlite_GetUser_def upsert_user_def user_of_row_def sql_query_def sql_up_def
        json_meta_get [OF assms(3,4)] split: option.splits)
qed

lemma sqlite_user_roundtrip_witness:
  "(let u = \<lparr>Email = ''bob@x'', Type = ''agent'', UserKeyB64 = ''k'', Metadata = [(''skills'', ''web''), (''region'', ''eu'')], UserCreatedAt = 0\<rparr>;
        db' = fst (sqlite_SaveUser engine_ex 5 sql_empty u)
    in \<exists>u'. sqlite_GetUser db' ''bob@x'' = Inr u' \<and> gm_get (Metadata u') ''region'' = Some ''eu'')"
proof -
  define u where "u = \<lparr>Email = ''bob@x'', Type = ''agent'', UserKeyB64 = ''k'', Metadata = [(''skills'', ''web''), (''region'', ''eu'')], UserCreatedAt = 0\<rparr>"
  have s: "sqlite_SaveUser engine_ex 5 sql_empty u = (fst (sqlite_SaveUser engine_ex 5 sql_empty u), None)"
    by (simp add: sqlite_SaveUser_def sql_exec_def sql_empty_def)
  have w: "gm_wf (Metadata u)" "\<forall>(k, v) \<in> set (Metadata u). valid_utf8 k = k \<and> valid_utf8 v = v"
    by (simp_all add: u_def gm_wf_def)
  show ?thesis
    using sqlite_user_roundtrip [OF sql_inv_fresh s w] by (auto simp: Let_def u_def)
qed

lemma sqlite_SearchUsers_eq:
  assumes "sqlite_inv db" and "sql_up db"
  shows "sqlite_SearchUsers E db fs = Inr (map (\<lambda>(k, r). row_user k r)
           (sort_key fst (filter (\<lambda>(k, r). list_all (clause_holds E r) (search_clauses fs)) (t_users db))))"
proof -
  have nil: "fs = [] \<Longrightarrow> search_clauses fs = []" by (simp add: search_clauses_def)
  note read = sqd.users_read_back [OF assms(1), of _ "''sqlite''"]
  show ?thesis
  proof (cases "search_clauses fs = []")
    case True
    then have "sqlite_SearchUsers E db fs = sqlite_ListUsers db" by (simp add: sqlite_SearchUsers_def)
    moreover have "filter (\<lambda>(k, r). list_all (clause_holds E r) (search_clauses fs)) (t_users db) = t_users db"
      using True by (simp add: filter_id_conv)
    ultimately show ?thesis using assms(2) read by (simp add: sqlite_ListUsers_def sqlite_scanUsers_def)
  next
    case False
    then show ?thesis using assms(2) nil read by (auto simp: sqlite_SearchUsers_def sqlite_scanUsers_def Let_def)
  qed
qed

lemma in_search_clauses:
  "c \<in> set (search_clauses fs) \<longleftrightarrow>
     (\<exists>k v. (k, v) \<in> set fs \<and> c = (if k = ''type'' then TypeLike (''%'' @ v @ ''%'') else MetaLike k (''%'' @ v @ ''%''))
        \<and> (k = ''type'' \<or> IsValidMetaKey k))"
  by (auto simp: search_clauses_def split: if_splits)

text \<open>every user that the documented filter (\<open>UserMatchesFilters\<close>) accepts is returned by the
  SQLite search, if the user's metadata has the filtered keys. The engine is assumed to let
  \<open>LIKE '%v%'\<close> match every text that contains \<open>v\<close>.\<close>

theorem sqlite_search_complete:
  assumes like: "\<And>t v. contains t v \<Longrightarrow> eng_like E t (''%'' @ v @ ''%'')"
    and "sqlite_inv db" and "sql_up db" and "sqlite_GetUser db k = Inr u"
    and "UserMatchesFilters u fs" and "\<forall>(f, v) \<in> set fs. f = ''type'' \<or> gm_get (Metadata u) f \<noteq> None"
  shows "\<exists>us. sqlite_SearchUsers E db fs = Inr us \<and> u \<in> set us"
proof -
  obtain r where r: "gm_get (t_users db) k = Some r" "u = row_user k r" "r_metadata r = Some (Metadata u)"
    using assms(3,4) by (auto simp: sqlite_GetUser_def user_of_row_def row_user_def split: option.splits)
  have "clause_holds E r c" if c: "c \<in> set (search_clauses fs)" for c
  proof -
    obtain f v where f: "(f, v) \<in> set fs" "f = ''type'' \<or> IsValidMetaKey f"
      "c = (if f = ''type'' then TypeLike (''%'' @ v @ ''%'') else MetaLike f (''%'' @ v @ ''%''))"
      using c by (auto simp: in_search_clauses)
    have m: "if f = ''type'' then contains (Type u) v else contains (gm_str (Metadata u) f) v"
      using assms(5) f(1) by (auto simp: UserMatchesFilters_def list_all_iff)
    show ?thesis
    proof (cases "f = ''type''")
      case True
      then have "contains (r_type r) v" using m r(2) by (simp add: row_user_def)
      then show ?thesis using True f(3) like by (simp add: clause_holds_def)
    next
      case False
      then obtain w where w: "gm_get (Metadata u) f = Some w" using assms(6) f(1) by auto
      then have "contains w v" using m False by (simp add: gm_str_def)
      then have "eng_like E w (''%'' @ v @ ''%'')" by (rule like)
      then show ?thesis using False f(3) w r(3) by (simp add: clause_holds_def)
    qed
  qed
  then have "(k, r) \<in> set (filter (\<lambda>(k, r). list_all (clause_holds E r) (search_clauses fs)) (t_users db))"
    using r(1) by (auto simp: list_all_iff dest: map_of_SomeD)
  then show ?thesis
    unfolding sqlite_SearchUsers_eq [OF assms(2,3)] using r(2) by force
qed

definition db_ex :: "int sqldb" where
  "db_ex = sql_empty\<lparr>t_users := [(''a@x'', \<lparr>r_type = ''agent'', r_public_key = [], r_metadata = Some [(''skills'', ''web,img'')], r_created_at = 1\<rparr>),
     (''b@x'', \<lparr>r_type = ''human'', r_public_key = [], r_metadata = Some [], r_created_at = 1\<rparr>)]\<rparr>"

lemma db_ex_inv: "sqlite_inv db_ex"
  by (simp add: sql_inv_def db_ex_def sql_empty_def gm_wf_def awf_def sql_abs_def one_default_def row_user_def)

lemma sqlite_search_complete_witness:
  "\<exists>us u. sqlite_GetUser db_ex ''a@x'' = Inr u \<and> sqlite_SearchUsers engine_ex db_ex [(''skills'', ''img''), (''type'', ''ag'')] = Inr us \<and> u \<in> set us"
proof -
  define u where "u = \<lparr>Email = ''a@x'', Type = ''agent'', UserKeyB64 = [], Metadata = [(''skills'', ''web,img'')], UserCreatedAt = 1\<rparr>"
  have like: "contains t v \<Longrightarrow> eng_like engine_ex t (''%'' @ v @ ''%'')" for t v
    by (simp add: engine_ex_def)
  have up: "sql_up db_ex" by (simp add: db_ex_def sql_empty_def sql_up_def)
  have g: "sqlite_GetUser db_ex ''a@x'' = Inr u"
    by (simp add: sqlite_GetUser_def sql_query_def db_ex_def sql_empty_def user_of_row_def u_def)
  have m: "UserMatchesFilters u [(''skills'', ''img''), (''type'', ''ag'')]"
    by (simp add: UserMatchesFilters_def u_def gm_str_def)
  show ?thesis
    using sqlite_search_complete [OF like db_ex_inv up g m] g by (auto simp: u_def)
qed

text \<open>The SQLite search leaves out users whose metadata lacks a filtered key, even for the
  empty filter value, where the documented filter accepts every user.\<close>

theorem sqlite_search_missing_key:
  assumes "sqlite_inv db" and "sqlite_SearchUsers E db [(f, [])] = Inr us" and "IsValidMetaKey f" and "f \<noteq> ''type''"
    and "u \<in> set us"
  shows "gm_get (Metadata u) f \<noteq> None \<and> (\<forall>u'. UserMatchesFilters u' [(f, [])])"
proof -
  have up: "sql_up db"
    using assms(2) by (auto simp: sqlite_SearchUsers_def sqlite_ListUsers_def Let_def split: sum.splits if_splits)
  have c: "search_clauses [(f, [])] = [MetaLike f ''%%'']"
    using assms(3,4) by (simp add: search_clauses_def)
  then obtain k r where "(k, r) \<in> set (t_users db)" "clause_holds E r (MetaLike f ''%%'')" "u = row_user k r"
    using assms(2,5) by (auto simp: sqlite_SearchUsers_eq [OF assms(1) up])
  then have "gm_get (Metadata u) f \<noteq> None"
    by (auto simp: clause_holds_def row_user_def split: option.splits)
  then show ?thesis using assms(4) by (simp add: UserMatchesFilters_def)
qed

lemma sqlite_search_missing_key_witness:
  "\<exists>us u. sqlite_SearchUsers engine_ex db_ex [(''skills'', [])] = Inr us \<and> sqlite_GetUser db_ex ''b@x'' = Inr u \<and> u \<notin> set us
     \<and> UserMatchesFilters u [(''skills'', [])]"
proof -
  have up: "sql_up db_ex" by (simp add: db_ex_def sql_empty_def sql_up_def)
  obtain us where us: "sqlite_SearchUsers engine_ex db_ex [(''skills'', [])] = Inr us"
    using sqlite_SearchUsers_eq [OF db_ex_inv up] by blast
  define u where "u = \<lparr>Email = ''b@x'', Type = ''human'', UserKeyB64 = [], Metadata = [], UserCreatedAt = 1\<rparr>"
  have g: "sqlite_GetUser db_ex ''b@x'' = Inr u"
    by (simp add: sqlite_GetUser_def sql_query_def db_ex_def sql_empty_def user_of_row_def u_def)
  have v: "IsValidMetaKey ''skills''" by (simp add: IsValidMetaKey_iff meta_rune_def)
  have "u \<notin> set us"
    using sqlite_search_missing_key [OF db_ex_inv us v, of u] by (auto simp: u_def)
  then show ?thesis using us g by (auto simp: UserMatchesFilters_def gm_str_def u_def)
qed

end
