(* ===== verification/Registry.thy ===== *)
theory Registry
  imports Memstore Sqlstore
begin

text \<open>
  Routing: which node is responsible for a target (\<open>internal/registry\<close>). The Go interface
  \<open>registry.Registry\<close> is the record \<open>reg_ops\<close>; its implementations are the single-node registry
  over a store (\<open>registry/local\<close>), the cluster registry over Redis (\<open>registry/redis\<close>) and the
  relay's \<open>FallbackRegistry\<close>, which wraps another registry (\<open>internal/relay/registry.go\<close>, with
  the \<open>StaticResolver\<close>).

  The contract is the locale \<open>node_registry\<close>: a domain registered by a node is routed to that
  node, and registering one domain does not reroute another one. It is interpreted for the local
  registry over each store, and the fallback registry is shown to keep it. The Redis client is a
  parameter (\<open>redis_ops\<close>) with the documented behaviour of \<open>GET\<close> and \<open>SET\<close> as the hypothesis
  \<open>redis_sound\<close>.
\<close>

section \<open>Interface\<close>

definition EntityDomain :: string where "EntityDomain = ''domain''"
definition EntityUser :: string where "EntityUser = ''user''"

record Entity =
  EType :: string
  EName :: string
  EIsDefault :: bool
  EUserType :: string
  EMetadata :: strmap

record 'g reg_ops =
  reg_Lookup :: "gotime \<Rightarrow> 'g \<Rightarrow> string \<Rightarrow> string result"
  reg_Register :: "gotime \<Rightarrow> 'g \<Rightarrow> Entity \<Rightarrow> 'g \<times> error option"

definition domain_entity :: "string \<Rightarrow> bool \<Rightarrow> Entity" where
  "domain_entity n dflt = \<lparr>EType = EntityDomain, EName = n, EIsDefault = dflt, EUserType = '''', EMetadata = []\<rparr>"

lemma domain_entity_simps [simp]:
  "EType (domain_entity n d) = EntityDomain" "EName (domain_entity n d) = n" "EIsDefault (domain_entity n d) = d"
  by (simp_all add: domain_entity_def)

text \<open>The part of a target behind the first \<open>@\<close>, or the whole target.\<close>

definition domain_part :: "string \<Rightarrow> string" where
  "domain_part target = (case index_byte CHR ''@'' target of None \<Rightarrow> target | Some idx \<Rightarrow> drop (Suc idx) target)"

lemma domain_part_at [simp]: "CHR ''@'' \<notin> set u \<Longrightarrow> domain_part (u @ CHR ''@'' # n) = n"
  by (simp add: domain_part_def)

lemma domain_part_bare [simp]: "CHR ''@'' \<notin> set n \<Longrightarrow> domain_part n = n"
  by (simp add: domain_part_def split: option.split) (metis index_byte_None option.distinct(1))

lemma cut_domain_part: "cut CHR ''@'' t = Some (u, n) \<Longrightarrow> domain_part t = n"
  using cut_SomeD [of "CHR ''@''" t u n] by auto

section \<open>Local registry\<close>

definition local_Lookup :: "'s store_ops \<Rightarrow> gotime \<Rightarrow> 's \<Rightarrow> string \<Rightarrow> string result" where
  "local_Lookup S now s target =
     (let step1 = (if CHR ''@'' \<in> set target then
                     (case op_GetUser S s target of
                        Inl _ \<Rightarrow> None
                      | Inr _ \<Rightarrow>
                          (case cut CHR ''@'' target of
                             None \<Rightarrow> None
                           | Some (_, dn) \<Rightarrow>
                               (case op_GetDomain S s dn of Inl _ \<Rightarrow> None | Inr d \<Rightarrow> Some (NodeID d))))
                   else None)
      in case step1 of
           Some nid \<Rightarrow> Inr nid
         | None \<Rightarrow>
             (let domainName = domain_part target
              in case op_GetDomain S s domainName of
                   Inr d \<Rightarrow> Inr (NodeID d)
                 | Inl _ \<Rightarrow>
                     (case op_GetDefaultDomain S s of
                        Inl _ \<Rightarrow> Inl ErrRegistryNotFound
                      | Inr def \<Rightarrow> Inr (NodeID def))))"

definition local_Register :: "golib \<Rightarrow> 's store_ops \<Rightarrow> string \<Rightarrow> gotime \<Rightarrow> 's \<Rightarrow> Entity \<Rightarrow> 's \<times> error option" where
  "local_Register G S nid now s entity =
     (if EType entity = EntityDomain then
        op_SaveDomain S s \<lparr>Name = EName entity, NodeID = nid, IsDefault = EIsDefault entity\<rparr>
      else if EType entity = EntityUser then
        op_SaveUser S now s \<lparr>Email = EName entity, Type = EUserType entity, UserKeyB64 = '''', Metadata = EMetadata entity,
                              UserCreatedAt = now\<rparr>
      else (s, Some (EText (''registry: unsupported entity type '' @ quote G (EType entity)))))"

definition local_ops :: "golib \<Rightarrow> 's store_ops \<Rightarrow> string \<Rightarrow> 's reg_ops" where
  "local_ops G S nid = \<lparr>reg_Lookup = local_Lookup S, reg_Register = local_Register G S nid\<rparr>"

text \<open>The user step never changes the answer: the search is the domain, then the default domain.\<close>

lemma local_Lookup_two_tier:
  "local_Lookup S now s target =
     (case op_GetDomain S s (domain_part target) of
        Inr d \<Rightarrow> Inr (NodeID d)
      | Inl _ \<Rightarrow> (case op_GetDefaultDomain S s of Inl _ \<Rightarrow> Inl ErrRegistryNotFound | Inr d \<Rightarrow> Inr (NodeID d)))"
  by (auto simp: local_Lookup_def Let_def cut_domain_part split: sum.split option.split)

section \<open>Redis registry\<close>

datatype redis_reply = RNil | RErr error | RVal string

record 'r redis_ops =
  rd_Get :: "gotime \<Rightarrow> 'r \<Rightarrow> string \<Rightarrow> redis_reply"
  rd_Set :: "gotime \<Rightarrow> 'r \<Rightarrow> string \<Rightarrow> string \<Rightarrow> duration \<Rightarrow> 'r \<times> error option"

record routeEntry =
  re_NodeID :: string
  re_Address :: string

text \<open>The JSON encoding of a route entry is a pair of functions of the client record's user.\<close>

record route_codec =
  re_Marshal :: "routeEntry \<Rightarrow> string"
  re_Unmarshal :: "string \<Rightarrow> routeEntry result"

definition domainKeyPrefix :: string where "domainKeyPrefix = ''postbox:route:domain:''"
definition defaultDomainKey :: string where "defaultDomainKey = ''postbox:default_domain''"
definition nodeKeyPrefix :: string where "nodeKeyPrefix = ''postbox:node:''"
definition HeartbeatTTL :: duration where "HeartbeatTTL = 30 * second"

record redis_registry =
  rr_nodeID :: string
  rr_address :: string

definition getDomainRoute :: "'r redis_ops \<Rightarrow> route_codec \<Rightarrow> gotime \<Rightarrow> 'r \<Rightarrow> string \<Rightarrow> routeEntry result" where
  "getDomainRoute R J now r domain =
     (case rd_Get R now r (domainKeyPrefix @ domain) of
        RNil \<Rightarrow> Inl ErrRegistryNotFound
      | RErr e \<Rightarrow> Inl e
      | RVal data \<Rightarrow>
          (case re_Unmarshal J data of
             Inl e \<Rightarrow> Inl (EWrap ''redis registry: unmarshal domain route'' e)
           | Inr entry \<Rightarrow> Inr entry))"

definition redis_Lookup :: "'r redis_ops \<Rightarrow> route_codec \<Rightarrow> gotime \<Rightarrow> 'r \<Rightarrow> string \<Rightarrow> string result" where
  "redis_Lookup R J now r target =
     (let domain = domain_part target in
      case getDomainRoute R J now r domain of
        Inr entry \<Rightarrow> Inr (re_NodeID entry)
      | Inl _ \<Rightarrow>
          (case rd_Get R now r defaultDomainKey of
             RNil \<Rightarrow> Inl ErrRegistryNotFound
           | RErr _ \<Rightarrow> Inl ErrRegistryNotFound
           | RVal defaultName \<Rightarrow>
               if defaultName = domain then Inl ErrRegistryNotFound
               else (case getDomainRoute R J now r defaultName of
                       Inl _ \<Rightarrow> Inl ErrRegistryNotFound
                     | Inr entry \<Rightarrow> Inr (re_NodeID entry))))"

definition redis_Register ::
  "golib \<Rightarrow> 'r redis_ops \<Rightarrow> route_codec \<Rightarrow> 's store_ops \<Rightarrow> redis_registry \<Rightarrow> gotime \<Rightarrow> 'r \<times> 's \<Rightarrow> Entity \<Rightarrow> ('r \<times> 's) \<times> error option" where
  "redis_Register G R J S rr now rs entity =
     (let (r, s) = rs in
      if EType entity = EntityDomain then
        (let data = re_Marshal J \<lparr>re_NodeID = rr_nodeID rr, re_Address = rr_address rr\<rparr> in
         case rd_Set R now r (domainKeyPrefix @ EName entity) data 0 of
           (r1, Some e) \<Rightarrow> ((r1, s), Some (EWrap ''redis registry: set domain route'' e))
         | (r1, None) \<Rightarrow>
             (case (if EIsDefault entity then rd_Set R now r1 defaultDomainKey (EName entity) 0 else (r1, None)) of
                (r2, Some e) \<Rightarrow> ((r2, s), Some (EWrap ''redis registry: set default domain'' e))
              | (r2, None) \<Rightarrow>
                  (case op_SaveDomain S s \<lparr>Name = EName entity, NodeID = rr_nodeID rr, IsDefault = EIsDefault entity\<rparr> of
                     (s', e) \<Rightarrow> ((r2, s'), e))))
      else if EType entity = EntityUser then
        (case op_SaveUser S now s \<lparr>Email = EName entity, Type = EUserType entity, UserKeyB64 = '''',
                                    Metadata = EMetadata entity, UserCreatedAt = 0\<rparr> of
           (s', e) \<Rightarrow> ((r, s'), e))
      else (rs, Some (EText (''redis registry: unsupported entity type '' @ quote G (EType entity)))))"

definition redis_ResolveNode :: "golib \<Rightarrow> 'r redis_ops \<Rightarrow> redis_registry \<Rightarrow> gotime \<Rightarrow> 'r \<Rightarrow> string \<Rightarrow> string result" where
  "redis_ResolveNode G R rr now r nid =
     (if nid = rr_nodeID rr then Inr (rr_address rr)
      else (case rd_Get R now r (nodeKeyPrefix @ nid) of
              RNil \<Rightarrow> Inl ErrRegistryNotFound
            | RErr e \<Rightarrow> Inl (EWrap (''redis registry: resolve node '' @ quote G nid) e)
            | RVal addr \<Rightarrow> Inr addr))"

definition redis_Announce :: "'r redis_ops \<Rightarrow> redis_registry \<Rightarrow> gotime \<Rightarrow> 'r \<Rightarrow> 'r \<times> error option" where
  "redis_Announce R rr now r = rd_Set R now r (nodeKeyPrefix @ rr_nodeID rr) (rr_address rr) HeartbeatTTL"

definition redis_reg_ops ::
  "golib \<Rightarrow> 'r redis_ops \<Rightarrow> route_codec \<Rightarrow> 's store_ops \<Rightarrow> redis_registry \<Rightarrow> ('r \<times> 's) reg_ops" where
  "redis_reg_ops G R J S rr =
     \<lparr>reg_Lookup = (\<lambda>now rs. redis_Lookup R J now (fst rs)), reg_Register = redis_Register G R J S rr\<rparr>"

section \<open>Fallback registry and static resolver\<close>

record FallbackRegistry =
  relayNodeID :: string

definition fallback_Lookup :: "'g reg_ops \<Rightarrow> FallbackRegistry \<Rightarrow> gotime \<Rightarrow> 'g \<Rightarrow> string \<Rightarrow> string result" where
  "fallback_Lookup inner f now g target =
     (case reg_Lookup inner now g target of
        Inl e \<Rightarrow> if errors_Is e ErrRegistryNotFound then Inr (relayNodeID f) else Inl e
      | Inr nid \<Rightarrow> Inr nid)"

definition fallback_Register :: "'g reg_ops \<Rightarrow> gotime \<Rightarrow> 'g \<Rightarrow> Entity \<Rightarrow> 'g \<times> error option" where
  "fallback_Register inner now g entity = reg_Register inner now g entity"

definition fallback_ops :: "'g reg_ops \<Rightarrow> FallbackRegistry \<Rightarrow> 'g reg_ops" where
  "fallback_ops inner f = \<lparr>reg_Lookup = fallback_Lookup inner f, reg_Register = fallback_Register inner\<rparr>"

definition static_ResolveNode :: "strmap \<Rightarrow> (string \<Rightarrow> string result) option \<Rightarrow> string \<Rightarrow> string result" where
  "static_ResolveNode entries base nid =
     (case gm_get entries nid of
        Some addr \<Rightarrow> Inr addr
      | None \<Rightarrow> (case base of Some b \<Rightarrow> b nid | None \<Rightarrow> Inl ErrRegistryNotFound))"

section \<open>The contract of a registry\<close>

locale node_registry =
  fixes R :: "'g reg_ops" and inv :: "'g \<Rightarrow> bool" and me :: string
  assumes register_inv: "inv g \<Longrightarrow> reg_Register R now g e = (g', r) \<Longrightarrow> inv g'"
    and register_routes: "inv g \<Longrightarrow> reg_Register R now g (domain_entity n d) = (g', None)
      \<Longrightarrow> domain_part t = n \<Longrightarrow> reg_Lookup R later g' t = Inr me"
begin

text \<open>Every address at a domain is routed to the node that registered it, and so is the bare
  domain.\<close>

lemma register_routes_all:
  assumes "inv g" and "reg_Register R now g (domain_entity n d) = (g', None)" and "CHR ''@'' \<notin> set n" and "CHR ''@'' \<notin> set u"
  shows "reg_Lookup R later g' n = Inr me \<and> reg_Lookup R later g' (u @ CHR ''@'' # n) = Inr me"
  using register_routes [OF assms(1,2)] assms(3,4) by simp

text \<open>The fallback registry keeps the contract, and it never answers "not found".\<close>

lemma fallback_registry: "node_registry (fallback_ops R f) inv me"
proof (unfold_locales, goal_cases)
  case (1 g now e g' r)
  then show ?case using register_inv by (simp add: fallback_ops_def fallback_Register_def)
next
  case (2 g now n d g' t later)
  then have "reg_Lookup R later g' t = Inr me"
    using register_routes by (simp add: fallback_ops_def fallback_Register_def)
  then show ?case by (simp add: fallback_ops_def fallback_Lookup_def)
qed

end

lemma fallback_never_not_found:
  "fallback_Lookup inner f now g t = Inl e \<Longrightarrow> \<not> errors_Is e ErrRegistryNotFound"
  by (auto simp: fallback_Lookup_def split: sum.splits if_splits)

context node_store begin

lemma local_registry: "node_registry (local_ops G S nid) inv nid"
proof (unfold_locales, goal_cases)
  case (1 g now e g' r)
  then have "g' = g \<or> (\<exists>d. g' = fst (op_SaveDomain S g d)) \<or> (\<exists>u. g' = fst (op_SaveUser S now g u))"
    by (auto simp: local_ops_def local_Register_def split: if_splits) (metis fst_conv)+
  then show ?case using 1(1) save_domain_write save_user_write by blast
next
  case (2 g now n d g' t later)
  then have sv: "op_SaveDomain S g \<lparr>Name = n, NodeID = nid, IsDefault = d\<rparr> = (g', None)"
    by (simp add: local_ops_def local_Register_def domain_entity_def)
  have "op_GetDomain S g' n = Inr \<lparr>Name = n, NodeID = nid, IsDefault = d\<rparr>"
    using domain_roundtrip [OF 2(1) sv] by simp
  then show ?case using 2(3) by (simp add: local_ops_def local_Lookup_two_tier)
qed

end

interpretation lmem: node_registry "local_ops G mem_ops nid" mem_inv nid for G nid
  by (rule ms.local_registry)

interpretation lsql: node_registry "local_ops G (sqlite_ops E) nid" sqlite_inv nid for G E nid
  by (rule sq.local_registry)

interpretation lpg: node_registry "local_ops G (pg_ops E) nid" pg_inv nid for G E nid
  by (rule pg.local_registry)

interpretation fsql: node_registry "fallback_ops (local_ops G (sqlite_ops E) nid) f" sqlite_inv nid for G E nid f
  by (rule lsql.fallback_registry)

section \<open>Properties\<close>

text \<open>The local registry's documented three-tier search amounts to two tiers: the domain of the
  target, whatever is known of the user, and then the default domain; a failing store counts as
  "not found". The step that reads the user never changes the answer.\<close>

theorem local_lookup_two_tier:
  "local_Lookup S now s target =
     (case op_GetDomain S s (domain_part target) of
        Inr d \<Rightarrow> Inr (NodeID d)
      | Inl _ \<Rightarrow> (case op_GetDefaultDomain S s of Inl _ \<Rightarrow> Inl ErrRegistryNotFound | Inr d \<Rightarrow> Inr (NodeID d)))"
  by (rule local_Lookup_two_tier)

text \<open>Once a node has registered a domain with the local registry on the SQLite store, also
  through a fallback registry, every address of the domain and the domain itself are routed to
  this node, at any later time.\<close>

theorem registered_domain_routed:
  assumes "sqlite_inv s" and "local_Register G (sqlite_ops E) nid now s (domain_entity n d) = (s', None)"
    and "CHR ''@'' \<notin> set n" and "CHR ''@'' \<notin> set u"
  shows "local_Lookup (sqlite_ops E) t s' (u @ CHR ''@'' # n) = Inr nid \<and> local_Lookup (sqlite_ops E) t s' n = Inr nid
    \<and> fallback_Lookup (local_ops G (sqlite_ops E) nid) f t s' (u @ CHR ''@'' # n) = Inr nid"
proof -
  have "reg_Register (local_ops G (sqlite_ops E) nid) now s (domain_entity n d) = (s', None)"
    "reg_Register (fallback_ops (local_ops G (sqlite_ops E) nid) f) now s (domain_entity n d) = (s', None)"
    using assms(2) by (simp_all add: local_ops_def fallback_ops_def fallback_Register_def)
  then show ?thesis
    using lsql.register_routes_all [OF assms(1) _ assms(3,4)] fsql.register_routes_all [OF assms(1) _ assms(3,4)]
    by (simp add: local_ops_def fallback_ops_def)
qed

lemma registered_domain_routed_witness:
  "\<exists>s'. local_Register golib_ex (sqlite_ops engine_ex) ''n1'' 1 sql_empty (domain_entity ''x.org'' False) = (s', None)
     \<and> local_Lookup (sqlite_ops engine_ex) 2 s' ''bob@x.org'' = Inr ''n1''"
proof -
  obtain s' where r: "local_Register golib_ex (sqlite_ops engine_ex) ''n1'' 1 sql_empty (domain_entity ''x.org'' False) = (s', None)"
    by (simp add: local_Register_def domain_entity_def sqlite_ops_def sqlite_SaveDomain_def upsert_domain_def sql_exec_def
        sql_empty_def)
  show ?thesis
    using registered_domain_routed [OF sql_inv_fresh r, of "''bob''" 2] r by simp
qed

text \<open>The documented behaviour of the Redis commands used: \<open>kv t r k\<close> is the value of the key at
  time \<open>t\<close>. A value set with expiry 0 stays, one set with a positive expiry is there for that
  long, and other keys are left alone.\<close>

definition redis_sound :: "'r redis_ops \<Rightarrow> (gotime \<Rightarrow> 'r \<Rightarrow> string \<Rightarrow> string option) \<Rightarrow> bool" where
  "redis_sound R kv \<longleftrightarrow>
     (\<forall>t r k v. rd_Get R t r k = RVal v \<longrightarrow> kv t r k = Some v) \<and> (\<forall>t r k. rd_Get R t r k = RNil \<longrightarrow> kv t r k = None)
     \<and> (\<forall>now r k v ttl r'. rd_Set R now r k v ttl = (r', None) \<longrightarrow>
          (\<forall>t\<ge>now. kv t r' k = (if ttl = 0 \<or> t < now + ttl then Some v else None)) \<and> (\<forall>t k'. k' \<noteq> k \<longrightarrow> kv t r' k' = kv t r k'))"

lemma redis_get_kv:
  assumes "redis_sound R kv" and "\<And>k e. rd_Get R t r k \<noteq> RErr e"
  shows "rd_Get R t r k = (case kv t r k of None \<Rightarrow> RNil | Some v \<Rightarrow> RVal v)"
proof (cases "rd_Get R t r k")
  case RNil
  then have "kv t r k = None" using assms(1) unfolding redis_sound_def by blast
  then show ?thesis using RNil by simp
next
  case (RErr e)
  then show ?thesis using assms(2) by blast
next
  case (RVal v)
  then have "kv t r k = Some v" using assms(1) unfolding redis_sound_def by blast
  then show ?thesis using RVal by simp
qed

lemma redis_set_kv:
  assumes "redis_sound R kv" and "rd_Set R now r k v ttl = (r', None)" and "now \<le> t"
  shows "kv t r' k' = (if k' = k then if ttl = 0 \<or> t < now + ttl then Some v else None else kv t r k')"
  using assms unfolding redis_sound_def by auto

lemma redis_register_routes:
  assumes "redis_sound R kv" and "\<And>e. re_Unmarshal J (re_Marshal J e) = Inr e"
    and "redis_Register G R J S rr now (r, s) (domain_entity n d) = ((r', s'), None)"
    and "domain_part target = n" and "now \<le> t" and "\<And>k e. rd_Get R t r' k \<noteq> RErr e"
  shows "redis_Lookup R J t r' target = Inr (rr_nodeID rr)"
proof -
  define key where "key = domainKeyPrefix @ n"
  define v where "v = re_Marshal J \<lparr>re_NodeID = rr_nodeID rr, re_Address = rr_address rr\<rparr>"
  have reg: "redis_Register G R J S rr now (r, s) (domain_entity n d) =
      (case rd_Set R now r key v 0 of
         (r1, Some e) \<Rightarrow> ((r1, s), Some (EWrap ''redis registry: set domain route'' e))
       | (r1, None) \<Rightarrow>
           (case (if d then rd_Set R now r1 defaultDomainKey n 0 else (r1, None)) of
              (r2, Some e) \<Rightarrow> ((r2, s), Some (EWrap ''redis registry: set default domain'' e))
            | (r2, None) \<Rightarrow>
                (case op_SaveDomain S s \<lparr>Name = n, NodeID = rr_nodeID rr, IsDefault = d\<rparr> of (s', e) \<Rightarrow> ((r2, s'), e))))"
    by (simp add: redis_Register_def key_def v_def Let_def split: prod.split option.split)
  obtain r1 e1 where a: "rd_Set R now r key v 0 = (r1, e1)" by fastforce
  have e1: "e1 = None" using assms(3) unfolding reg a by (cases e1) simp_all
  obtain q1 q2 where q: "(if d then rd_Set R now r1 defaultDomainKey n 0 else (r1, None)) = (q1, q2)" by fastforce
  obtain s1 e2 where sv: "op_SaveDomain S s \<lparr>Name = n, NodeID = rr_nodeID rr, IsDefault = d\<rparr> = (s1, e2)" by fastforce
  have "q2 = None \<and> q1 = r'"
    using assms(3) unfolding reg a e1 prod.case option.case q sv by (cases q2) simp_all
  then have r1: "rd_Set R now r key v 0 = (r1, None)" "d \<Longrightarrow> rd_Set R now r1 defaultDomainKey n 0 = (r', None)"
      "\<not> d \<Longrightarrow> r' = r1"
    using a e1 q by simp_all
  have "key \<noteq> defaultDomainKey" by (simp add: key_def domainKeyPrefix_def defaultDomainKey_def)
  have set: "kv t r2 k = Some w" "k' \<noteq> k \<Longrightarrow> kv t r2 k' = kv t q k'" if "rd_Set R now q k w 0 = (r2, None)" for q k w r2 k'
    using assms(1,5) that unfolding redis_sound_def by auto
  have kv: "kv t r' key = Some v"
  proof (cases d)
    case True
    then show ?thesis using set(2) [OF r1(2)] set(1) [OF r1(1)] \<open>key \<noteq> defaultDomainKey\<close> by simp
  next
    case False
    then show ?thesis using set(1) [OF r1(1)] r1(3) by simp
  qed
  have "rd_Get R t r' key = RVal v" using redis_get_kv [OF assms(1,6)] kv by simp
  then have "getDomainRoute R J t r' n = Inr \<lparr>re_NodeID = rr_nodeID rr, re_Address = rr_address rr\<rparr>"
    using assms(2) by (simp add: getDomainRoute_def key_def v_def)
  then show ?thesis by (simp add: redis_Lookup_def assms(4) Let_def)
qed


text \<open>The heartbeat. After \<open>Announce\<close> the node's address is resolvable by its peers for exactly
  \<open>HeartbeatTTL\<close> (30 seconds) and not afterwards, unless it is announced again; the node itself
  resolves without Redis.\<close>

theorem redis_heartbeat:
  assumes "redis_sound R kv" and "redis_Announce R rr now r = (r', None)" and "now \<le> t"
    and "\<And>k e. rd_Get R t r' k \<noteq> RErr e" and "rr_nodeID peer \<noteq> rr_nodeID rr"
  shows "redis_ResolveNode G R peer t r' (rr_nodeID rr) =
      (if t < now + 30 * second then Inr (rr_address rr) else Inl ErrRegistryNotFound)
    \<and> redis_ResolveNode G R rr t r' (rr_nodeID rr) = Inr (rr_address rr)"
proof -
  let ?k = "nodeKeyPrefix @ rr_nodeID rr"
  have kv: "kv t r' ?k = (if t < now + 30 * second then Some (rr_address rr) else None)"
    using redis_set_kv [OF assms(1) assms(2) [unfolded redis_Announce_def] assms(3)] by (simp add: HeartbeatTTL_def)
  have "rd_Get R t r' ?k = (if t < now + 30 * second then RVal (rr_address rr) else RNil)"
    using redis_get_kv [OF assms(1,4)] kv by simp
  then show ?thesis using assms(5) by (simp add: redis_ResolveNode_def)
qed

text \<open>A concrete key-value client: values with an optional expiry instant.\<close>

definition kv_ops :: "(string, string \<times> gotime option) gomap redis_ops" where
  "kv_ops = \<lparr>rd_Get = (\<lambda>t r k. case gm_get r k of None \<Rightarrow> RNil
       | Some (v, x) \<Rightarrow> (case x of None \<Rightarrow> RVal v | Some e \<Rightarrow> if t < e then RVal v else RNil)),
     rd_Set = (\<lambda>now r k v ttl. (gm_put k (v, if ttl = 0 then None else Some (now + ttl)) r, None))\<rparr>"

definition kv_val :: "gotime \<Rightarrow> (string, string \<times> gotime option) gomap \<Rightarrow> string \<Rightarrow> string option" where
  "kv_val t r k = (case gm_get r k of None \<Rightarrow> None | Some (v, x) \<Rightarrow> (case x of None \<Rightarrow> Some v | Some e \<Rightarrow> if t < e then Some v else None))"

lemma kv_sound: "redis_sound kv_ops kv_val"
  by (auto simp: redis_sound_def kv_ops_def kv_val_def split: option.splits if_splits)

lemma kv_no_err: "rd_Get kv_ops t r k \<noteq> RErr e"
  by (simp add: kv_ops_def split: option.split prod.split)

definition codec_ex :: route_codec where
  "codec_ex = \<lparr>re_Marshal = (\<lambda>e. replicate (length (re_NodeID e)) CHR ''x'' @ CHR '':'' # re_NodeID e @ re_Address e),
     re_Unmarshal = (\<lambda>s. case cut CHR '':'' s of None \<Rightarrow> Inl (EText ''json'')
        | Some (a, b) \<Rightarrow> Inr \<lparr>re_NodeID = take (length a) b, re_Address = drop (length a) b\<rparr>)\<rparr>"

lemma codec_ex_law: "re_Unmarshal codec_ex (re_Marshal codec_ex e) = Inr e"
  by (simp add: codec_ex_def)


lemma redis_heartbeat_witness:
  "\<exists>r'. redis_Announce kv_ops \<lparr>rr_nodeID = ''n1'', rr_address = ''h:1''\<rparr> 0 [] = (r', None)
     \<and> redis_ResolveNode golib_ex kv_ops \<lparr>rr_nodeID = ''n2'', rr_address = ''h:2''\<rparr> (29 * second) r' ''n1'' = Inr ''h:1''
     \<and> redis_ResolveNode golib_ex kv_ops \<lparr>rr_nodeID = ''n2'', rr_address = ''h:2''\<rparr> (31 * second) r' ''n1'' = Inl ErrRegistryNotFound"
proof -
  obtain r' where a: "redis_Announce kv_ops \<lparr>rr_nodeID = ''n1'', rr_address = ''h:1''\<rparr> 0 [] = (r', None)"
    by (simp add: redis_Announce_def kv_ops_def)
  show ?thesis
    using redis_heartbeat [OF kv_sound a _ kv_no_err, of "29 * second" "\<lparr>rr_nodeID = ''n2'', rr_address = ''h:2''\<rparr>" golib_ex]
      redis_heartbeat [OF kv_sound a _ kv_no_err, of "31 * second" "\<lparr>rr_nodeID = ''n2'', rr_address = ''h:2''\<rparr>" golib_ex] a
    by simp
qed

end
