(* ===== verification/Plugin.thy ===== *)
theory Plugin
  imports Complex_Main Go_Strings
begin

text \<open>
  What the mail plugins share (\<open>internal/plugin/plugin.go\<close>): the draft a plugin inspects, the
  rejection error and the set of lower-cased strings built by \<open>toSet\<close>.

  The contract of a \<open>mailbox.SendHook\<close> in this package is the locale \<open>send_hook\<close>: \<open>BeforeSend\<close>
  either passes the draft or returns a rejection labelled with the plugin's name, and it keeps the
  plugin's state well formed. Every plugin theory interprets it.
\<close>

section \<open>Drafts\<close>

type_synonym int64 = "64 word"

record attachment =
  GetFilename :: string
  GetContentType :: string
  GetSize :: int64
  GetID :: string
  GetURI :: string

record draft =
  GetSenderID :: string
  GetRecipientIDs :: "string list"
  GetSubject :: string
  GetBody :: string
  GetHeaders :: strmap
  GetAttachments :: "attachment list"

section \<open>Rate limiters\<close>

text \<open>The limiter of \<open>golang.org/x/time/rate\<close>, a parameter of the components that use it; rates are
  reals.\<close>

record 'l limiter_ops =
  NewLimiter :: "real \<Rightarrow> int \<Rightarrow> 'l"
  Allow :: "gotime \<Rightarrow> 'l \<Rightarrow> 'l \<times> bool"

section \<open>Rejections\<close>

definition reject :: "string \<Rightarrow> string \<Rightarrow> error" where
  "reject pluginName reason = ERejection pluginName reason"

lemma reject_Is [simp]: "errors_Is (reject p r) ErrRejected"
  by (simp add: reject_def)

lemma reject_text: "error_text (reject p r) = ''['' @ p @ ''] '' @ r"
  by (simp add: reject_def)

definition rejected_by :: "string \<Rightarrow> error option \<Rightarrow> bool" where
  "rejected_by name r \<longleftrightarrow> (case r of None \<Rightarrow> False | Some e \<Rightarrow> \<exists>reason. e = reject name reason)"

lemma rejected_by_simps [simp]:
  "\<not> rejected_by n None" "rejected_by n (Some (reject n reason))"
  by (auto simp: rejected_by_def)

lemma rejected_by_Is: "rejected_by n (Some e) \<Longrightarrow> errors_Is e ErrRejected"
  by (auto simp: rejected_by_def)

section \<open>Sets of lower-cased strings\<close>

type_synonym strset = "(string, unit) gomap"

definition in_set :: "string \<Rightarrow> strset \<Rightarrow> bool" where
  "in_set k m \<longleftrightarrow> (case gm_get m k of None \<Rightarrow> False | Some _ \<Rightarrow> True)"

lemma in_set_simps [simp]: "\<not> in_set k []" "in_set k (gm_put k' v m) \<longleftrightarrow> k = k' \<or> in_set k m"
  by (auto simp: in_set_def)

definition add_lower :: "golib \<Rightarrow> string \<Rightarrow> strset \<Rightarrow> strset" where
  "add_lower G s m = gm_put (to_lower G s) () m"

definition toSet :: "golib \<Rightarrow> string list \<Rightarrow> strset" where
  "toSet G ss = (if ss = [] then [] else fold (add_lower G) ss [])"

lemma in_fold_add_lower:
  "in_set k (fold (add_lower G) ss m) \<longleftrightarrow> k \<in> to_lower G ` set ss \<or> in_set k m"
  by (induction ss arbitrary: m) (auto simp: add_lower_def)

lemma in_toSet [simp]: "in_set k (toSet G ss) \<longleftrightarrow> k \<in> to_lower G ` set ss"
  by (auto simp: toSet_def in_fold_add_lower)

lemma toSet_Nil_iff [simp]: "toSet G ss = [] \<longleftrightarrow> ss = []"
proof
  assume e: "toSet G ss = []"
  show "ss = []"
  proof (rule ccontr)
    assume "ss \<noteq> []"
    then have "in_set (to_lower G (hd ss)) (toSet G ss)" by simp
    then show False unfolding e by (simp only: in_set_simps)
  qed
qed (simp add: toSet_def)

section \<open>The contract of a send hook\<close>

locale send_hook =
  fixes before :: "gotime \<Rightarrow> 'p \<Rightarrow> draft \<Rightarrow> 'p \<times> error option"
    and inv :: "'p \<Rightarrow> bool" and name :: "'p \<Rightarrow> string"
  assumes before_inv: "inv p \<Longrightarrow> before now p d = (p', r) \<Longrightarrow> inv p' \<and> name p' = name p"
    and before_rejects: "inv p \<Longrightarrow> before now p d = (p', Some e) \<Longrightarrow> rejected_by (name p) (Some e)"
begin

text \<open>A hook never fails with anything but a rejection, over any sequence of messages.\<close>

primrec run :: "'p \<Rightarrow> (gotime \<times> draft) list \<Rightarrow> 'p \<times> error option list" where
  "run p [] = (p, [])"
| "run p (td # tds) =
     (let (p1, r) = before (fst td) p (snd td); (p2, rs) = run p1 tds in (p2, r # rs))"

lemma run_only_rejections:
  "inv p \<Longrightarrow> run p tds = (p', rs) \<Longrightarrow>
     inv p' \<and> name p' = name p \<and> length rs = length tds \<and> (\<forall>e. Some e \<in> set rs \<longrightarrow> errors_Is e ErrRejected)"
proof (induction tds arbitrary: p p' rs)
  case (Cons td tds)
  obtain p1 r where b: "before (fst td) p (snd td) = (p1, r)" by fastforce
  obtain p2 rs2 where t: "run p1 tds = (p2, rs2)" by fastforce
  have p1: "inv p1" "name p1 = name p" using before_inv [OF Cons.prems(1) b] by auto
  have "r = Some e \<Longrightarrow> errors_Is e ErrRejected" for e
    using before_rejects [OF Cons.prems(1)] b rejected_by_Is by blast
  then show ?case
    using Cons.IH [OF p1(1) t] p1 Cons.prems(2) b t by auto
qed simp

end

end
