(* ===== verification/Smtp_Session.thy ===== *)
theory Smtp_Session
  imports Plugin
begin

text \<open>
  One SMTP or LMTP session (\<open>internal/smtp/server.go\<close>, \<open>internal/smtp/lmtp.go\<close>): AUTH, MAIL, RCPT,
  DATA and RSET, and the header sanitisers.

  What a session calls is the record \<open>smtp_env\<close>: the user resolver, the optional password validator,
  the optional thread resolver, the mail parser, SPF and DKIM verification and the mailbox service.
  Every command has its own environment, so that users and passwords may change during a session.
  The optional \<open>AuthFailureHook\<close> is a record of operations on a state of its own.

  The order in which the \<open>go-smtp\<close> library calls a session is the function \<open>smtp_step\<close>: RCPT only
  after an accepted MAIL, DATA only after an accepted RCPT, and a reset after DATA.
\<close>

section \<open>Sanitisers\<close>

definition write_runes :: "(rune \<Rightarrow> bool) \<Rightarrow> string \<Rightarrow> string" where
  "write_runes keep s = concat (map encode_rune (filter keep (runes s)))"

definition sanitiseHeaderValue :: "string \<Rightarrow> nat \<Rightarrow> string" where
  "sanitiseHeaderValue s maxBytes =
     (let out = write_runes (\<lambda>r. r = 9 \<or> 32 \<le> r \<and> r \<noteq> 127) s
      in if maxBytes < length out then take maxBytes out else out)"

definition sanitiseMessageID :: "string \<Rightarrow> nat \<Rightarrow> string" where
  "sanitiseMessageID s maxBytes =
     (let out = write_runes (\<lambda>r. 33 \<le> r \<and> r \<le> 126) s
      in if maxBytes < length out then take maxBytes out else out)"

definition header_byte :: "char \<Rightarrow> bool" where
  "header_byte c \<longleftrightarrow> byte c = 9 \<or> 32 \<le> byte c \<and> byte c \<noteq> 127"

definition id_byte :: "char \<Rightarrow> bool" where
  "id_byte c \<longleftrightarrow> 33 \<le> byte c \<and> byte c \<le> 126"

lemma sanitiseHeaderValue_bytes:
  "length (sanitiseHeaderValue s n) \<le> n \<and> list_all header_byte (sanitiseHeaderValue s n)"
proof -
  have enc: "header_byte c" if "c \<in> set (encode_rune r)" "r = 9 \<or> 32 \<le> r \<and> r \<noteq> 127" for c r
  proof (cases "r < 128")
    case True
    then show ?thesis using that by (auto simp: header_byte_def)
  next
    case False
    then have "128 \<le> byte c" using encode_rune_non_ascii [of r c] that(1) by simp
    then show ?thesis by (simp add: header_byte_def)
  qed
  have "list_all header_byte (write_runes (\<lambda>r. r = 9 \<or> 32 \<le> r \<and> r \<noteq> 127) s)"
    using enc by (auto simp: write_runes_def list_all_iff)
  then show ?thesis by (auto simp: sanitiseHeaderValue_def Let_def list_all_iff dest: in_set_takeD)
qed

lemma write_runes_id:
  "list_all id_byte (write_runes (\<lambda>r. 33 \<le> r \<and> r \<le> 126) s)"
  by (auto simp: write_runes_def list_all_iff id_byte_def)

lemma sanitiseMessageID_bytes:
  "length (sanitiseMessageID s n) \<le> n \<and> list_all id_byte (sanitiseMessageID s n)"
  using write_runes_id [of s] by (auto simp: sanitiseMessageID_def Let_def list_all_iff dest: in_set_takeD)

text \<open>A clean value is left as it is, so the sanitiser is idempotent on message IDs.\<close>

lemma write_runes_clean: "list_all id_byte s \<Longrightarrow> write_runes (\<lambda>r. 33 \<le> r \<and> r \<le> 126) s = s"
proof -
  assume s: "list_all id_byte s"
  then have "ascii s" by (auto simp: list_all_iff ascii_def id_byte_def)
  moreover have "filter (\<lambda>r. 33 \<le> r \<and> r \<le> 126) (map byte s) = map byte s"
    using s by (auto simp: list_all_iff id_byte_def filter_id_conv)
  moreover have "concat (map encode_rune (map byte s)) = s"
    using s by (induction s) (auto simp: id_byte_def)
  ultimately show ?thesis by (simp add: write_runes_def runes_ascii)
qed

lemma sanitiseMessageID_idem: "sanitiseMessageID (sanitiseMessageID s n) n = sanitiseMessageID s n"
  using write_runes_clean [of "sanitiseMessageID s n"] sanitiseMessageID_bytes [of s n]
  unfolding sanitiseMessageID_def [of "sanitiseMessageID s n"] by (simp add: Let_def)

section \<open>Environment\<close>

record SendRequest =
  sr_RecipientIDs :: "string list"
  sr_Subject :: string
  sr_Body :: string
  sr_ExternalID :: string
  sr_Headers :: strmap
  sr_ReplyToID :: string

text \<open>A parsed message: the value of a header field, and the body or the error of reading it.\<close>

record parsed =
  hdr_Get :: "string \<Rightarrow> string"
  msg_Body :: "string result"

record 'm smtp_env =
  users :: "(string \<Rightarrow> error option) option"
  validator :: "(string \<Rightarrow> string \<Rightarrow> error option) option"
  threads :: "(string \<Rightarrow> string \<Rightarrow> string result) option"
  ReadMessage :: "string \<Rightarrow> parsed result"
  CheckHostWithSender :: "ipaddr \<Rightarrow> string \<Rightarrow> string \<Rightarrow> string"
  dkim_Verify :: "string \<Rightarrow> (string \<times> error option) list option"
  SendMessage :: "'m \<Rightarrow> string \<Rightarrow> SendRequest \<Rightarrow> 'm \<times> error option"

record 'h auth_hook =
  hk_RecordAuthFailure :: "gotime \<Rightarrow> 'h \<Rightarrow> string \<Rightarrow> 'h \<times> bool"
  hk_IsLockedOut :: "gotime \<Rightarrow> 'h \<Rightarrow> string \<Rightarrow> bool"

text \<open>The settings of the server that a session reads.\<close>

record session_cfg =
  RelayEnabled :: bool
  MaxAuthFailuresPerSession :: int
  CheckSPF :: bool
  VerifyDKIM :: bool

record session =
  remoteAddr :: string
  authedUser :: string
  s_from :: string
  s_to :: "string list"
  authFailures :: int
  spfResult :: string

definition em_dash :: string where
  "em_dash = map char_of [226 :: nat, 128, 148]"

definition smtp_senderDomain :: "golib \<Rightarrow> string \<Rightarrow> string" where
  "smtp_senderDomain G email =
     (case last_index_byte CHR ''@'' email of Some i \<Rightarrow> to_lower G (drop (Suc i) email) | None \<Rightarrow> '''')"

definition extractAddr :: "golib \<Rightarrow> string \<Rightarrow> string" where
  "extractAddr G header = (case mail_ParseAddress G header of None \<Rightarrow> header | Some address \<Rightarrow> address)"

section \<open>Commands\<close>

definition sasl_Plain :: string where "sasl_Plain = ''PLAIN''"

definition Auth :: "session_cfg \<Rightarrow> 'h auth_hook option \<Rightarrow> 'm smtp_env \<Rightarrow> gotime \<Rightarrow> 'h \<Rightarrow> session \<Rightarrow> string \<Rightarrow> error option" where
  "Auth cfg H E now h s mech =
     (if mech \<noteq> sasl_Plain then Some ErrAuthUnknownMechanism
      else if users E = None then Some ErrAuthRequired
      else if (case H of None \<Rightarrow> False | Some hk \<Rightarrow> hk_IsLockedOut hk now h (remoteAddr s)) then
        Some (ESMTP 421 (4, 7, 0) (''Too many authentication failures '' @ em_dash @ '' try again later''))
      else None)"

definition authFailed ::
  "session_cfg \<Rightarrow> 'h auth_hook option \<Rightarrow> gotime \<Rightarrow> 'h \<times> session \<Rightarrow> ('h \<times> session) \<times> error" where
  "authFailed cfg H now st =
     (let (h, s) = st;
          s1 = s\<lparr>authFailures := authFailures s + 1\<rparr>;
          h1 = (case H of None \<Rightarrow> h | Some hk \<Rightarrow> fst (hk_RecordAuthFailure hk now h (remoteAddr s)))
      in ((h1, s1),
          if 0 < MaxAuthFailuresPerSession cfg \<and> MaxAuthFailuresPerSession cfg \<le> authFailures s1
          then ESMTP 421 (4, 7, 0) (''Too many authentication failures '' @ em_dash @ '' connection closing'')
          else ErrAuthRequired))"

text \<open>The callback of the PLAIN server, with the client's response.\<close>

definition plain_response ::
  "session_cfg \<Rightarrow> 'h auth_hook option \<Rightarrow> 'm smtp_env \<Rightarrow> gotime \<Rightarrow> 'h \<times> session \<Rightarrow> string \<Rightarrow> string \<Rightarrow> string \<Rightarrow> ('h \<times> session) \<times> error option" where
  "plain_response cfg H E now st identity username password =
     (let email = (if identity \<noteq> '''' then identity else username);
          failed = (case authFailed cfg H now st of (st', e) \<Rightarrow> (st', Some e))
      in case users E of
           None \<Rightarrow> failed
         | Some resolve \<Rightarrow>
             (case resolve email of
                Some e \<Rightarrow> failed
              | None \<Rightarrow>
                  (case (case validator E of None \<Rightarrow> None | Some val \<Rightarrow> val email password) of
                     Some e \<Rightarrow> failed
                   | None \<Rightarrow> ((fst st, (snd st)\<lparr>authedUser := email\<rparr>), None))))"

definition Mail :: "golib \<Rightarrow> session_cfg \<Rightarrow> 'm smtp_env \<Rightarrow> session \<Rightarrow> string \<Rightarrow> session \<times> error option" where
  "Mail G cfg E s frm =
     (if users E \<noteq> None \<and> authedUser s = '''' then
        (s, Some (ESMTP 530 (5, 7, 0) ''Authentication required''))
      else if authedUser s \<noteq> '''' \<and> \<not> equal_fold G (extractAddr G frm) (authedUser s) then
        (s, Some (ESMTP 553 (5, 7, 1) ''Sender address does not match authenticated user''))
      else
        (let s1 = (if CheckSPF cfg \<and> remoteAddr s \<noteq> '''' then
                     (case split_host_port (remoteAddr s) of
                        None \<Rightarrow> s
                      | Some (ipStr, _) \<Rightarrow>
                          (case net_ParseIP G ipStr of
                             None \<Rightarrow> s
                           | Some ip \<Rightarrow> s\<lparr>spfResult :=
                               CheckHostWithSender E ip (smtp_senderDomain G (extractAddr G frm)) (extractAddr G frm)\<rparr>))
                   else s)
         in (s1\<lparr>s_from := frm\<rparr>, None)))"

definition Rcpt :: "golib \<Rightarrow> session_cfg \<Rightarrow> 'm smtp_env \<Rightarrow> session \<Rightarrow> string \<Rightarrow> session \<times> error option" where
  "Rcpt G cfg E s t =
     (if (case users E of None \<Rightarrow> False | Some resolve \<Rightarrow> \<not> RelayEnabled cfg \<and> resolve (extractAddr G t) \<noteq> None) then
        (s, Some (ESMTP 550 (5, 1, 1) ''Recipient not found''))
      else (s\<lparr>s_to := s_to s @ [t]\<rparr>, None))"

definition internalHeaders :: "string list" where
  "internalHeaders = [''X-SMTP-Envelope-From'', ''X-SMTP-Remote-Addr'', ''X-SPF-Result'', ''X-DKIM-Result'', ''X-DKIM-Domain'']"

definition bodyReadCap :: nat where "bodyReadCap = 20 * 2 ^ 20"

text \<open>The result of DKIM verification: \<open>allPass\<close> and the first domain whose signature verified.\<close>

definition dkim_summary :: "(string \<times> error option) list option \<Rightarrow> string \<times> string" where
  "dkim_summary vs =
     (case vs of
        None \<Rightarrow> (''none'', '''')
      | Some l \<Rightarrow>
          if l = [] then (''none'', '''')
          else (if list_all (\<lambda>(_, e). e = None) l then ''pass'' else ''fail'',
                foldl (\<lambda>dmn (d, e). if e \<noteq> None then dmn else if dmn = '''' then d else dmn) '''' l))"

definition read_body :: "parsed \<Rightarrow> string \<Rightarrow> string result" where
  "read_body msg pkg =
     (case msg_Body msg of
        Inl e \<Rightarrow> Inl (EWrap (pkg @ '': read body'') e)
      | Inr full \<Rightarrow>
          (let body = take bodyReadCap full in
           if bodyReadCap \<le> length body then Inl (ESMTP 552 (5, 3, 4) ''Message body too large'') else Inr body))"

definition reply_to :: "'m smtp_env \<Rightarrow> string list \<Rightarrow> string \<Rightarrow> string" where
  "reply_to E rcpts inReplyTo =
     (case (threads E, rcpts) of
        (Some resolve, r # _) \<Rightarrow>
          if inReplyTo \<noteq> '''' then (case resolve r inReplyTo of Inl _ \<Rightarrow> '''' | Inr parentID \<Rightarrow> parentID) else ''''
      | _ \<Rightarrow> '''')"

text \<open>The request that \<open>Data\<close> builds, with the sender it uses, or the error.\<close>

definition build_request :: "golib \<Rightarrow> session_cfg \<Rightarrow> 'm smtp_env \<Rightarrow> session \<Rightarrow> string \<Rightarrow> (string \<times> SendRequest) result" where
  "build_request G cfg E s raw =
     (case ReadMessage E raw of
        Inl e \<Rightarrow> Inl (EWrap ''smtp: parse message'' e)
      | Inr msg \<Rightarrow>
          (case read_body msg ''smtp'' of
             Inl e \<Rightarrow> Inl e
           | Inr body \<Rightarrow>
               (let (dkimResult, dkimDomain) = (if VerifyDKIM cfg \<and> raw \<noteq> '''' then dkim_summary (dkim_Verify E raw) else (''none'', ''''));
                    subject = sanitiseHeaderValue (hdr_Get msg ''Subject'') 998;
                    smtpMessageID = sanitiseMessageID (hdr_Get msg ''Message-ID'') 995;
                    inReplyTo = sanitiseMessageID (hdr_Get msg ''In-Reply-To'') 995;
                    frm1 = (if authedUser s = '''' then s_from s else authedUser s);
                    frm = (if frm1 = '''' then extractAddr G (hdr_Get msg ''From'') else frm1)
                in Inr (frm,
                     \<lparr>sr_RecipientIDs = s_to s, sr_Subject = subject,
                      sr_Body = trim_right [char_of (13 :: nat), char_of (10 :: nat)] body,
                      sr_ExternalID = smtpMessageID,
                      sr_Headers = [(''X-SMTP-Envelope-From'', s_from s), (''X-SMTP-Remote-Addr'', remoteAddr s),
                                    (''X-SPF-Result'', spfResult s), (''X-DKIM-Result'', dkimResult), (''X-DKIM-Domain'', dkimDomain)],
                      sr_ReplyToID = reply_to E (s_to s) inReplyTo\<rparr>))))"

definition Data :: "golib \<Rightarrow> session_cfg \<Rightarrow> 'm smtp_env \<Rightarrow> 'm \<Rightarrow> session \<Rightarrow> string \<Rightarrow> 'm \<times> error option" where
  "Data G cfg E m s raw =
     (case build_request G cfg E s raw of
        Inl e \<Rightarrow> (m, Some e)
      | Inr (frm, req) \<Rightarrow> SendMessage E m frm req)"

definition Reset :: "session \<Rightarrow> session" where
  "Reset s = s\<lparr>s_from := '''', s_to := []\<rparr>"

section \<open>LMTP sessions\<close>

record lmtpSession =
  lm_remoteAddr :: string
  lm_from :: string
  lm_to :: "string list"

definition lmtp_Mail :: "lmtpSession \<Rightarrow> string \<Rightarrow> lmtpSession" where
  "lmtp_Mail s frm = s\<lparr>lm_from := frm\<rparr>"

definition lmtp_Rcpt :: "lmtpSession \<Rightarrow> string \<Rightarrow> lmtpSession" where
  "lmtp_Rcpt s t = s\<lparr>lm_to := lm_to s @ [t]\<rparr>"

definition lmtp_request :: "golib \<Rightarrow> 'm smtp_env \<Rightarrow> lmtpSession \<Rightarrow> string \<Rightarrow> (string \<times> SendRequest) result" where
  "lmtp_request G E s raw =
     (case ReadMessage E raw of
        Inl e \<Rightarrow> Inl (EWrap ''lmtp: parse message'' e)
      | Inr msg \<Rightarrow>
          (case read_body msg ''lmtp'' of
             Inl e \<Rightarrow> Inl e
           | Inr body \<Rightarrow>
               (let subject = sanitiseHeaderValue (hdr_Get msg ''Subject'') 998;
                    smtpMessageID = sanitiseMessageID (hdr_Get msg ''Message-ID'') 995;
                    inReplyTo = sanitiseMessageID (hdr_Get msg ''In-Reply-To'') 995;
                    frm = (if lm_from s = '''' then extractAddr G (hdr_Get msg ''From'') else lm_from s)
                in Inr (frm,
                     \<lparr>sr_RecipientIDs = lm_to s, sr_Subject = subject,
                      sr_Body = trim_right [char_of (13 :: nat), char_of (10 :: nat)] body,
                      sr_ExternalID = smtpMessageID,
                      sr_Headers = [(''X-SMTP-Envelope-From'', lm_from s), (''X-LMTP-Remote-Addr'', lm_remoteAddr s)],
                      sr_ReplyToID = reply_to E (lm_to s) inReplyTo\<rparr>))))"

definition deliverMessage :: "golib \<Rightarrow> 'm smtp_env \<Rightarrow> 'm \<Rightarrow> lmtpSession \<Rightarrow> string \<Rightarrow> 'm \<times> error option" where
  "deliverMessage G E m s raw =
     (case lmtp_request G E s raw of
        Inl e \<Rightarrow> (m, Some e)
      | Inr (frm, req) \<Rightarrow> SendMessage E m frm req)"

text \<open>\<open>LMTPData\<close>: the statuses set in the collector, one per recipient.\<close>

definition LMTPData :: "golib \<Rightarrow> 'm smtp_env \<Rightarrow> 'm \<Rightarrow> lmtpSession \<Rightarrow> string \<Rightarrow> 'm \<times> (string \<times> error option) list" where
  "LMTPData G E m s raw = (let (m', err) = deliverMessage G E m s raw in (m', map (\<lambda>rcpt. (rcpt, err)) (lm_to s)))"

text \<open>\<open>Data\<close>, the fallback when the per-recipient statuses are not asked for.\<close>

definition lmtp_Data :: "golib \<Rightarrow> 'm smtp_env \<Rightarrow> 'm \<Rightarrow> lmtpSession \<Rightarrow> string \<Rightarrow> 'm \<times> error option" where
  "lmtp_Data G E m s raw = deliverMessage G E m s raw"

definition lmtp_Reset :: "lmtpSession \<Rightarrow> lmtpSession" where
  "lmtp_Reset s = s\<lparr>lm_from := '''', lm_to := []\<rparr>"

section \<open>A connection\<close>

datatype smtp_cmd =
    CAuth (c_mech: string) (c_identity: string) (c_username: string) (c_password: string)
  | CMail string
  | CRcpt string
  | CData string
  | CReset

text \<open>The session with what \<open>go-smtp\<close> tracks for it: whether AUTH succeeded, whether MAIL and RCPT were
  accepted since the last reset. \<open>cn_log\<close> lists the messages handed to the mailbox service.\<close>

record ('h, 'm) smtp_conn =
  cn_hook :: 'h
  cn_mbx :: 'm
  cn_ses :: session
  cn_auth :: bool
  cn_mail :: bool
  cn_rcpt :: bool
  cn_log :: "(string \<times> SendRequest) list"

type_synonym 'm smtp_event = "'m smtp_env \<times> gotime \<times> smtp_cmd"

definition new_conn :: "'h \<Rightarrow> 'm \<Rightarrow> string \<Rightarrow> ('h, 'm) smtp_conn" where
  "new_conn h m addr = \<lparr>cn_hook = h, cn_mbx = m,
     cn_ses = \<lparr>remoteAddr = addr, authedUser = '''', s_from = '''', s_to = [], authFailures = 0, spfResult = ''''\<rparr>,
     cn_auth = False, cn_mail = False, cn_rcpt = False, cn_log = []\<rparr>"

definition conn_reset :: "('h, 'm) smtp_conn \<Rightarrow> ('h, 'm) smtp_conn" where
  "conn_reset c = c\<lparr>cn_ses := Reset (cn_ses c), cn_mail := False, cn_rcpt := False\<rparr>"

fun smtp_step ::
  "golib \<Rightarrow> session_cfg \<Rightarrow> 'h auth_hook option \<Rightarrow> ('h, 'm) smtp_conn \<Rightarrow> 'm smtp_event \<Rightarrow> ('h, 'm) smtp_conn \<times> error option" where
  "smtp_step G cfg H c (E, now, CAuth mech identity username password) =
     (if cn_auth c then (c, Some (ESMTP 503 (5, 5, 1) ''Already authenticated''))
      else case Auth cfg H E now (cn_hook c) (cn_ses c) mech of
             Some e \<Rightarrow> (c, Some e)
           | None \<Rightarrow>
               (case plain_response cfg H E now (cn_hook c, cn_ses c) identity username password of
                  ((h, s), e) \<Rightarrow> (c\<lparr>cn_hook := h, cn_ses := s, cn_auth := (e = None)\<rparr>, e)))"
| "smtp_step G cfg H c (E, now, CMail frm) =
     (case Mail G cfg E (cn_ses c) frm of
        (s, e) \<Rightarrow> (c\<lparr>cn_ses := s, cn_mail := cn_mail c \<or> e = None\<rparr>, e))"
| "smtp_step G cfg H c (E, now, CRcpt t) =
     (if \<not> cn_mail c then (c, Some (ESMTP 502 (5, 5, 1) ''Missing MAIL FROM command.''))
      else case Rcpt G cfg E (cn_ses c) t of
             (s, e) \<Rightarrow> (c\<lparr>cn_ses := s, cn_rcpt := cn_rcpt c \<or> e = None\<rparr>, e))"
| "smtp_step G cfg H c (E, now, CData raw) =
     (if \<not> cn_mail c \<or> \<not> cn_rcpt c then (c, Some (ESMTP 502 (5, 5, 1) ''Missing RCPT TO command.''))
      else
        (let (m, e) = Data G cfg E (cn_mbx c) (cn_ses c) raw;
             sent = (case build_request G cfg E (cn_ses c) raw of Inl _ \<Rightarrow> [] | Inr fr \<Rightarrow> [fr])
         in (conn_reset (c\<lparr>cn_mbx := m, cn_log := cn_log c @ sent\<rparr>), e)))"
| "smtp_step G cfg H c (E, now, CReset) = (conn_reset c, None)"

definition smtp_run ::
  "golib \<Rightarrow> session_cfg \<Rightarrow> 'h auth_hook option \<Rightarrow> ('h, 'm) smtp_conn \<Rightarrow> 'm smtp_event list \<Rightarrow> ('h, 'm) smtp_conn" where
  "smtp_run G cfg H c evs = foldl (\<lambda>c ev. fst (smtp_step G cfg H c ev)) c evs"

lemma smtp_run_snoc: "smtp_run G cfg H c (evs @ [ev]) = fst (smtp_step G cfg H (smtp_run G cfg H c evs) ev)"
  by (simp add: smtp_run_def)

section \<open>Who can send what\<close>

text \<open>The credentials in an AUTH command were accepted: the identity resolves to a user, and the
  password is valid when passwords are checked.\<close>

fun accepted_by :: "string \<Rightarrow> 'm smtp_event \<Rightarrow> bool" where
  "accepted_by u (E, now, CAuth mech identity username password) \<longleftrightarrow>
     u = (if identity \<noteq> '''' then identity else username)
     \<and> (case users E of None \<Rightarrow> False | Some resolve \<Rightarrow> resolve u = None)
     \<and> (case validator E of None \<Rightarrow> True | Some val \<Rightarrow> val u password = None)"
| "accepted_by u ev \<longleftrightarrow> False"

definition resolved_by :: "golib \<Rightarrow> string \<Rightarrow> 'm smtp_event \<Rightarrow> bool" where
  "resolved_by G t ev \<longleftrightarrow> (case users (fst ev) of None \<Rightarrow> False | Some resolve \<Rightarrow> resolve (extractAddr G t) = None)"

definition rcpts_ok :: "golib \<Rightarrow> session_cfg \<Rightarrow> 'm smtp_event list \<Rightarrow> string list \<Rightarrow> bool" where
  "rcpts_ok G cfg evs ts \<longleftrightarrow> RelayEnabled cfg \<or> (\<forall>t\<in>set ts. \<exists>ev\<in>set evs. resolved_by G t ev)"

definition sent_ok :: "golib \<Rightarrow> session_cfg \<Rightarrow> 'm smtp_event list \<Rightarrow> string \<times> SendRequest \<Rightarrow> bool" where
  "sent_ok G cfg evs fr \<longleftrightarrow>
     fst fr \<noteq> '''' \<and> (\<exists>ev\<in>set evs. accepted_by (fst fr) ev)
     \<and> equal_fold G (extractAddr G (gm_str (sr_Headers (snd fr)) ''X-SMTP-Envelope-From'')) (fst fr)
     \<and> sr_RecipientIDs (snd fr) \<noteq> [] \<and> rcpts_ok G cfg evs (sr_RecipientIDs (snd fr))"

definition conn_inv :: "golib \<Rightarrow> session_cfg \<Rightarrow> 'm smtp_event list \<Rightarrow> ('h, 'm) smtp_conn \<Rightarrow> bool" where
  "conn_inv G cfg evs c \<longleftrightarrow>
     (let s = cn_ses c in
      (authedUser s \<noteq> '''' \<longrightarrow> cn_auth c \<and> (\<exists>ev\<in>set evs. accepted_by (authedUser s) ev))
      \<and> (cn_mail c \<longrightarrow> authedUser s \<noteq> '''' \<and> equal_fold G (extractAddr G (s_from s)) (authedUser s))
      \<and> (cn_rcpt c \<longrightarrow> s_to s \<noteq> []) \<and> rcpts_ok G cfg evs (s_to s)
      \<and> (\<forall>fr\<in>set (cn_log c). sent_ok G cfg evs fr))"

lemma rcpts_ok_mono: "rcpts_ok G cfg evs ts \<Longrightarrow> rcpts_ok G cfg (evs @ evs') ts"
  by (auto simp: rcpts_ok_def)

lemma sent_ok_mono: "sent_ok G cfg evs fr \<Longrightarrow> sent_ok G cfg (evs @ evs') fr"
  by (auto simp: sent_ok_def rcpts_ok_mono)

lemma conn_inv_mono: "conn_inv G cfg evs c \<Longrightarrow> conn_inv G cfg (evs @ evs') c"
  by (auto simp: conn_inv_def Let_def rcpts_ok_mono sent_ok_mono)

lemma authFailed_session:
  "authFailed cfg H now (h, s) = ((h', s'), e) \<Longrightarrow> s' = s\<lparr>authFailures := authFailures s + 1\<rparr>"
  by (auto simp: authFailed_def Let_def)

lemma plain_response_cases:
  assumes "plain_response cfg H E now (h, s) identity username password = ((h', s'), e)"
  shows "(e \<noteq> None \<and> s' = s\<lparr>authFailures := authFailures s + 1\<rparr>)
    \<or> (e = None \<and> h' = h \<and> (\<exists>u. s' = s\<lparr>authedUser := u\<rparr> \<and> accepted_by u (E, now, CAuth mech identity username password)))"
proof -
  obtain h1 s1 e1 where f: "authFailed cfg H now (h, s) = ((h1, s1), e1)" by (metis prod.collapse)
  note s1 = authFailed_session [OF f]
  show ?thesis
    using assms s1 unfolding plain_response_def f Let_def
    by (auto split: option.splits if_splits)
qed

lemma Mail_cases:
  assumes "Mail G cfg E s frm = (s', e)" and "users E \<noteq> None"
  shows "(e \<noteq> None \<and> s' = s)
    \<or> (e = None \<and> authedUser s \<noteq> '''' \<and> equal_fold G (extractAddr G frm) (authedUser s)
       \<and> s_from s' = frm \<and> authedUser s' = authedUser s \<and> s_to s' = s_to s \<and> remoteAddr s' = remoteAddr s)"
  using assms by (auto simp: Mail_def Let_def split: if_splits option.splits prod.splits)

lemma build_request_sender:
  assumes "build_request G cfg E s raw = Inr (frm, req)" and "authedUser s \<noteq> ''''"
  shows "frm = authedUser s" and "sr_RecipientIDs req = s_to s"
    and "gm_str (sr_Headers req) ''X-SMTP-Envelope-From'' = s_from s"
  using assms by (auto simp: build_request_def Let_def gm_str_def split: sum.splits prod.splits)

lemma smtp_step_inv:
  assumes "conn_inv G cfg evs c" and "users (fst ev) \<noteq> None"
  shows "conn_inv G cfg (evs @ [ev]) (fst (smtp_step G cfg H c ev))"
proof -
  have keep: "conn_inv G cfg (evs @ [ev]) c" by (rule conn_inv_mono [OF assms(1)])
  obtain E now cmd where ev: "ev = (E, now, cmd)" by (cases ev) auto
  show ?thesis
  proof (cases cmd)
    case (CAuth mech identity username password)
    obtain h s e where r: "plain_response cfg H E now (cn_hook c, cn_ses c) identity username password = ((h, s), e)"
      by (metis prod.collapse)
    show ?thesis
    proof (cases "cn_auth c \<or> Auth cfg H E now (cn_hook c) (cn_ses c) mech \<noteq> None")
      case True
      then have "fst (smtp_step G cfg H c ev) = c" by (auto simp: ev CAuth split: option.split)
      then show ?thesis using keep by simp
    next
      case False
      then have st: "fst (smtp_step G cfg H c ev) = c\<lparr>cn_hook := h, cn_ses := s, cn_auth := (e = None)\<rparr>"
        by (simp add: ev CAuth r)
      have none: "authedUser (cn_ses c) = ''''" "\<not> cn_mail c"
        using keep False by (auto simp: conn_inv_def Let_def)
      consider (bad) "e \<noteq> None" "s = (cn_ses c)\<lparr>authFailures := authFailures (cn_ses c) + 1\<rparr>"
        | (good) u where "e = None" "s = (cn_ses c)\<lparr>authedUser := u\<rparr>" "accepted_by u ev"
        using plain_response_cases [OF r, of mech] by (auto simp: ev CAuth)
      then show ?thesis
        unfolding st using keep none by cases (simp_all add: conn_inv_def Let_def)
    qed
  next
    case (CMail frm)
    obtain s e where r: "Mail G cfg E (cn_ses c) frm = (s, e)" by fastforce
    show ?thesis
      using keep Mail_cases [OF r] assms(2) by (auto simp: ev CMail r conn_inv_def Let_def)
  next
    case (CRcpt t)
    have "snd (Rcpt G cfg E (cn_ses c) t) = None \<Longrightarrow> RelayEnabled cfg \<or> resolved_by G t ev"
      using assms(2) by (auto simp: Rcpt_def resolved_by_def ev split: if_splits option.splits)
    then show ?thesis
      using keep by (auto simp: ev CRcpt conn_inv_def Let_def Rcpt_def rcpts_ok_def split: if_splits prod.splits)
  next
    case (CData raw)
    have log: "sent_ok G cfg (evs @ [ev]) fr" if "cn_mail c" "cn_rcpt c" "build_request G cfg E (cn_ses c) raw = Inr fr" for fr
    proof -
      have a: "authedUser (cn_ses c) \<noteq> ''''" using keep that(1) by (auto simp: conn_inv_def Let_def)
      obtain frm req where fr: "fr = (frm, req)" by fastforce
      show ?thesis
        using build_request_sender [OF that(3) [unfolded fr] a] keep that(1,2)
        by (auto simp: fr sent_ok_def conn_inv_def Let_def)
    qed
    show ?thesis
      using keep log
      by (auto simp: ev CData conn_inv_def Let_def conn_reset_def Reset_def rcpts_ok_def split: sum.split prod.split)
  next
    case CReset
    then show ?thesis using keep by (auto simp: ev conn_inv_def Let_def conn_reset_def Reset_def rcpts_ok_def)
  qed
qed

lemma smtp_run_inv: "\<forall>ev\<in>set evs. users (fst ev) \<noteq> None \<Longrightarrow> conn_inv G cfg evs (smtp_run G cfg H (new_conn h m addr) evs)"
proof (induction evs rule: rev_induct)
  case Nil
  show ?case by (simp add: smtp_run_def new_conn_def conn_inv_def rcpts_ok_def)
next
  case (snoc ev evs)
  then show ?case unfolding smtp_run_snoc by (intro smtp_step_inv) auto
qed

text \<open>C2: On a server with a user resolver, whatever the client sends: every message handed to the
  mailbox service has as its sender an identity for which AUTH succeeded earlier on the same
  connection (it resolved to a user, and its password was valid if passwords are checked), its
  envelope sender is that identity up to case, and, unless relaying is enabled, every recipient
  resolved to a user when it was accepted.\<close>

theorem smtp_senders_authenticated:
  assumes "\<forall>ev\<in>set evs. users (fst ev) \<noteq> None"
    and "(sender, req) \<in> set (cn_log (smtp_run G cfg H (new_conn h m addr) evs))"
  shows "sender \<noteq> '''' \<and> (\<exists>ev\<in>set evs. accepted_by sender ev)
    \<and> equal_fold G (extractAddr G (gm_str (sr_Headers req) ''X-SMTP-Envelope-From'')) sender
    \<and> sr_RecipientIDs req \<noteq> [] \<and> rcpts_ok G cfg evs (sr_RecipientIDs req)"
proof -
  have "sent_ok G cfg evs (sender, req)"
    using smtp_run_inv [OF assms(1), of G cfg H h m addr] assms(2) unfolding conn_inv_def Let_def by blast
  then show ?thesis by (simp add: sent_ok_def)
qed

text \<open>A mailbox that accepts everything, a resolver that knows two users, one password.\<close>

definition smtp_env_ex :: "unit smtp_env" where
  "smtp_env_ex = \<lparr>users = Some (\<lambda>u. if u = ''ann@x'' \<or> u = ''bob@x'' then None else Some ErrStoreNotFound),
     validator = Some (\<lambda>u p. if p = ''secret'' then None else Some ErrStoreNotFound), threads = None,
     ReadMessage = (\<lambda>raw. Inr \<lparr>hdr_Get = (\<lambda>k. if k = ''Subject'' then ''hi'' else ''''), msg_Body = Inr raw\<rparr>),
     CheckHostWithSender = (\<lambda>_ _ _. ''pass''), dkim_Verify = (\<lambda>_. None), SendMessage = (\<lambda>m _ _. (m, None))\<rparr>"

definition smtp_scfg_ex :: session_cfg where
  "smtp_scfg_ex = \<lparr>RelayEnabled = False, MaxAuthFailuresPerSession = 5, CheckSPF = False, VerifyDKIM = False\<rparr>"

definition smtp_evs_ex :: "unit smtp_event list" where
  "smtp_evs_ex = [(smtp_env_ex, 0, CAuth ''PLAIN'' '''' ''ann@x'' ''guess''), (smtp_env_ex, 1, CAuth ''PLAIN'' '''' ''ann@x'' ''secret''),
     (smtp_env_ex, 2, CMail ''ann@x''), (smtp_env_ex, 3, CRcpt ''bob@x''), (smtp_env_ex, 4, CData ''hello'')]"

lemma read_body_short: "msg_Body msg = Inr full \<Longrightarrow> length full < bodyReadCap \<Longrightarrow> read_body msg pkg = Inr full"
  by (simp add: read_body_def)

lemma smtp_ex_steps:
  fixes c :: "(unit, unit) smtp_conn" and H :: "unit auth_hook option"
  shows "cn_ses c = \<lparr>remoteAddr = a, authedUser = '''', s_from = '''', s_to = [], authFailures = n, spfResult = ''''\<rparr> \<Longrightarrow> \<not> cn_auth c \<Longrightarrow>
     fst (smtp_step golib_ex smtp_scfg_ex None c (smtp_env_ex, t, CAuth ''PLAIN'' '''' ''ann@x'' ''guess'')) =
       c\<lparr>cn_ses := \<lparr>remoteAddr = a, authedUser = '''', s_from = '''', s_to = [], authFailures = n + 1, spfResult = ''''\<rparr>, cn_auth := False\<rparr>"
    "cn_ses c = \<lparr>remoteAddr = a, authedUser = '''', s_from = '''', s_to = [], authFailures = n, spfResult = ''''\<rparr> \<Longrightarrow> \<not> cn_auth c \<Longrightarrow>
     fst (smtp_step golib_ex smtp_scfg_ex None c (smtp_env_ex, t, CAuth ''PLAIN'' '''' ''ann@x'' ''secret'')) =
       c\<lparr>cn_ses := \<lparr>remoteAddr = a, authedUser = ''ann@x'', s_from = '''', s_to = [], authFailures = n, spfResult = ''''\<rparr>, cn_auth := True\<rparr>"
  by (simp_all add: Auth_def plain_response_def authFailed_def sasl_Plain_def smtp_env_ex_def)

lemma smtp_ex_log:
  "\<exists>req. cn_log (smtp_run golib_ex smtp_scfg_ex (None :: unit auth_hook option) (new_conn () () ''10.0.0.1:25'') smtp_evs_ex) = [(''ann@x'', req)]
     \<and> sr_RecipientIDs req = [''bob@x'']"
proof -
  define c where "c = smtp_run golib_ex smtp_scfg_ex (None :: unit auth_hook option) (new_conn () () ''10.0.0.1:25'') smtp_evs_ex"
  define s :: session where "s = \<lparr>remoteAddr = ''10.0.0.1:25'', authedUser = ''ann@x'', s_from = ''ann@x'', s_to = [''bob@x''], authFailures = 1, spfResult = ''''\<rparr>"
  have eq: "equal_fold golib_ex ''ann@x'' ''ann@x''" by (simp add: equal_fold_def)
  have mail: "extractAddr golib_ex u = u" for u by (simp add: extractAddr_def golib_ex_def)
  have us: "users smtp_env_ex = Some (\<lambda>u. if u = ''ann@x'' \<or> u = ''bob@x'' then None else Some ErrStoreNotFound)"
    and sc: "\<not> CheckSPF smtp_scfg_ex" "\<not> RelayEnabled smtp_scfg_ex"
    by (simp_all add: smtp_env_ex_def smtp_scfg_ex_def)
  have rd: "ReadMessage smtp_env_ex raw = Inr \<lparr>hdr_Get = (\<lambda>k. if k = ''Subject'' then ''hi'' else ''''), msg_Body = Inr raw\<rparr>" for raw
    by (simp add: smtp_env_ex_def)
  have body: "read_body \<lparr>hdr_Get = g, msg_Body = Inr ''hello''\<rparr> ''smtp'' = Inr ''hello''" for g
    by (rule read_body_short) (simp_all add: bodyReadCap_def)
  obtain req where b: "build_request golib_ex smtp_scfg_ex smtp_env_ex s ''hello'' = Inr (''ann@x'', req)" "sr_RecipientIDs req = [''bob@x'']"
    by (simp add: build_request_def rd body s_def smtp_scfg_ex_def Let_def)
  have log: "cn_log c = [(''ann@x'', req)]"
    using b(1) unfolding c_def smtp_run_def smtp_evs_ex_def
    by (simp add: new_conn_def smtp_ex_steps del: smtp_step.simps(1))
       (simp add: Mail_def Rcpt_def mail eq us sc s_def conn_reset_def case_prod_beta)
  then show ?thesis using b(2) by (simp add: c_def)
qed

lemma smtp_ex_users: "\<forall>ev\<in>set smtp_evs_ex. users (fst ev) \<noteq> None"
  by (simp add: smtp_evs_ex_def smtp_env_ex_def)

theorem smtp_senders_authenticated_witness:
  "\<exists>req. (''ann@x'', req) \<in> set (cn_log (smtp_run golib_ex smtp_scfg_ex (None :: unit auth_hook option) (new_conn () () ''10.0.0.1:25'') smtp_evs_ex))
     \<and> sr_RecipientIDs req = [''bob@x''] \<and> (\<exists>ev\<in>set smtp_evs_ex. accepted_by ''ann@x'' ev)"
proof -
  obtain req where r: "cn_log (smtp_run golib_ex smtp_scfg_ex (None :: unit auth_hook option) (new_conn () () ''10.0.0.1:25'') smtp_evs_ex) = [(''ann@x'', req)]"
      "sr_RecipientIDs req = [''bob@x'']"
    using smtp_ex_log by blast
  then show ?thesis
    using smtp_senders_authenticated [OF smtp_ex_users, of "''ann@x''" req golib_ex smtp_scfg_ex "None :: unit auth_hook option" "()" "()" "''10.0.0.1:25''"] by auto
qed

section \<open>The headers of a message\<close>

text \<open>The headers that a session hands over are its own five entries and nothing of the parsed message.\<close>

lemma build_request_headers: "build_request G cfg E s raw = Inr (frm, req) \<Longrightarrow> map fst (sr_Headers req) = internalHeaders"
  by (auto simp: build_request_def internalHeaders_def Let_def split: sum.splits prod.splits)

lemma smtp_step_log:
  "fr \<in> set (cn_log (fst (smtp_step G cfg H c (E, now, cmd)))) \<Longrightarrow> fr \<in> set (cn_log c) \<or> (\<exists>s raw. build_request G cfg E s raw = Inr fr)"
  by (cases cmd) (force simp: conn_reset_def split: if_splits option.splits prod.splits sum.splits)+

lemma smtp_log_headers:
  "(frm, req) \<in> set (cn_log (smtp_run G cfg H (new_conn h m addr) evs)) \<Longrightarrow> map fst (sr_Headers req) = internalHeaders"
proof (induction evs rule: rev_induct)
  case (snoc ev evs)
  obtain E now cmd where "ev = (E, now, cmd)" by (cases ev) auto
  then show ?case
    using smtp_step_log [of "(frm, req)" G cfg H "smtp_run G cfg H (new_conn h m addr) evs" E now cmd] snoc build_request_headers
    unfolding smtp_run_snoc by blast
qed (simp add: smtp_run_def new_conn_def)

lemma lmtp_request_headers:
  "lmtp_request G E s raw = Inr (frm, req) \<Longrightarrow> map fst (sr_Headers req) = [''X-SMTP-Envelope-From'', ''X-LMTP-Remote-Addr'']"
  by (auto simp: lmtp_request_def Let_def split: sum.splits prod.splits)

text \<open>The two ways of delivering agree: the same mailbox, and every recipient has the status that \<open>Data\<close> would return.\<close>

lemma LMTPData_Data:
  "LMTPData G E m s raw = (fst (lmtp_Data G E m s raw), map (\<lambda>rcpt. (rcpt, snd (lmtp_Data G E m s raw))) (lm_to s))"
  by (simp add: LMTPData_def lmtp_Data_def case_prod_beta)

lemma lmtp_ex_request:
  "\<exists>req. lmtp_request golib_ex smtp_env_ex \<lparr>lm_remoteAddr = '''', lm_from = ''ceo@bank'', lm_to = [''bob@x'']\<rparr> ''hello'' = Inr (''ceo@bank'', req)"
proof -
  have "read_body \<lparr>hdr_Get = g, msg_Body = Inr ''hello''\<rparr> ''lmtp'' = Inr ''hello''" for g
    by (rule read_body_short) (simp_all add: bodyReadCap_def)
  then show ?thesis by (simp add: lmtp_request_def smtp_env_ex_def)
qed

section \<open>Failed logins\<close>

text \<open>Responses to AUTH on any number of connections, each with its environment, time, session and credentials:
  the state of the hook afterwards.\<close>

record 'm login =
  lg_env :: "'m smtp_env"
  lg_time :: gotime
  lg_ses :: session
  lg_identity :: string
  lg_username :: string
  lg_password :: string

definition lg_accepted :: "'m login \<Rightarrow> bool" where
  "lg_accepted a \<longleftrightarrow> accepted_by (if lg_identity a \<noteq> '''' then lg_identity a else lg_username a)
     (lg_env a, lg_time a, CAuth ''PLAIN'' (lg_identity a) (lg_username a) (lg_password a))"

definition logins :: "session_cfg \<Rightarrow> 'h auth_hook option \<Rightarrow> 'h \<Rightarrow> 'm login list \<Rightarrow> 'h" where
  "logins cfg H h as = foldl (\<lambda>h a. fst (fst (plain_response cfg H (lg_env a) (lg_time a) (h, lg_ses a)
     (lg_identity a) (lg_username a) (lg_password a)))) h as"

lemma rejected_login:
  assumes "\<not> lg_accepted a"
  shows "fst (plain_response cfg H (lg_env a) (lg_time a) (h, lg_ses a) (lg_identity a) (lg_username a) (lg_password a))
    = fst (authFailed cfg H (lg_time a) (h, lg_ses a))"
  using assms by (auto simp: plain_response_def lg_accepted_def Let_def case_prod_beta split: option.splits)

lemma logins_recorded:
  "list_all (\<lambda>a. \<not> lg_accepted a) as \<Longrightarrow>
     logins cfg (Some hk) h as = foldl (\<lambda>h ta. fst (hk_RecordAuthFailure hk (fst ta) h (snd ta))) h (map (\<lambda>a. (lg_time a, remoteAddr (lg_ses a))) as)"
  by (induction as arbitrary: h) (simp_all add: logins_def rejected_login authFailed_def)

end
