(* ===== verification/Smtp_Server.thy ===== *)
theory Smtp_Server
  imports Smtp_Session
begin

text \<open>
  The SMTP and LMTP listeners (\<open>internal/smtp/server.go\<close>, \<open>internal/smtp/lmtp.go\<close>): configuration
  defaults, \<open>Start\<close> and \<open>Stop\<close>, the goroutine that serves until the listener fails or is closed, and
  the admission of new connections.

  Go's interfaces \<open>SMTPLifecycle\<close> and \<open>LMTPLifecycle\<close> (\<open>internal/server/options.go\<close>) are the record
  \<open>lifecycle_ops\<close>; their contract is the locale \<open>lifecycle\<close>, interpreted by both listeners. The
  operating system is the record \<open>os_env\<close>.
\<close>

section \<open>Lifecycle\<close>

record 's lifecycle_ops =
  lc_Start :: "'s \<Rightarrow> 's \<times> error option"
  lc_Stop :: "'s \<Rightarrow> 's \<times> error option"
  lc_IsRunning :: "'s \<Rightarrow> bool"
  lc_Port :: "'s \<Rightarrow> int"
  lc_Domain :: "'s \<Rightarrow> string"

text \<open>What the operating system answers; \<open>os_closed\<close> is \<open>errors.Is(err, net.ErrClosed)\<close>.\<close>

record os_env =
  os_LoadX509KeyPair :: "string \<Rightarrow> string \<Rightarrow> error option"
  os_Listen :: "string \<Rightarrow> string \<Rightarrow> error option"
  os_Chmod :: "string \<Rightarrow> error option"
  os_lis_Close :: "error option"
  os_srv_Close :: "error option"
  os_closed :: "error \<Rightarrow> bool"

definition close_error :: "os_env \<Rightarrow> error option" where
  "close_error O' =
     (let firstErr = (case os_lis_Close O' of Some e \<Rightarrow> if os_closed O' e then None else Some e | None \<Rightarrow> None)
      in case os_srv_Close O' of
           Some e \<Rightarrow> if firstErr = None \<and> \<not> os_closed O' e then Some e else firstErr
         | None \<Rightarrow> firstErr)"

section \<open>SMTP listener\<close>

record Config =
  cfg_Port :: int
  cfg_BindAddr :: string
  cfg_Domain :: string
  cfg_AllowInsecureAuth :: bool
  cfg_MaxMessageBytes :: int64
  cfg_MaxRecipients :: int
  cfg_MaxConnections :: int
  cfg_ReadTimeout :: duration
  cfg_WriteTimeout :: duration
  cfg_RelayEnabled :: bool
  cfg_TLSCertFile :: string
  cfg_TLSKeyFile :: string
  cfg_MaxAuthFailuresPerSession :: int
  cfg_CheckSPF :: bool
  cfg_VerifyDKIM :: bool
  cfg_AuthFailureHook :: bool
  cfg_MaxConnsPerSec :: real
  cfg_BurstConns :: int
  cfg_MaxConnsPerSecPerIP :: real
  cfg_BurstConnsPerIP :: int

definition applyDefaults :: "Config \<Rightarrow> Config" where
  "applyDefaults c =
     c\<lparr>cfg_Port := (if cfg_Port c = 0 then 2525 else cfg_Port c),
       cfg_Domain := (if cfg_Domain c = '''' then ''localhost'' else cfg_Domain c),
       cfg_MaxMessageBytes := (if cfg_MaxMessageBytes c = 0 then 10485760 else cfg_MaxMessageBytes c),
       cfg_MaxRecipients := (if cfg_MaxRecipients c = 0 then 50 else cfg_MaxRecipients c),
       cfg_MaxConnections := (if cfg_MaxConnections c = 0 then 1000 else cfg_MaxConnections c),
       cfg_ReadTimeout := (if cfg_ReadTimeout c = 0 then 5 * minute else cfg_ReadTimeout c),
       cfg_WriteTimeout := (if cfg_WriteTimeout c = 0 then 60 * second else cfg_WriteTimeout c),
       cfg_BurstConns := (if 0 < cfg_MaxConnsPerSec c \<and> cfg_BurstConns c = 0 then 10 else cfg_BurstConns c),
       cfg_BurstConnsPerIP := (if 0 < cfg_MaxConnsPerSecPerIP c \<and> cfg_BurstConnsPerIP c = 0 then 5 else cfg_BurstConnsPerIP c),
       cfg_MaxAuthFailuresPerSession := (if cfg_MaxAuthFailuresPerSession c = 0 then 5 else cfg_MaxAuthFailuresPerSession c)\<rparr>"

record 'l Server =
  sv_cfg :: Config
  sv_hasValidator :: bool
  sv_limiter :: "'l option"
  ipLimiters :: "(string, 'l) gomap"
  sv_running :: bool

definition NewWithValidator :: "'l limiter_ops \<Rightarrow> Config \<Rightarrow> bool \<Rightarrow> 'l Server" where
  "NewWithValidator L cfg0 hasValidator =
     (let cfg = applyDefaults cfg0
      in \<lparr>sv_cfg = cfg, sv_hasValidator = hasValidator,
          sv_limiter = (if 0 < cfg_MaxConnsPerSec cfg then Some (NewLimiter L (cfg_MaxConnsPerSec cfg) (cfg_BurstConns cfg)) else None),
          ipLimiters = [], sv_running = False\<rparr>)"

definition smtp_New :: "'l limiter_ops \<Rightarrow> Config \<Rightarrow> 'l Server" where
  "smtp_New L cfg = NewWithValidator L cfg False"

definition session_cfg_of :: "Config \<Rightarrow> session_cfg" where
  "session_cfg_of c = \<lparr>RelayEnabled = cfg_RelayEnabled c, MaxAuthFailuresPerSession = cfg_MaxAuthFailuresPerSession c,
     CheckSPF = cfg_CheckSPF c, VerifyDKIM = cfg_VerifyDKIM c\<rparr>"

text \<open>Whether a session asks the hook, \<open>hk\<close>, about failed logins.\<close>

definition session_hook :: "Config \<Rightarrow> 'h auth_hook \<Rightarrow> 'h auth_hook option" where
  "session_hook c hk = (if cfg_AuthFailureHook c then Some hk else None)"

definition sv_Start :: "os_env \<Rightarrow> 'l Server \<Rightarrow> 'l Server \<times> error option" where
  "sv_Start O' s =
     (if sv_running s then (s, Some ErrAlreadyRunning)
      else
        (let cfg = sv_cfg s; addr = cfg_BindAddr cfg @ '':'' @ itoa (cfg_Port cfg);
             tls = (if cfg_TLSCertFile cfg \<noteq> '''' \<and> cfg_TLSKeyFile cfg \<noteq> ''''
                    then os_LoadX509KeyPair O' (cfg_TLSCertFile cfg) (cfg_TLSKeyFile cfg) else None)
         in case tls of
              Some e \<Rightarrow> (s, Some (EWrap ''smtp: load TLS certificate'' e))
            | None \<Rightarrow>
                (case os_Listen O' ''tcp'' addr of
                   Some e \<Rightarrow> (s, Some (EWrap (''smtp: listen '' @ addr) e))
                 | None \<Rightarrow> (s\<lparr>sv_running := True\<rparr>, None))))"

text \<open>The deferred part of the serving goroutine.\<close>

definition sv_serve_exit :: "'l Server \<Rightarrow> 'l Server" where
  "sv_serve_exit s = s\<lparr>sv_running := False\<rparr>"

text \<open>\<open>Stop\<close> closes the listener and waits for the goroutine to return.\<close>

definition sv_Stop :: "os_env \<Rightarrow> 'l Server \<Rightarrow> 'l Server \<times> error option" where
  "sv_Stop O' s = (if \<not> sv_running s then (s, Some ErrNotRunning) else (sv_serve_exit s, close_error O'))"

definition smtp_lifecycle :: "os_env \<Rightarrow> 'l Server lifecycle_ops" where
  "smtp_lifecycle O' = \<lparr>lc_Start = sv_Start O', lc_Stop = sv_Stop O', lc_IsRunning = sv_running,
     lc_Port = (\<lambda>s. cfg_Port (sv_cfg s)), lc_Domain = (\<lambda>s. cfg_Domain (sv_cfg s))\<rparr>"

text \<open>Admission of a connection: the global limiter, then the limiter of the source address. \<open>conn\<close> is
  the remote address of the connection, if there is one.\<close>

definition too_many :: "string \<Rightarrow> error" where
  "too_many where_from = ESMTP 421 (4, 4, 5) (''Too many connections'' @ where_from @ '' '' @ em_dash @ '' please try again later'')"

definition NewSession :: "'l limiter_ops \<Rightarrow> gotime \<Rightarrow> 'l Server \<Rightarrow> string option \<Rightarrow> 'l Server \<times> session result" where
  "NewSession L now s conn =
     (let (lim, allowed) = (case sv_limiter s of
                              None \<Rightarrow> (None, True)
                            | Some l \<Rightarrow> (case Allow L now l of (l', b) \<Rightarrow> (Some l', b)));
          s1 = s\<lparr>sv_limiter := lim\<rparr>;
          session = (\<lambda>addr. \<lparr>remoteAddr = addr, authedUser = '''', s_from = '''', s_to = [], authFailures = 0, spfResult = ''''\<rparr>)
      in if \<not> allowed then (s1, Inl (too_many ''''))
         else case conn of
                None \<Rightarrow> (s1, Inr (session ''''))
              | Some addr \<Rightarrow>
                  if 0 < cfg_MaxConnsPerSecPerIP (sv_cfg s) then
                    (let ip0 = (case split_host_port addr of None \<Rightarrow> '''' | Some (h, _) \<Rightarrow> h);
                         ip = (if ip0 = '''' then addr else ip0);
                         l = (case gm_get (ipLimiters s1) ip of
                                Some l \<Rightarrow> l
                              | None \<Rightarrow> NewLimiter L (cfg_MaxConnsPerSecPerIP (sv_cfg s)) (cfg_BurstConnsPerIP (sv_cfg s)));
                         (l', b) = Allow L now l;
                         s2 = s1\<lparr>ipLimiters := gm_put ip l' (ipLimiters s1)\<rparr>
                     in if \<not> b then (s2, Inl (too_many '' from your IP'')) else (s2, Inr (session addr)))
                  else (s1, Inr (session addr)))"

section \<open>LMTP listener\<close>

record LMTPConfig =
  lcfg_SocketPath :: string
  lcfg_Port :: int
  lcfg_BindAddr :: string
  lcfg_Domain :: string
  lcfg_MaxMessageBytes :: int64
  lcfg_MaxRecipients :: int
  lcfg_ReadTimeout :: duration
  lcfg_WriteTimeout :: duration

definition lmtp_applyDefaults :: "LMTPConfig \<Rightarrow> LMTPConfig" where
  "lmtp_applyDefaults c =
     c\<lparr>lcfg_Port := (if lcfg_Port c = 0 \<and> lcfg_SocketPath c = '''' then 2424 else lcfg_Port c),
       lcfg_Domain := (if lcfg_Domain c = '''' then ''localhost'' else lcfg_Domain c),
       lcfg_MaxMessageBytes := (if lcfg_MaxMessageBytes c = 0 then 10485760 else lcfg_MaxMessageBytes c),
       lcfg_MaxRecipients := (if lcfg_MaxRecipients c = 0 then 100 else lcfg_MaxRecipients c),
       lcfg_ReadTimeout := (if lcfg_ReadTimeout c = 0 then 5 * minute else lcfg_ReadTimeout c),
       lcfg_WriteTimeout := (if lcfg_WriteTimeout c = 0 then 60 * second else lcfg_WriteTimeout c)\<rparr>"

text \<open>\<open>lm_files\<close> are the socket files that exist: listening creates one, closing the listener unlinks it.\<close>

record LMTPServer =
  lm_cfg :: LMTPConfig
  lm_running :: bool
  lm_socketPath :: string
  lm_files :: "string list"

definition NewLMTP :: "LMTPConfig \<Rightarrow> string list \<Rightarrow> LMTPServer" where
  "NewLMTP cfg files = \<lparr>lm_cfg = lmtp_applyDefaults cfg, lm_running = False, lm_socketPath = '''', lm_files = files\<rparr>"

definition lm_Start :: "os_env \<Rightarrow> LMTPServer \<Rightarrow> LMTPServer \<times> error option" where
  "lm_Start O' s =
     (if lm_running s then (s, Some ErrLMTPServerAlreadyRunning)
      else
        (let cfg = lm_cfg s; path = lcfg_SocketPath cfg in
         if path \<noteq> '''' then
           (let s1 = s\<lparr>lm_files := removeAll path (lm_files s)\<rparr> in
            case os_Listen O' ''unix'' path of
              Some e \<Rightarrow> (s1, Some (EWrap (''lmtp: listen unix '' @ path) e))
            | None \<Rightarrow>
                (case os_Chmod O' path of
                   Some e \<Rightarrow> (s1, Some (EWrap (''lmtp: set socket permissions '' @ path) e))
                 | None \<Rightarrow> (s1\<lparr>lm_files := path # lm_files s1, lm_socketPath := path, lm_running := True\<rparr>, None)))
         else
           (let addr = lcfg_BindAddr cfg @ '':'' @ itoa (lcfg_Port cfg) in
            case os_Listen O' ''tcp'' addr of
              Some e \<Rightarrow> (s, Some (EWrap (''lmtp: listen '' @ addr) e))
            | None \<Rightarrow> (s\<lparr>lm_socketPath := '''', lm_running := True\<rparr>, None))))"

definition lm_serve_exit :: "LMTPServer \<Rightarrow> LMTPServer" where
  "lm_serve_exit s =
     (let s1 = s\<lparr>lm_running := False\<rparr> in
      if lm_socketPath s1 \<noteq> '''' then s1\<lparr>lm_files := removeAll (lm_socketPath s1) (lm_files s1), lm_socketPath := ''''\<rparr> else s1)"

definition lm_Stop :: "os_env \<Rightarrow> LMTPServer \<Rightarrow> LMTPServer \<times> error option" where
  "lm_Stop O' s = (if \<not> lm_running s then (s, Some ErrLMTPServerNotRunning) else (lm_serve_exit s, close_error O'))"

definition lmtp_lifecycle :: "os_env \<Rightarrow> LMTPServer lifecycle_ops" where
  "lmtp_lifecycle O' = \<lparr>lc_Start = lm_Start O', lc_Stop = lm_Stop O', lc_IsRunning = lm_running,
     lc_Port = (\<lambda>s. lcfg_Port (lm_cfg s)), lc_Domain = (\<lambda>s. lcfg_Domain (lm_cfg s))\<rparr>"

definition lmtp_NewSession :: "string option \<Rightarrow> lmtpSession" where
  "lmtp_NewSession conn = \<lparr>lm_remoteAddr = (case conn of None \<Rightarrow> '''' | Some a \<Rightarrow> a), lm_from = '''', lm_to = []\<rparr>"

section \<open>The contract of a listener\<close>

locale lifecycle =
  fixes L :: "'s lifecycle_ops" and serve_exit :: "'s \<Rightarrow> 's" and inv :: "'s \<Rightarrow> bool"
    and already :: error and not_running :: error
  assumes start_running: "lc_IsRunning L s \<Longrightarrow> lc_Start L s = (s, Some already)"
    and start_ok: "\<not> lc_IsRunning L s \<Longrightarrow> lc_Start L s = (s', e) \<Longrightarrow> lc_IsRunning L s' \<longleftrightarrow> e = None"
    and start_inv: "inv s \<Longrightarrow> inv (fst (lc_Start L s))"
    and start_same: "lc_Port L (fst (lc_Start L s)) = lc_Port L s \<and> lc_Domain L (fst (lc_Start L s)) = lc_Domain L s"
    and stop_idle: "\<not> lc_IsRunning L s \<Longrightarrow> lc_Stop L s = (s, Some not_running)"
    and stop_running: "lc_IsRunning L s \<Longrightarrow> fst (lc_Stop L s) = serve_exit s"
    and exit_stops: "\<not> lc_IsRunning L (serve_exit s)"
    and exit_inv: "inv s \<Longrightarrow> inv (serve_exit s)"
begin

lemma stop_stops: "\<not> lc_IsRunning L (fst (lc_Stop L s))"
  by (cases "lc_IsRunning L s") (simp_all add: stop_running stop_idle exit_stops)

lemma stop_inv: "inv s \<Longrightarrow> inv (fst (lc_Stop L s))"
  by (cases "lc_IsRunning L s") (simp_all add: stop_running stop_idle exit_inv)

text \<open>A stopped listener can be started again, and a second stop reports that nothing runs.\<close>

lemma stop_twice: "snd (lc_Stop L (fst (lc_Stop L s))) = Some not_running"
  using stop_idle [OF stop_stops] by simp

end

definition lm_inv :: "LMTPServer \<Rightarrow> bool" where
  "lm_inv s \<longleftrightarrow> (lm_socketPath s \<noteq> '''' \<longrightarrow> lm_running s \<and> lm_socketPath s = lcfg_SocketPath (lm_cfg s) \<and> lm_socketPath s \<in> set (lm_files s))
     \<and> (lm_running s \<longrightarrow> lm_socketPath s = lcfg_SocketPath (lm_cfg s))"

interpretation svl: lifecycle "smtp_lifecycle O'" sv_serve_exit "\<lambda>_. True" ErrAlreadyRunning ErrNotRunning
  by unfold_locales
     (auto simp: smtp_lifecycle_def sv_Start_def sv_Stop_def sv_serve_exit_def Let_def split: option.splits if_splits)

lemma lm_Start_cases:
  assumes "\<not> lm_running s"
  shows "(\<exists>e. lm_Start O' s = (s, Some e)) \<or> (\<exists>e. lm_Start O' s = (s\<lparr>lm_files := removeAll (lcfg_SocketPath (lm_cfg s)) (lm_files s)\<rparr>, Some e))
    \<or> (lcfg_SocketPath (lm_cfg s) = '''' \<and> lm_Start O' s = (s\<lparr>lm_socketPath := '''', lm_running := True\<rparr>, None))
    \<or> (lcfg_SocketPath (lm_cfg s) \<noteq> '''' \<and> lm_Start O' s =
        (s\<lparr>lm_files := lcfg_SocketPath (lm_cfg s) # removeAll (lcfg_SocketPath (lm_cfg s)) (lm_files s),
            lm_socketPath := lcfg_SocketPath (lm_cfg s), lm_running := True\<rparr>, None))"
  using assms by (simp add: lm_Start_def Let_def split: option.split)

lemma lm_Start_same: "lm_cfg (fst (lm_Start O' s)) = lm_cfg s"
proof (cases "lm_running s")
  case False
  then show ?thesis using lm_Start_cases [OF False, of O'] by (elim disjE conjE exE) simp_all
qed (simp add: lm_Start_def)

lemma lm_Start_inv: "lm_inv s \<Longrightarrow> lm_inv (fst (lm_Start O' s))"
proof (cases "lm_running s")
  case False
  assume "lm_inv s"
  then have e: "lm_socketPath s = ''''" using False by (auto simp: lm_inv_def)
  then show ?thesis using lm_Start_cases [OF False, of O'] False by (elim disjE conjE exE) (simp_all add: lm_inv_def)
qed (simp add: lm_Start_def)

lemma lm_serve_exit_sel:
  "lm_running (lm_serve_exit s) = False" "lm_socketPath (lm_serve_exit s) = []" "lm_cfg (lm_serve_exit s) = lm_cfg s"
  "set (lm_files (lm_serve_exit s)) = set (lm_files s) - (if lm_socketPath s = [] then {} else {lm_socketPath s})"
  by (cases "lm_socketPath s = []"; simp add: lm_serve_exit_def Let_def)+

lemma lmtp_lifecycle_sel:
  "lc_Start (lmtp_lifecycle O') = lm_Start O'" "lc_Stop (lmtp_lifecycle O') = lm_Stop O'" "lc_IsRunning (lmtp_lifecycle O') = lm_running"
  "lc_Port (lmtp_lifecycle O') s = lcfg_Port (lm_cfg s)" "lc_Domain (lmtp_lifecycle O') s = lcfg_Domain (lm_cfg s)"
  by (simp_all add: lmtp_lifecycle_def)

interpretation lml: lifecycle "lmtp_lifecycle O'" lm_serve_exit lm_inv ErrLMTPServerAlreadyRunning ErrLMTPServerNotRunning
proof (unfold_locales, unfold lmtp_lifecycle_sel, goal_cases)
  case (1 s)
  then show ?case by (simp add: lm_Start_def)
next
  case (2 s s' e)
  then show ?case using lm_Start_cases [OF 2(1), of O'] by (elim disjE conjE exE) auto
next
  case (3 s)
  then show ?case by (rule lm_Start_inv)
next
  case (4 s)
  then show ?case by (simp add: lm_Start_same)
next
  case (5 s)
  then show ?case by (simp add: lm_Stop_def)
next
  case (6 s)
  then show ?case by (simp add: lm_Stop_def)
next
  case (7 s)
  then show ?case by (simp add: lm_serve_exit_sel)
next
  case (8 s)
  show ?case by (simp add: lm_serve_exit_sel lm_inv_def)
qed

text \<open>When the LMTP listener is stopped its socket file is gone, and only that file.\<close>

lemma lmtp_stop_removes_socket:
  assumes "lm_inv s" and "lm_running s" and "lcfg_SocketPath (lm_cfg s) \<noteq> ''''"
  shows "set (lm_files (fst (lm_Stop O' s))) = set (lm_files s) - {lcfg_SocketPath (lm_cfg s)}"
proof -
  have "lm_socketPath s = lcfg_SocketPath (lm_cfg s)" using assms(1,2) unfolding lm_inv_def by blast
  then show ?thesis using assms(2,3) by (simp add: lm_Stop_def lm_serve_exit_sel)
qed

end
