(* ===== verification/Postbox_Server.thy ===== *)
theory Postbox_Server
  imports Registry Smtp_Server
begin

text \<open>
  The gRPC service of a node (\<open>internal/server/server.go\<close>) and the control of its mail listeners
  (\<open>StartSMTP\<close>, \<open>StopSMTP\<close>, \<open>StartLMTP\<close>, \<open>StopLMTP\<close> of \<open>internal/server/node.go\<close>).

  The record \<open>ctl\<close> is what the handlers read of the \<open>Controller\<close>: its store and its registry act on
  the same state \<open>'g\<close>, which is the store's state on a single node and the pair of the Redis state
  and the store's state in a cluster (\<open>snd_ops\<close> lifts a store to such pairs). A handler returns the
  new state and either the response or a gRPC status.

  What the handlers rely on is the locale \<open>registering\<close>, a store with a registry that writes to it;
  it is interpreted by the local registry and by the Redis registry over all three stores. The two
  listeners are controlled through the locale \<open>lifecycle\<close>.
\<close>

section \<open>Requests and responses\<close>

type_synonym int32 = "32 word"

record RegisterUserRequest =
  ru_Email :: string
  ru_Type :: string
  ru_PublicKey :: string
  ru_Metadata :: strmap

record Response =
  rsp_Ok :: bool
  rsp_Message :: string

record NodeInfo =
  ni_NodeId :: string
  ni_Address :: string
  ni_Mode :: string

record UserProfile =
  up_Email :: string
  up_Type :: string
  up_PublicKey :: string
  up_Metadata :: strmap
  up_NodeId :: string

record NodePublicKeyResponse =
  pk_PublicKey :: string
  pk_NodeId :: string
  pk_KeyId :: string

record StatusReport =
  st_NodeId :: string
  st_Mode :: string
  st_DomainCount :: int
  st_UserCount :: int
  st_MailboxConnected :: bool

record DomainInfo =
  di_Name :: string
  di_NodeId :: string
  di_IsDefault :: bool

record SMTPStatus =
  ss_Running :: bool
  ss_Port :: int32
  ss_Domain :: string

record DeliveryStatusResponse =
  ds_MessageId :: string
  ds_RecipientId :: string
  ds_EndpointUrl :: string
  ds_Status :: string
  ds_Attempts :: int32
  ds_MaxAttempts :: int32
  ds_LastError :: string
  ds_NextRetryAt :: string
  ds_DeliveredAt :: string

record pb_SMTPConfig =
  pb_Port :: int32
  pb_Domain :: string
  pb_AllowInsecureAuth :: bool
  pb_MaxMessageBytes :: int64
  pb_MaxRecipients :: int32
  pb_ReadTimeoutSecs :: int32
  pb_WriteTimeoutSecs :: int32
  pb_MaxConnsPerSec :: real
  pb_BurstConns :: int32

section \<open>What the handlers read of the controller\<close>

text \<open>\<open>c_resolver\<close> is the registry's \<open>ResolveNode\<close> if its dynamic type has one, \<open>c_connected\<close> is
  \<open>IsConnected\<close> of the mailbox service and \<open>c_rfc3339\<close> is \<open>Time.Format(time.RFC3339)\<close>.\<close>

record 'g ctl =
  c_lib :: golib
  c_nodeID :: string
  c_mode :: string
  c_address :: string
  c_pubkey :: string
  c_store :: "'g store_ops"
  c_registry :: "'g reg_ops"
  c_resolver :: "(gotime \<Rightarrow> 'g \<Rightarrow> string \<Rightarrow> string result) option"
  c_connected :: bool
  c_rfc3339 :: "gotime \<Rightarrow> string"

abbreviation (input) not_found :: "error \<Rightarrow> bool" where
  "not_found e \<equiv> errors_Is e ErrStoreNotFound"

section \<open>Conversions\<close>

definition userToProto :: "user \<Rightarrow> string \<Rightarrow> UserProfile" where
  "userToProto u nid = \<lparr>up_Email = Email u, up_Type = Type u, up_PublicKey = UserKeyB64 u, up_Metadata = Metadata u, up_NodeId = nid\<rparr>"

definition deliveryJobToProto :: "(gotime \<Rightarrow> string) \<Rightarrow> DeliveryJob \<Rightarrow> DeliveryStatusResponse" where
  "deliveryJobToProto fmt j =
     \<lparr>ds_MessageId = MessageID j, ds_RecipientId = RecipientID j, ds_EndpointUrl = EndpointURL j, ds_Status = Status j,
      ds_Attempts = word_of_int (Attempts j), ds_MaxAttempts = word_of_int (MaxAttempts j), ds_LastError = LastError j,
      ds_NextRetryAt = (if NextRetryAt j = 0 then '''' else fmt (NextRetryAt j)),
      ds_DeliveredAt = (case DeliveredAt j of None \<Rightarrow> '''' | Some t \<Rightarrow> fmt t)\<rparr>"

definition smtpConfigFromProto :: "pb_SMTPConfig \<Rightarrow> Config" where
  "smtpConfigFromProto req =
     \<lparr>cfg_Port = sint (pb_Port req), cfg_BindAddr = '''', cfg_Domain = pb_Domain req,
      cfg_AllowInsecureAuth = pb_AllowInsecureAuth req, cfg_MaxMessageBytes = pb_MaxMessageBytes req,
      cfg_MaxRecipients = sint (pb_MaxRecipients req), cfg_MaxConnections = 0,
      cfg_ReadTimeout = sint (pb_ReadTimeoutSecs req) * second, cfg_WriteTimeout = sint (pb_WriteTimeoutSecs req) * second,
      cfg_RelayEnabled = False, cfg_TLSCertFile = '''', cfg_TLSKeyFile = '''', cfg_MaxAuthFailuresPerSession = 0,
      cfg_CheckSPF = False, cfg_VerifyDKIM = False, cfg_AuthFailureHook = False, cfg_MaxConnsPerSec = pb_MaxConnsPerSec req,
      cfg_BurstConns = sint (pb_BurstConns req), cfg_MaxConnsPerSecPerIP = 0, cfg_BurstConnsPerIP = 0\<rparr>"

section \<open>Handlers on the store and the registry\<close>

definition Discover :: "'g ctl \<Rightarrow> gotime \<Rightarrow> 'g \<Rightarrow> string \<Rightarrow> NodeInfo result" where
  "Discover C now g target =
     (if target = '''' then Inl (EStatus InvalidArgument ''target is required'')
      else case reg_Lookup (c_registry C) now g target of
             Inl e \<Rightarrow>
               if errors_Is e ErrRegistryNotFound \<or> not_found e
               then Inl (EStatus NotFound (''no node for '' @ quote (c_lib C) target))
               else Inl (EStatus Internal (''lookup: '' @ error_text e))
           | Inr nid \<Rightarrow>
               (let address = (if nid \<noteq> c_nodeID C then
                                 (case c_resolver C of
                                    None \<Rightarrow> c_address C
                                  | Some resolve \<Rightarrow> (case resolve now g nid of Inl _ \<Rightarrow> c_address C | Inr addr \<Rightarrow> addr))
                               else c_address C)
                in Inr \<lparr>ni_NodeId = nid, ni_Address = address, ni_Mode = c_mode C\<rparr>))"

definition RegisterDomain :: "'g ctl \<Rightarrow> gotime \<Rightarrow> 'g \<Rightarrow> string \<Rightarrow> bool \<Rightarrow> 'g \<times> Response result" where
  "RegisterDomain C now g name isDefault =
     (if name = '''' then (g, Inl (EStatus InvalidArgument ''name is required''))
      else case op_GetDomain (c_store C) g name of
             Inr existing \<Rightarrow>
               if NodeID existing \<noteq> c_nodeID C
               then (g, Inl (EStatus AlreadyExists (''domain '' @ quote (c_lib C) name @ '' already registered to node '' @ NodeID existing)))
               else (g, Inr \<lparr>rsp_Ok = True, rsp_Message = ''domain '' @ quote (c_lib C) name @ '' already registered to node '' @ NodeID existing\<rparr>)
           | Inl e \<Rightarrow>
               if not_found e then
                 (case reg_Register (c_registry C) now g (domain_entity name isDefault) of
                    (g', Some e') \<Rightarrow> (g', Inl (EStatus Internal (''register domain: '' @ error_text e')))
                  | (g', None) \<Rightarrow>
                      (g', Inr \<lparr>rsp_Ok = True, rsp_Message = ''domain '' @ quote (c_lib C) name @ '' registered to node '' @ c_nodeID C\<rparr>))
               else (g, Inl (EStatus Internal (''check domain: '' @ error_text e))))"

definition user_entity :: "string \<Rightarrow> string \<Rightarrow> strmap \<Rightarrow> Entity" where
  "user_entity n ty md = \<lparr>EType = EntityUser, EName = n, EIsDefault = False, EUserType = ty, EMetadata = md\<rparr>"

text \<open>Go's zero value of \<open>store.User\<close>, which a failed read leaves behind.\<close>

definition zero_user :: user where
  "zero_user = \<lparr>Email = '''', Type = '''', UserKeyB64 = '''', Metadata = [], UserCreatedAt = 0\<rparr>"

definition RegisterUser :: "'g ctl \<Rightarrow> gotime \<Rightarrow> 'g \<Rightarrow> RegisterUserRequest \<Rightarrow> 'g \<times> Response result" where
  "RegisterUser C now g req =
     (let email = ru_Email req; S = c_store C; done = \<lparr>rsp_Ok = True, rsp_Message = ''user '' @ quote (c_lib C) email @ '' registered to node '' @ c_nodeID C\<rparr> in
      if email = '''' then (g, Inl (EStatus InvalidArgument ''email is required''))
      else case op_GetUser S g email of
             Inr existing \<Rightarrow>
               (case op_SaveUser S now g (existing\<lparr>Type := ru_Type req, UserKeyB64 := ru_PublicKey req, Metadata := ru_Metadata req\<rparr>) of
                  (g', Some e) \<Rightarrow> (g', Inl (EStatus Internal (''update user: '' @ error_text e)))
                | (g', None) \<Rightarrow>
                    (g', Inr \<lparr>rsp_Ok = True, rsp_Message = ''user '' @ quote (c_lib C) email @ '' updated (created '' @ c_rfc3339 C (UserCreatedAt existing) @ '')''\<rparr>))
           | Inl e \<Rightarrow>
               if not_found e then
                 (case reg_Register (c_registry C) now g (user_entity email (ru_Type req) (ru_Metadata req)) of
                    (g1, Some e') \<Rightarrow> (g1, Inl (EStatus Internal (''register user: '' @ error_text e')))
                  | (g1, None) \<Rightarrow>
                      if ru_PublicKey req = '''' then (g1, Inr done)
                      else
                        (let u = (case op_GetUser S g1 email of Inr u \<Rightarrow> u | Inl _ \<Rightarrow> zero_user) in
                         case op_SaveUser S now g1 (u\<lparr>UserKeyB64 := ru_PublicKey req\<rparr>) of
                           (g2, Some e') \<Rightarrow> (g2, Inl (EStatus Internal (''save public key: '' @ error_text e')))
                         | (g2, None) \<Rightarrow> (g2, Inr done)))
               else (g, Inl (EStatus Internal (''check user: '' @ error_text e))))"

definition GetUser :: "'g ctl \<Rightarrow> 'g \<Rightarrow> string \<Rightarrow> UserProfile result" where
  "GetUser C g email =
     (if email = '''' then Inl (EStatus InvalidArgument ''email is required'')
      else case op_GetUser (c_store C) g email of
             Inl e \<Rightarrow>
               if not_found e then Inl (EStatus NotFound (''user '' @ quote (c_lib C) email @ '' not found''))
               else Inl (EStatus Internal (''get user: '' @ error_text e))
           | Inr u \<Rightarrow> Inr (userToProto u (c_nodeID C)))"

definition SearchUsers :: "'g ctl \<Rightarrow> 'g \<Rightarrow> strmap \<Rightarrow> UserProfile list result" where
  "SearchUsers C g filters =
     (case op_SearchUsers (c_store C) g filters of
        Inl e \<Rightarrow> Inl (EStatus Internal (''search users: '' @ error_text e))
      | Inr us \<Rightarrow> Inr (map (\<lambda>u. userToProto u (c_nodeID C)) us))"

definition ListUsers :: "'g ctl \<Rightarrow> 'g \<Rightarrow> UserProfile list result" where
  "ListUsers C g =
     (case op_ListUsers (c_store C) g of
        Inl e \<Rightarrow> Inl (EStatus Internal (''list users: '' @ error_text e))
      | Inr us \<Rightarrow> Inr (map (\<lambda>u. userToProto u (c_nodeID C)) us))"

definition GetNodePublicKey :: "'g ctl \<Rightarrow> NodePublicKeyResponse" where
  "GetNodePublicKey C = \<lparr>pk_PublicKey = c_pubkey C, pk_NodeId = c_nodeID C, pk_KeyId = ''v1''\<rparr>"

definition GetStatus :: "'g ctl \<Rightarrow> 'g \<Rightarrow> StatusReport result" where
  "GetStatus C g =
     (case op_CountDomains (c_store C) g of
        Inl e \<Rightarrow> Inl (EStatus Internal (''count domains: '' @ error_text e))
      | Inr domainCount \<Rightarrow>
          (case op_CountUsers (c_store C) g of
             Inl e \<Rightarrow> Inl (EStatus Internal (''count users: '' @ error_text e))
           | Inr userCount \<Rightarrow>
               Inr \<lparr>st_NodeId = c_nodeID C, st_Mode = c_mode C, st_DomainCount = domainCount, st_UserCount = userCount,
                    st_MailboxConnected = c_connected C\<rparr>))"

definition RemapDomain :: "'g ctl \<Rightarrow> 'g \<Rightarrow> string \<Rightarrow> string \<Rightarrow> 'g \<times> Response result" where
  "RemapDomain C g name target =
     (if name = '''' then (g, Inl (EStatus InvalidArgument ''domain is required''))
      else if target = '''' then (g, Inl (EStatus InvalidArgument ''target_node_id is required''))
      else case op_GetDomain (c_store C) g name of
             Inl e \<Rightarrow>
               if not_found e then (g, Inl (EStatus NotFound (''domain '' @ quote (c_lib C) name @ '' not found'')))
               else (g, Inl (EStatus Internal (''get domain: '' @ error_text e)))
           | Inr d \<Rightarrow>
               (case op_SaveDomain (c_store C) g (d\<lparr>NodeID := target\<rparr>) of
                  (g', Some e) \<Rightarrow> (g', Inl (EStatus Internal (''save domain: '' @ error_text e)))
                | (g', None) \<Rightarrow>
                    (g', Inr \<lparr>rsp_Ok = True, rsp_Message = ''domain '' @ quote (c_lib C) name @ '' remapped to '' @ target\<rparr>)))"

definition ListDomains :: "'g ctl \<Rightarrow> 'g \<Rightarrow> DomainInfo list result" where
  "ListDomains C g =
     (case op_ListDomains (c_store C) g of
        Inl e \<Rightarrow> Inl (EStatus Internal (''list domains: '' @ error_text e))
      | Inr ds \<Rightarrow> Inr (map (\<lambda>d. \<lparr>di_Name = Name d, di_NodeId = NodeID d, di_IsDefault = IsDefault d\<rparr>) ds))"

definition GetDeliveryStatus :: "'g ctl \<Rightarrow> 'g \<Rightarrow> string \<Rightarrow> string \<Rightarrow> DeliveryStatusResponse result" where
  "GetDeliveryStatus C g msgID recipID =
     (if msgID = '''' then Inl (EStatus InvalidArgument ''message_id is required'')
      else if recipID = '''' then Inl (EStatus InvalidArgument ''recipient_id is required'')
      else case op_GetDeliveryJob (c_store C) g msgID recipID of
             Inl e \<Rightarrow>
               if not_found e
               then Inl (EStatus NotFound (''no delivery job for message '' @ quote (c_lib C) msgID @ '' recipient '' @ quote (c_lib C) recipID))
               else Inl (EStatus Internal (''get delivery job: '' @ error_text e))
           | Inr j \<Rightarrow> Inr (deliveryJobToProto (c_rfc3339 C) j))"

definition ListDeliveryFailures :: "'g ctl \<Rightarrow> 'g \<Rightarrow> string \<Rightarrow> DeliveryStatusResponse list result" where
  "ListDeliveryFailures C g recipID =
     (case op_ListDeliveryJobsByRecipient (c_store C) g recipID DeliveryFailed of
        Inl e \<Rightarrow> Inl (EStatus Internal (''list failed jobs: '' @ error_text e))
      | Inr failed \<Rightarrow>
          (case op_ListDeliveryJobsByRecipient (c_store C) g recipID DeliveryDead of
             Inl e \<Rightarrow> Inl (EStatus Internal (''list dead jobs: '' @ error_text e))
           | Inr dead \<Rightarrow> Inr (map (deliveryJobToProto (c_rfc3339 C)) (failed @ dead))))"

section \<open>Control of the listeners\<close>

text \<open>\<open>srv\<close> is the server that the factory built for this call. A server that does not start is
  dropped; \<open>smtp\<close> is the field of the controller.\<close>

definition ctl_StartSMTP :: "'v lifecycle_ops \<Rightarrow> 'v \<Rightarrow> 'v option \<Rightarrow> 'v option \<times> error option" where
  "ctl_StartSMTP L srv smtp =
     (case smtp of
        Some old \<Rightarrow>
          if lc_IsRunning L old then (smtp, Some (ESuffix ErrSMTPAlreadyRunning ('' on port '' @ itoa (lc_Port L old))))
          else (case lc_Start L srv of (_, Some e) \<Rightarrow> (smtp, Some e) | (srv', None) \<Rightarrow> (Some srv', None))
      | None \<Rightarrow> (case lc_Start L srv of (_, Some e) \<Rightarrow> (smtp, Some e) | (srv', None) \<Rightarrow> (Some srv', None)))"

definition ctl_StopSMTP :: "'v lifecycle_ops \<Rightarrow> 'v option \<Rightarrow> 'v option \<times> error option" where
  "ctl_StopSMTP L smtp =
     (case smtp of
        None \<Rightarrow> (smtp, Some ErrSMTPNotRunning)
      | Some srv \<Rightarrow>
          if \<not> lc_IsRunning L srv then (smtp, Some ErrSMTPNotRunning)
          else (case lc_Stop L srv of (srv', e) \<Rightarrow> (Some srv', e)))"

text \<open>The LMTP listener with the socket files that exist.\<close>

definition ctl_StartLMTP :: "os_env \<Rightarrow> LMTPConfig \<Rightarrow> LMTPServer option \<times> string list \<Rightarrow> (LMTPServer option \<times> string list) \<times> error option" where
  "ctl_StartLMTP O' cfg st =
     (let (lmtp, files) = st; start = lm_Start O' (NewLMTP cfg files) in
      if (case lmtp of None \<Rightarrow> False | Some old \<Rightarrow> lm_running old)
      then (st, Some (ESuffix ErrLMTPAlreadyRunning ('' on port '' @ itoa (case lmtp of None \<Rightarrow> 0 | Some old \<Rightarrow> lcfg_Port (lm_cfg old)))))
      else (case start of
              (srv, Some e) \<Rightarrow> ((lmtp, lm_files srv), Some e)
            | (srv, None) \<Rightarrow> ((Some srv, lm_files srv), None)))"

definition ctl_StopLMTP :: "os_env \<Rightarrow> LMTPServer option \<times> string list \<Rightarrow> (LMTPServer option \<times> string list) \<times> error option" where
  "ctl_StopLMTP O' st =
     (case st of
        (None, files) \<Rightarrow> (st, Some ErrLMTPNotRunning)
      | (Some srv, files) \<Rightarrow>
          if \<not> lm_running srv then (st, Some ErrLMTPNotRunning)
          else (case lm_Stop O' (srv\<lparr>lm_files := files\<rparr>) of (srv', e) \<Rightarrow> ((Some srv', lm_files srv'), e)))"

definition rpc_StartSMTP :: "'v lifecycle_ops \<Rightarrow> (Config \<Rightarrow> 'v) \<Rightarrow> 'v option \<Rightarrow> pb_SMTPConfig \<Rightarrow> 'v option \<times> Response result" where
  "rpc_StartSMTP L factory smtp req =
     (case ctl_StartSMTP L (factory (smtpConfigFromProto req)) smtp of
        (smtp', Some e) \<Rightarrow>
          (smtp', Inl (EStatus (if errors_Is e ErrSMTPAlreadyRunning then FailedPrecondition else Internal) (''start smtp: '' @ error_text e)))
      | (None, None) \<Rightarrow> (None, Inl (EText ''panic: nil pointer dereference''))
      | (Some srv, None) \<Rightarrow>
          (Some srv, Inr \<lparr>rsp_Ok = True,
             rsp_Message = ''SMTP listener started on :'' @ itoa (lc_Port L srv) @ '' (domain '' @ lc_Domain L srv @ '')''\<rparr>))"

definition rpc_StopSMTP :: "'v lifecycle_ops \<Rightarrow> 'v option \<Rightarrow> 'v option \<times> Response result" where
  "rpc_StopSMTP L smtp =
     (case ctl_StopSMTP L smtp of
        (smtp', Some e) \<Rightarrow>
          (smtp', Inl (EStatus (if errors_Is e ErrSMTPNotRunning then FailedPrecondition else Internal) (''stop smtp: '' @ error_text e)))
      | (smtp', None) \<Rightarrow> (smtp', Inr \<lparr>rsp_Ok = True, rsp_Message = ''SMTP listener stopped''\<rparr>))"

definition GetSMTPStatus :: "'v lifecycle_ops \<Rightarrow> 'v option \<Rightarrow> SMTPStatus" where
  "GetSMTPStatus L smtp =
     (case smtp of
        None \<Rightarrow> \<lparr>ss_Running = False, ss_Port = 0, ss_Domain = ''''\<rparr>
      | Some srv \<Rightarrow> \<lparr>ss_Running = lc_IsRunning L srv, ss_Port = word_of_int (lc_Port L srv), ss_Domain = lc_Domain L srv\<rparr>)"

section \<open>A store with a registry\<close>

text \<open>A store of one node beside the state of the Redis client.\<close>

definition snd_write :: "('s \<Rightarrow> 'a \<Rightarrow> 's \<times> 'e) \<Rightarrow> 'r \<times> 's \<Rightarrow> 'a \<Rightarrow> ('r \<times> 's) \<times> 'e" where
  "snd_write f rs x = (case f (snd rs) x of (s', e) \<Rightarrow> ((fst rs, s'), e))"

definition snd_ops :: "'s store_ops \<Rightarrow> ('r \<times> 's) store_ops" where
  "snd_ops S = \<lparr>
     op_SaveNode = snd_write (op_SaveNode S), op_GetNode = op_GetNode S \<circ> snd,
     op_SaveDomain = snd_write (op_SaveDomain S), op_GetDomain = op_GetDomain S \<circ> snd,
     op_GetDefaultDomain = op_GetDefaultDomain S \<circ> snd, op_ListDomains = op_ListDomains S \<circ> snd,
     op_CountDomains = op_CountDomains S \<circ> snd, op_SaveUser = (\<lambda>now. snd_write (op_SaveUser S now)),
     op_GetUser = op_GetUser S \<circ> snd, op_ListUsers = op_ListUsers S \<circ> snd, op_SearchUsers = op_SearchUsers S \<circ> snd,
     op_CountUsers = op_CountUsers S \<circ> snd, op_SaveDeliveryJob = (\<lambda>now. snd_write (op_SaveDeliveryJob S now)),
     op_UpdateDeliveryJob = (\<lambda>now. snd_write (op_UpdateDeliveryJob S now)), op_GetDeliveryJob = op_GetDeliveryJob S \<circ> snd,
     op_ListPendingDeliveryJobs = op_ListPendingDeliveryJobs S \<circ> snd,
     op_ListDeliveryJobsByRecipient = op_ListDeliveryJobsByRecipient S \<circ> snd\<rparr>"

lemma snd_write_eq [simp]: "snd_write f rs x = (rs', e) \<longleftrightarrow> f (snd rs) x = (snd rs', e) \<and> fst rs' = fst rs"
  by (cases rs'; cases "f (snd rs) x") (auto simp: snd_write_def)

lemma snd_ops_sel:
  "op_SaveNode (snd_ops S) = snd_write (op_SaveNode S)" "op_GetNode (snd_ops S) rs = op_GetNode S (snd rs)"
  "op_SaveDomain (snd_ops S) = snd_write (op_SaveDomain S)" "op_GetDomain (snd_ops S) rs = op_GetDomain S (snd rs)"
  "op_GetDefaultDomain (snd_ops S) rs = op_GetDefaultDomain S (snd rs)" "op_ListDomains (snd_ops S) rs = op_ListDomains S (snd rs)"
  "op_CountDomains (snd_ops S) rs = op_CountDomains S (snd rs)" "op_SaveUser (snd_ops S) now = snd_write (op_SaveUser S now)"
  "op_GetUser (snd_ops S) rs = op_GetUser S (snd rs)" "op_ListUsers (snd_ops S) rs = op_ListUsers S (snd rs)"
  "op_SearchUsers (snd_ops S) rs = op_SearchUsers S (snd rs)" "op_CountUsers (snd_ops S) rs = op_CountUsers S (snd rs)"
  "op_SaveDeliveryJob (snd_ops S) now = snd_write (op_SaveDeliveryJob S now)"
  "op_UpdateDeliveryJob (snd_ops S) now = snd_write (op_UpdateDeliveryJob S now)"
  "op_GetDeliveryJob (snd_ops S) rs = op_GetDeliveryJob S (snd rs)"
  "op_ListPendingDeliveryJobs (snd_ops S) rs = op_ListPendingDeliveryJobs S (snd rs)"
  "op_ListDeliveryJobsByRecipient (snd_ops S) rs = op_ListDeliveryJobsByRecipient S (snd rs)"
  by (simp_all add: snd_ops_def)

lemma snd_writeE:
  assumes "snd_write f rs x = (rs', e)"
  shows "f (snd rs) x = (snd rs', e)" and "fst rs' = fst rs" and "snd rs' = snd rs \<Longrightarrow> rs' = rs"
  using iffD1 [OF snd_write_eq assms] by (simp_all add: prod.expand)

lemma snd_write_fst [simp]: "fst (fst (snd_write f rs x)) = fst rs" "snd (fst (snd_write f rs x)) = fst (f (snd rs) x)"
  "snd (snd_write f rs x) = snd (f (snd rs) x)"
  by (simp_all add: snd_write_def split: prod.split)

context node_store begin

lemma snd_domains: "domain_store (snd_ops S) (abs \<circ> snd) (inv \<circ> snd) (up \<circ> snd)"
proof (unfold_locales, unfold snd_ops_sel comp_apply, goal_cases)
  case 1 then show ?case by (rule inv_awf)
next
  case 2 show ?case using save_domain_ok [OF 2(1) snd_writeE(1) [OF 2(2)]] by blast
next
  case 3 show ?case by (rule snd_writeE(3) [OF 3(2) save_domain_err [OF 3(1) snd_writeE(1) [OF 3(2)]]])
next
  case 4 then show ?case by (rule get_domain)
next
  case 5 then show ?case by (rule get_domain_down)
next
  case 6 then show ?case by (rule get_default)
next
  case 7 then show ?case by (rule get_default_none)
next
  case 8 then show ?case by (rule list_domains)
next
  case 9 then show ?case by (rule count_domains)
qed

lemma snd_users: "node_user_store (snd_ops S) (abs \<circ> snd) (inv \<circ> snd) (up \<circ> snd) nm"
proof (unfold_locales, unfold snd_ops_sel comp_apply, goal_cases)
  case 1 then show ?case by (rule inv_awf)
next
  case 2 show ?case using save_node_ok [OF 2(1) snd_writeE(1) [OF 2(2)]] by blast
next
  case 3 show ?case by (rule snd_writeE(3) [OF 3(2) save_node_err [OF 3(1) snd_writeE(1) [OF 3(2)]]])
next
  case 4 then show ?case by (rule get_node)
next
  case 5 show ?case using save_user_ok [OF 5(1) snd_writeE(1) [OF 5(2)]] by blast
next
  case 6 show ?case by (rule snd_writeE(3) [OF 6(2) save_user_err [OF 6(1) snd_writeE(1) [OF 6(2)]]])
next
  case 7 then show ?case by (rule get_user)
next
  case 8 then show ?case by (rule get_user_down)
next
  case 9 then show ?case by (rule list_users)
next
  case 10 then show ?case by (rule search_users)
qed

lemma snd_jobs: "job_store (snd_ops S) (abs \<circ> snd) (inv \<circ> snd) (up \<circ> snd) tm"
proof (unfold_locales, unfold snd_ops_sel comp_apply, goal_cases)
  case 1 then show ?case by (rule inv_awf)
next
  case 2 show ?case using save_job_ok [OF 2(1) snd_writeE(1) [OF 2(2)]] by blast
next
  case 3 show ?case by (rule snd_writeE(3) [OF 3(2) save_job_err [OF 3(1) snd_writeE(1) [OF 3(2)]]])
next
  case 4 show ?case using update_job_ok [OF 4(1) snd_writeE(1) [OF 4(2)]] by blast
next
  case 5 show ?case by (rule snd_writeE(3) [OF 5(2) update_job_err [OF 5(1) snd_writeE(1) [OF 5(2)]]])
next
  case 6 then show ?case by (rule get_job)
next
  case 7 then show ?case by (rule list_pending)
next
  case 8 then show ?case by (rule list_by_recipient)
next
  case 9 then show ?case unfolding snd_write_fst by (rule save_job_live)
next
  case 10 then show ?case unfolding snd_write_fst by (rule update_job_live)
qed

lemma snd_store: "node_store (snd_ops S) (abs \<circ> snd) (inv \<circ> snd) (up \<circ> snd) nm tm"
  using snd_domains snd_users snd_jobs by (rule node_store.intro)

end

locale registering = node_store S abs inv up nm tm
  for S :: "'g store_ops" and abs inv up nm tm +
  fixes R :: "'g reg_ops" and me :: string
  assumes reg_inv: "inv g \<Longrightarrow> inv (fst (reg_Register R now g e))"
    and reg_user: "inv g \<Longrightarrow> reg_Register R now g (user_entity n ty md) = (g', None) \<Longrightarrow> up g' \<and>
      (\<exists>c. abs g' = (abs g)\<lparr>a_users := (a_users (abs g))(n \<mapsto> \<lparr>Email = n, Type = ty, UserKeyB64 = '''', Metadata = nm md, UserCreatedAt = c\<rparr>)\<rparr>)"
    and reg_domain: "inv g \<Longrightarrow> reg_Register R now g (domain_entity n d) = (g', None) \<Longrightarrow>
      up g' \<and> abs g' = a_SaveDomain \<lparr>Name = n, NodeID = me, IsDefault = d\<rparr> (abs g)"
begin

lemma fallback_registering: "registering S abs inv up nm tm (fallback_ops R f) me"
proof (unfold_locales, unfold fallback_ops_def fallback_Register_def reg_ops.select_convs, goal_cases)
  case 1 then show ?case by (rule reg_inv)
next
  case 2 then show ?case by (rule reg_user)
next
  case 3 then show ?case by (rule reg_domain)
qed

end

context node_store begin

lemma local_registering:
  "registering S abs inv up nm tm (local_ops G S nid) nid"
proof (unfold_locales, unfold local_ops_def reg_ops.select_convs, goal_cases)
  case (1 g now e)
  then show ?case using save_domain_write save_user_write by (auto simp: local_Register_def)
next
  case (2 g now n ty md g')
  then have "op_SaveUser S now g \<lparr>Email = n, Type = ty, UserKeyB64 = '''', Metadata = md, UserCreatedAt = now\<rparr> = (g', None)"
    by (simp add: local_Register_def user_entity_def EntityDomain_def EntityUser_def)
  from save_user_ok [OF 2(1) this] show ?case by auto
next
  case (3 g now n d g')
  then have "op_SaveDomain S g \<lparr>Name = n, NodeID = nid, IsDefault = d\<rparr> = (g', None)" by (simp add: local_Register_def)
  from save_domain_ok [OF 3(1) this] show ?case by simp
qed

lemma redis_register_store:
  obtains (nop) "snd (fst (redis_Register G R J S rr now rs e)) = snd rs"
  | (dom) d where "snd (fst (redis_Register G R J S rr now rs e)) = fst (op_SaveDomain S (snd rs) d)"
  | (usr) u where "snd (fst (redis_Register G R J S rr now rs e)) = fst (op_SaveUser S now (snd rs) u)"
proof -
  obtain r s where rs: "rs = (r, s)" by fastforce
  show ?thesis
  proof (cases "EType e = EntityDomain")
    case True
    obtain r1 x where a: "rd_Set R now r (domainKeyPrefix @ EName e) (re_Marshal J \<lparr>re_NodeID = rr_nodeID rr, re_Address = rr_address rr\<rparr>) 0 = (r1, x)"
      by fastforce
    obtain r2 y where b: "(if EIsDefault e then rd_Set R now r1 defaultDomainKey (EName e) 0 else (r1, None)) = (r2, y)" by fastforce
    show ?thesis
      using nop dom True unfolding redis_Register_def rs Let_def prod.case a
      by (cases x; simp add: b; cases y; simp add: case_prod_beta)
  next
    case False
    then show ?thesis
      using nop usr unfolding redis_Register_def rs Let_def prod.case
      by (cases "EType e = EntityUser") (simp_all add: case_prod_beta)
  qed
qed

lemma redis_registering:
  "registering (snd_ops S) (abs \<circ> snd) (inv \<circ> snd) (up \<circ> snd) nm tm (redis_reg_ops G R J S rr) (rr_nodeID rr)"
proof (intro registering.intro registering_axioms.intro snd_store, unfold redis_reg_ops_def reg_ops.select_convs comp_apply, goal_cases)
  case (1 rs now e)
  show ?case
    by (rule redis_register_store [of G R J rr now rs e])
       (use 1 save_domain_write [of "snd rs"] save_user_write [of "snd rs"] in simp_all)
next
  case (2 rs now n ty md rs')
  then have "op_SaveUser S now (snd rs) \<lparr>Email = n, Type = ty, UserKeyB64 = '''', Metadata = md, UserCreatedAt = 0\<rparr> = (snd rs', None)"
    by (cases rs) (auto simp: redis_Register_def user_entity_def EntityDomain_def EntityUser_def split: prod.splits)
  from save_user_ok [OF 2(1) this] show ?case by auto
next
  case (3 rs now n d rs')
  then have "op_SaveDomain S (snd rs) \<lparr>Name = n, NodeID = rr_nodeID rr, IsDefault = d\<rparr> = (snd rs', None)"
    by (cases rs) (auto simp: redis_Register_def Let_def split: prod.splits option.splits)
  from save_domain_ok [OF 3(1) this] show ?case by simp
qed

end

interpretation lmr: registering mem_ops mem_abs mem_inv "\<lambda>s. True" "\<lambda>m. m" "\<lambda>t. t" "local_ops G mem_ops nid" nid for G nid
  by (rule ms.local_registering)

interpretation lsr: registering "sqlite_ops E" "sql_abs sqlite_domain" sqlite_inv sql_up json_meta "eng_time E" "local_ops G (sqlite_ops E) nid" nid for G E nid
  by (rule sq.local_registering)

interpretation lpr: registering "pg_ops E" "sql_abs pg_domain" pg_inv sql_up json_meta "eng_time E" "local_ops G (pg_ops E) nid" nid for G E nid
  by (rule pg.local_registering)

interpretation rsr: registering "snd_ops (sqlite_ops E)" "sql_abs sqlite_domain \<circ> snd" "sqlite_inv \<circ> snd" "sql_up \<circ> snd" json_meta "eng_time E"
  "redis_reg_ops G R J (sqlite_ops E) rr" "rr_nodeID rr" for G R J E rr
  by (rule sq.redis_registering)

section \<open>Registration\<close>

definition wired :: "'g ctl \<Rightarrow> 'g store_ops \<Rightarrow> 'g reg_ops \<Rightarrow> string \<Rightarrow> bool" where
  "wired C S R me \<longleftrightarrow> c_store C = S \<and> c_registry C = R \<and> c_nodeID C = me"

lemma wiredD: "wired C S R me \<Longrightarrow> c_store C = S \<and> c_registry C = R \<and> c_nodeID C = me"
  by (simp add: wired_def)

context registering begin

lemma reg_inv': "inv g \<Longrightarrow> reg_Register R now g e = (g', r) \<Longrightarrow> inv g'"
  using reg_inv [of g now e] by simp

text \<open>A claimed domain belongs to this node, and claiming it again changes nothing.\<close>

lemma register_domain_owned:
  assumes "inv g" and "wired C S R me" and "RegisterDomain C now g name dflt = (g', Inr rsp)"
  shows "inv g' \<and> up g' \<and> (\<exists>d. a_domains (abs g') name = Some d \<and> NodeID d = me)"
proof (cases "op_GetDomain S g name")
  case (Inr d)
  then have "g' = g" "NodeID d = me" using assms(2,3) by (auto simp: RegisterDomain_def wired_def split: if_splits)
  then show ?thesis using get_domain_Inr [OF assms(1) Inr] assms(1) by auto
next
  case (Inl e)
  have r: "reg_Register R now g (domain_entity name dflt) = (g', None)"
    using assms(2,3) Inl by (auto simp: RegisterDomain_def wired_def split: if_splits prod.splits option.splits)
  show ?thesis using reg_domain [OF assms(1) r] reg_inv' [OF assms(1) r] by (simp add: a_SaveDomain_def)
qed

lemma register_domain_again:
  assumes "inv g" and "wired C S R me" and "RegisterDomain C now g name dflt = (g', Inr rsp)"
  shows "\<exists>rsp'. RegisterDomain C later g' name dflt' = (g', Inr rsp') \<and> rsp_Ok rsp'"
proof -
  obtain d where "inv g'" "up g'" "a_domains (abs g') name = Some d" "NodeID d = me"
    using register_domain_owned [OF assms] by blast
  moreover from this have "op_GetDomain S g' name = Inr d" using get_domain [of g' name] by simp
  moreover have "name \<noteq> ''''" using assms(3) by (auto simp: RegisterDomain_def)
  ultimately show ?thesis using assms(2) by (simp add: RegisterDomain_def wired_def)
qed

text \<open>Another node's domain is refused, and nothing changes.\<close>

lemma register_domain_taken:
  assumes "op_GetDomain S g name = Inr d" and "NodeID d \<noteq> me" and "wired C S R me" and "name \<noteq> ''''"
  shows "\<exists>msg. RegisterDomain C now g name dflt = (g, Inl (EStatus AlreadyExists msg))"
  using assms by (simp add: RegisterDomain_def wired_def)

text \<open>A registered user is found with the given type, key and metadata. A first registration with a
  key writes the user twice, so the metadata passes through the store's encoding twice.\<close>

lemma user_put:
  assumes "inv g" and "op_SaveUser S now g u = (g', None)"
  shows "inv g' \<and> op_GetUser S g' (Email u) = Inr (u\<lparr>Metadata := nm (Metadata u), UserCreatedAt :=
    UserCreatedAt (case op_GetUser S g' (Email u) of Inr v \<Rightarrow> v | Inl _ \<Rightarrow> zero_user)\<rparr>)"
proof -
  obtain c where "inv g'" "up g'"
      "abs g' = (abs g)\<lparr>a_users := (a_users (abs g))(Email u \<mapsto> u\<lparr>Metadata := nm (Metadata u), UserCreatedAt := c\<rparr>)\<rparr>"
    using save_user_ok [OF assms] by blast
  then have "inv g'" "op_GetUser S g' (Email u) = Inr (u\<lparr>Metadata := nm (Metadata u), UserCreatedAt := c\<rparr>)"
    using get_user [of g' "Email u"] by simp_all
  then show ?thesis by simp
qed

lemma register_user_found:
  assumes "inv g" and "wired C S R me" and "RegisterUser C now g req = (g', Inr rsp)"
  shows "\<exists>md. (md = nm (ru_Metadata req) \<or> md = nm (nm (ru_Metadata req)))
    \<and> GetUser C g' (ru_Email req) = Inr \<lparr>up_Email = ru_Email req, up_Type = ru_Type req, up_PublicKey = ru_PublicKey req, up_Metadata = md, up_NodeId = me\<rparr>"
proof -
  let ?e = "ru_Email req"
  have ne: "?e \<noteq> ''''" using assms(3) by (auto simp: RegisterUser_def Let_def)
  have w: "c_store C = S" "c_registry C = R" "c_nodeID C = me" using wiredD [OF assms(2)] by simp_all
  have fin: ?thesis if "op_GetUser S g' ?e = Inr u" "Email u = ?e" "Type u = ru_Type req" "UserKeyB64 u = ru_PublicKey req"
      "Metadata u = nm (ru_Metadata req) \<or> Metadata u = nm (nm (ru_Metadata req))" for u
    using that ne by (simp add: GetUser_def userToProto_def w)
  show ?thesis
  proof (cases "op_GetUser S g ?e")
    case (Inr old)
    have "Email old = ?e"
      using Inr assms(1) inv_awf [OF assms(1)] get_user [of g ?e] get_user_down [of g ?e] by (cases "up g") (auto simp: awf_def)
    moreover have "op_SaveUser S now g (old\<lparr>Type := ru_Type req, UserKeyB64 := ru_PublicKey req, Metadata := ru_Metadata req\<rparr>) = (g', None)"
      using assms(3) Inr ne by (simp add: RegisterUser_def w Let_def split: prod.splits option.splits)
    ultimately show ?thesis using user_put [OF assms(1)] fin by fastforce
  next
    case (Inl e)
    obtain g1 r1 where reg: "reg_Register R now g (user_entity ?e (ru_Type req) (ru_Metadata req)) = (g1, r1)" by fastforce
    have r1: "r1 = None" using assms(3) Inl ne reg by (auto simp: RegisterUser_def w Let_def split: if_splits option.splits)
    then obtain c where g1: "inv g1" "up g1"
        "a_users (abs g1) ?e = Some \<lparr>Email = ?e, Type = ru_Type req, UserKeyB64 = '''', Metadata = nm (ru_Metadata req), UserCreatedAt = c\<rparr>"
      using reg_user [OF assms(1)] reg_inv' [OF assms(1)] reg by fastforce
    then have u: "op_GetUser S g1 ?e = Inr \<lparr>Email = ?e, Type = ru_Type req, UserKeyB64 = '''', Metadata = nm (ru_Metadata req), UserCreatedAt = c\<rparr>"
      using get_user [of g1 ?e] by simp
    show ?thesis
    proof (cases "ru_PublicKey req = ''''")
      case True
      then have "g' = g1" using assms(3) Inl ne reg r1 by (auto simp: RegisterUser_def w Let_def split: if_splits)
      then show ?thesis using fin u True by simp
    next
      case False
      then have "op_SaveUser S now g1 \<lparr>Email = ?e, Type = ru_Type req, UserKeyB64 = ru_PublicKey req, Metadata = nm (ru_Metadata req), UserCreatedAt = c\<rparr> = (g', None)"
        using assms(3) Inl ne reg r1 u by (auto simp: RegisterUser_def w Let_def split: if_splits prod.splits option.splits)
      then show ?thesis using user_put [OF g1(1)] fin by fastforce
    qed
  qed
qed

end

lemma json_meta_clean:
  assumes "gm_wf m" and "\<forall>(k, v) \<in> set m. valid_utf8 k = k \<and> valid_utf8 v = v"
  shows "gm_wf (json_meta m) \<and> (\<forall>(k, v) \<in> set (json_meta m). valid_utf8 k = k \<and> valid_utf8 v = v)"
proof -
  have wf: "gm_wf (fold (\<lambda>(k, v). gm_put (valid_utf8 k) (valid_utf8 v)) xs acc)" if "gm_wf acc" for xs acc
    using that by (induction xs arbitrary: acc) (auto simp: case_prod_beta)
  have "gm_wf (json_meta m)" unfolding json_meta_def by (rule wf) (simp add: gm_wf_def)
  moreover have "(k, v) \<in> set m" if "(k, v) \<in> set (json_meta m)" for k v
  proof -
    have "gm_get (json_meta m) k = Some v" using that \<open>gm_wf (json_meta m)\<close> by (simp add: gm_wf_def)
    then have "gm_get m k = Some v" using json_meta_get [OF assms] by simp
    then show ?thesis by (rule map_of_SomeD)
  qed
  ultimately show ?thesis using assms(2) by blast
qed

lemma sqlite_register_found:
  assumes "sqlite_inv s" and "wired C (sqlite_ops E) (local_ops G (sqlite_ops E) nid) nid"
    and "gm_wf (ru_Metadata req)" and "\<forall>(k, v) \<in> set (ru_Metadata req). valid_utf8 k = k \<and> valid_utf8 v = v"
    and "RegisterUser C now s req = (s', Inr rsp)"
  shows "\<exists>md. gm_wf md \<and> gm_get md = gm_get (ru_Metadata req) \<and> GetUser C s' (ru_Email req) =
    Inr \<lparr>up_Email = ru_Email req, up_Type = ru_Type req, up_PublicKey = ru_PublicKey req, up_Metadata = md, up_NodeId = nid\<rparr>"
proof -
  note one = json_meta_get [OF assms(3,4)] and clean = json_meta_clean [OF assms(3,4)]
  have two: "gm_get (json_meta (json_meta (ru_Metadata req))) = gm_get (ru_Metadata req)"
    using json_meta_get [of "json_meta (ru_Metadata req)"] clean one by simp
  have "gm_wf (json_meta (json_meta (ru_Metadata req)))" using json_meta_clean [of "json_meta (ru_Metadata req)"] clean by blast
  then show ?thesis using lsr.register_user_found [OF assms(1,2,5)] one two clean by auto
qed

text \<open>A user registered through the gRPC service is found by \<open>GetUser\<close> with exactly the type, the
  public key and the metadata of the request, whether it is new or registered again (a registration
  without a key removes the key); on a single node with the SQLite store and metadata that is valid
  UTF-8.\<close>

theorem register_user_roundtrip:
  assumes "sqlite_inv s" and "wired C (sqlite_ops E) (local_ops G (sqlite_ops E) nid) nid"
    and "gm_wf (ru_Metadata req)" and "\<forall>(k, v) \<in> set (ru_Metadata req). valid_utf8 k = k \<and> valid_utf8 v = v"
    and "RegisterUser C now s req = (s', Inr rsp)"
  shows "\<exists>md. gm_get md = gm_get (ru_Metadata req) \<and> GetUser C s' (ru_Email req) =
    Inr \<lparr>up_Email = ru_Email req, up_Type = ru_Type req, up_PublicKey = ru_PublicKey req, up_Metadata = md, up_NodeId = nid\<rparr>"
  using sqlite_register_found [OF assms] by blast

definition ctl_ex :: "'g store_ops \<Rightarrow> 'g reg_ops \<Rightarrow> string \<Rightarrow> 'g ctl" where
  "ctl_ex S R nid = \<lparr>c_lib = golib_ex, c_nodeID = nid, c_mode = ''standalone'', c_address = nid @ '':50051'', c_pubkey = '''',
     c_store = S, c_registry = R, c_resolver = None, c_connected = True, c_rfc3339 = (\<lambda>_. '''')\<rparr>"

lemma ctl_ex_wired: "wired (ctl_ex S R nid) S R nid"
  by (simp add: wired_def ctl_ex_def)

definition user_req_ex :: RegisterUserRequest where
  "user_req_ex = \<lparr>ru_Email = ''ann@x.org'', ru_Type = ''agent'', ru_PublicKey = ''key'', ru_Metadata = [(''lang'', ''en'')]\<rparr>"

abbreviation single_ex :: "int sqldb ctl" where
  "single_ex \<equiv> ctl_ex (sqlite_ops engine_ex) (local_ops golib_ex (sqlite_ops engine_ex) ''n1'') ''n1''"

theorem register_user_roundtrip_witness:
  "\<exists>s' rsp md. RegisterUser single_ex 7 sql_empty user_req_ex = (s', Inr rsp) \<and> gm_get md ''lang'' = Some ''en''
     \<and> GetUser single_ex s' ''ann@x.org'' = Inr \<lparr>up_Email = ''ann@x.org'', up_Type = ''agent'', up_PublicKey = ''key'', up_Metadata = md, up_NodeId = ''n1''\<rparr>"
proof -
  obtain s' rsp where r: "RegisterUser single_ex 7 sql_empty user_req_ex = (s', Inr rsp)"
    by (simp add: RegisterUser_def ctl_ex_def user_req_ex_def sqlite_ops_def sqlite_GetUser_def sqlite_SaveUser_def sql_query_def sql_exec_def
        sql_empty_def local_ops_def local_Register_def user_entity_def EntityDomain_def EntityUser_def upsert_user_def user_of_row_def Let_def)
  have "gm_wf (ru_Metadata user_req_ex)" "\<forall>(k, v) \<in> set (ru_Metadata user_req_ex). valid_utf8 k = k \<and> valid_utf8 v = v"
    by (simp_all add: user_req_ex_def gm_wf_def ascii_def)
  from register_user_roundtrip [OF sql_inv_fresh ctl_ex_wired this r] r show ?thesis
    by (auto simp: user_req_ex_def)
qed

lemma discover_two_tier:
  assumes "wired C S (local_ops G S nid) nid" and "op_GetDomain S s (domain_part t) = Inr d" and "t \<noteq> ''''" and "c_resolver C = None"
  shows "Discover C now s t = Inr \<lparr>ni_NodeId = NodeID d, ni_Address = c_address C, ni_Mode = c_mode C\<rparr>"
  using assms by (simp add: Discover_def wired_def local_ops_def local_Lookup_two_tier)

text \<open>C22: A domain claimed through the gRPC service of a single node is discoverable: \<open>Discover\<close> answers for
  the domain and for every address in it with this node and its address, claiming the domain again
  is accepted and changes nothing, and no state of the store in which another node owns the domain
  lets the claim succeed.\<close>

theorem register_domain_discoverable:
  assumes "sqlite_inv s" and "wired C (sqlite_ops E) (local_ops G (sqlite_ops E) nid) nid" and "c_resolver C = None"
    and "RegisterDomain C now s name dflt = (s', Inr rsp)" and "CHR ''@'' \<notin> set name" and "CHR ''@'' \<notin> set u"
  shows "Discover C t s' (u @ CHR ''@'' # name) = Inr \<lparr>ni_NodeId = nid, ni_Address = c_address C, ni_Mode = c_mode C\<rparr>
    \<and> Discover C t s' name = Inr \<lparr>ni_NodeId = nid, ni_Address = c_address C, ni_Mode = c_mode C\<rparr>
    \<and> (\<exists>rsp'. RegisterDomain C t s' name dflt' = (s', Inr rsp') \<and> rsp_Ok rsp')
    \<and> (\<forall>d. op_GetDomain (sqlite_ops E) s name = Inr d \<longrightarrow> NodeID d = nid)"
proof -
  obtain d where d: "sqlite_inv s'" "sql_up s'" "a_domains (sql_abs sqlite_domain s') name = Some d" "NodeID d = nid"
    using lsr.register_domain_owned [OF assms(1,2,4)] by blast
  then have g: "op_GetDomain (sqlite_ops E) s' name = Inr d" using sq.get_domain [of s' E name] by simp
  have "name \<noteq> ''''" using assms(4) by (auto simp: RegisterDomain_def)
  then have disc: "Discover C t s' x = Inr \<lparr>ni_NodeId = nid, ni_Address = c_address C, ni_Mode = c_mode C\<rparr>"
    if "domain_part x = name" "x \<noteq> ''''" for x
    using discover_two_tier [OF assms(2) _ that(2) assms(3)] g that(1) d(4) by simp
  have "NodeID e = nid" if "op_GetDomain (sqlite_ops E) s name = Inr e" for e
    using lsr.register_domain_taken [OF that _ assms(2) \<open>name \<noteq> ''''\<close>] assms(4) by (metis Inl_Inr_False Pair_inject)
  then show ?thesis
    using disc lsr.register_domain_again [OF assms(1,2,4)] assms(5,6) \<open>name \<noteq> ''''\<close> by simp
qed

theorem register_domain_discoverable_witness:
  "\<exists>s' rsp. RegisterDomain single_ex 1 sql_empty ''x.org'' False = (s', Inr rsp)
     \<and> Discover single_ex 2 s' ''bob@x.org'' = Inr \<lparr>ni_NodeId = ''n1'', ni_Address = ''n1:50051'', ni_Mode = ''standalone''\<rparr>"
proof -
  obtain s' rsp where r: "RegisterDomain single_ex 1 sql_empty ''x.org'' False = (s', Inr rsp)"
    by (simp add: RegisterDomain_def ctl_ex_def sqlite_ops_def sqlite_GetDomain_def sql_query_def sql_empty_def local_ops_def local_Register_def
        sqlite_SaveDomain_def upsert_domain_def sql_exec_def)
  from register_domain_discoverable [OF sql_inv_fresh ctl_ex_wired _ r, of "''bob''" 2] r show ?thesis
    by (simp add: ctl_ex_def)
qed

text \<open>C31: In a cluster whose nodes have stores of their own, a domain that another node has claimed can be
  taken over: \<open>RegisterDomain\<close> looks for the owner in the store of its own node only, so it succeeds,
  and from then on every node routes the domain to the new node.\<close>

theorem cluster_domain_takeover:
  assumes "redis_sound R kv" and "\<And>e. re_Unmarshal J (re_Marshal J e) = Inr e"
    and "\<And>t r k e. rd_Get R t r k \<noteq> RErr e" and "\<And>t r k v ttl. snd (rd_Set R t r k v ttl) = None"
    and "wired C (snd_ops S) (redis_reg_ops G R J S rr) (rr_nodeID rr)"
    and "redis_Lookup R J now r name = Inr owner" and "owner \<noteq> rr_nodeID rr"
    and "op_GetDomain S s name = Inl ErrStoreNotFound" and "\<And>d. Name d = name \<Longrightarrow> snd (op_SaveDomain S s d) = None"
    and "name \<noteq> ''''" and "CHR ''@'' \<notin> set name" and "now \<le> t"
  shows "\<exists>r' s' rsp. RegisterDomain C now (r, s) name dflt = ((r', s'), Inr rsp) \<and> redis_Lookup R J t r' name = Inr (rr_nodeID rr)"
proof -
  obtain r' s' e where reg: "redis_Register G R J S rr now (r, s) (domain_entity name dflt) = ((r', s'), e)"
    by (metis prod.collapse)
  have set: "\<exists>r'. rd_Set R t r k v ttl = (r', None)" for t r k v ttl using assms(4) [of t r k v ttl] by (metis prod.collapse)
  have e: "e = None"
  proof -
    obtain r1 where 1: "rd_Set R now r (domainKeyPrefix @ name) (re_Marshal J \<lparr>re_NodeID = rr_nodeID rr, re_Address = rr_address rr\<rparr>) 0 = (r1, None)"
      using set by blast
    obtain r2 where 2: "rd_Set R now r1 defaultDomainKey name 0 = (r2, None)" using set by blast
    obtain s1 where 3: "op_SaveDomain S s \<lparr>Name = name, NodeID = rr_nodeID rr, IsDefault = dflt\<rparr> = (s1, None)"
      using assms(9) [of "\<lparr>Name = name, NodeID = rr_nodeID rr, IsDefault = dflt\<rparr>"] by (metis domain.select_convs(1) prod.collapse)
    show ?thesis using reg by (simp add: redis_Register_def Let_def 1 2 3 split: if_splits)
  qed
  have "RegisterDomain C now (r, s) name dflt =
      ((r', s'), Inr \<lparr>rsp_Ok = True, rsp_Message = ''domain '' @ quote (c_lib C) name @ '' registered to node '' @ c_nodeID C\<rparr>)"
    using assms(8,10) wiredD [OF assms(5)] reg e by (simp add: RegisterDomain_def snd_ops_sel redis_reg_ops_def)
  moreover have "redis_Lookup R J t r' name = Inr (rr_nodeID rr)"
    using redis_register_routes [OF assms(1,2) reg [unfolded e] _ assms(12) assms(3)] assms(11) by simp
  ultimately show ?thesis by blast
qed

text \<open>Node \<open>n1\<close> has claimed the domain, node \<open>n2\<close> has an empty store.\<close>

abbreviation rr1 :: redis_registry where "rr1 \<equiv> \<lparr>rr_nodeID = ''n1'', rr_address = ''h:1''\<rparr>"
abbreviation rr2 :: redis_registry where "rr2 \<equiv> \<lparr>rr_nodeID = ''n2'', rr_address = ''h:2''\<rparr>"

abbreviation cluster_ex :: "redis_registry \<Rightarrow> ((string, string \<times> gotime option) gomap \<times> memstore) ctl" where
  "cluster_ex rr \<equiv> ctl_ex (snd_ops mem_ops) (redis_reg_ops golib_ex kv_ops codec_ex mem_ops rr) (rr_nodeID rr)"

lemma mem_ex_domain: "op_GetDomain mem_ops mem_New n = Inl ErrStoreNotFound" "Name d \<noteq> [] \<Longrightarrow> snd (op_SaveDomain mem_ops s d) = None"
  by (simp_all add: mem_ops_def mem_GetDomain_def mem_New_def mem_SaveDomain_def Let_def)

theorem cluster_domain_takeover_witness:
  "\<exists>r1 s1 x r2 s2 y. RegisterDomain (cluster_ex rr1) 1 ([], mem_New) ''x.org'' False = ((r1, s1), Inr x)
     \<and> redis_Lookup kv_ops codec_ex 2 r1 ''x.org'' = Inr ''n1''
     \<and> RegisterDomain (cluster_ex rr2) 2 (r1, mem_New) ''x.org'' False = ((r2, s2), Inr y)
     \<and> redis_Lookup kv_ops codec_ex 3 r2 ''x.org'' = Inr ''n2''"
proof -
  have kset: "snd (rd_Set kv_ops t r k v ttl) = None" for t r k v ttl by (simp add: kv_ops_def)
  obtain r1 s1 where reg: "redis_Register golib_ex kv_ops codec_ex mem_ops rr1 1 ([], mem_New) (domain_entity ''x.org'' False) = ((r1, s1), None)"
    by (simp add: redis_Register_def kv_ops_def mem_ops_def mem_SaveDomain_def)
  then obtain x where a: "RegisterDomain (cluster_ex rr1) 1 ([], mem_New) ''x.org'' False = ((r1, s1), Inr x)"
    by (simp add: RegisterDomain_def ctl_ex_def snd_ops_sel mem_ex_domain redis_reg_ops_def)
  have l: "redis_Lookup kv_ops codec_ex 2 r1 ''x.org'' = Inr ''n1''"
    using redis_register_routes [OF kv_sound codec_ex_law reg, of "''x.org''" 2] kv_no_err by simp
  show ?thesis
    using a l cluster_domain_takeover [OF kv_sound codec_ex_law kv_no_err kset ctl_ex_wired [of _ _ "rr_nodeID rr2"] l _ mem_ex_domain(1), where dflt = False and t = 3]
      mem_ex_domain(2) by simp
qed

text \<open>\<open>RemapDomain\<close> on a single node reroutes: afterwards \<open>Discover\<close> names the target node for the domain
  and every address in it, and the domain keeps its default flag.\<close>

theorem remap_reroutes:
  assumes "sqlite_inv s" and "wired C (sqlite_ops E) (local_ops G (sqlite_ops E) nid) nid" and "c_resolver C = None"
    and "RemapDomain C s name target = (s', Inr rsp)" and "domain_part addr = name" and "addr \<noteq> ''''"
  shows "\<exists>d. sqlite_GetDomain s name = Inr d \<and> sqlite_GetDomain s' name = Inr (d\<lparr>NodeID := target\<rparr>)
    \<and> Discover C now s' addr = Inr \<lparr>ni_NodeId = target, ni_Address = c_address C, ni_Mode = c_mode C\<rparr>"
proof -
  have w: "c_store C = sqlite_ops E" using assms(2) by (simp add: wired_def)
  obtain d where d: "op_GetDomain (sqlite_ops E) s name = Inr d" and sv: "op_SaveDomain (sqlite_ops E) s (d\<lparr>NodeID := target\<rparr>) = (s', None)"
    using assms(4) w by (auto simp: RemapDomain_def split: if_splits sum.splits prod.splits option.splits)
  have "a_domains (sql_abs sqlite_domain s) name = Some d" using sq.get_domain_Inr [OF assms(1) d] by simp
  then have "Name d = name" using sq.inv_awf [OF assms(1)] unfolding awf_def by blast
  then have g: "op_GetDomain (sqlite_ops E) s' name = Inr (d\<lparr>NodeID := target\<rparr>)" using sq.domain_roundtrip [OF assms(1) sv] by simp
  have eq: "op_GetDomain (sqlite_ops E) = sqlite_GetDomain" by (simp add: sqlite_ops_def)
  have "Discover C now s' addr = Inr \<lparr>ni_NodeId = target, ni_Address = c_address C, ni_Mode = c_mode C\<rparr>"
    using discover_two_tier [OF assms(2) _ assms(6,3), of s' "d\<lparr>NodeID := target\<rparr>" now] g assms(5) by simp
  then show ?thesis using d g unfolding eq by blast
qed

theorem remap_reroutes_witness:
  "\<exists>s s' rsp. RemapDomain single_ex s ''x.org'' ''n2'' = (s', Inr rsp)
     \<and> Discover single_ex 2 s' ''bob@x.org'' = Inr \<lparr>ni_NodeId = ''n2'', ni_Address = ''n1:50051'', ni_Mode = ''standalone''\<rparr>"
proof -
  define d where "d = \<lparr>Name = ''x.org'', NodeID = ''n1'', IsDefault = False\<rparr>"
  obtain s where sv: "op_SaveDomain (sqlite_ops engine_ex) sql_empty d = (s, None)"
    by (simp add: sqlite_ops_def d_def sqlite_SaveDomain_def upsert_domain_def sql_exec_def sql_empty_def)
  have s: "sqlite_inv s" "sql_up s" "op_GetDomain (sqlite_ops engine_ex) s ''x.org'' = Inr d"
    using sq.save_domain_ok [OF sql_inv_fresh sv] sq.domain_roundtrip [OF sql_inv_fresh sv] by (simp_all add: d_def)
  obtain s' where "op_SaveDomain (sqlite_ops engine_ex) s (d\<lparr>NodeID := ''n2''\<rparr>) = (s', None)"
    using s(2) by (simp add: sqlite_ops_def d_def sqlite_SaveDomain_def upsert_domain_def sql_exec_def sql_up_def)
  then obtain rsp where r: "RemapDomain single_ex s ''x.org'' ''n2'' = (s', Inr rsp)"
    using s(3) by (simp add: RemapDomain_def ctl_ex_def)
  from remap_reroutes [OF s(1) ctl_ex_wired _ r, of "''bob@x.org''" 2] r show ?thesis
    by (auto simp: ctl_ex_def domain_part_def)
qed

text \<open>In a cluster \<open>RemapDomain\<close> has no effect on routing: it answers that the domain was remapped, but it
  writes to the local store only, and every lookup of every node, at any later time, gives what it
  gave before.\<close>

theorem cluster_remap_not_routed:
  assumes "wired C (snd_ops S) (redis_reg_ops G R J S rr) (rr_nodeID rr)"
    and "redis_Lookup R J t r addr = Inr owner" and "addr \<noteq> ''''" and "owner \<noteq> target"
    and "RemapDomain C (r, s) name target = ((r', s'), Inr rsp)"
  shows "rsp_Ok rsp \<and> redis_Lookup R J t r' addr = Inr owner
    \<and> (\<exists>a. Discover C t (r', s') addr = Inr \<lparr>ni_NodeId = owner, ni_Address = a, ni_Mode = c_mode C\<rparr>)
    \<and> (\<exists>d. op_GetDomain S s name = Inr d \<and> op_SaveDomain S s (d\<lparr>NodeID := target\<rparr>) = (s', None))"
proof -
  have w: "c_store C = snd_ops S" "c_registry C = redis_reg_ops G R J S rr" using assms(1) by (simp_all add: wired_def)
  obtain d where d: "op_GetDomain S s name = Inr d" and sv: "snd_write (op_SaveDomain S) (r, s) (d\<lparr>NodeID := target\<rparr>) = ((r', s'), None)"
    and ok: "rsp_Ok rsp"
    using assms(5) by (auto simp: RemapDomain_def w snd_ops_sel split: if_splits sum.splits prod.splits option.splits)
  have "r' = r" and "op_SaveDomain S s (d\<lparr>NodeID := target\<rparr>) = (s', None)"
    using snd_writeE(1,2) [OF sv] by simp_all
  then show ?thesis using assms(2,3) d ok by (simp add: Discover_def w redis_reg_ops_def)
qed

theorem cluster_remap_not_routed_witness:
  "\<exists>r s r' s' rsp. RemapDomain (cluster_ex rr1) (r, s) ''x.org'' ''n2'' = ((r', s'), Inr rsp) \<and> rsp_Ok rsp
     \<and> redis_Lookup kv_ops codec_ex 9 r' ''bob@x.org'' = Inr ''n1''"
proof -
  define d where "d = \<lparr>Name = ''x.org'', NodeID = ''n1'', IsDefault = False\<rparr>"
  obtain r s where reg: "redis_Register golib_ex kv_ops codec_ex mem_ops rr1 1 ([], mem_New) (domain_entity ''x.org'' False) = ((r, s), None)"
      and s: "op_GetDomain mem_ops s ''x.org'' = Inr d"
    by (simp add: redis_Register_def kv_ops_def mem_ops_def mem_SaveDomain_def mem_GetDomain_def mem_New_def d_def)
  obtain s' where "op_SaveDomain mem_ops s (d\<lparr>NodeID := ''n2''\<rparr>) = (s', None)"
    using mem_ex_domain(2) [of "d\<lparr>NodeID := ''n2''\<rparr>" s] by (metis d_def domain.select_convs(1) domain.update_convs(2) list.distinct(1) prod.collapse)
  then obtain rsp where r: "RemapDomain (cluster_ex rr1) (r, s) ''x.org'' ''n2'' = ((r, s'), Inr rsp)"
    using s by (simp add: RemapDomain_def ctl_ex_def snd_ops_sel snd_write_def)
  have "redis_Lookup kv_ops codec_ex 9 r ''bob@x.org'' = Inr ''n1''"
    using redis_register_routes [OF kv_sound codec_ex_law reg, of "''bob@x.org''" 9] kv_no_err by (simp add: domain_part_def)
  from cluster_remap_not_routed [OF ctl_ex_wired this _ _ r] r show ?thesis by simp blast
qed

section \<open>Webhook failures\<close>

context job_store begin

lemma delivery_failures:
  assumes "inv g" and "c_store C = S" and "ListDeliveryFailures C g r = Inr out"
  shows "set out = deliveryJobToProto (c_rfc3339 C) `
    {j \<in> ran (a_jobs (abs g)). RecipientID j = r \<and> (Status j = DeliveryFailed \<or> Status j = DeliveryDead)}"
proof -
  obtain f d where f: "op_ListDeliveryJobsByRecipient S g r DeliveryFailed = Inr f" and d: "op_ListDeliveryJobsByRecipient S g r DeliveryDead = Inr d"
    and out: "out = map (deliveryJobToProto (c_rfc3339 C)) (f @ d)"
    using assms(2,3) by (auto simp: ListDeliveryFailures_def split: sum.splits)
  have "set (f @ d) = {j \<in> ran (a_jobs (abs g)). RecipientID j = r \<and> (Status j = DeliveryFailed \<or> Status j = DeliveryDead)}"
    using list_by_recipient [OF assms(1) f] list_by_recipient [OF assms(1) d] by (auto simp: status_defs)
  then show ?thesis unfolding out set_map by simp
qed

end

text \<open>\<open>ListDeliveryFailures\<close> returns exactly the failed and dead jobs whose recipient is the one of the
  request. In particular a request without a recipient, which the protocol documents as "failures
  for all users", returns no failure of any user: only of a recipient with the empty name.\<close>

theorem delivery_failures_of_recipient:
  assumes "sqlite_inv s" and "c_store C = sqlite_ops E" and "ListDeliveryFailures C s r = Inr out"
  shows "set out = deliveryJobToProto (c_rfc3339 C) `
      {j \<in> ran (gm_get (t_jobs s)). RecipientID j = r \<and> (Status j = DeliveryFailed \<or> Status j = DeliveryDead)}
    \<and> (r = '''' \<longrightarrow> (\<forall>p\<in>set out. ds_RecipientId p = ''''))"
proof -
  have "a_jobs (sql_abs sqlite_domain s) = gm_get (t_jobs s)" by (simp add: sql_abs_def)
  then show ?thesis using sq.delivery_failures [OF assms] by (auto simp: deliveryJobToProto_def)
qed

definition failed_job_ex :: DeliveryJob where
  "failed_job_ex = \<lparr>MessageID = ''m1'', RecipientID = ''ann@x.org'', EndpointURL = ''http://x'', Status = ''failed'', Attempts = 1, MaxAttempts = 5,
     LastError = ''timeout'', NextRetryAt = 60, DeliveredAt = None, CreatedAt = 1, UpdatedAt = 1\<rparr>"

theorem delivery_failures_of_recipient_witness:
  "\<exists>s out out'. ListDeliveryFailures single_ex s ''ann@x.org'' = Inr out \<and> out \<noteq> []
     \<and> ListDeliveryFailures single_ex s '''' = Inr out' \<and> out' = []"
proof -
  obtain s where sv: "op_SaveDeliveryJob (sqlite_ops engine_ex) 1 sql_empty failed_job_ex = (s, None)"
    and s: "gm_get (t_jobs s) = [(''m1'', ''ann@x.org'') \<mapsto> failed_job_ex]" "db_fault s = None"
    by (simp add: sqlite_ops_def sqlite_SaveDeliveryJob_def sql_exec_def sql_empty_def failed_job_ex_def engine_ex_def insert_job_def Let_def)
  have inv: "sqlite_inv s" using sq.save_job_ok [OF sql_inv_fresh sv] by simp
  have ls: "\<exists>out. ListDeliveryFailures single_ex s r = Inr out" for r
    using s(2) by (simp add: ListDeliveryFailures_def ctl_ex_def sqlite_ops_def sqlite_ListDeliveryJobsByRecipient_def sql_query_def)
  have st: "c_store single_ex = sqlite_ops engine_ex" by (simp add: ctl_ex_def)
  obtain o1 o2 where o: "ListDeliveryFailures single_ex s ''ann@x.org'' = Inr o1" "ListDeliveryFailures single_ex s '''' = Inr o2"
    using ls by blast
  have ran: "ran (gm_get (t_jobs s)) = {failed_job_ex}" by (auto simp: s(1) ran_def)
  have "set o1 \<noteq> {}" "set o2 = {}"
    using delivery_failures_of_recipient [OF inv st o(1)] delivery_failures_of_recipient [OF inv st o(2)]
    by (auto simp: ran failed_job_ex_def DeliveryFailed_def)
  then have "o1 \<noteq> []" "o2 = []" by auto
  then show ?thesis using o by blast
qed

section \<open>The SMTP listener as seen through the service\<close>

text \<open>What an operator can do, and the listener ending by itself. An operating system error is not one of
  the package's own sentinel errors.\<close>

datatype listener_op = LStart os_env pb_SMTPConfig | LStop os_env | LExit

definition os_foreign :: "os_env \<Rightarrow> bool" where
  "os_foreign O' \<longleftrightarrow> (\<forall>net addr e. os_Listen O' net addr = Some e \<longrightarrow> \<not> errors_Is e ErrSMTPAlreadyRunning)
     \<and> (\<forall>e. os_lis_Close O' = Some e \<or> os_srv_Close O' = Some e \<longrightarrow> \<not> errors_Is e ErrSMTPNotRunning)"

fun foreign_op :: "listener_op \<Rightarrow> bool" where
  "foreign_op (LStart O' req) = os_foreign O'"
| "foreign_op (LStop O') = os_foreign O'"
| "foreign_op LExit = True"

definition code_of :: "'a result \<Rightarrow> grpc_code option" where
  "code_of r = (case r of Inr _ \<Rightarrow> None | Inl e \<Rightarrow> Some (status_code e))"

fun listener_step :: "'l limiter_ops \<Rightarrow> 'l Server option \<Rightarrow> listener_op \<Rightarrow> 'l Server option \<times> grpc_code option" where
  "listener_step LM smtp (LStart O' req) = map_prod id code_of (rpc_StartSMTP (smtp_lifecycle O') (smtp_New LM) smtp req)"
| "listener_step LM smtp (LStop O') = map_prod id code_of (rpc_StopSMTP (smtp_lifecycle O') smtp)"
| "listener_step LM smtp LExit = (map_option sv_serve_exit smtp, None)"

text \<open>The abstract listener is one bit. Listening on the requested port (2525 if it is 0) may fail, and so
  may closing.\<close>

definition listen_addr :: "pb_SMTPConfig \<Rightarrow> string" where
  "listen_addr req = '':'' @ itoa (if sint (pb_Port req) = 0 then 2525 else sint (pb_Port req))"

definition listens :: "os_env \<Rightarrow> pb_SMTPConfig \<Rightarrow> bool" where
  "listens O' req \<longleftrightarrow> os_Listen O' ''tcp'' (listen_addr req) = None"

fun listener_spec :: "bool \<Rightarrow> listener_op \<Rightarrow> bool \<times> grpc_code option" where
  "listener_spec running (LStart O' req) =
     (if running then (True, Some FailedPrecondition) else if listens O' req then (True, None) else (False, Some Internal))"
| "listener_spec running (LStop O') =
     (if \<not> running then (False, Some FailedPrecondition) else (False, if close_error O' = None then None else Some Internal))"
| "listener_spec running LExit = (False, None)"

definition is_running :: "'l Server option \<Rightarrow> bool" where
  "is_running smtp = (case smtp of None \<Rightarrow> False | Some s \<Rightarrow> sv_running s)"

lemma rpc_server_sel:
  "\<not> sv_running (smtp_New LM (smtpConfigFromProto req))"
  "cfg_TLSCertFile (sv_cfg (smtp_New LM (smtpConfigFromProto req))) = ''''"
  "cfg_BindAddr (sv_cfg (smtp_New LM (smtpConfigFromProto req))) @ '':'' @ itoa (cfg_Port (sv_cfg (smtp_New LM (smtpConfigFromProto req)))) = listen_addr req"
  by (simp_all add: smtp_New_def NewWithValidator_def smtpConfigFromProto_def applyDefaults_def listen_addr_def Let_def)

lemma sv_Start_rpc:
  "sv_Start O' (smtp_New LM (smtpConfigFromProto req)) =
     (case os_Listen O' ''tcp'' (listen_addr req) of
        None \<Rightarrow> ((smtp_New LM (smtpConfigFromProto req))\<lparr>sv_running := True\<rparr>, None)
      | Some e \<Rightarrow> (smtp_New LM (smtpConfigFromProto req), Some (EWrap (''smtp: listen '' @ listen_addr req) e)))"
  unfolding sv_Start_def Let_def rpc_server_sel(3) by (simp add: rpc_server_sel(1,2))

lemma close_error_foreign: "os_foreign O' \<Longrightarrow> close_error O' = Some e \<Longrightarrow> \<not> errors_Is e ErrSMTPNotRunning"
  by (auto simp: os_foreign_def close_error_def Let_def split: option.splits if_splits)

lemma listener_start_sim:
  assumes "os_foreign O'" and "listener_step LM smtp (LStart O' req) = (smtp', c)"
  shows "listener_spec (is_running smtp) (LStart O' req) = (is_running smtp', c)"
proof (cases "is_running smtp")
  case True
  then obtain s where "smtp = Some s" "sv_running s" by (auto simp: is_running_def split: option.splits)
  then show ?thesis
    using assms(2) by (auto simp: rpc_StartSMTP_def ctl_StartSMTP_def smtp_lifecycle_def code_of_def is_running_def)
next
  case False
  let ?srv = "smtp_New LM (smtpConfigFromProto req)"
  have start: "ctl_StartSMTP (smtp_lifecycle O') ?srv smtp = (case sv_Start O' ?srv of (_, Some e) \<Rightarrow> (smtp, Some e) | (srv', None) \<Rightarrow> (Some srv', None))"
    using False by (auto simp: ctl_StartSMTP_def smtp_lifecycle_def is_running_def split: option.split)
  show ?thesis
  proof (cases "os_Listen O' ''tcp'' (listen_addr req)")
    case None
    have "rpc_StartSMTP (smtp_lifecycle O') (smtp_New LM) smtp req =
        (Some (?srv\<lparr>sv_running := True\<rparr>), snd (rpc_StartSMTP (smtp_lifecycle O') (smtp_New LM) smtp req))"
      and "code_of (snd (rpc_StartSMTP (smtp_lifecycle O') (smtp_New LM) smtp req)) = None"
      by (simp_all add: rpc_StartSMTP_def start sv_Start_rpc None code_of_def)
    then have "smtp' = Some (?srv\<lparr>sv_running := True\<rparr>)" "c = None"
      using assms(2) by (metis listener_step.simps(1) map_prod_simp id_apply prod.inject)+
    then show ?thesis using False None by (simp add: listens_def is_running_def)
  next
    case (Some e)
    then have "\<not> errors_Is e ErrSMTPAlreadyRunning" using assms(1) by (auto simp: os_foreign_def)
    moreover have "ctl_StartSMTP (smtp_lifecycle O') ?srv smtp = (smtp, Some (EWrap (''smtp: listen '' @ listen_addr req) e))"
      by (simp add: start sv_Start_rpc Some)
    ultimately have "smtp' = smtp \<and> c = Some Internal"
      using assms(2) by (cases smtp) (auto simp: rpc_StartSMTP_def code_of_def)
    then show ?thesis using False Some by (simp add: listens_def)
  qed
qed

lemma listener_stop_sim:
  assumes "os_foreign O'" and "listener_step LM smtp (LStop O') = (smtp', c)"
  shows "listener_spec (is_running smtp) (LStop O') = (is_running smtp', c)"
  using assms(2) close_error_foreign [OF assms(1)]
  by (cases smtp; cases "close_error O'")
     (auto simp: rpc_StopSMTP_def ctl_StopSMTP_def smtp_lifecycle_def sv_Stop_def sv_serve_exit_def code_of_def is_running_def split: if_splits)

lemma listener_sim:
  assumes "foreign_op ev" and "listener_step LM smtp ev = (smtp', c)"
  shows "listener_spec (is_running smtp) ev = (is_running smtp', c)"
proof (cases ev)
  case (LStart O' req)
  then show ?thesis using listener_start_sim [of O' LM smtp req] assms by (simp del: listener_step.simps listener_spec.simps)
next
  case (LStop O')
  then show ?thesis using listener_stop_sim [of O' LM smtp] assms by (simp del: listener_step.simps listener_spec.simps)
next
  case LExit
  then show ?thesis using assms(2) by (cases smtp) (auto simp: is_running_def sv_serve_exit_def)
qed

fun trace :: "('s \<Rightarrow> 'o \<Rightarrow> 's \<times> 'r) \<Rightarrow> 's \<Rightarrow> 'o list \<Rightarrow> 's \<times> 'r list" where
  "trace f s [] = (s, [])"
| "trace f s (x # xs) = (let (s1, r) = f s x; (s2, rs) = trace f s1 xs in (s2, r # rs))"

lemma trace_sim:
  assumes "\<And>s x s' r. P x \<Longrightarrow> f s x = (s', r) \<Longrightarrow> g (h s) x = (h s', r)" and "list_all P xs"
  shows "trace g (h s) xs = map_prod h id (trace f s xs)"
  using assms(2)
proof (induction xs arbitrary: s)
  case (Cons x xs)
  obtain s1 r where f: "f s x = (s1, r)" by fastforce
  show ?case using Cons assms(1) [OF _ f] by (simp add: f case_prod_beta)
qed simp

text \<open>C17: The service's control of the SMTP listener refines a one-bit specification, for every sequence of
  \<open>StartSMTP\<close> and \<open>StopSMTP\<close> calls interleaved with the listener ending by itself: a start is refused with
  \<open>FailedPrecondition\<close> exactly while the listener runs, otherwise it succeeds exactly if the port can be
  bound; a stop is refused exactly while nothing runs; after an error of the operating system the
  listener can be started again; and \<open>GetSMTPStatus\<close> reports the bit.\<close>

theorem smtp_control_refines:
  fixes LM :: "'l limiter_ops"
  assumes "list_all foreign_op ops" and "trace (listener_step LM) None ops = (smtp, codes)"
  shows "trace listener_spec False ops = (is_running smtp, codes) \<and> ss_Running (GetSMTPStatus (smtp_lifecycle O') smtp) = is_running smtp"
proof -
  have "trace listener_spec (is_running (None :: 'l Server option)) ops = map_prod is_running id (trace (listener_step LM) None ops)"
    by (rule trace_sim [of foreign_op "listener_step LM" listener_spec is_running, OF listener_sim assms(1)])
  moreover have "\<not> is_running (None :: 'l Server option)" by (simp add: is_running_def)
  moreover have "ss_Running (GetSMTPStatus (smtp_lifecycle O') smtp) = is_running smtp"
    by (simp add: GetSMTPStatus_def is_running_def smtp_lifecycle_def split: option.split)
  ultimately show ?thesis using assms(2) by simp
qed

definition os_ex :: "error option \<Rightarrow> os_env" where
  "os_ex e = \<lparr>os_LoadX509KeyPair = (\<lambda>_ _. None), os_Listen = (\<lambda>_ _. e), os_Chmod = (\<lambda>_. None), os_lis_Close = None, os_srv_Close = None,
     os_closed = (\<lambda>_. False)\<rparr>"

definition smtp_req_ex :: pb_SMTPConfig where
  "smtp_req_ex = \<lparr>pb_Port = 0, pb_Domain = ''x.org'', pb_AllowInsecureAuth = False, pb_MaxMessageBytes = 0, pb_MaxRecipients = 0,
     pb_ReadTimeoutSecs = 0, pb_WriteTimeoutSecs = 0, pb_MaxConnsPerSec = 0, pb_BurstConns = 0\<rparr>"

definition listener_ops_ex :: "listener_op list" where
  "listener_ops_ex = [LStop (os_ex None), LStart (os_ex (Some (EText ''in use''))) smtp_req_ex, LStart (os_ex None) smtp_req_ex,
     LStart (os_ex None) smtp_req_ex, LExit, LStart (os_ex None) smtp_req_ex, LStop (os_ex None)]"

theorem smtp_control_refines_witness:
  "snd (trace (listener_step (\<lparr>NewLimiter = \<lambda>_ _. (), Allow = \<lambda>_ _. ((), True)\<rparr>)) None listener_ops_ex) =
     [Some FailedPrecondition, Some Internal, None, Some FailedPrecondition, None, None, None]"
proof -
  define LM :: "unit limiter_ops" where "LM = \<lparr>NewLimiter = \<lambda>_ _. (), Allow = \<lambda>_ _. ((), True)\<rparr>"
  obtain smtp codes where t: "trace (listener_step LM) None listener_ops_ex = (smtp, codes)" by fastforce
  have "list_all foreign_op listener_ops_ex" by (simp add: listener_ops_ex_def os_foreign_def os_ex_def)
  from smtp_control_refines [OF this t] have "trace listener_spec False listener_ops_ex = (is_running smtp, codes)" by simp
  then have "codes = [Some FailedPrecondition, Some Internal, None, Some FailedPrecondition, None, None, None]"
    by (simp add: listener_ops_ex_def listens_def os_ex_def close_error_def)
  then show ?thesis using t unfolding LM_def by simp
qed

end
