(* ===== verification/Forwarder.thy ===== *)
theory Forwarder
  imports Registry
begin

text \<open>
  The gRPC interceptor that splits a \<open>SendMessage\<close> call across nodes
  (\<open>internal/forwarder/forwarder.go\<close>): classification of the recipients, the pool of outbound
  connections, forwarding with fall-back to local delivery, and a cluster of such nodes.

  What the interceptor calls is the record \<open>fwd_env\<close>: the registry and the resolver (the
  functions of the theory \<open>Registry\<close> at some state), the gRPC dialler and remote calls, and the
  order in which Go's \<open>range\<close> visits the map of remote addresses.
\<close>

section \<open>Requests and environment\<close>

record SendMessageRequest =
  UserId :: string
  RecipientIds :: "string list"
  DeliverTo :: "string list"
  ReqSubject :: string
  ReqBody :: string
  ReqHeaders :: strmap

record fwd_env =
  fe_Lookup :: "string \<Rightarrow> string result"
  fe_Resolve :: "string \<Rightarrow> string result"
  fe_NewClient :: "string \<Rightarrow> error option"
  fe_Call :: "string \<Rightarrow> SendMessageRequest \<Rightarrow> error option"
  fe_order :: "(string, string list) gomap \<Rightarrow> (string, string list) gomap"

definition sendMessageMethod :: string where
  "sendMessageMethod = ''/mailbox.v1.MailboxService/SendMessage''"

text \<open>The pool of client connections, by remote address.\<close>

type_synonym conns = "(string, unit) gomap"

section \<open>Connections\<close>

definition dial :: "fwd_env \<Rightarrow> conns \<Rightarrow> string \<Rightarrow> conns \<times> error option" where
  "dial E conns addr =
     (case gm_get conns addr of
        Some conn \<Rightarrow> (conns, None)
      | None \<Rightarrow>
          (case fe_NewClient E addr of
             Some e \<Rightarrow> (conns, Some e)
           | None \<Rightarrow> (gm_put addr () conns, None)))"

definition evict :: "conns \<Rightarrow> string \<Rightarrow> conns" where
  "evict conns addr = (case gm_get conns addr of Some conn \<Rightarrow> gm_del addr conns | None \<Rightarrow> conns)"

definition fwd_Close :: "conns \<Rightarrow> conns" where
  "fwd_Close conns = fold gm_del (map fst conns) conns"

definition is_unavailable :: "error \<Rightarrow> bool" where
  "is_unavailable e = (case e of EStatus c m \<Rightarrow> c = Unavailable | _ \<Rightarrow> False)"

definition cloneReq :: "SendMessageRequest \<Rightarrow> SendMessageRequest" where
  "cloneReq req = req"

text \<open>The second result is the call made to the remote node, if the dialler succeeded.\<close>

definition forward :: "fwd_env \<Rightarrow> conns \<Rightarrow> SendMessageRequest \<Rightarrow> string \<Rightarrow> string list
    \<Rightarrow> conns \<times> (string \<times> SendMessageRequest) list \<times> error option" where
  "forward E conns req addr recipients =
     (case dial E conns addr of
        (conns', Some e) \<Rightarrow> (conns', [], Some (EWrap (''dial '' @ addr) e))
      | (conns', None) \<Rightarrow>
          (let fwd = (cloneReq req)\<lparr>DeliverTo := recipients\<rparr> in
           case fe_Call E addr fwd of
             Some e \<Rightarrow> (if is_unavailable e then evict conns' addr else conns', [(addr, fwd)], Some (EWrap (''forward to '' @ addr) e))
           | None \<Rightarrow> (conns', [(addr, fwd)], None)))"

section \<open>Splitting a call\<close>

definition classify1 :: "fwd_env \<Rightarrow> string \<Rightarrow> string \<Rightarrow> (string, string list) gomap \<times> string list
    \<Rightarrow> (string, string list) gomap \<times> string list" where
  "classify1 E me recipID st =
     (let (remoteByAddr, localRecipients) = st in
      case fe_Lookup E recipID of
        Inl _ \<Rightarrow> (remoteByAddr, localRecipients @ [recipID])
      | Inr nid \<Rightarrow>
          if nid = me then (remoteByAddr, localRecipients @ [recipID])
          else (case fe_Resolve E nid of
                  Inl _ \<Rightarrow> (remoteByAddr, localRecipients @ [recipID])
                | Inr addr \<Rightarrow>
                    (gm_put addr ((case gm_get remoteByAddr addr of None \<Rightarrow> [] | Some rs \<Rightarrow> rs) @ [recipID]) remoteByAddr,
                     localRecipients)))"

definition classify :: "fwd_env \<Rightarrow> string \<Rightarrow> string list \<Rightarrow> (string, string list) gomap \<times> string list" where
  "classify E me rs = fold (classify1 E me) rs ([], [])"

fun forward_all :: "fwd_env \<Rightarrow> SendMessageRequest \<Rightarrow> (string, string list) gomap \<Rightarrow> conns \<Rightarrow> string list
    \<Rightarrow> conns \<times> (string \<times> SendMessageRequest \<times> bool) list \<times> string list" where
  "forward_all E req [] conns localRecipients = (conns, [], localRecipients)"
| "forward_all E req ((addr, recipients) # rest) conns localRecipients =
     (case forward E conns req addr recipients of
        (conns', calls, err) \<Rightarrow>
          (let local' = (if err \<noteq> None then localRecipients @ recipients else localRecipients)
           in case forward_all E req rest conns' local' of
                (conns'', calls', local'') \<Rightarrow> (conns'', map (\<lambda>(a, q). (a, q, err = None)) calls @ calls', local'')))"

text \<open>The result: the pool, the calls made with their success, and the response: that of the local
  handler on the local recipients, or the empty response when none is left.\<close>

definition handle :: "fwd_env \<Rightarrow> string \<Rightarrow> conns \<Rightarrow> SendMessageRequest \<Rightarrow> (SendMessageRequest \<Rightarrow> 'resp result) \<Rightarrow> 'resp
    \<Rightarrow> conns \<times> (string \<times> SendMessageRequest \<times> bool) list \<times> 'resp result" where
  "handle E me conns req handler synth =
     (let (remoteByAddr, localRecipients) = classify E me (RecipientIds req) in
      case forward_all E req (fe_order E remoteByAddr) conns localRecipients of
        (conns', calls, local') \<Rightarrow>
          if local' = [] then (conns', calls, Inr synth)
          else (conns', calls, handler ((cloneReq req)\<lparr>RecipientIds := local'\<rparr>)))"

definition Interceptor :: "fwd_env \<Rightarrow> string \<Rightarrow> conns \<Rightarrow> string \<Rightarrow> SendMessageRequest \<Rightarrow> (SendMessageRequest \<Rightarrow> 'resp result) \<Rightarrow> 'resp
    \<Rightarrow> conns \<times> (string \<times> SendMessageRequest \<times> bool) list \<times> 'resp result" where
  "Interceptor E me conns fullMethod req handler synth =
     (if fullMethod \<noteq> sendMessageMethod then (conns, [], handler req) else handle E me conns req handler synth)"

section \<open>Every recipient is handled exactly once\<close>

definition remote_set :: "(string, string list) gomap \<Rightarrow> string multiset" where
  "remote_set m = (\<Sum>(a, rs) \<leftarrow> m. mset rs)"

lemma remote_set_simps [simp]:
  "remote_set [] = {#}" "remote_set ((a, rs) # m) = mset rs + remote_set m"
  by (simp_all add: remote_set_def)

lemma remote_set_put:
  "gm_get m a = None \<Longrightarrow> remote_set (gm_put a rs m) = remote_set m + mset rs"
  "gm_get m a = Some qs \<Longrightarrow> remote_set (gm_put a (qs @ rs) m) = remote_set m + mset rs"
  by (induction m) (auto split: if_splits)

lemma remote_set_perm: "mset m = mset m' \<Longrightarrow> remote_set m = remote_set m'"
  unfolding remote_set_def by (metis mset_map sum_mset_sum_list)

definition routed_to :: "fwd_env \<Rightarrow> string \<Rightarrow> string \<Rightarrow> string \<Rightarrow> bool" where
  "routed_to E me addr u \<longleftrightarrow> (\<exists>nid. fe_Lookup E u = Inr nid \<and> nid \<noteq> me \<and> fe_Resolve E nid = Inr addr)"

definition classified :: "fwd_env \<Rightarrow> string \<Rightarrow> string list \<Rightarrow> (string, string list) gomap \<times> string list \<Rightarrow> bool" where
  "classified E me rs st \<longleftrightarrow> remote_set (fst st) + mset (snd st) = mset rs
     \<and> (\<forall>(a, qs) \<in> set (fst st). qs \<noteq> [] \<and> (\<forall>u \<in> set qs. routed_to E me a u))
     \<and> (\<forall>u \<in> set (snd st). \<nexists>a. routed_to E me a u)"

lemma classified_step:
  assumes "classified E me rs st"
  shows "classified E me (rs @ [u]) (classify1 E me u st)"
proof -
  obtain m l where st: "st = (m, l)" by (cases st)
  show ?thesis
  proof (cases "\<exists>a. routed_to E me a u")
    case True
    then obtain nid a where n: "fe_Lookup E u = Inr nid" "nid \<noteq> me" "fe_Resolve E nid = Inr a"
      by (auto simp: routed_to_def)
    have r: "routed_to E me a u" using n by (auto simp: routed_to_def)
    define qs where "qs = (case gm_get m a of None \<Rightarrow> [] | Some rs \<Rightarrow> rs)"
    have c: "classify1 E me u st = (gm_put a (qs @ [u]) m, l)"
      using n by (simp add: classify1_def st qs_def)
    have "remote_set (gm_put a (qs @ [u]) m) = remote_set m + {#u#}"
      using remote_set_put [of m a] by (simp add: qs_def split: option.split)
    moreover have "\<forall>v \<in> set qs. routed_to E me a v"
      using assms st by (cases "gm_get m a") (auto simp: qs_def classified_def dest!: map_of_SomeD)
    moreover have sub: "set (gm_put a (qs @ [u]) m) \<subseteq> insert (a, qs @ [u]) (set m)"
      by (induction m) auto
    moreover have "\<forall>(b, ps) \<in> insert (a, qs @ [u]) (set m). ps \<noteq> [] \<and> (\<forall>v \<in> set ps. routed_to E me b v)"
      using assms st r calculation(2) by (auto simp: classified_def)
    then have "\<forall>(b, ps) \<in> set (gm_put a (qs @ [u]) m). ps \<noteq> [] \<and> (\<forall>v \<in> set ps. routed_to E me b v)"
      using sub by (meson subset_iff)
    ultimately show ?thesis using assms st c by (simp add: classified_def)
  next
    case False
    then have "classify1 E me u st = (m, l @ [u])"
      by (auto simp: classify1_def st routed_to_def split: sum.splits)
    then show ?thesis using assms False st by (auto simp: classified_def)
  qed
qed

lemma classify_classified: "classified E me rs (classify E me rs)"
proof -
  have "classified E me (qs @ rs) (fold (classify1 E me) rs st)" if "classified E me qs st" for qs st
    using that
  proof (induction rs arbitrary: qs st)
    case (Cons u rs)
    then show ?case using Cons.IH [OF classified_step [OF Cons.prems, of u]] by simp
  qed simp
  from this [of "[]" "([], [])"] show ?thesis by (simp add: classify_def classified_def)
qed

definition delivered_remotely :: "(string \<times> SendMessageRequest \<times> bool) list \<Rightarrow> string multiset" where
  "delivered_remotely calls = (\<Sum>(a, q, ok) \<leftarrow> calls. if ok then mset (DeliverTo q) else {#})"

lemma delivered_remotely_simps [simp]:
  "delivered_remotely [] = {#}" "delivered_remotely (xs @ ys) = delivered_remotely xs + delivered_remotely ys"
  "delivered_remotely ((a, q, b) # xs) = (if b then mset (DeliverTo q) else {#}) + delivered_remotely xs"
  by (simp_all add: delivered_remotely_def)

lemma forward_calls:
  assumes "forward E conns req addr rs = (conns', calls, err)"
  shows "delivered_remotely (map (\<lambda>(a, q). (a, q, err = None)) calls) = (if err = None then mset rs else {#})"
    and "(a, q) \<in> set calls \<Longrightarrow> a = addr \<and> q = req\<lparr>DeliverTo := rs\<rparr>"
  using assms by (auto simp: forward_def cloneReq_def Let_def split: prod.splits option.splits)

lemma forward_all_calls:
  assumes "forward_all E req m conns l = (conns', calls, l')"
  shows "delivered_remotely calls + mset l' = remote_set m + mset l"
    and "(a, q, b) \<in> set calls \<Longrightarrow> \<exists>rs. (a, rs) \<in> set m \<and> q = req\<lparr>DeliverTo := rs\<rparr>"
proof -
  have "delivered_remotely calls + mset l' = remote_set m + mset l
      \<and> (\<forall>(a, q, b) \<in> set calls. \<exists>rs. (a, rs) \<in> set m \<and> q = req\<lparr>DeliverTo := rs\<rparr>)"
    using assms
  proof (induction E req m conns l arbitrary: calls rule: forward_all.induct)
    case (2 E req addr rs rest conns l)
    obtain c1 k1 e1 where f: "forward E conns req addr rs = (c1, k1, e1)" by (cases "forward E conns req addr rs")
    define l1 where "l1 = (if e1 \<noteq> None then l @ rs else l)"
    obtain c2 k2 l2 where g: "forward_all E req rest c1 l1 = (c2, k2, l2)" by (cases "forward_all E req rest c1 l1")
    have eq: "calls = map (\<lambda>(a, q). (a, q, e1 = None)) k1 @ k2" "l' = l2" "conns' = c2"
      using 2(2) unfolding forward_all.simps f prod.case Let_def l1_def [symmetric] g by simp_all
    have ih: "delivered_remotely k2 + mset l2 = remote_set rest + mset l1"
        "\<forall>(a, q, b) \<in> set k2. \<exists>rs. (a, rs) \<in> set rest \<and> q = req\<lparr>DeliverTo := rs\<rparr>"
      using 2(1) [OF f [symmetric] refl refl, folded l1_def, OF g [folded eq(2,3)]] eq(2) by auto
    show ?case
      using ih forward_calls [OF f] by (auto simp: eq l1_def)
  qed simp
  then show "delivered_remotely calls + mset l' = remote_set m + mset l"
    and "(a, q, b) \<in> set calls \<Longrightarrow> \<exists>rs. (a, rs) \<in> set m \<and> q = req\<lparr>DeliverTo := rs\<rparr>" by blast+
qed

text \<open>C1: a split call handles every recipient exactly once: counted with multiplicity, the
  recipients of the call are those handed to remote nodes by successful forwards together with
  those handed to the local handler, in whatever order the remote nodes are visited. A forward goes
  only to the node a recipient is routed to, and a recipient whose node is unknown, unresolvable,
  undialable or failing is delivered locally.\<close>

theorem forwarder_exactly_once:
  assumes "mset (fe_order E m) = mset m" and "(m, l) = classify E me (RecipientIds req)"
    and "forward_all E req (fe_order E m) conns l = (conns', calls, loc)"
  shows "delivered_remotely calls + mset loc = mset (RecipientIds req)
    \<and> (\<forall>(a, q, b) \<in> set calls. (\<forall>u \<in> set (DeliverTo q). routed_to E me a u) \<and> RecipientIds q = RecipientIds req)
    \<and> snd (snd (handle E me conns req handler synth))
        = (if loc = [] then Inr synth else handler (req\<lparr>RecipientIds := loc\<rparr>))
    \<and> fst (snd (handle E me conns req handler synth)) = calls"
proof -
  have c: "remote_set m + mset l = mset (RecipientIds req)"
      "\<forall>(a, qs) \<in> set m. \<forall>u \<in> set qs. routed_to E me a u"
    using classify_classified [of E me "RecipientIds req"] assms(2) [symmetric] by (auto simp: classified_def)
  have s: "set (fe_order E m) = set m" using assms(1) by (rule mset_eq_setD)
  note f = forward_all_calls [OF assms(3)]
  have "delivered_remotely calls + mset loc = mset (RecipientIds req)"
    using f(1) c(1) remote_set_perm [OF assms(1)] by simp
  moreover have "\<forall>(a, q, b) \<in> set calls. (\<forall>u \<in> set (DeliverTo q). routed_to E me a u) \<and> RecipientIds q = RecipientIds req"
    using f(2) c(2) s by fastforce
  ultimately show ?thesis
    using assms(2) [symmetric] assms(3) by (simp add: handle_def cloneReq_def Let_def)
qed

definition fwd_env_ex :: fwd_env where
  "fwd_env_ex = \<lparr>fe_Lookup = (\<lambda>u. if u = ''x'' then Inl ErrRegistryNotFound else Inr (domain_part u)),
     fe_Resolve = (\<lambda>n. if n = ''gone'' then Inl ErrRegistryNotFound else Inr (n @ '':1'')), fe_NewClient = (\<lambda>a. None),
     fe_Call = (\<lambda>a q. if a = ''down:1'' then Some (EStatus Unavailable ''down'') else None), fe_order = rev\<rparr>"

definition req_ex :: SendMessageRequest where
  "req_ex = \<lparr>UserId = ''s@me'', RecipientIds = [''a@me'', ''b@n1'', ''c@down'', ''d@gone'', ''e@n1'', ''x''], DeliverTo = [],
     ReqSubject = [], ReqBody = [], ReqHeaders = []\<rparr>"

lemma forwarder_exactly_once_witness:
  "(let (m, l) = classify fwd_env_ex ''me'' (RecipientIds req_ex);
        (c, calls, loc) = forward_all fwd_env_ex req_ex (fe_order fwd_env_ex m) [] l
    in delivered_remotely calls = {#''b@n1'', ''e@n1''#} \<and> delivered_remotely calls + mset loc = mset (RecipientIds req_ex))"
proof -
  define m where "m = [(''n1:1'', [''b@n1'', ''e@n1'']), (''down:1'', [''c@down''])]"
  define l where "l = [''a@me'', ''d@gone'', ''x'']"
  have c: "(m, l) = classify fwd_env_ex ''me'' (RecipientIds req_ex)"
    by (simp add: classify_def classify1_def fwd_env_ex_def req_ex_def domain_part_def m_def l_def)
  have f: "forward_all fwd_env_ex req_ex (fe_order fwd_env_ex m) [] l =
     ([(''n1:1'', ())], [(''down:1'', req_ex\<lparr>DeliverTo := [''c@down'']\<rparr>, False), (''n1:1'', req_ex\<lparr>DeliverTo := [''b@n1'', ''e@n1'']\<rparr>, True)],
      [''a@me'', ''d@gone'', ''x'', ''c@down''])"
    by (simp add: m_def l_def fwd_env_ex_def forward_def dial_def evict_def is_unavailable_def cloneReq_def)
  have o: "mset (fe_order fwd_env_ex m) = mset m" by (simp add: fwd_env_ex_def)
  show ?thesis
    unfolding c [symmetric] using forwarder_exactly_once [OF o c f, THEN conjunct1] by (simp add: f add_mset_commute)
qed

section \<open>Connections are pooled\<close>

lemma gm_del_fold: "gm_get (fold gm_del ks m) k = (if k \<in> set ks then None else gm_get m k)"
  by (induction ks arbitrary: m) auto

text \<open>The connection pool. A successful forward leaves a pooled connection to the address, and
  the next forward to it succeeds without dialling again; a call that ends with \<open>Unavailable\<close>
  removes the connection, so that the next one dials; \<open>Close\<close> empties the pool.\<close>

theorem connection_pool:
  assumes "forward E conns req addr rs = (conns', calls, err)"
  shows "(err = None \<longrightarrow> gm_get conns' addr = Some ())
    \<and> (gm_get conns addr \<noteq> None \<longrightarrow> calls = [(addr, req\<lparr>DeliverTo := rs\<rparr>)])
    \<and> (calls \<noteq> [] \<and> (\<exists>m. fe_Call E addr (req\<lparr>DeliverTo := rs\<rparr>) = Some (EStatus Unavailable m)) \<longrightarrow> gm_get conns' addr = None)
    \<and> (\<forall>a. a \<noteq> addr \<longrightarrow> gm_get conns' a = gm_get conns a) \<and> gm_get (fwd_Close conns') a = None"
proof -
  have "gm_get (fwd_Close conns') a = None"
    by (auto simp: fwd_Close_def gm_del_fold map_of_eq_None_iff)
  then show ?thesis
    using assms
    by (auto simp: forward_def dial_def evict_def cloneReq_def is_unavailable_def Let_def
        split: option.splits prod.splits error.splits if_splits)
qed

lemma connection_pool_witness:
  "\<exists>c k e. forward fwd_env_ex [(''down:1'', ())] req_ex ''down:1'' [''c@down''] = (c, k, e) \<and> gm_get c ''down:1'' = None"
proof -
  obtain c k e where f: "forward fwd_env_ex [(''down:1'', ())] req_ex ''down:1'' [''c@down''] = (c, k, e)"
    by (cases "forward fwd_env_ex [(''down:1'', ())] req_ex ''down:1'' [''c@down'']")
  show ?thesis
    using connection_pool [OF f, of "''down:1''"] f by (auto simp: fwd_env_ex_def)
qed

section \<open>A cluster of forwarding nodes\<close>

text \<open>Every node of a cluster runs the interceptor in front of its handler, and a forward is a
  \<open>SendMessage\<close> call on the remote node, nested inside the call that forwards. \<open>induces\<close> relates a
  call on a node to the calls it makes on other nodes; addresses are node identifiers.\<close>

definition induces :: "(string \<Rightarrow> fwd_env) \<Rightarrow> (string \<Rightarrow> conns) \<Rightarrow> string \<times> SendMessageRequest \<Rightarrow> string \<times> SendMessageRequest \<Rightarrow> bool" where
  "induces env pool x y \<longleftrightarrow>
     (\<exists>b. (fst y, snd y, b) \<in> set (fst (snd (handle (env (fst x)) (fst x) (pool (fst x)) (snd x) (\<lambda>q. Inr ()) ()))))"

text \<open>All nodes share the routing table \<open>owner\<close>, and every node can be resolved and dialled.\<close>

definition connected :: "(string \<Rightarrow> fwd_env) \<Rightarrow> (string \<Rightarrow> string) \<Rightarrow> bool" where
  "connected env owner \<longleftrightarrow> (\<forall>n u. fe_Lookup (env n) u = Inr (owner u)) \<and> (\<forall>n m. fe_Resolve (env n) m = Inr m)
     \<and> (\<forall>n a. fe_NewClient (env n) a = None) \<and> (\<forall>n m. mset (fe_order (env n) m) = mset m)"

lemma forward_all_each:
  assumes "\<And>a. fe_NewClient E a = None" and "(a, rs) \<in> set m" and "forward_all E req m conns l = (conns', calls, l')"
  shows "\<exists>b. (a, req\<lparr>DeliverTo := rs\<rparr>, b) \<in> set calls"
  using assms(2,3)
proof (induction m arbitrary: conns l calls)
  case (Cons x m)
  obtain addr qs where x: "x = (addr, qs)" by (cases x)
  obtain c1 k1 e1 where f: "forward E conns req addr qs = (c1, k1, e1)" by (cases "forward E conns req addr qs")
  have k1: "k1 = [(addr, req\<lparr>DeliverTo := qs\<rparr>)]"
    using f assms(1) by (auto simp: forward_def dial_def cloneReq_def Let_def split: option.splits prod.splits)
  obtain k2 where k2: "forward_all E req m c1 (if e1 \<noteq> None then l @ qs else l) = (conns', k2, l')"
      "calls = (addr, req\<lparr>DeliverTo := qs\<rparr>, e1 = None) # k2"
    using Cons.prems(2) by (simp add: x f k1 split: prod.splits)
  show ?case using Cons.IH [OF _ k2(1)] Cons.prems(1) k2(2) x by auto
qed simp

lemma in_remote_set: "u \<in># remote_set m \<longleftrightarrow> (\<exists>(a, rs) \<in> set m. u \<in> set rs)"
  by (induction m) (auto simp: remote_set_def)

lemma remote_recipient_induces:
  assumes "connected env owner" and "u \<in> set (RecipientIds req)" and "owner u \<noteq> n"
  shows "\<exists>q. induces env pool (n, req) (owner u, q) \<and> RecipientIds q = RecipientIds req"
proof -
  obtain m l where c: "classify (env n) n (RecipientIds req) = (m, l)" by (cases "classify (env n) n (RecipientIds req)")
  obtain conns' calls loc where f: "forward_all (env n) req (fe_order (env n) m) (pool n) l = (conns', calls, loc)"
    by (cases "forward_all (env n) req (fe_order (env n) m) (pool n) l")
  have cl: "classified (env n) n (RecipientIds req) (m, l)" using classify_classified [of "env n" n "RecipientIds req"] c by simp
  have route: "routed_to (env n) n a v \<longleftrightarrow> owner v \<noteq> n \<and> a = owner v" for a v
    using assms(1) by (auto simp: routed_to_def connected_def)
  have "u \<notin> set l" using cl assms(3) by (auto simp: classified_def route)
  moreover have "u \<in># remote_set m + mset l" using cl assms(2) by (simp add: classified_def)
  ultimately have "u \<in># remote_set m" by simp
  then obtain a rs where "(a, rs) \<in> set m" "u \<in> set rs" by (auto simp: in_remote_set)
  then have "(owner u, rs) \<in> set (fe_order (env n) m)"
    using cl assms(1) mset_eq_setD [of "fe_order (env n) m" m] by (auto simp: classified_def route connected_def)
  then obtain b where "(owner u, req\<lparr>DeliverTo := rs\<rparr>, b) \<in> set calls"
    using forward_all_each [OF _ _ f, of "owner u" rs] assms(1) unfolding connected_def by blast
  moreover have "calls = fst (snd (handle (env n) n (pool n) req (\<lambda>q. Inr ()) ()))"
    by (simp add: handle_def c f)
  ultimately have "induces env pool (n, req) (owner u, req\<lparr>DeliverTo := rs\<rparr>)" by (auto simp: induces_def)
  then show ?thesis by fastforce
qed

text \<open>C26: a message with recipients on two nodes never completes. The interceptor looks at
  \<open>recipient_ids\<close> only and not at the \<open>deliver_to\<close> restriction that it sets itself, so the node that
  receives a forwarded call forwards the call back for the recipients of the first node, and so on:
  the chain of nested calls has every length.\<close>

theorem forwarding_loop:
  assumes "connected env owner" and "{a, b} \<subseteq> set (RecipientIds req)" and "owner a \<noteq> owner b"
  shows "\<exists>y. (induces env pool ^^ k) (owner a, req) y \<and> RecipientIds (snd y) = RecipientIds req
           \<and> fst y = (if even k then owner a else owner b)"
proof (induction k)
  case 0
  show ?case by auto
next
  case (Suc k)
  then obtain n q where y: "(induces env pool ^^ k) (owner a, req) (n, q)" "RecipientIds q = RecipientIds req"
      "n = (if even k then owner a else owner b)" by auto
  define u where "u = (if even k then b else a)"
  have u: "u \<in> set (RecipientIds q)" "owner u \<noteq> n" using assms(2,3) y(2,3) by (auto simp: u_def)
  obtain q' where q': "induces env pool (n, q) (owner u, q')" "RecipientIds q' = RecipientIds q"
    using remote_recipient_induces [OF assms(1) u] by blast
  then have "(induces env pool ^^ Suc k) (owner a, req) (owner u, q')" using y(1) by auto
  then show ?case using q'(2) y(2) by (intro exI [of _ "(owner u, q')"]) (auto simp: u_def)
qed

lemma forwarding_loop_witness:
  "\<exists>y. (induces (\<lambda>n. fwd_env_ex\<lparr>fe_Lookup := \<lambda>u. Inr (domain_part u), fe_Resolve := Inr\<rparr>) (\<lambda>n. []) ^^ 100)
       (''n1'', req_ex\<lparr>RecipientIds := [''a@n1'', ''b@n2'']\<rparr>) y"
proof -
  let ?env = "\<lambda>n :: string. fwd_env_ex\<lparr>fe_Lookup := \<lambda>u. Inr (domain_part u), fe_Resolve := Inr\<rparr>"
  have c: "connected ?env domain_part" by (simp add: connected_def fwd_env_ex_def)
  show ?thesis
    using forwarding_loop [OF c, where a = "''a@n1''" and b = "''b@n2''" and k = 100
        and req = "req_ex\<lparr>RecipientIds := [''a@n1'', ''b@n2'']\<rparr>" and pool = "\<lambda>n. []"]
    by (auto simp: domain_part_def)
qed

end
