(* ===== verification/Relay.thy ===== *)
theory Relay
  imports Forwarder
begin

text \<open>
  Outbound relay (\<open>internal/relay\<close>): the SMTP and SendGrid backends, DKIM signing, the relay
  server's \<open>SendMessage\<close> and life cycle, and the retry queue with its workers.

  Network calls (\<open>net/smtp.SendMail\<close>, the HTTP client, \<open>net.Listen\<close>), key parsing and the DKIM
  signature are parameters. A backend is a record of its methods; the optional \<open>RawBackend\<close> part
  is what the Go type assertion finds. Queue delays are kept at 64 bits.
\<close>

section \<open>Backends\<close>

type_synonym send_fn = "string \<Rightarrow> string list \<Rightarrow> string \<Rightarrow> string \<Rightarrow> strmap \<Rightarrow> error option"

record raw_backend =
  rb_SendRaw :: "string \<Rightarrow> string list \<Rightarrow> string \<Rightarrow> error option"
  rb_DefaultFrom :: string

record backend =
  be_Name :: string
  be_Send :: send_fn
  be_Raw :: "raw_backend option"

section \<open>RFC 5322 messages\<close>

abbreviation crlf :: string where "crlf \<equiv> [CHR 0x0D, CHR 0x0A]"

definition header_line :: "string \<Rightarrow> string \<Rightarrow> string" where
  "header_line k v = k @ '': '' @ v @ crlf"

fun extra_lines :: "golib \<Rightarrow> strmap \<Rightarrow> string \<Rightarrow> string \<times> string" where
  "extra_lines G [] ct = ([], ct)"
| "extra_lines G ((k, v) # hs) ct =
     (if equal_fold G k ''content-type'' then extra_lines G hs v
      else (case extra_lines G hs ct of (ls, ct') \<Rightarrow> (header_line k v @ ls, ct')))"

definition buildRFC5322 :: "golib \<Rightarrow> string \<Rightarrow> string list \<Rightarrow> string \<Rightarrow> string \<Rightarrow> strmap \<Rightarrow> string" where
  "buildRFC5322 G from to subject body extraHeaders =
     (let (ls, ct) = extra_lines G extraHeaders ''text/plain; charset=utf-8'' in
      header_line ''MIME-Version'' ''1.0'' @ header_line ''From'' from @ header_line ''To'' (join '', '' to)
      @ header_line ''Subject'' subject @ ls @ header_line ''Content-Type'' ct @ crlf @ body)"

section \<open>SMTP backend\<close>

record SMTPConfig =
  smtp_Host :: string
  smtp_Username :: string
  smtp_Password :: string
  smtp_From :: string
  smtp_Timeout :: duration

text \<open>\<open>SendMail host auth from to msg\<close>; the credentials are user, password and server name.\<close>

type_synonym sendmail = "string \<Rightarrow> (string \<times> string \<times> string) option \<Rightarrow> string \<Rightarrow> string list \<Rightarrow> string \<Rightarrow> error option"

definition NewSMTP :: "SMTPConfig \<Rightarrow> SMTPConfig" where
  "NewSMTP cfg = (if smtp_Timeout cfg \<le> 0 then cfg\<lparr>smtp_Timeout := 30 * second\<rparr> else cfg)"

definition smtp_send :: "sendmail \<Rightarrow> SMTPConfig \<Rightarrow> string \<Rightarrow> string list \<Rightarrow> string \<Rightarrow> error option" where
  "smtp_send M cfg from to msg =
     (let host = (case split_host_port (smtp_Host cfg) of None \<Rightarrow> '''' | Some (h, _) \<Rightarrow> h);
          auth = (if smtp_Username cfg \<noteq> '''' then Some (smtp_Username cfg, smtp_Password cfg, host) else None)
      in case M (smtp_Host cfg) auth from to msg of
           Some e \<Rightarrow> Some (EWrap (''smtp relay '' @ smtp_Host cfg) e)
         | None \<Rightarrow> None)"

definition smtp_Send :: "golib \<Rightarrow> sendmail \<Rightarrow> SMTPConfig \<Rightarrow> send_fn" where
  "smtp_Send G M cfg from to subject body headers =
     (let from = (if from = '''' then smtp_From cfg else from)
      in smtp_send M cfg from to (buildRFC5322 G from to subject body headers))"

definition smtp_SendRaw :: "sendmail \<Rightarrow> SMTPConfig \<Rightarrow> string \<Rightarrow> string list \<Rightarrow> string \<Rightarrow> error option" where
  "smtp_SendRaw M cfg from to raw =
     (let from = (if from = '''' then smtp_From cfg else from) in smtp_send M cfg from to raw)"

definition smtp_backend :: "golib \<Rightarrow> sendmail \<Rightarrow> SMTPConfig \<Rightarrow> backend" where
  "smtp_backend G M cfg = \<lparr>be_Name = ''smtp'', be_Send = smtp_Send G M cfg,
     be_Raw = Some \<lparr>rb_SendRaw = smtp_SendRaw M cfg, rb_DefaultFrom = smtp_From cfg\<rparr>\<rparr>"

section \<open>SendGrid backend\<close>

record SendGridConfig =
  sg_APIKey :: string
  sg_From :: string
  sg_Timeout :: duration

definition NewSendGrid :: "SendGridConfig \<Rightarrow> SendGridConfig" where
  "NewSendGrid cfg = (if sg_Timeout cfg \<le> 0 then cfg\<lparr>sg_Timeout := 10 * second\<rparr> else cfg)"

record sendgrid_payload =
  sgp_from :: string
  sgp_to :: "string list"
  sgp_subject :: string
  sgp_type :: string
  sgp_value :: string
  sgp_headers :: strmap

definition sendgrid_payload_of :: "SendGridConfig \<Rightarrow> string \<Rightarrow> string list \<Rightarrow> string \<Rightarrow> string \<Rightarrow> strmap \<Rightarrow> sendgrid_payload" where
  "sendgrid_payload_of cfg from to subject body headers =
     \<lparr>sgp_from = (if from = '''' then sg_From cfg else from), sgp_to = to, sgp_subject = subject,
      sgp_type = (case gm_get headers ''Content-Type'' of Some ct \<Rightarrow> ct | None \<Rightarrow> ''text/plain''),
      sgp_value = body, sgp_headers = filter (\<lambda>(k, v). k \<noteq> ''Content-Type'') headers\<rparr>"

text \<open>\<open>post\<close> encodes and posts the payload with the key: a transport error, or the status code and
  the beginning of the body.\<close>

definition sendgrid_Send :: "(string \<Rightarrow> sendgrid_payload \<Rightarrow> error + int \<times> string) \<Rightarrow> SendGridConfig \<Rightarrow> send_fn" where
  "sendgrid_Send post cfg from to subject body headers =
     (case post (''Bearer '' @ sg_APIKey cfg) (sendgrid_payload_of cfg from to subject body headers) of
        Inl e \<Rightarrow> Some (EWrap ''sendgrid: http'' e)
      | Inr (code, errBody) \<Rightarrow>
          if 200 \<le> code \<and> code < 300 then None
          else Some (EText (''sendgrid: status '' @ itoa code @ '': '' @ errBody)))"

definition sendgrid_backend :: "(string \<Rightarrow> sendgrid_payload \<Rightarrow> error + int \<times> string) \<Rightarrow> SendGridConfig \<Rightarrow> backend" where
  "sendgrid_backend post cfg = \<lparr>be_Name = ''sendgrid'', be_Send = sendgrid_Send post cfg, be_Raw = None\<rparr>"

section \<open>DKIM\<close>

record DKIMConfig =
  dk_PrivateKeyPEM :: string
  dk_Domain :: string
  dk_Selector :: string

text \<open>Parsing of keys: PEM decoding, PKCS\#8 (the key and whether it can sign) and PKCS\#1; \<open>x_Sign\<close>
  signs a message for a domain and selector.\<close>

record 'k x509 =
  x_PEM :: "string \<Rightarrow> string option"
  x_PKCS8 :: "string \<Rightarrow> ('k \<times> bool) result"
  x_PKCS1 :: "string \<Rightarrow> 'k result"
  x_Sign :: "string \<Rightarrow> string \<Rightarrow> 'k \<Rightarrow> string \<Rightarrow> string result"

definition parsePrivateKey :: "'k x509 \<Rightarrow> string \<Rightarrow> 'k result" where
  "parsePrivateKey X pemData =
     (case x_PEM X pemData of
        None \<Rightarrow> Inl (EText ''no PEM block found'')
      | Some block \<Rightarrow>
          (case x_PKCS8 X block of
             Inl e \<Rightarrow> (case x_PKCS1 X block of
                         Inl rsaErr \<Rightarrow> Inl (EText (''PKCS8: '' @ error_text e @ ''; PKCS1: '' @ error_text rsaErr))
                       | Inr rsa \<Rightarrow> Inr rsa)
           | Inr (key, signs) \<Rightarrow>
               if signs then Inr key else Inl (EText ''parsed key does not implement crypto.Signer'')))"

definition dkim_Send :: "golib \<Rightarrow> 'k x509 \<Rightarrow> string \<Rightarrow> string \<Rightarrow> 'k \<Rightarrow> raw_backend \<Rightarrow> send_fn" where
  "dkim_Send G X dmn sel key inner from to subject body headers =
     (let from = (if from = '''' then rb_DefaultFrom inner else from);
          raw = buildRFC5322 G from to subject body headers
      in case x_Sign X dmn sel key raw of
           Inl e \<Rightarrow> Some (EWrap ''dkim: sign'' e)
         | Inr sgn_bytes \<Rightarrow> rb_SendRaw inner from to sgn_bytes)"

definition NewDKIMSigningBackend :: "golib \<Rightarrow> 'k x509 \<Rightarrow> DKIMConfig \<Rightarrow> backend \<Rightarrow> backend result" where
  "NewDKIMSigningBackend G X cfg inner =
     (case be_Raw inner of
        None \<Rightarrow> Inl (EText (''dkim: backend '' @ quote G (be_Name inner) @ '' does not implement RawBackend; DKIM signing requires verbatim wire delivery (use SMTPBackend)''))
      | Some raw \<Rightarrow>
          (case parsePrivateKey X (dk_PrivateKeyPEM cfg) of
             Inl e \<Rightarrow> Inl (EWrap ''dkim: parse private key'' e)
           | Inr key \<Rightarrow> Inr \<lparr>be_Name = ''dkim+'' @ be_Name inner,
               be_Send = dkim_Send G X (dk_Domain cfg) (dk_Selector cfg) key raw, be_Raw = None\<rparr>))"

section \<open>Queue configuration and backoff\<close>

type_synonym int64 = "64 word"

record QueueConfig =
  Workers :: int
  MaxRetries :: int
  BaseDelay :: int64
  MaxDelay :: int64

definition queue_defaults :: "QueueConfig \<Rightarrow> QueueConfig" where
  "queue_defaults cfg =
     (let cfg = (if Workers cfg \<le> 0 then cfg\<lparr>Workers := 4\<rparr> else cfg);
          cfg = (if MaxRetries cfg \<le> 0 then cfg\<lparr>MaxRetries := 7\<rparr> else cfg);
          cfg = (if sint (BaseDelay cfg) \<le> 0 then cfg\<lparr>BaseDelay := 5000000000\<rparr> else cfg)
      in if sint (MaxDelay cfg) \<le> 0 then cfg\<lparr>MaxDelay := 14400000000000\<rparr> else cfg)"

definition bufSize :: "QueueConfig \<Rightarrow> nat" where
  "bufSize cfg = (let b = Workers cfg * 8 in if b < 64 then 64 else nat b)"

text \<open>The backoff after the given number of failed attempts: a 64-bit shift, whose overflow shows as
  a value that is not positive or too large, and the cap.\<close>

definition backoff :: "QueueConfig \<Rightarrow> int \<Rightarrow> int64" where
  "backoff cfg attempts =
     (let b = push_bit (nat (attempts - 1)) (BaseDelay cfg)
      in if sint b > sint (MaxDelay cfg) \<or> sint b \<le> 0 then MaxDelay cfg else b)"

lemma queue_defaults_simps:
  "0 < Workers (queue_defaults cfg)" "0 < MaxRetries (queue_defaults cfg)"
  "0 < sint (BaseDelay (queue_defaults cfg))" "0 < sint (MaxDelay (queue_defaults cfg))"
  by (simp_all add: queue_defaults_def Let_def)

lemma sint_push_bit_small:
  assumes "0 < sint (w :: int64)" and "sint w * 2 ^ n < 2 ^ 63"
  shows "sint (push_bit n w) = sint w * 2 ^ n"
proof -
  have "push_bit n w = word_of_int (sint w * 2 ^ n)"
    by (simp add: push_bit_eq_mult)
  then have "sint (push_bit n w) = signed_take_bit 63 (sint w * 2 ^ n)"
    by (simp only: sint_sbintrunc') simp
  moreover have "0 \<le> sint w * 2 ^ n" using assms(1) by simp
  ultimately show ?thesis
    using assms(2) by (simp add: signed_take_bit_int_eq_self)
qed

text \<open>C38: the retry delay is always positive and never exceeds the configured maximum, for every
  configuration that \<open>NewRelayQueue\<close> produces and every attempt number, also when the 64-bit
  shift overflows; as long as it does not, the delay is the base delay doubled per failed attempt,
  capped.\<close>

theorem backoff_bounds:
  assumes "cfg = queue_defaults cfg0" and "1 \<le> n"
  shows "0 < sint (backoff cfg n) \<and> sint (backoff cfg n) \<le> sint (MaxDelay cfg)
    \<and> (sint (BaseDelay cfg) * 2 ^ nat (n - 1) < 2 ^ 63 \<longrightarrow>
         sint (backoff cfg n) = min (sint (BaseDelay cfg) * 2 ^ nat (n - 1)) (sint (MaxDelay cfg)))"
proof -
  have p: "0 < sint (BaseDelay cfg)" "0 < sint (MaxDelay cfg)"
    using assms(1) queue_defaults_simps by simp_all
  then have "\<not> sint (BaseDelay cfg) * 2 ^ nat (n - 1) \<le> 0" by (simp add: not_le)
  then show ?thesis
    using p sint_push_bit_small [OF p(1), of "nat (n - 1)"] by (auto simp: backoff_def Let_def)
qed

lemma backoff_bounds_witness:
  "(let cfg = queue_defaults \<lparr>Workers = 0, MaxRetries = 0, BaseDelay = 0, MaxDelay = 0\<rparr>
    in sint (backoff cfg 3) = 20 * second \<and> sint (backoff cfg 40) \<le> 4 * hour \<and> 0 < sint (backoff cfg 40))"
  using backoff_bounds [OF refl, of 3 "\<lparr>Workers = 0, MaxRetries = 0, BaseDelay = 0, MaxDelay = 0\<rparr>"]
    backoff_bounds [OF refl, of 40 "\<lparr>Workers = 0, MaxRetries = 0, BaseDelay = 0, MaxDelay = 0\<rparr>"]
  by (simp add: queue_defaults_def Let_def)

section \<open>The queue\<close>

record queuedJob =
  qj_from :: string
  qj_to :: "string list"
  qj_subject :: string
  qj_body :: string
  qj_headers :: strmap
  qj_attempts :: int
  qj_nextRetry :: gotime

text \<open>The state of a queue: the buffered channel, the jobs being processed, the number of workers
  that have not returned, and whether \<open>Stop\<close> was called. \<open>rq_sent\<close>, \<open>rq_failed\<close> and
  \<open>rq_dropped\<close> record the jobs that left the queue, as the log lines do.\<close>

record RelayQueue =
  rq_jobs :: "queuedJob list"
  rq_running :: "queuedJob list"
  rq_alive :: nat
  rq_stopped :: bool
  rq_cancelled :: bool
  rq_sent :: "queuedJob list"
  rq_failed :: "queuedJob list"
  rq_dropped :: "queuedJob list"

definition NewRelayQueue :: "QueueConfig \<Rightarrow> RelayQueue" where
  "NewRelayQueue cfg = \<lparr>rq_jobs = [], rq_running = [], rq_alive = nat (Workers (queue_defaults cfg)), rq_stopped = False,
     rq_cancelled = False, rq_sent = [], rq_failed = [], rq_dropped = []\<rparr>"

definition new_job :: "string \<Rightarrow> string list \<Rightarrow> string \<Rightarrow> string \<Rightarrow> strmap \<Rightarrow> queuedJob" where
  "new_job from to subject body headers = \<lparr>qj_from = from, qj_to = to, qj_subject = subject, qj_body = body,
     qj_headers = headers, qj_attempts = 0, qj_nextRetry = 0\<rparr>"

text \<open>\<open>select\<close> picks one of the ready cases; \<open>ctx_first\<close> is its choice when the buffer has room and the
  caller's context is done as well.\<close>

definition Enqueue :: "QueueConfig \<Rightarrow> bool \<Rightarrow> bool \<Rightarrow> RelayQueue \<Rightarrow> queuedJob \<Rightarrow> RelayQueue \<times> error option" where
  "Enqueue cfg ctx_done ctx_first q job =
     (if length (rq_jobs q) < bufSize cfg \<and> \<not> (ctx_done \<and> ctx_first) then (q\<lparr>rq_jobs := rq_jobs q @ [job]\<rparr>, None)
      else if ctx_done then (q, Some ErrContext)
      else (q, Some ErrQueueFull))"

datatype outcome = Sent | GaveUp queuedJob | Retry queuedJob | Aborted

text \<open>The body of \<open>process\<close> up to the final \<open>select\<close>: \<open>aborted\<close> says that the internal context was
  cancelled while waiting for the retry time, \<open>err\<close> is the result of \<open>backend.Send\<close>, \<open>now\<close> the
  clock after it.\<close>

definition process_job :: "QueueConfig \<Rightarrow> gotime \<Rightarrow> bool \<Rightarrow> error option \<Rightarrow> gotime \<Rightarrow> queuedJob \<Rightarrow> outcome" where
  "process_job cfg start aborted err now job =
     (if qj_nextRetry job - start > 0 \<and> aborted then Aborted
      else (case err of
              None \<Rightarrow> Sent
            | Some e \<Rightarrow>
                (let job = job\<lparr>qj_attempts := qj_attempts job + 1\<rparr>
                 in if qj_attempts job \<ge> MaxRetries cfg then GaveUp job
                    else Retry (job\<lparr>qj_nextRetry := now + sint (backoff cfg (qj_attempts job))\<rparr>))))"

text \<open>The steps of the queue; the label is the job accepted by \<open>Enqueue\<close>, if the step is one. A worker
  that has been told to stop drains the buffer before it returns.\<close>

inductive q_step :: "QueueConfig \<Rightarrow> RelayQueue \<Rightarrow> queuedJob option \<Rightarrow> RelayQueue \<Rightarrow> bool" for cfg where
  enqueue: "Enqueue cfg dn first q (new_job f t s b h) = (q', None) \<Longrightarrow> q_step cfg q (Some (new_job f t s b h)) q'"
| receive: "rq_jobs q = j # js \<Longrightarrow> length (rq_running q) < rq_alive q
    \<Longrightarrow> q_step cfg q None (q\<lparr>rq_jobs := js, rq_running := j # rq_running q\<rparr>)"
| sent: "rq_running q = as @ j # bs \<Longrightarrow> process_job cfg start aborted err now j = Sent
    \<Longrightarrow> q_step cfg q None (q\<lparr>rq_running := as @ bs, rq_sent := j # rq_sent q\<rparr>)"
| gave_up: "rq_running q = as @ j # bs \<Longrightarrow> process_job cfg start aborted err now j = GaveUp j'
    \<Longrightarrow> q_step cfg q None (q\<lparr>rq_running := as @ bs, rq_failed := j' # rq_failed q\<rparr>)"
| requeue: "rq_running q = as @ j # bs \<Longrightarrow> process_job cfg start aborted err now j = Retry j' \<Longrightarrow> length (rq_jobs q) < bufSize cfg
    \<Longrightarrow> q_step cfg q None (q\<lparr>rq_running := as @ bs, rq_jobs := rq_jobs q @ [j']\<rparr>)"
| drop_retry: "rq_running q = as @ j # bs \<Longrightarrow> process_job cfg start aborted err now j = Retry j'
    \<Longrightarrow> rq_stopped q \<or> \<not> length (rq_jobs q) < bufSize cfg
    \<Longrightarrow> q_step cfg q None (q\<lparr>rq_running := as @ bs, rq_dropped := j' # rq_dropped q\<rparr>)"
| abort: "rq_running q = as @ j # bs \<Longrightarrow> rq_cancelled q \<Longrightarrow> process_job cfg start aborted err now j = Aborted
    \<Longrightarrow> q_step cfg q None (q\<lparr>rq_running := as @ bs, rq_dropped := j # rq_dropped q\<rparr>)"
| stop: "q_step cfg q None (q\<lparr>rq_stopped := True\<rparr>)"
| stop_timeout: "rq_stopped q \<Longrightarrow> q_step cfg q None (q\<lparr>rq_cancelled := True\<rparr>)"
| worker_returns: "rq_stopped q \<Longrightarrow> rq_jobs q = [] \<Longrightarrow> length (rq_running q) < rq_alive q
    \<Longrightarrow> q_step cfg q None (q\<lparr>rq_alive := rq_alive q - 1\<rparr>)"

text \<open>A message is the part of a job that retries do not change.\<close>

definition msg_of :: "queuedJob \<Rightarrow> string \<times> string list \<times> string \<times> string \<times> strmap" where
  "msg_of j = (qj_from j, qj_to j, qj_subject j, qj_body j, qj_headers j)"

definition all_jobs :: "RelayQueue \<Rightarrow> queuedJob list" where
  "all_jobs q = rq_jobs q @ rq_running q @ rq_sent q @ rq_failed q @ rq_dropped q"

definition job_bound :: "QueueConfig \<Rightarrow> queuedJob \<Rightarrow> bool" where
  "job_bound cfg j \<longleftrightarrow> 0 \<le> qj_attempts j \<and> qj_attempts j < MaxRetries cfg"

definition q_inv :: "QueueConfig \<Rightarrow> RelayQueue \<Rightarrow> bool" where
  "q_inv cfg q \<longleftrightarrow> length (rq_jobs q) \<le> bufSize cfg \<and> length (rq_running q) \<le> rq_alive q
     \<and> list_all (job_bound cfg) (rq_jobs q @ rq_running q) \<and> list_all (\<lambda>j. qj_attempts j = MaxRetries cfg) (rq_failed q)"

lemma process_job_cases:
  assumes "process_job cfg start aborted err now j = o'" and "job_bound cfg j"
  shows "(case o' of Sent \<Rightarrow> err = None | Aborted \<Rightarrow> aborted
      | GaveUp j' \<Rightarrow> msg_of j' = msg_of j \<and> qj_attempts j' = MaxRetries cfg
      | Retry j' \<Rightarrow> msg_of j' = msg_of j \<and> job_bound cfg j' \<and> qj_attempts j' = qj_attempts j + 1)"
  using assms by (auto simp: process_job_def msg_of_def job_bound_def Let_def split: if_splits option.splits)

lemma process_job_msg:
  "process_job cfg start aborted err now j = GaveUp j' \<Longrightarrow> msg_of j' = msg_of j"
  "process_job cfg start aborted err now j = Retry j' \<Longrightarrow> msg_of j' = msg_of j"
  by (auto simp: process_job_def msg_of_def Let_def split: if_splits option.splits)

lemma q_step_inv:
  assumes "q_step cfg q l q'" and "q_inv cfg q" and "0 < MaxRetries cfg"
  shows "q_inv cfg q'"
  using assms
proof (induction rule: q_step.induct)
  case (enqueue dn first q f t s b h q')
  then show ?case by (auto simp: q_inv_def Enqueue_def new_job_def job_bound_def split: if_splits)
next
  case (gave_up q as j bs start aborted err now j')
  then show ?case using process_job_cases [OF gave_up(2)] by (auto simp: q_inv_def)
next
  case (requeue q as j bs start aborted err now j')
  then show ?case using process_job_cases [OF requeue(2)] by (auto simp: q_inv_def)
qed (auto simp: q_inv_def)

text \<open>No step loses or duplicates a message.\<close>

definition label_msgs :: "queuedJob option \<Rightarrow> (string \<times> string list \<times> string \<times> string \<times> strmap) multiset" where
  "label_msgs l = (case l of None \<Rightarrow> {#} | Some j \<Rightarrow> {#msg_of j#})"

lemma q_step_conserves:
  assumes "q_step cfg q l q'"
  shows "image_mset msg_of (mset (all_jobs q')) = image_mset msg_of (mset (all_jobs q)) + label_msgs l"
  using assms
proof (induction rule: q_step.induct)
  case (enqueue dn first q f t s b h q')
  then have "q' = q\<lparr>rq_jobs := rq_jobs q @ [new_job f t s b h]\<rparr>" by (auto simp: Enqueue_def split: if_splits)
  then show ?case by (simp add: all_jobs_def label_msgs_def)
next
  case (gave_up q as j bs start aborted err now j')
  then show ?case using process_job_msg(1) [OF gave_up(2)] by (simp add: all_jobs_def label_msgs_def)
next
  case (requeue q as j bs start aborted err now j')
  then show ?case using process_job_msg(2) [OF requeue(2)] by (simp add: all_jobs_def label_msgs_def)
next
  case (drop_retry q as j bs start aborted err now j')
  then show ?case using process_job_msg(2) [OF drop_retry(2)] by (simp add: all_jobs_def label_msgs_def)
qed (simp_all add: all_jobs_def label_msgs_def)

text \<open>Reachable states, with the messages accepted so far. Without \<open>late\<close>, no message is submitted
  after \<open>Stop\<close>: the relay server stops its gRPC server before the queue.\<close>

inductive q_reach :: "bool \<Rightarrow> QueueConfig \<Rightarrow> RelayQueue \<Rightarrow> (string \<times> string list \<times> string \<times> string \<times> strmap) multiset \<Rightarrow> bool"
  for late cfg where
  init: "q_reach late cfg (NewRelayQueue cfg) {#}"
| step: "q_reach late cfg q M \<Longrightarrow> q_step (queue_defaults cfg) q l q' \<Longrightarrow> l \<noteq> None \<longrightarrow> late \<or> \<not> rq_stopped q \<Longrightarrow> q_reach late cfg q' (M + label_msgs l)"

lemma NewRelayQueue_inv: "q_inv (queue_defaults cfg) (NewRelayQueue cfg)"
  by (simp add: q_inv_def NewRelayQueue_def)

lemma q_step_drained:
  assumes "q_step cfg q l q'" and "l \<noteq> None \<longrightarrow> \<not> rq_stopped q" and "q_inv cfg q"
    and "rq_alive q = 0 \<longrightarrow> rq_stopped q \<and> rq_jobs q = []"
  shows "rq_alive q' = 0 \<longrightarrow> rq_stopped q' \<and> rq_jobs q' = []"
  using assms
proof (induction rule: q_step.induct)
  case (enqueue dn first q f t s b h q')
  then have "rq_alive q' = rq_alive q" by (auto simp: Enqueue_def split: if_splits)
  then show ?case using enqueue by auto
qed (auto simp: q_inv_def)

text \<open>C7: the relay queue never loses or duplicates a message silently. In every reachable state the
  accepted messages are, with multiplicity, the ones buffered, in progress, delivered, given up or
  dropped; a message still to be sent has attempts left, one that was given up was attempted exactly
  \<open>MaxRetries\<close> times, the buffer respects its capacity, and once all workers have returned after
  \<open>Stop\<close> nothing is left in the buffer or in progress.\<close>

theorem relay_queue_conserves:
  assumes "q_reach late cfg q M"
  shows "image_mset msg_of (mset (all_jobs q)) = M
    \<and> (\<forall>j \<in> set (rq_jobs q @ rq_running q). 0 \<le> qj_attempts j \<and> qj_attempts j < MaxRetries (queue_defaults cfg))
    \<and> (\<forall>j \<in> set (rq_failed q). qj_attempts j = MaxRetries (queue_defaults cfg))
    \<and> length (rq_jobs q) \<le> bufSize (queue_defaults cfg)
    \<and> (\<not> late \<and> rq_alive q = 0 \<longrightarrow> rq_jobs q = [] \<and> rq_running q = [])"
proof -
  have "q_inv (queue_defaults cfg) q \<and> image_mset msg_of (mset (all_jobs q)) = M
      \<and> (\<not> late \<longrightarrow> rq_alive q = 0 \<longrightarrow> rq_stopped q \<and> rq_jobs q = [])"
    using assms
  proof (induction rule: q_reach.induct)
    case init
    have "0 < Workers (queue_defaults cfg)" by (rule queue_defaults_simps)
    then show ?case using NewRelayQueue_inv by (simp add: NewRelayQueue_def all_jobs_def)
  next
    case (step q M l q')
    then show ?case
      using q_step_inv [OF step.hyps(2) _ queue_defaults_simps(2)] q_step_conserves [OF step.hyps(2)] q_step_drained [OF step.hyps(2)] by auto
  qed
  then show ?thesis by (auto simp: q_inv_def list_all_iff job_bound_def)
qed

lemma relay_queue_conserves_witness:
  "\<exists>q. q_reach False \<lparr>Workers = 1, MaxRetries = 1, BaseDelay = 0, MaxDelay = 0\<rparr> q {#(''a'', [''b''], ''s'', ''t'', [])#}
     \<and> image_mset msg_of (mset (all_jobs q)) = {#(''a'', [''b''], ''s'', ''t'', [])#} \<and> rq_failed q \<noteq> []"
proof -
  define cfg where "cfg = \<lparr>Workers = 1, MaxRetries = 1, BaseDelay = 0, MaxDelay = 0\<rparr>"
  define j where "j = new_job ''a'' [''b''] ''s'' ''t'' []"
  have m: "label_msgs (Some j) = {#(''a'', [''b''], ''s'', ''t'', [])#}"
    by (simp add: label_msgs_def msg_of_def j_def new_job_def)
  define q0 where "q0 = NewRelayQueue cfg"
  define q1 where "q1 = q0\<lparr>rq_jobs := [j]\<rparr>"
  define q2 where "q2 = q1\<lparr>rq_jobs := [], rq_running := [j]\<rparr>"
  define q3 where "q3 = q2\<lparr>rq_running := [], rq_failed := [j\<lparr>qj_attempts := 1\<rparr>]\<rparr>"
  note st = q_reach.step [where late = False and cfg = cfg]
  have s1: "q_step (queue_defaults cfg) q0 (Some j) q1"
    using q_step.enqueue [of "queue_defaults cfg" False False q0 "''a''" "[''b'']" "''s''" "''t''" "[]" q1]
    by (simp add: j_def Enqueue_def q0_def q1_def NewRelayQueue_def bufSize_def Let_def)
  have s2: "q_step (queue_defaults cfg) q1 None q2"
    using q_step.receive [of q1 j "[]" "queue_defaults cfg"]
    by (simp add: q1_def q2_def q0_def NewRelayQueue_def cfg_def queue_defaults_def)
  have s3: "q_step (queue_defaults cfg) q2 None q3"
    using q_step.gave_up [of q2 "[]" j "[]" "queue_defaults cfg" 1 False "Some ErrContext" 1 "j\<lparr>qj_attempts := 1\<rparr>"]
    by (simp add: q3_def q2_def q1_def q0_def NewRelayQueue_def process_job_def cfg_def queue_defaults_def j_def new_job_def)
  have r1: "q_reach False cfg q1 ({#} + label_msgs (Some j))"
    by (rule st [OF q_reach.init [of False cfg, folded q0_def] s1]) (simp add: q0_def NewRelayQueue_def)
  have r: "q_reach False cfg q3 ({#} + label_msgs (Some j) + label_msgs None + label_msgs None)"
    by (rule st [OF st [OF r1 s2] s3]) simp_all
  then have r': "q_reach False cfg q3 {#(''a'', [''b''], ''s'', ''t'', [])#}" using m by (simp add: label_msgs_def)
  show ?thesis
    using relay_queue_conserves [OF r'] r' by (intro exI [of _ q3]) (simp add: q3_def cfg_def)
qed

section \<open>Relay server\<close>

text \<open>A relay server: its backend, the queue if it has one, whether \<open>startOnce\<close> has run, the address of
  the listener, and whether its gRPC server is serving.\<close>

record RelayServer =
  rs_backend :: backend
  rs_queue :: "RelayQueue option"
  rs_once :: bool
  rs_addr :: "string option"
  rs_serving :: bool

definition relay_New :: "backend \<Rightarrow> QueueConfig option \<Rightarrow> RelayServer" where
  "relay_New be queueCfg = \<lparr>rs_backend = be, rs_queue = map_option NewRelayQueue queueCfg, rs_once = False, rs_addr = None, rs_serving = False\<rparr>"

text \<open>\<open>listen\<close> is the result of \<open>net.Listen\<close>.\<close>

definition relay_Start :: "RelayServer \<Rightarrow> string \<Rightarrow> string result \<Rightarrow> RelayServer \<times> error option" where
  "relay_Start s addr listen =
     (if rs_once s then (s, None)
      else (case listen of
              Inl e \<Rightarrow> (s\<lparr>rs_once := True\<rparr>, Some (EWrap (''relay: listen '' @ addr) e))
            | Inr a \<Rightarrow> (s\<lparr>rs_once := True, rs_addr := Some a, rs_serving := True\<rparr>, None)))"

text \<open>\<open>Stop\<close> of the queue closes \<open>stopCh\<close>, which panics when it is closed already (\<open>None\<close>), and waits for the
  workers; if the caller's context ends first, it cancels their deliveries. \<open>Stop\<close> of the server ends the gRPC server,
  gracefully or by force, and then stops the queue.\<close>

definition queue_Stop :: "bool \<Rightarrow> RelayQueue \<Rightarrow> RelayQueue option" where
  "queue_Stop timed_out q =
     (if rq_stopped q then None
      else Some (if timed_out then q\<lparr>rq_stopped := True, rq_cancelled := True\<rparr> else q\<lparr>rq_stopped := True\<rparr>))"

definition relay_Stop :: "bool \<Rightarrow> RelayServer \<Rightarrow> RelayServer option" where
  "relay_Stop timed_out s =
     (let s1 = s\<lparr>rs_serving := False\<rparr> in
      case rs_queue s of
        None \<Rightarrow> Some s1
      | Some q \<Rightarrow> (case queue_Stop timed_out q of None \<Rightarrow> None | Some q' \<Rightarrow> Some (s1\<lparr>rs_queue := Some q'\<rparr>)))"

definition relay_Addr :: "RelayServer \<Rightarrow> string" where
  "relay_Addr s = (case rs_addr s of None \<Rightarrow> '''' | Some a \<Rightarrow> a)"

definition maxRelayBodyBytes :: nat where "maxRelayBodyBytes = 26214400"

text \<open>\<open>enq\<close> is the queue's \<open>Enqueue\<close> at the moment of the call, if the server has a queue. The second
  result is the submission made: to the queue or to the backend.\<close>

definition relay_SendMessage ::
  "backend \<Rightarrow> (string \<Rightarrow> string list \<Rightarrow> string \<Rightarrow> string \<Rightarrow> strmap \<Rightarrow> error option) option \<Rightarrow> SendMessageRequest
     \<Rightarrow> unit result \<times> (string \<times> string list \<times> string \<times> string \<times> strmap) option" where
  "relay_SendMessage B enq req =
     (if length (ReqBody req) > maxRelayBodyBytes
      then (Inl (EStatus InvalidArgument (''relay: message body exceeds '' @ itoa (int maxRelayBodyBytes) @ '' bytes'')), None)
      else
        (let recipients = (if DeliverTo req = [] then RecipientIds req else DeliverTo req) in
         if recipients = [] then (Inr (), None)
         else
           (let from = UserId req; headers = fold (\<lambda>(k, v). gm_put k v) (ReqHeaders req) [];
                m = (from, recipients, ReqSubject req, ReqBody req, headers)
            in case enq of
                 Some e \<Rightarrow>
                   (case e from recipients (ReqSubject req) (ReqBody req) headers of
                      Some err \<Rightarrow> (Inl (EStatus ResourceExhausted (''relay queue full: '' @ error_text err)), Some m)
                    | None \<Rightarrow> (Inr (), Some m))
               | None \<Rightarrow>
                   (case be_Send B from recipients (ReqSubject req) (ReqBody req) headers of
                      Some err \<Rightarrow> (Inl (EStatus Internal (''relay '' @ be_Name B @ '': '' @ error_text err)), Some m)
                    | None \<Rightarrow> (Inr (), Some m)))))"

section \<open>Properties of the relay server\<close>

text \<open>Stopping the queue is a sequence of its steps, so a stopped relay still accounts for every message.\<close>

lemma queue_Stop_steps:
  assumes "q_reach late cfg q M" and "queue_Stop timed_out q = Some q'"
  shows "q_reach late cfg q' M"
proof -
  have s: "q_reach late cfg (q\<lparr>rq_stopped := True\<rparr>) M"
    using q_reach.step [OF assms(1) q_step.stop] by (simp add: label_msgs_def)
  have c: "q_step (queue_defaults cfg) (q\<lparr>rq_stopped := True\<rparr>) None (q\<lparr>rq_stopped := True, rq_cancelled := True\<rparr>)"
    using q_step.stop_timeout [of "q\<lparr>rq_stopped := True\<rparr>" "queue_defaults cfg"] by simp
  have "q_reach late cfg (q\<lparr>rq_stopped := True, rq_cancelled := True\<rparr>) M"
    using q_reach.step [OF s c] by (simp add: label_msgs_def)
  then show ?thesis using assms(2) s by (auto simp: queue_Stop_def split: if_splits)
qed

text \<open>The relay sends a message on only to the recipients it was asked to deliver to: those of
  \<open>deliver_to\<close>, and the whole recipient list only when that is empty; nothing is sent when there is
  no recipient or the body is over 25 MiB; an error of the queue or the backend is reported to the
  caller.\<close>

theorem relay_recipients:
  "(case relay_SendMessage B enq req of (r, sub) \<Rightarrow>
      (sub = None \<longleftrightarrow> length (ReqBody req) > 25 * 2 ^ 20 \<or> (DeliverTo req = [] \<and> RecipientIds req = []))
    \<and> (\<forall>f to s b h. sub = Some (f, to, s, b, h) \<longrightarrow> to \<noteq> [] \<and> to = (if DeliverTo req = [] then RecipientIds req else DeliverTo req)
         \<and> f = UserId req \<and> s = ReqSubject req \<and> b = ReqBody req
         \<and> (ok r \<longleftrightarrow> (case enq of Some e \<Rightarrow> e f to s b h | None \<Rightarrow> be_Send B f to s b h) = None))
    \<and> (length (ReqBody req) > 25 * 2 ^ 20 \<longrightarrow> (\<exists>m. r = Inl (EStatus InvalidArgument m))))"
  by (auto simp: relay_SendMessage_def maxRelayBodyBytes_def Let_def split: option.split)

text \<open>A request to a relay with an empty \<open>deliver_to\<close> list.\<close>

lemma relay_recipients_witness:
  "relay_SendMessage \<lparr>be_Name = ''x'', be_Send = (\<lambda>f to s b h. None), be_Raw = None\<rparr> None req_ex
     = (Inr (), Some (''s@me'', RecipientIds req_ex, [], [], []))
   \<and> (case relay_SendMessage \<lparr>be_Name = ''x'', be_Send = (\<lambda>f to s b h. None), be_Raw = None\<rparr> None req_ex of (r, sub) \<Rightarrow> sub \<noteq> None)"
  using relay_recipients [where B = "\<lparr>be_Name = ''x'', be_Send = (\<lambda>f to s b h. None), be_Raw = None\<rparr>" and enq = None and req = req_ex]
  by (simp add: relay_SendMessage_def req_ex_def maxRelayBodyBytes_def)

text \<open>A failed \<open>Start\<close> is forgotten. \<open>sync.Once\<close> runs the body once, so after a first call that
  could not listen every further call reports success although the server is not listening, and a
  second call on a running server reports success too, where the comment of \<open>Start\<close> promises an
  error.\<close>

theorem relay_start_twice:
  "(case relay_Start (relay_New be queueCfg) addr (Inl e) of (s, r) \<Rightarrow>
      r \<noteq> None \<and> relay_Start s addr' (Inr a) = (s, None) \<and> relay_Addr s = '''')
   \<and> (case relay_Start (relay_New be queueCfg) addr (Inr a) of (s, r) \<Rightarrow> r = None \<and> relay_Addr s = a \<and> relay_Start s addr' l = (s, None))"
  by (simp add: relay_Start_def relay_New_def relay_Addr_def)

text \<open>C37: DKIM signs what is sent. With the SMTP backend inside, the bytes handed to the mail server
  are the signature of exactly the message the SMTP backend alone would have sent, for the same
  envelope sender, the configured default sender included; if signing fails nothing is sent. A
  backend without raw delivery is refused.\<close>

theorem dkim_signs_sent_message:
  assumes "NewDKIMSigningBackend G X cfg (smtp_backend G M scfg) = Inr B"
  shows "\<exists>key. parsePrivateKey X (dk_PrivateKeyPEM cfg) = Inr key
    \<and> (\<forall>from to subject body headers.
         let from' = (if from = '''' then smtp_From scfg else from);
             raw = buildRFC5322 G from' to subject body headers
         in smtp_Send G M scfg from to subject body headers = smtp_send M scfg from' to raw
          \<and> be_Send B from to subject body headers =
              (case x_Sign X (dk_Domain cfg) (dk_Selector cfg) key raw of
                 Inl e \<Rightarrow> Some (EWrap ''dkim: sign'' e) | Inr s \<Rightarrow> smtp_send M scfg from' to s))
    \<and> isl (NewDKIMSigningBackend G X cfg (sendgrid_backend post gcfg))"
proof -
  obtain key where k: "parsePrivateKey X (dk_PrivateKeyPEM cfg) = Inr key"
      "B = \<lparr>be_Name = ''dkim+smtp'', be_Send = dkim_Send G X (dk_Domain cfg) (dk_Selector cfg) key
              \<lparr>rb_SendRaw = smtp_SendRaw M scfg, rb_DefaultFrom = smtp_From scfg\<rparr>, be_Raw = None\<rparr>"
    using assms by (auto simp: NewDKIMSigningBackend_def smtp_backend_def split: sum.splits)
  show ?thesis
    using k by (auto simp: smtp_Send_def dkim_Send_def smtp_SendRaw_def NewDKIMSigningBackend_def sendgrid_backend_def Let_def
        split: sum.split)
qed

definition x509_ex :: "unit x509" where
  "x509_ex = \<lparr>x_PEM = Some, x_PKCS8 = (\<lambda>b. Inr ((), True)), x_PKCS1 = (\<lambda>b. Inl (EText ''x'')),
     x_Sign = (\<lambda>d s k raw. Inr (''DKIM-Signature: x'' @ crlf @ raw))\<rparr>"

definition smtp_ex :: SMTPConfig where
  "smtp_ex = \<lparr>smtp_Host = ''h:587'', smtp_Username = [], smtp_Password = [], smtp_From = ''d@x'', smtp_Timeout = 1\<rparr>"

lemma dkim_signs_sent_message_witness:
  "\<exists>B. NewDKIMSigningBackend golib_ex x509_ex \<lparr>dk_PrivateKeyPEM = ''k'', dk_Domain = ''x'', dk_Selector = ''s''\<rparr>
        (smtp_backend golib_ex (\<lambda>h a f to m. Some (EText m)) smtp_ex) = Inr B
     \<and> be_Send B '''' [''r''] [] [] [] = Some (EWrap ''smtp relay h:587'' (EText (''DKIM-Signature: x'' @ crlf @ buildRFC5322 golib_ex ''d@x'' [''r''] [] [] [])))"
proof -
  define cfg where "cfg = \<lparr>dk_PrivateKeyPEM = ''k'', dk_Domain = ''x'', dk_Selector = ''s''\<rparr>"
  obtain B where B: "NewDKIMSigningBackend golib_ex x509_ex cfg (smtp_backend golib_ex (\<lambda>h a f to m. Some (EText m)) smtp_ex) = Inr B"
    by (simp add: NewDKIMSigningBackend_def smtp_backend_def parsePrivateKey_def x509_ex_def cfg_def)
  show ?thesis
    using dkim_signs_sent_message [OF B] B
    by (auto simp: Let_def x509_ex_def smtp_send_def smtp_ex_def cfg_def intro!: exI [of _ B])
qed

end
