(* ===== verification/Base64.thy ===== *)
theory Base64
  imports Go_Strings
begin

text \<open>
  \<open>encoding/base64.StdEncoding\<close>, which the node key, the webhook signer and the gRPC layer use:
  \<open>EncodeToString\<close>, and \<open>DecodeString\<close> with its treatment of line breaks, padding and trailing
  data; decoding inverts encoding.
\<close>

definition b64_char :: "nat \<Rightarrow> char" where
  "b64_char n = char_of (if n < 26 then n + 65 else if n < 52 then n + 71 else if n < 62 then n - 4
     else if n = 62 then 43 else 47)"

definition b64_val :: "char \<Rightarrow> nat option" where
  "b64_val c = (let b = byte c in
     if 65 \<le> b \<and> b \<le> 90 then Some (b - 65) else if 97 \<le> b \<and> b \<le> 122 then Some (b - 71)
     else if 48 \<le> b \<and> b \<le> 57 then Some (b + 4) else if b = 43 then Some 62 else if b = 47 then Some 63 else None)"

fun b64_encode :: "string \<Rightarrow> string" where
  "b64_encode [] = []"
| "b64_encode [a] = [b64_char (byte a div 4), b64_char (byte a mod 4 * 16), CHR ''='', CHR ''='']"
| "b64_encode [a, b] = [b64_char (byte a div 4), b64_char (byte a mod 4 * 16 + byte b div 16),
     b64_char (byte b mod 16 * 4), CHR ''='']"
| "b64_encode (a # b # c # r) = b64_char (byte a div 4) # b64_char (byte a mod 4 * 16 + byte b div 16)
     # b64_char (byte b mod 16 * 4 + byte c div 64) # b64_char (byte c mod 64) # b64_encode r"

fun b64_quads :: "string \<Rightarrow> string option" where
  "b64_quads [] = Some []"
| "b64_quads (w # x # y # z # r) =
     (case (b64_val w, b64_val x) of
        (Some p, Some q) \<Rightarrow>
          (let a = char_of (p * 4 + q div 16) in
           if y = CHR ''='' then (if z = CHR ''='' \<and> r = [] then Some [a] else None)
           else (case b64_val y of
                   None \<Rightarrow> None
                 | Some s \<Rightarrow>
                     (let b = char_of (q mod 16 * 16 + s div 4) in
                      if z = CHR ''='' then (if r = [] then Some [a, b] else None)
                      else (case b64_val z of
                              None \<Rightarrow> None
                            | Some t \<Rightarrow> map_option (\<lambda>d. a # b # char_of (s mod 4 * 64 + t) # d) (b64_quads r)))))
      | _ \<Rightarrow> None)"
| "b64_quads _ = None"

definition b64_decode :: "string \<Rightarrow> string option" where
  "b64_decode s = b64_quads (filter (\<lambda>c. byte c \<noteq> 10 \<and> byte c \<noteq> 13) s)"

lemma b64_val_char [simp]: "n < 64 \<Longrightarrow> b64_val (b64_char n) = Some n"
  by (auto simp: b64_val_def b64_char_def Let_def)

lemma byte_b64_char: "n < 64 \<Longrightarrow> byte (b64_char n) \<in> {65..90} \<union> {97..122} \<union> {48..57} \<union> {43, 47}"
  by (auto simp: b64_char_def)

lemma b64_char_not [simp]:
  assumes "n < 64"
  shows "b64_char n \<noteq> CHR ''=''" "byte (b64_char n) \<noteq> 10" "byte (b64_char n) \<noteq> 13"
proof -
  have "byte (b64_char n) \<noteq> byte CHR ''=''" using byte_b64_char [OF assms] by auto
  then show "b64_char n \<noteq> CHR ''=''" by auto
  show "byte (b64_char n) \<noteq> 10" "byte (b64_char n) \<noteq> 13" using byte_b64_char [OF assms] by auto
qed

lemma byte_bounds [simp]:
  "byte a div 4 < 64" "byte a mod 4 * 16 < 64" "byte a mod 4 * 16 + byte b div 16 < 64"
  "byte b mod 16 * 4 < 64" "byte b mod 16 * 4 + byte c div 64 < 64" "byte c mod 64 < 64"
proof -
  have "byte a < 256" "byte b < 256" "byte c < 256" by simp_all
  then have "byte a mod 4 < 4" "byte b mod 16 < 16" "byte b div 16 < 16" "byte c div 64 < 4" "byte a div 4 < 64"
    by (simp_all add: div_less_iff_less_mult)
  then show "byte a div 4 < 64" "byte a mod 4 * 16 < 64" "byte a mod 4 * 16 + byte b div 16 < 64"
    "byte b mod 16 * 4 < 64" "byte b mod 16 * 4 + byte c div 64 < 64" "byte c mod 64 < 64"
    by simp_all
qed

lemma recombine [simp]:
  "(n :: nat) div 4 * 4 + (n mod 4 * 16) div 16 = n"
  "(m :: nat) < 16 \<Longrightarrow> n div 4 * 4 + (n mod 4 * 16 + m) div 16 = n"
  "m < 16 \<Longrightarrow> (k * 16 + m) mod 16 * 16 + (l * 4) div 4 = m * 16 + l"
  by (simp_all add: div_mult_mod_eq)

lemma recombine3 [simp]:
  "(m :: nat) < 4 \<Longrightarrow> (k * 4 + m) div 4 = k" "m < 4 \<Longrightarrow> (k * 4 + m) mod 4 = m"
  "(n :: nat) div 64 * 64 + n mod 64 = n" "n div 16 * 16 + n mod 16 = n"
  by (simp_all add: div_mult_mod_eq)

lemma byte_small [simp]: "byte a div 16 < 16" "byte a div 64 < 4"
  by (simp_all add: div_less_iff_less_mult)

lemma char_of_byte [simp]: "char_of (byte a) = a"
  by simp

lemma b64_quads_encode: "b64_quads (b64_encode s) = Some s"
  by (induction s rule: b64_encode.induct) (simp_all add: Let_def)

lemma b64_encode_clean: "filter (\<lambda>c. byte c \<noteq> 10 \<and> byte c \<noteq> 13) (b64_encode s) = b64_encode s"
  by (induction s rule: b64_encode.induct) simp_all

lemma b64_decode_encode [simp]: "b64_decode (b64_encode s) = Some s"
  by (simp add: b64_decode_def b64_encode_clean b64_quads_encode)

lemma b64_encode_Nil_iff [simp]: "b64_encode s = [] \<longleftrightarrow> s = []"
  by (cases s rule: b64_encode.cases) auto

end
