(* ===== verification/Nodekey.thy ===== *)
theory Nodekey
  imports Memstore Sqlstore Base64
begin

text \<open>
  The node's Ed25519 key pair (\<open>internal/nodekey/nodekey.go\<close>) and the bearer-token guard of the
  gRPC server (\<open>internal/guard/bearer.go\<close>).

  Ed25519 itself is a parameter: the record \<open>ed25519\<close> has the two functions of
  \<open>crypto/ed25519\<close> that the program calls, and \<open>key_pair\<close> is the documented relation between
  the two halves of a generated pair. What one call of \<open>GenerateKey\<close> returns is an argument.
\<close>

section \<open>Ed25519\<close>

record ed25519 =
  ed_Sign :: "string \<Rightarrow> string \<Rightarrow> string"
  ed_Verify :: "string \<Rightarrow> string \<Rightarrow> string \<Rightarrow> bool"

definition PrivateKeySize :: nat where "PrivateKeySize = 64"
definition PublicKeySize :: nat where "PublicKeySize = 32"

definition key_pair :: "ed25519 \<Rightarrow> string \<Rightarrow> string \<Rightarrow> bool" where
  "key_pair C pub priv \<longleftrightarrow> length pub = PublicKeySize \<and> length priv = PrivateKeySize
     \<and> (\<forall>m. ed_Verify C pub m (ed_Sign C priv m))"

section \<open>Key management\<close>

text \<open>\<open>gen\<close> is the result \<open>(pub, priv, err)\<close> of \<open>ed25519.GenerateKey\<close>. The node is returned in
  every case, as in the code.\<close>

definition EnsureKey :: "'s store_ops \<Rightarrow> (string \<times> string) result \<Rightarrow> 's \<Rightarrow> node \<Rightarrow> 's \<times> node \<times> error option" where
  "EnsureKey S gen s nd =
     (if PrivateKeyB64 nd \<noteq> '''' then (s, nd, None)
      else (case gen of
              Inl e \<Rightarrow> (s, nd, Some (EWrap ''nodekey: generate'' e))
            | Inr (pub, priv) \<Rightarrow>
                (let nd' = nd\<lparr>PrivateKeyB64 := b64_encode priv, PublicKeyB64 := b64_encode pub\<rparr>
                 in case op_SaveNode S s nd' of
                      (s', Some e) \<Rightarrow> (s', nd', Some (EWrap ''nodekey: persist'' e))
                    | (s', None) \<Rightarrow> (s', nd', None))))"

definition DecodePrivate :: "string \<Rightarrow> string result" where
  "DecodePrivate b64 =
     (case b64_decode b64 of
        None \<Rightarrow> Inl (EWrap ''nodekey: decode private key'' (EText ''illegal base64 data''))
      | Some raw \<Rightarrow>
          if length raw \<noteq> PrivateKeySize
          then Inl (EText (''nodekey: private key: got '' @ itoa (int (length raw)) @ '' bytes, want '' @ itoa (int PrivateKeySize)))
          else Inr raw)"

definition DecodePublic :: "string \<Rightarrow> string result" where
  "DecodePublic b64 =
     (case b64_decode b64 of
        None \<Rightarrow> Inl (EWrap ''nodekey: decode public key'' (EText ''illegal base64 data''))
      | Some raw \<Rightarrow>
          if length raw \<noteq> PublicKeySize
          then Inl (EText (''nodekey: public key: got '' @ itoa (int (length raw)) @ '' bytes, want '' @ itoa (int PublicKeySize)))
          else Inr raw)"

definition Generate :: "(string \<times> string) result \<Rightarrow> (string \<times> string) result" where
  "Generate gen =
     (case gen of
        Inl e \<Rightarrow> Inl (EWrap ''nodekey: generate'' e)
      | Inr (pub, priv) \<Rightarrow> Inr (b64_encode priv, b64_encode pub))"

lemma DecodePrivate_encode [simp]: "length k = PrivateKeySize \<Longrightarrow> DecodePrivate (b64_encode k) = Inr k"
  by (simp add: DecodePrivate_def)

lemma DecodePublic_encode [simp]: "length k = PublicKeySize \<Longrightarrow> DecodePublic (b64_encode k) = Inr k"
  by (simp add: DecodePublic_def)

context node_user_store begin

text \<open>A key pair generated by \<open>EnsureKey\<close> is what the store holds afterwards, whatever it held
  before.\<close>

lemma ensure_key_stored:
  assumes "inv s" and "PrivateKeyB64 nd = ''''" and "EnsureKey S (Inr (pub, priv)) s nd = (s', nd', None)"
    and "pub \<noteq> []" and "priv \<noteq> []"
  shows "op_GetNode S s' (ID nd) = Inr nd' \<and> nd' = \<lparr>ID = ID nd, PrivateKeyB64 = b64_encode priv, PublicKeyB64 = b64_encode pub\<rparr>"
proof -
  have nd': "nd' = \<lparr>ID = ID nd, PrivateKeyB64 = b64_encode priv, PublicKeyB64 = b64_encode pub\<rparr>"
    and sv: "op_SaveNode S s nd' = (s', None)"
    using assms(2,3) by (cases nd; auto simp: EnsureKey_def Let_def split: prod.splits option.splits)+
  have "merge_node x nd' = nd'" for x
    using assms(4,5) by (simp add: nd' merge_node_def split: option.split)
  then have "op_GetNode S s' (ID nd') = Inr nd'"
    using save_node_ok [OF assms(1) sv] get_node [of s' "ID nd'"] by (simp add: a_SaveNode_def)
  then show ?thesis by (simp add: nd')
qed

end

section \<open>Properties of the node key\<close>

text \<open>A key generated at start-up is usable and persisted: for the SQLite store, after
  \<open>EnsureKey\<close> returns without error the stored node has both halves, the private half decodes to
  the generated key, and signatures made with it verify under the decoded public half.\<close>

theorem ensure_key_usable:
  assumes "key_pair C pub priv" and "sqlite_inv s" and "PrivateKeyB64 nd = ''''"
    and "EnsureKey (sqlite_ops E) (Inr (pub, priv)) s nd = (s', nd', None)"
  shows "\<exists>k p. sqlite_GetNode s' (ID nd) = Inr nd' \<and> DecodePrivate (PrivateKeyB64 nd') = Inr k
           \<and> DecodePublic (PublicKeyB64 nd') = Inr p \<and> (\<forall>m. ed_Verify C p m (ed_Sign C k m))"
proof -
  have "pub \<noteq> []" "priv \<noteq> []" using assms(1) by (auto simp: key_pair_def PublicKeySize_def PrivateKeySize_def)
  then have "op_GetNode (sqlite_ops E) s' (ID nd) = Inr nd' \<and>
      nd' = \<lparr>ID = ID nd, PrivateKeyB64 = b64_encode priv, PublicKeyB64 = b64_encode pub\<rparr>"
    using sq.ensure_key_stored [OF assms(2-4)] by blast
  then show ?thesis using assms(1) by (simp add: key_pair_def sqlite_ops_def)
qed

text \<open>every start-up replaces the key of an existing node. \<open>NewController\<close> passes
  \<open>store.Node{ID: nodeID}\<close>, without reading the stored node first, so \<open>EnsureKey\<close> always
  generates, and the upsert overwrites the stored pair: the stored private key does not survive a
  restart, whichever store is used.\<close>

theorem restart_replaces_key:
  assumes "length priv = PrivateKeySize" and "length pub = PublicKeySize" and "nid \<noteq> ''''"
    and "sqlite_inv s" and "sql_up s" and "sqlite_GetNode s nid = Inr old"
  shows "\<exists>s' nd'. EnsureKey (sqlite_ops E) (Inr (pub, priv)) s \<lparr>ID = nid, PrivateKeyB64 = '''', PublicKeyB64 = ''''\<rparr> = (s', nd', None)
           \<and> sqlite_GetNode s' nid = Inr nd' \<and> DecodePrivate (PrivateKeyB64 nd') = Inr priv"
proof -
  define nd where "nd = \<lparr>ID = nid, PrivateKeyB64 = '''', PublicKeyB64 = ''''\<rparr>"
  obtain s' nd' where e: "EnsureKey (sqlite_ops E) (Inr (pub, priv)) s nd = (s', nd', None)"
    using assms(3,5) by (simp add: EnsureKey_def nd_def sqlite_ops_def sqlite_SaveNode_def sql_exec_def sql_up_def Let_def)
  have "pub \<noteq> []" "priv \<noteq> []" using assms(1,2) by (auto simp: PublicKeySize_def PrivateKeySize_def)
  then have "op_GetNode (sqlite_ops E) s' (ID nd) = Inr nd' \<and>
      nd' = \<lparr>ID = ID nd, PrivateKeyB64 = b64_encode priv, PublicKeyB64 = b64_encode pub\<rparr>"
    using sq.ensure_key_stored [OF assms(4) _ e] by (simp add: nd_def)
  then show ?thesis using e assms(1) by (simp add: nd_def sqlite_ops_def)
qed

text \<open>A toy signature scheme (the signature is the key) and a concrete pair.\<close>

definition ed_ex :: ed25519 where
  "ed_ex = \<lparr>ed_Sign = (\<lambda>k m. k), ed_Verify = (\<lambda>p m s. take 32 s = p)\<rparr>"

lemma key_pair_ex: "key_pair ed_ex (replicate 32 CHR ''k'') (replicate 64 CHR ''k'')"
  by (simp add: key_pair_def ed_ex_def PublicKeySize_def PrivateKeySize_def)

lemma ensure_key_usable_witness:
  "\<exists>s' nd' k. EnsureKey (sqlite_ops engine_ex) (Inr (replicate 32 CHR ''k'', replicate 64 CHR ''k'')) sql_empty
      \<lparr>ID = ''n'', PrivateKeyB64 = '''', PublicKeyB64 = ''''\<rparr> = (s', nd', None)
     \<and> sqlite_GetNode s' ''n'' = Inr nd' \<and> DecodePrivate (PrivateKeyB64 nd') = Inr k"
proof -
  obtain s' nd' where e: "EnsureKey (sqlite_ops engine_ex) (Inr (replicate 32 CHR ''k'', replicate 64 CHR ''k'')) sql_empty
      \<lparr>ID = ''n'', PrivateKeyB64 = '''', PublicKeyB64 = ''''\<rparr> = (s', nd', None)"
    by (simp add: EnsureKey_def sqlite_ops_def sqlite_SaveNode_def sql_exec_def sql_empty_def Let_def)
  show ?thesis
    using ensure_key_usable [OF key_pair_ex sql_inv_fresh _ e] e by auto
qed

lemma restart_replaces_key_witness:
  "\<exists>s' nd'. EnsureKey (sqlite_ops engine_ex) (Inr (replicate 32 CHR ''k'', replicate 64 CHR ''k''))
       (sql_empty\<lparr>t_nodes := [(''n'', (''old'', ''old''))]\<rparr>) \<lparr>ID = ''n'', PrivateKeyB64 = '''', PublicKeyB64 = ''''\<rparr> = (s', nd', None)
     \<and> sqlite_GetNode s' ''n'' = Inr nd' \<and> DecodePrivate (PrivateKeyB64 nd') = Inr (replicate 64 CHR ''k'')"
proof -
  define s :: "int sqldb" where "s = sql_empty\<lparr>t_nodes := [(''n'', (''old'', ''old''))]\<rparr>"
  have inv: "sqlite_inv s"
    by (simp add: s_def sql_inv_def sql_empty_def gm_wf_def awf_def sql_abs_def one_default_def node_of_row_def)
  have up: "sql_up s" by (simp add: s_def sql_empty_def sql_up_def)
  have g: "sqlite_GetNode s ''n'' = Inr \<lparr>ID = ''n'', PrivateKeyB64 = ''old'', PublicKeyB64 = ''old''\<rparr>"
    by (simp add: s_def sqlite_GetNode_def sql_query_def sql_empty_def node_of_row_def)
  show ?thesis
    using restart_replaces_key [OF _ _ _ inv up g, of "replicate 64 CHR ''k''" "replicate 32 CHR ''k''" engine_ex]
    by (simp add: s_def PrivateKeySize_def PublicKeySize_def)
qed

section \<open>Bearer guard\<close>

record BearerGuard =
  bg_token :: string

text \<open>\<open>NewBearer\<close> panics on an empty token: \<open>None\<close>.\<close>

definition NewBearer :: "string \<Rightarrow> BearerGuard option" where
  "NewBearer token = (if token = '''' then None else Some \<lparr>bg_token = token\<rparr>)"

text \<open>The argument is the incoming metadata of the call, keys in lower case as gRPC delivers them.\<close>

definition Authenticate :: "BearerGuard \<Rightarrow> (string, string list) gomap option \<Rightarrow> string result" where
  "Authenticate g md =
     (case md of
        None \<Rightarrow> Inl (EStatus Unauthenticated ''missing request metadata'')
      | Some m \<Rightarrow>
          (case gm_get m ''authorization'' of
             None \<Rightarrow> Inl (EStatus Unauthenticated ''authorization header required'')
           | Some [] \<Rightarrow> Inl (EStatus Unauthenticated ''authorization header required'')
           | Some (v # _) \<Rightarrow>
               (let tok = trim_prefix ''Bearer '' v in
                if tok \<noteq> bg_token g then Inl (EStatus Unauthenticated ''invalid bearer token'')
                else Inr ''service'')))"

definition Authorize :: "BearerGuard \<Rightarrow> string \<Rightarrow> bool result" where
  "Authorize g identity = Inr True"

lemma trim_prefix_append [simp]: "trim_prefix p (p @ s) = s"
  by (simp add: trim_prefix_def has_prefix_iff)

lemma trim_prefix_cases: "trim_prefix p v = t \<Longrightarrow> v = t \<or> v = p @ t"
  by (auto simp: trim_prefix_def has_prefix_iff prefix_def split: if_splits)

text \<open>With a guard built by \<open>NewBearer\<close>, a call is authenticated only if the first value of
  its authorization metadata is the token or the token after \<open>Bearer\<close> and a space, and the second form is
  always accepted; a call without the header, or with an empty credential, is refused.\<close>

theorem bearer_auth:
  assumes "NewBearer token = Some g"
  shows "(Authenticate g md = Inr i \<longrightarrow>
            (\<exists>m vs. md = Some m \<and> (gm_get m ''authorization'' = Some (token # vs) \<or> gm_get m ''authorization'' = Some ((''Bearer '' @ token) # vs))))
       \<and> (gm_get m ''authorization'' = Some ((''Bearer '' @ token) # vs) \<longrightarrow> Authenticate g (Some m) = Inr ''service'')
       \<and> (gm_get m ''authorization'' \<in> {None, Some [], Some ('''' # vs), Some (''Bearer '' # vs)} \<longrightarrow> isl (Authenticate g (Some m)))"
proof -
  have g: "bg_token g = token" "token \<noteq> []" using assms by (auto simp: NewBearer_def split: if_splits)
  have 1: "\<exists>m vs. md = Some m \<and> (gm_get m ''authorization'' = Some (token # vs) \<or> gm_get m ''authorization'' = Some ((''Bearer '' @ token) # vs))"
    if "Authenticate g md = Inr i"
    using that g(1) by (auto simp: Authenticate_def Let_def split: option.splits list.splits if_splits dest!: trim_prefix_cases)
  have 2: "Authenticate g (Some m) = Inr ''service''" if "gm_get m ''authorization'' = Some ((''Bearer '' @ token) # vs)"
    unfolding Authenticate_def using that g(1) trim_prefix_append [of "''Bearer ''" token]
    by (simp only: option.case list.case Let_def) simp
  have 3: "isl (Authenticate g (Some m))" if "gm_get m ''authorization'' \<in> {None, Some [], Some ('''' # vs), Some (''Bearer '' # vs)}"
    using that g by (auto simp: Authenticate_def Let_def trim_prefix_def split: option.splits list.splits)
  show ?thesis using 1 2 3 by blast
qed

lemma bearer_auth_witness:
  "Authenticate \<lparr>bg_token = ''t''\<rparr> (Some [(''authorization'', [''Bearer t''])]) = Inr ''service''
     \<and> isl (Authenticate \<lparr>bg_token = ''t''\<rparr> (Some [(''authorization'', [''Bearer ''])]))"
  using bearer_auth [of "''t''" "\<lparr>bg_token = ''t''\<rparr>" None "[]" "[(''authorization'', [''Bearer t''])]" "[]"]
    bearer_auth [of "''t''" "\<lparr>bg_token = ''t''\<rparr>" None "[]" "[(''authorization'', [''Bearer ''])]" "[]"]
  by (simp add: NewBearer_def)

end
