(* ===== verification/Webhook.thy ===== *)
theory Webhook
  imports Complex_Main Nodekey
begin

text \<open>
  Asynchronous webhook delivery (\<open>internal/webhook\<close>): retry schedule, payload, signer and the
  dispatcher with its queue, workers and sweeper.

  The dispatcher is parameterised by a store (any value of \<open>store_ops\<close>) and by the record
  \<open>webhook_env\<close>, which holds what it calls outside the repository: the user resolver, the mailbox
  client, the JSON encoding of a payload, URL parsing and one HTTP exchange. Every handler is a
  function on the pair of store state and queue. The concurrent behaviour of event handler,
  workers and sweeper is the step relation \<open>d_step\<close>: a worker takes a job in one step and
  writes its outcome in a later one, so copies of one job can be in flight at the same time.
\<close>

section \<open>Retry schedule\<close>

definition retryBase :: duration where "retryBase = 10 * second"
definition retryMax :: duration where "retryMax = hour"
definition retryJitter :: rat where "retryJitter = 1 / 5"
definition defaultMaxTry :: int where "defaultMaxTry = 5"

text \<open>\<open>math.Pow(2, float64(n))\<close>. The computation is done in rationals: the delay is a power of two
  times the base or the cap, both exact in \<open>float64\<close>; rounding in the jitter term moves the result by
  less than one nanosecond. \<open>r\<close> is the value of \<open>rand.Float64()\<close>.\<close>

definition pow2 :: "int \<Rightarrow> rat" where
  "pow2 n = (if 0 \<le> n then 2 ^ nat n else 1 / 2 ^ nat (- n))"

definition retryDelay :: "int \<Rightarrow> rat" where
  "retryDelay n = (let delay = of_int retryBase * pow2 n in if delay > of_int retryMax then of_int retryMax else delay)"

definition NextRetryTime :: "gotime \<Rightarrow> rat \<Rightarrow> int \<Rightarrow> gotime" where
  "NextRetryTime now r n =
     (let delay = retryDelay n; jitter = delay * retryJitter * (r * 2 - 1)
      in now + \<lfloor>delay + jitter\<rfloor>)"

definition isPermanentFailure :: "int \<Rightarrow> bool" where
  "isPermanentFailure httpStatus \<longleftrightarrow> 400 \<le> httpStatus \<and> httpStatus < 500 \<and> httpStatus \<noteq> 429"

lemma retryDelay_bounds: "0 < retryDelay n" "retryDelay n \<le> of_int retryMax"
  by (auto simp: retryDelay_def pow2_def retryBase_def retryMax_def Let_def)

lemma NextRetryAt_bounds:
  assumes "0 \<le> r" and "r < 1"
  shows "of_int (NextRetryTime now r n - now) \<le> retryDelay n * (6 / 5)"
    and "retryDelay n * (4 / 5) - 1 < of_int (NextRetryTime now r n - now)"
proof -
  define d where "d = retryDelay n"
  have d: "0 < d" by (simp add: d_def retryDelay_bounds)
  define j where "j = d * retryJitter * (r * 2 - 1)"
  have "d * retryJitter * (-1) \<le> j" "j \<le> d * retryJitter * 1"
    unfolding j_def using d assms by (intro mult_left_mono; simp add: retryJitter_def)+
  then have j: "- (d / 5) \<le> j" "j \<le> d / 5" by (simp_all add: retryJitter_def)
  have e: "NextRetryTime now r n - now = \<lfloor>d + j\<rfloor>" by (simp add: NextRetryTime_def d_def j_def Let_def)
  have "of_int \<lfloor>d + j\<rfloor> \<le> d + j" "d + j - 1 < of_int \<lfloor>d + j\<rfloor>" by linarith+
  then show "of_int (NextRetryTime now r n - now) \<le> retryDelay n * (6 / 5)"
    and "retryDelay n * (4 / 5) - 1 < of_int (NextRetryTime now r n - now)"
    using j unfolding e d_def [symmetric] by linarith+
qed

text \<open>The retry time after \<open>n\<close> attempts lies within 20 percent of ten seconds times two to the
  \<open>n\<close>, capped at one hour: never more than 72 minutes ahead and, for a job attempted at least
  once, never less than 16 seconds (up to the nanosecond that rounding may cost); the delay never
  shrinks as attempts accumulate and is the cap from the ninth on.\<close>

theorem NextRetryAt_window:
  assumes "0 \<le> r" and "r < 1"
  shows "NextRetryTime now r n \<le> now + 72 * minute
    \<and> (0 \<le> n \<longrightarrow> now + 8 * second - 1 \<le> NextRetryTime now r n) \<and> (1 \<le> n \<longrightarrow> now + 16 * second - 1 \<le> NextRetryTime now r n)
    \<and> (n \<le> m \<longrightarrow> retryDelay n \<le> retryDelay m) \<and> (9 \<le> n \<longrightarrow> retryDelay n = of_int hour)"
proof -
  have "retryDelay n \<le> of_int (60 * minute)" using retryDelay_bounds(2) [of n] by (simp add: retryMax_def)
  then have "of_int (NextRetryTime now r n - now) \<le> (of_int (72 * minute) :: rat)"
    using NextRetryAt_bounds(1) [OF assms, of now n] by simp
  then have 1: "NextRetryTime now r n \<le> now + 72 * minute" by (simp only: of_int_le_iff)
  have low: "now + \<lfloor>d * (4/5)\<rfloor> - 1 \<le> NextRetryTime now r n" if "d \<le> retryDelay n" for d
  proof -
    have "(of_int \<lfloor>d * (4/5)\<rfloor> :: rat) - 1 < of_int (NextRetryTime now r n - now)"
      using NextRetryAt_bounds(2) [OF assms, of n now] that of_int_floor_le [of "d * (4/5)"] by linarith
    then have "of_int (\<lfloor>d * (4/5)\<rfloor> - 1) < (of_int (NextRetryTime now r n - now) :: rat)" by simp
    then show ?thesis by (simp only: of_int_less_iff)
  qed
  have mono: "pow2 a \<le> pow2 b" if "a \<le> b" for a b
  proof -
    have "(2::rat) ^ nat a \<le> 2 ^ nat b" if "a \<le> b" for a b using that by (intro power_increasing) simp_all
    moreover have "(1::rat) / 2 ^ nat (- a) \<le> 1 / 2 ^ nat (- b)" if "a \<le> b"
      using that by (intro divide_left_mono power_increasing) simp_all
    moreover have "(1::rat) / 2 ^ k \<le> 2 ^ l" for k l
      by (rule order_trans [of _ 1]) simp_all
    ultimately show ?thesis using that by (auto simp: pow2_def)
  qed
  have rd: "retryDelay a \<le> retryDelay b" if "a \<le> b" for a b
    using mono [OF that] by (auto simp: retryDelay_def retryBase_def retryMax_def Let_def)
  have d0: "retryDelay 0 = of_int (10 * second)" "retryDelay 1 = of_int (20 * second)"
    by (simp_all add: retryDelay_def pow2_def retryBase_def retryMax_def)
  have d9: "retryDelay 9 = of_int hour" by (simp add: retryDelay_def pow2_def retryBase_def retryMax_def)
  have 2: "0 \<le> n \<Longrightarrow> now + 8 * second - 1 \<le> NextRetryTime now r n"
    using low [of "retryDelay 0"] rd [of 0 n] by (simp add: d0)
  have 3: "1 \<le> n \<Longrightarrow> now + 16 * second - 1 \<le> NextRetryTime now r n"
    using low [of "retryDelay 1"] rd [of 1 n] by (simp add: d0)
  have 4: "9 \<le> n \<Longrightarrow> retryDelay n = of_int hour"
    using rd [of 9 n] d9 retryDelay_bounds(2) [of n] by (simp add: retryMax_def)
  show ?thesis using 1 2 3 4 rd by blast
qed

lemma NextRetryAt_window_witness:
  "NextRetryTime 0 (1/2) 3 = 80 * second \<and> NextRetryTime 0 (1/2) 3 \<le> 72 * minute \<and> 16 * second - 1 \<le> NextRetryTime 0 (1/2) 3"
  using NextRetryAt_window [of "1/2" 0 3 3]
  by (simp add: NextRetryTime_def retryDelay_def pow2_def retryBase_def retryMax_def retryJitter_def)

section \<open>Payload\<close>

text \<open>A mailbox message as the getters of \<open>mailbox.Message\<close> return it; a metadata value is a
  string or something else.\<close>

datatype anyval = AString string | AOther

record message =
  GetID :: string
  GetThreadID :: string
  GetReplyToID :: string
  GetExternalID :: string
  GetSenderID :: string
  GetSubject :: string
  GetBody :: string
  GetMetadata :: "(string, anyval) gomap"

record Payload =
  p_EventType :: string
  p_MessageID :: string
  p_ThreadID :: string
  p_ReplyToID :: string
  p_ExternalID :: string
  p_SenderID :: string
  p_RecipientID :: string
  p_Subject :: string
  p_Body :: string
  p_ReceivedAt :: gotime
  p_Metadata :: strmap

definition string_meta :: "(string, anyval) gomap \<Rightarrow> strmap" where
  "string_meta raw = fold (\<lambda>(k, v) meta. case v of AString s \<Rightarrow> gm_put k s meta | AOther \<Rightarrow> meta) raw []"

definition BuildPayload :: "string \<Rightarrow> message \<Rightarrow> gotime \<Rightarrow> Payload" where
  "BuildPayload recipientID msg receivedAt =
     \<lparr>p_EventType = ''message.received'', p_MessageID = GetID msg, p_ThreadID = GetThreadID msg,
      p_ReplyToID = GetReplyToID msg, p_ExternalID = GetExternalID msg, p_SenderID = GetSenderID msg,
      p_RecipientID = recipientID, p_Subject = GetSubject msg, p_Body = GetBody msg,
      p_ReceivedAt = receivedAt, p_Metadata = string_meta (GetMetadata msg)\<rparr>"

section \<open>Signer\<close>

record Signer =
  privKey :: string
  keyID :: string

definition NewSigner :: "string \<Rightarrow> string \<Rightarrow> Signer result" where
  "NewSigner priv kid =
     (if length priv \<noteq> PrivateKeySize
      then Inl (EText (''webhook: signer: invalid private key length '' @ itoa (int (length priv))))
      else Inr \<lparr>privKey = priv, keyID = (if kid = '''' then ''v1'' else kid)\<rparr>)"

definition SignedHeaders :: "ed25519 \<Rightarrow> Signer \<Rightarrow> string \<Rightarrow> gotime \<Rightarrow> strmap" where
  "SignedHeaders C sg body ts =
     (let sig = ed_Sign C (privKey sg) body in
      [(''Content-Type'', ''application/json''),
       (''X-Postbox-Signature-Ed25519'', b64_encode sig),
       (''X-Postbox-Timestamp'', itoa (unix ts)),
       (''X-Postbox-Key-Id'', keyID sg)])"

definition Verify :: "ed25519 \<Rightarrow> string \<Rightarrow> string \<Rightarrow> string \<Rightarrow> gotime \<Rightarrow> duration \<Rightarrow> gotime \<Rightarrow> error option" where
  "Verify C pubKey body sigB64 ts maxAge now =
     (let age = now - ts; age = (if age < 0 then - age else age) in
      if age > maxAge then Some (EText ''webhook: verify: timestamp too old'')
      else (case b64_decode sigB64 of
              None \<Rightarrow> Some (EWrap ''webhook: verify: decode signature'' (EText ''illegal base64 data''))
            | Some sig \<Rightarrow>
                if \<not> ed_Verify C pubKey body sig then Some (EText ''webhook: verify: invalid signature'')
                else None))"

section \<open>Dispatcher\<close>

text \<open>What the dispatcher calls outside the repository.\<close>

record webhook_env =
  ResolveUser :: "string \<Rightarrow> strmap result"
  MailboxGet :: "string \<Rightarrow> string \<Rightarrow> message result"
  MarshalPayload :: "Payload \<Rightarrow> string result"
  NewRequest :: "string \<Rightarrow> string option"
  Crypto :: ed25519
  Glib :: golib

record Dispatcher =
  workers :: int
  maxAttempts :: int
  sweepPeriod :: duration
  d_signer :: Signer

definition queue_cap :: "Dispatcher \<Rightarrow> nat" where
  "queue_cap d = nat (workers d * 10)"

text \<open>The options: each sets one field of the configuration whose defaults are in \<open>New\<close>.\<close>

datatype webhook_option = WithWorkers int | WithMaxAttempts int | WithSweepPeriod duration

fun apply_option :: "webhook_option \<Rightarrow> Dispatcher \<Rightarrow> Dispatcher" where
  "apply_option (WithWorkers n) d = d\<lparr>workers := n\<rparr>"
| "apply_option (WithMaxAttempts n) d = d\<lparr>maxAttempts := n\<rparr>"
| "apply_option (WithSweepPeriod p) d = d\<lparr>sweepPeriod := p\<rparr>"

definition NewDispatcher :: "Signer \<Rightarrow> webhook_option list \<Rightarrow> Dispatcher" where
  "NewDispatcher sg opts =
     fold apply_option opts
       \<lparr>workers = 4, maxAttempts = defaultMaxTry, sweepPeriod = 30 * second, d_signer = sg\<rparr>"

lemma NewDispatcher_signer [simp]: "d_signer (NewDispatcher sg opts) = sg"
proof -
  have "d_signer (fold apply_option opts d) = d_signer d" for d
  proof (induction opts arbitrary: d)
    case (Cons opt opts)
    then show ?case by (cases opt) simp_all
  qed simp
  then show ?thesis by (simp add: NewDispatcher_def)
qed

text \<open>A non-blocking send on the buffered channel: the job is dropped when the buffer is full.\<close>

definition try_send :: "Dispatcher \<Rightarrow> DeliveryJob \<Rightarrow> DeliveryJob list \<Rightarrow> DeliveryJob list" where
  "try_send d j q = (if length q < queue_cap d then q @ [j] else q)"

definition received_job :: "Dispatcher \<Rightarrow> gotime \<Rightarrow> string \<Rightarrow> string \<Rightarrow> string \<Rightarrow> DeliveryJob" where
  "received_job d now messageID recipientID endpoint =
     \<lparr>MessageID = messageID, RecipientID = recipientID, EndpointURL = endpoint,
      Status = DeliveryPending, Attempts = 0, MaxAttempts = maxAttempts d, LastError = '''',
      NextRetryAt = now, DeliveredAt = None, CreatedAt = now, UpdatedAt = 0\<rparr>"

definition onMessageReceived ::
  "webhook_env \<Rightarrow> 's store_ops \<Rightarrow> Dispatcher \<Rightarrow> gotime \<Rightarrow> 's \<Rightarrow> DeliveryJob list \<Rightarrow> string \<Rightarrow> string
     \<Rightarrow> 's \<times> DeliveryJob list \<times> error option" where
  "onMessageReceived W S d now s q messageID recipientID =
     (case ResolveUser W recipientID of
        Inl e \<Rightarrow>
          if errors_Is e ErrStoreNotFound then (s, q, None)
          else (s, q, Some (EWrap (''webhook: lookup user '' @ quote (Glib W) recipientID) e))
      | Inr caps \<Rightarrow>
          (let endpoint = gm_str caps ''endpoint'' in
           if endpoint = '''' then (s, q, None)
           else
             (let job = received_job d now messageID recipientID endpoint
              in case op_SaveDeliveryJob S now s job of
                   (s', Some e) \<Rightarrow> (s', q, None)
                 | (s', None) \<Rightarrow> (s', try_send d job q, None))))"

definition fail_job :: "'s store_ops \<Rightarrow> gotime \<Rightarrow> rat \<Rightarrow> 's \<Rightarrow> DeliveryJob \<Rightarrow> string \<Rightarrow> bool \<Rightarrow> 's" where
  "fail_job S now r s job errMsg permanent =
     (let job = job\<lparr>LastError := errMsg\<rparr>;
          job = (if permanent \<or> Attempts job \<ge> MaxAttempts job then job\<lparr>Status := DeliveryDead\<rparr>
                 else job\<lparr>Status := DeliveryFailed, NextRetryAt := NextRetryTime now r (Attempts job)\<rparr>)
      in fst (op_UpdateDeliveryJob S now s job))"

text \<open>One HTTP exchange either fails with a transport error or yields a status code; it is the
  argument \<open>resp\<close>. The result is the new store state and the request that was sent, if any.\<close>

record request =
  req_url :: string
  req_headers :: strmap
  req_body :: string

definition attempt ::
  "webhook_env \<Rightarrow> 's store_ops \<Rightarrow> Dispatcher \<Rightarrow> gotime \<Rightarrow> rat \<Rightarrow> (string + int) \<Rightarrow> 's \<Rightarrow> DeliveryJob \<Rightarrow> 's \<times> request option" where
  "attempt W S d now r resp s job =
     (case MailboxGet W (RecipientID job) (MessageID job) of
        Inl e \<Rightarrow> (s, None)
      | Inr msg \<Rightarrow>
          (case MarshalPayload W (BuildPayload (RecipientID job) msg now) of
             Inl e \<Rightarrow> (s, None)
           | Inr body \<Rightarrow>
               (let headers = SignedHeaders (Crypto W) (d_signer d) body now in
                case NewRequest W (EndpointURL job) of
                  Some e \<Rightarrow> (fail_job S now r s job (''build request: '' @ e) False, None)
                | None \<Rightarrow>
                    (let req = \<lparr>req_url = EndpointURL job, req_headers = headers, req_body = body\<rparr>;
                         job = job\<lparr>Attempts := Attempts job + 1\<rparr>
                     in case resp of
                          Inl err \<Rightarrow> (fail_job S now r s job err False, Some req)
                        | Inr status \<Rightarrow>
                            if 200 \<le> status \<and> status < 300
                            then (fst (op_UpdateDeliveryJob S now s
                                    (job\<lparr>Status := DeliveryDelivered, DeliveredAt := Some now, LastError := ''''\<rparr>)), Some req)
                            else (fail_job S now r s job (''HTTP '' @ itoa status) (isPermanentFailure status), Some req)))))"

definition sweep :: "'s store_ops \<Rightarrow> Dispatcher \<Rightarrow> gotime \<Rightarrow> 's \<Rightarrow> DeliveryJob list \<Rightarrow> DeliveryJob list" where
  "sweep S d now s q =
     (case op_ListPendingDeliveryJobs S s now (workers d * 10) of
        Inl e \<Rightarrow> q
      | Inr jobs \<Rightarrow> fold (try_send d) jobs q)"

section \<open>Signatures\<close>

text \<open>Every request the dispatcher sends carries a signature over exactly the body it sends,
  and the receiver's check (\<open>Verify\<close>) accepts it with the node's public key as long as the
  clocks differ by at most \<open>maxAge\<close>; the check refuses any other time.\<close>

theorem sent_request_verifies:
  assumes "key_pair (Crypto W) pub (privKey (d_signer d))"
    and "attempt W S d now r resp s job = (s', Some req)"
  shows "req_url req = EndpointURL job
    \<and> Verify (Crypto W) pub (req_body req) (gm_str (req_headers req) ''X-Postbox-Signature-Ed25519'') ts maxAge t
        = (if \<bar>t - ts\<bar> \<le> maxAge then None else Some (EText ''webhook: verify: timestamp too old''))"
proof -
  obtain body where "req = \<lparr>req_url = EndpointURL job, req_headers = SignedHeaders (Crypto W) (d_signer d) body now, req_body = body\<rparr>"
    using assms(2) by (auto simp: attempt_def Let_def split: sum.splits option.splits if_splits)
  then show ?thesis
    using assms(1) by (auto simp: Verify_def SignedHeaders_def gm_str_def key_pair_def Let_def abs_if)
qed

definition env_ex :: webhook_env where
  "env_ex = \<lparr>ResolveUser = (\<lambda>u. Inr [(''endpoint'', ''https://h/'')]),
     MailboxGet = (\<lambda>u m. Inr \<lparr>GetID = m, GetThreadID = [], GetReplyToID = [], GetExternalID = [], GetSenderID = ''a'',
        GetSubject = ''s'', GetBody = ''b'', GetMetadata = []\<rparr>),
     MarshalPayload = (\<lambda>p. Inr (p_Body p)), NewRequest = (\<lambda>u. None), Crypto = ed_ex,
     Glib = \<lparr>uc_ToLower = id, uc_EqualFold = (=), uc_TrimSpace = id, uc_Quote = id, mail_ParseAddress = Some,
       mime_ParseMediaType = Some, net_ParseIP = (\<lambda>_. None), regexp_Compile = (\<lambda>_. None), regexp_MatchString = (=)\<rparr>\<rparr>"

definition dispatcher_ex :: Dispatcher where
  "dispatcher_ex = NewDispatcher \<lparr>privKey = replicate 64 CHR ''k'', keyID = ''v1''\<rparr> []"

lemma sent_request_verifies_witness:
  "\<exists>s' req. attempt env_ex mem_ops dispatcher_ex 7 0 (Inr 200) mem_New (job_ex ''m'' ''pending'' 0) = (s', Some req)
     \<and> Verify ed_ex (replicate 32 CHR ''k'') (req_body req) (gm_str (req_headers req) ''X-Postbox-Signature-Ed25519'') 7 5 9 = None"
proof -
  have k: "key_pair (Crypto env_ex) (replicate 32 CHR ''k'') (privKey (d_signer dispatcher_ex))"
    using key_pair_ex by (simp add: env_ex_def dispatcher_ex_def NewDispatcher_def)
  obtain s' req where a: "attempt env_ex mem_ops dispatcher_ex 7 0 (Inr 200) mem_New (job_ex ''m'' ''pending'' 0) = (s', Some req)"
    by (simp add: attempt_def env_ex_def Let_def)
  show ?thesis using sent_request_verifies [OF k a, of 7 5 9] a by (auto simp: env_ex_def)
qed

section \<open>The concurrent dispatcher\<close>

text \<open>\<open>ds_running\<close> are the jobs workers have taken from the queue and not finished, \<open>ds_alive\<close> the
  workers that have not returned. The store is shared with the rest of the node, whose writes to
  nodes, domains and users are the rule \<open>other\<close>.\<close>

record 's dstate =
  ds_store :: 's
  ds_queue :: "DeliveryJob list"
  ds_running :: "DeliveryJob list"
  ds_alive :: nat
  ds_stopped :: bool

definition d_start :: "Dispatcher \<Rightarrow> 's \<Rightarrow> 's dstate" where
  "d_start d s = \<lparr>ds_store = s, ds_queue = [], ds_running = [], ds_alive = nat (workers d), ds_stopped = False\<rparr>"

inductive d_step :: "webhook_env \<Rightarrow> 's store_ops \<Rightarrow> Dispatcher \<Rightarrow> 's dstate \<Rightarrow> 's dstate \<Rightarrow> bool" for W S d where
  received: "onMessageReceived W S d now (ds_store x) (ds_queue x) m u = (s', q', e)
     \<Longrightarrow> d_step W S d x (x\<lparr>ds_store := s', ds_queue := q'\<rparr>)"
| take_job: "ds_queue x = j # q \<Longrightarrow> length (ds_running x) < ds_alive x
     \<Longrightarrow> d_step W S d x (x\<lparr>ds_queue := q, ds_running := j # ds_running x\<rparr>)"
| finish: "ds_running x = js @ j # ks \<Longrightarrow> attempt W S d now r resp (ds_store x) j = (s', req)
     \<Longrightarrow> d_step W S d x (x\<lparr>ds_store := s', ds_running := js @ ks\<rparr>)"
| sweeper: "\<not> ds_stopped x \<Longrightarrow> d_step W S d x (x\<lparr>ds_queue := sweep S d now (ds_store x) (ds_queue x)\<rparr>)"
| stop: "d_step W S d x (x\<lparr>ds_stopped := True\<rparr>)"
| worker_returns: "ds_stopped x \<Longrightarrow> length (ds_running x) < ds_alive x
     \<Longrightarrow> d_step W S d x (x\<lparr>ds_alive := ds_alive x - 1\<rparr>)"
| other: "s' \<in> {fst (op_SaveNode S (ds_store x) n), fst (op_SaveDomain S (ds_store x) dm), fst (op_SaveUser S now (ds_store x) u)}
     \<Longrightarrow> d_step W S d x (x\<lparr>ds_store := s'\<rparr>)"

definition d_reach :: "webhook_env \<Rightarrow> 's store_ops \<Rightarrow> Dispatcher \<Rightarrow> 's dstate \<Rightarrow> 's dstate \<Rightarrow> bool" where
  "d_reach W S d = (d_step W S d)\<^sup>*\<^sup>*"

definition copy_ok :: "Dispatcher \<Rightarrow> DeliveryJob \<Rightarrow> bool" where
  "copy_ok d j \<longleftrightarrow> MaxAttempts j = maxAttempts d \<and> 0 \<le> Attempts j \<and> Attempts j < maxAttempts d"

definition stored_ok :: "Dispatcher \<Rightarrow> DeliveryJob \<Rightarrow> bool" where
  "stored_ok d e \<longleftrightarrow> MaxAttempts e = maxAttempts d \<and> 0 \<le> Attempts e \<and> Attempts e \<le> maxAttempts d
     \<and> Status e \<in> {DeliveryPending, DeliveryFailed, DeliveryDelivered, DeliveryDead}
     \<and> (Status e \<in> {DeliveryPending, DeliveryFailed} \<longrightarrow> Attempts e < maxAttempts d)
     \<and> (Status e \<in> {DeliveryDelivered, DeliveryDead} \<longrightarrow> 1 \<le> Attempts e)
     \<and> (Status e = DeliveryDelivered \<longrightarrow> DeliveredAt e \<noteq> None)"

lemma try_send_set: "set (try_send d j q) \<subseteq> insert j (set q)"
  by (auto simp: try_send_def)

lemma fold_try_send_set: "set (fold (try_send d) js q) \<subseteq> set js \<union> set q"
proof (induction js arbitrary: q)
  case (Cons j js)
  then show ?case using try_send_set [of d j q] by fastforce
qed simp

lemma try_send_length: "length q \<le> queue_cap d \<Longrightarrow> length (try_send d j q) \<le> queue_cap d"
  by (auto simp: try_send_def)

lemma fold_try_send_length: "length q \<le> queue_cap d \<Longrightarrow> length (fold (try_send d) js q) \<le> queue_cap d"
  by (induction js arbitrary: q) (simp_all add: try_send_length)

text \<open>The job an attempt writes back, if it writes one.\<close>

definition failed_job :: "gotime \<Rightarrow> rat \<Rightarrow> DeliveryJob \<Rightarrow> string \<Rightarrow> bool \<Rightarrow> DeliveryJob" where
  "failed_job now r job errMsg permanent =
     (if permanent \<or> Attempts job \<ge> MaxAttempts job then job\<lparr>LastError := errMsg, Status := DeliveryDead\<rparr>
      else job\<lparr>LastError := errMsg, Status := DeliveryFailed, NextRetryAt := NextRetryTime now r (Attempts job)\<rparr>)"

lemma fail_job_eq: "fail_job S now r s job m p = fst (op_UpdateDeliveryJob S now s (failed_job now r job m p))"
  by (simp add: fail_job_def failed_job_def Let_def)

lemma attempt_writes:
  assumes "attempt W S d now r resp s j = (s', req)" and "copy_ok d j"
  shows "s' = s \<or> (\<exists>j'. s' = fst (op_UpdateDeliveryJob S now s j') \<and> job_key j' = job_key j \<and> stored_ok d j')"
proof -
  let ?j = "j\<lparr>Attempts := Attempts j + 1\<rparr>"
  have f: "stored_ok d (failed_job now r ?j m p)" "stored_ok d (failed_job now r j m False)" for m p
    using assms(2) by (auto simp: failed_job_def stored_ok_def copy_ok_def status_defs)
  have g: "stored_ok d (?j\<lparr>Status := DeliveryDelivered, DeliveredAt := Some now, LastError := ''''\<rparr>)"
    using assms(2) by (auto simp: stored_ok_def copy_ok_def status_defs)
  have k: "job_key (failed_job now r ?j m p) = job_key j" "job_key (failed_job now r j m p) = job_key j" for m p
    by (auto simp: failed_job_def)
  consider "s' = s" | m where "s' = fst (op_UpdateDeliveryJob S now s (failed_job now r j m False))"
    | m p where "s' = fst (op_UpdateDeliveryJob S now s (failed_job now r ?j m p))"
    | "s' = fst (op_UpdateDeliveryJob S now s (?j\<lparr>Status := DeliveryDelivered, DeliveredAt := Some now, LastError := ''''\<rparr>))"
    using assms(1) by (auto simp: attempt_def fail_job_eq Let_def split: sum.splits option.splits if_splits)
  then show ?thesis
    using f g k by cases (blast, blast, blast, fastforce)
qed

definition d_inv :: "('s \<Rightarrow> bool) \<Rightarrow> ('s \<Rightarrow> astore) \<Rightarrow> Dispatcher \<Rightarrow> 's dstate \<Rightarrow> bool" where
  "d_inv I A d x \<longleftrightarrow> I (ds_store x) \<and> (\<forall>k e. a_jobs (A (ds_store x)) k = Some e \<longrightarrow> stored_ok d e)
     \<and> (\<forall>j \<in> set (ds_queue x) \<union> set (ds_running x). copy_ok d j) \<and> length (ds_queue x) \<le> queue_cap d
     \<and> length (ds_running x) \<le> ds_alive x"

lemma stored_ok_merge [simp]: "stored_ok d (job_tm tm j) = stored_ok d j"
  by (auto simp: stored_ok_def)

lemma onMessageReceived_writes:
  assumes "onMessageReceived W S d now s q m u = (s', q', e)"
  shows "s' = s \<and> q' = q \<or> (\<exists>ep. s' = fst (op_SaveDeliveryJob S now s (received_job d now m u ep))
           \<and> (q' = q \<or> q' = try_send d (received_job d now m u ep) q))"
  using assms by (auto simp: onMessageReceived_def Let_def split: sum.splits if_splits prod.splits option.splits)
    (metis fst_conv)+

context node_store begin

lemma save_job_keeps:
  assumes "inv s" and "\<forall>k e. a_jobs (abs s) k = Some e \<longrightarrow> stored_ok d e"
    and "Status j = DeliveryPending" and "Attempts j = 0" and "MaxAttempts j = maxAttempts d" and "0 < maxAttempts d"
  shows "inv (fst (op_SaveDeliveryJob S now s j))
    \<and> (\<forall>k e. a_jobs (abs (fst (op_SaveDeliveryJob S now s j))) k = Some e \<longrightarrow> stored_ok d e)"
proof -
  have "stored_ok d (job_defaults now j)"
    using assms(3-) by (auto simp: stored_ok_def status_defs)
  then show ?thesis
    using save_job_write [OF assms(1), of now j] assms(2) by (auto simp: a_SaveJob_def split: option.splits if_splits)
qed

lemma update_job_keeps:
  assumes "inv s" and "\<forall>k e. a_jobs (abs s) k = Some e \<longrightarrow> stored_ok d e" and "stored_ok d j"
  shows "inv (fst (op_UpdateDeliveryJob S now s j))
    \<and> (\<forall>k e. a_jobs (abs (fst (op_UpdateDeliveryJob S now s j))) k = Some e \<longrightarrow> stored_ok d e)"
proof -
  have "stored_ok d (job_merge t (job_tm tm j) e)" if "stored_ok d e" for t e
    using assms(3) that by (auto simp: stored_ok_def)
  then show ?thesis
    using update_job_write [OF assms(1), of now j] assms(2) by (auto simp: a_UpdateJob_def split: option.splits if_splits)
qed

lemma other_keeps:
  assumes "inv s" and "s' \<in> {fst (op_SaveNode S s n), fst (op_SaveDomain S s dm), fst (op_SaveUser S now s u)}"
  shows "inv s' \<and> a_jobs (abs s') = a_jobs (abs s)"
  using assms(2) save_node_write [OF assms(1), of n] save_domain_write [OF assms(1), of dm] save_user_write [OF assms(1), of now u]
  by (auto simp: a_SaveNode_def a_SaveDomain_def)

lemma d_step_inv:
  assumes "d_step W S d x y" and "d_inv inv abs d x" and "0 < maxAttempts d"
  shows "d_inv inv abs d y"
  using assms
proof (induction rule: d_step.induct)
  case (received now x m u s' q' e)
  have c: "copy_ok d j" if "Attempts j = 0" "MaxAttempts j = maxAttempts d" for j
    using that received.prems(2) by (simp add: copy_ok_def)
  consider "s' = ds_store x" "q' = ds_queue x"
    | j where "s' = fst (op_SaveDeliveryJob S now (ds_store x) j)" "q' = ds_queue x \<or> q' = try_send d j (ds_queue x)"
        "Status j = DeliveryPending" "Attempts j = 0" "MaxAttempts j = maxAttempts d"
    using onMessageReceived_writes [OF received.hyps] by (fastforce simp: received_job_def)
  then show ?case
  proof cases
    case 1
    then show ?thesis using received.prems(1) by (simp add: d_inv_def)
  next
    case (2 j)
    then have "inv s' \<and> (\<forall>k e. a_jobs (abs s') k = Some e \<longrightarrow> stored_ok d e)"
      using save_job_keeps [of "ds_store x" d j now] received.prems by (simp add: d_inv_def)
    then show ?thesis
      using 2 received.prems(1) c [of j] try_send_set [of d j "ds_queue x"] try_send_length [of "ds_queue x" d j]
      by (auto simp: d_inv_def)
  qed
next
  case (finish x js j ks now r resp s' req)
  have j: "copy_ok d j" using finish by (auto simp: d_inv_def)
  have "inv s' \<and> (\<forall>k e. a_jobs (abs s') k = Some e \<longrightarrow> stored_ok d e)"
  proof (cases "s' = ds_store x")
    case True
    then show ?thesis using finish.prems(1) by (simp add: d_inv_def)
  next
    case False
    then obtain j' where "s' = fst (op_UpdateDeliveryJob S now (ds_store x) j')" "stored_ok d j'"
      using attempt_writes [OF finish.hyps(2) j] by blast
    then show ?thesis using update_job_keeps [of "ds_store x" d j' now] finish.prems(1) by (simp add: d_inv_def)
  qed
  then show ?case using finish by (auto simp: d_inv_def)
next
  case (sweeper x now)
  have "copy_ok d j" if "op_ListPendingDeliveryJobs S (ds_store x) now (workers d * 10) = Inr js" "j \<in> set js" for j js
  proof -
    have "j \<in> ran (a_jobs (abs (ds_store x)))" "due (tm now) j"
      using list_pending [OF _ that(1)] that(2) sweeper.prems(1) by (auto simp: d_inv_def)
    then show ?thesis using sweeper.prems(1) by (auto simp: d_inv_def ran_def stored_ok_def copy_ok_def due_def)
  qed
  then show ?case
    using sweeper.prems(1) fold_try_send_set [of d _ "ds_queue x"] fold_try_send_length [of "ds_queue x" d]
    by (fastforce simp: d_inv_def sweep_def split: sum.split)
next
  case (other s' x n dm now u)
  then show ?case using other_keeps [of "ds_store x" s' n dm now u] by (simp add: d_inv_def)
qed (auto simp: d_inv_def)

lemma d_reach_inv:
  assumes "d_reach W S d x y" and "d_inv inv abs d x" and "0 < maxAttempts d"
  shows "d_inv inv abs d y"
  using assms(1) unfolding d_reach_def
  by (induction rule: rtranclp_induct) (use assms(2,3) d_step_inv in blast)+

lemma d_start_inv:
  "inv s \<Longrightarrow> (\<And>k e. a_jobs (abs s) k = Some e \<Longrightarrow> stored_ok d e) \<Longrightarrow> d_inv inv abs d (d_start d s)"
  by (simp add: d_inv_def d_start_def)

end

text \<open>C8: whatever the interleaving of incoming events, workers, sweeper, shutdown and the other
  writes of the node, in every state the dispatcher reaches on the SQLite store each stored job is
  in one of the four states, its attempts never exceed its limit, a job that may still be retried
  has attempts left, and a delivered or dead job was really attempted; the queue never exceeds its
  capacity and no more jobs are in progress than there are workers.\<close>

theorem dispatcher_attempts_bounded:
  assumes "d_reach W (sqlite_ops E) d (d_start d s0) x" and "0 < maxAttempts d"
    and "sqlite_inv s0" and "list_all (stored_ok d) (gm_vals (t_jobs s0))"
  shows "(sqlite_GetDeliveryJob (ds_store x) m r = Inr j \<longrightarrow> stored_ok d j)
    \<and> length (ds_queue x) \<le> queue_cap d \<and> length (ds_running x) \<le> ds_alive x
    \<and> (\<forall>j \<in> set (ds_queue x) \<union> set (ds_running x). Attempts j < MaxAttempts j)"
proof -
  have "d_inv sqlite_inv (sql_abs sqlite_domain) d (d_start d s0)"
    using assms(3,4) by (intro sq.d_start_inv) (auto simp: list_all_iff dest: gm_valsD)
  then have i: "d_inv sqlite_inv (sql_abs sqlite_domain) d x"
    using sq.d_reach_inv [OF assms(1) _ assms(2)] by blast
  then have "stored_ok d j" if "sqlite_GetDeliveryJob (ds_store x) m r = Inr j"
    using that by (auto simp: sqlite_GetDeliveryJob_def d_inv_def split: sum.splits option.splits)
  then show ?thesis using i by (auto simp: d_inv_def copy_ok_def)
qed

lemma d_step_received:
  "d_step W S d x (x\<lparr>ds_store := fst (onMessageReceived W S d now (ds_store x) (ds_queue x) m u),
                     ds_queue := fst (snd (onMessageReceived W S d now (ds_store x) (ds_queue x) m u))\<rparr>)"
  by (rule d_step.received [of W S d now x m u _ _ "snd (snd (onMessageReceived W S d now (ds_store x) (ds_queue x) m u))"]) simp

lemma dispatcher_attempts_bounded_witness:
  "\<exists>x. d_reach env_ex (sqlite_ops engine_ex) dispatcher_ex (d_start dispatcher_ex sql_empty) x
     \<and> (\<exists>j. ds_queue x = [j] \<and> sqlite_GetDeliveryJob (ds_store x) ''m'' ''u'' = Inr (j\<lparr>UpdatedAt := 9\<rparr>)
            \<and> stored_ok dispatcher_ex (j\<lparr>UpdatedAt := 9\<rparr>))"
proof -
  define x where "x = (d_start dispatcher_ex (sql_empty :: int sqldb))
    \<lparr>ds_store := fst (onMessageReceived env_ex (sqlite_ops engine_ex) dispatcher_ex 9 sql_empty [] ''m'' ''u''),
     ds_queue := fst (snd (onMessageReceived env_ex (sqlite_ops engine_ex) dispatcher_ex 9 sql_empty [] ''m'' ''u''))\<rparr>"
  have r: "d_reach env_ex (sqlite_ops engine_ex) dispatcher_ex (d_start dispatcher_ex sql_empty) x"
    using d_step_received [of env_ex "sqlite_ops engine_ex" dispatcher_ex "d_start dispatcher_ex sql_empty" 9 "''m''" "''u''"]
    by (simp add: d_reach_def x_def d_start_def r_into_rtranclp)
  define j where "j = received_job dispatcher_ex 9 ''m'' ''u'' ''https://h/''"
  have on: "onMessageReceived env_ex (sqlite_ops engine_ex) dispatcher_ex 9 sql_empty [] ''m'' ''u''
      = (sql_empty\<lparr>t_jobs := [((''m'', ''u''), j\<lparr>UpdatedAt := 9\<rparr>)]\<rparr>, [j], None)"
    by (simp add: onMessageReceived_def env_ex_def gm_str_def sqlite_ops_def sqlite_SaveDeliveryJob_def
        insert_job_def sql_exec_def sql_empty_def j_def received_job_def try_send_def queue_cap_def dispatcher_ex_def
        NewDispatcher_def defaultMaxTry_def engine_ex_def job_tm_def Let_def)
  have g: "sqlite_GetDeliveryJob (ds_store x) ''m'' ''u'' = Inr (j\<lparr>UpdatedAt := 9\<rparr>)"
    unfolding x_def on by (simp add: d_start_def sqlite_GetDeliveryJob_def sql_query_def) (simp add: sql_empty_def)
  have m: "0 < maxAttempts dispatcher_ex" by (simp add: dispatcher_ex_def NewDispatcher_def defaultMaxTry_def)
  have l: "list_all (stored_ok dispatcher_ex) (gm_vals (t_jobs (sql_empty :: int sqldb)))"
    by (simp add: sql_empty_def gm_vals_def)
  show ?thesis
    using dispatcher_attempts_bounded [OF r m sql_inv_fresh l, of "''m''" "''u''" "j\<lparr>UpdatedAt := 9\<rparr>"] g r
    by (auto simp: x_def on)
qed

section \<open>Retrying one job\<close>

text \<open>The retries of one job, one after the other: while the stored job is pending or failed it is
  attempted again. Each attempt has its own clock, random value and HTTP outcome.\<close>

fun retry_run :: "webhook_env \<Rightarrow> 's store_ops \<Rightarrow> Dispatcher \<Rightarrow> string \<Rightarrow> string \<Rightarrow> (gotime \<times> rat \<times> (string + int)) list \<Rightarrow> 's \<Rightarrow> 's" where
  "retry_run W S d m u [] s = s"
| "retry_run W S d m u ((now, r, resp) # xs) s =
     (case op_GetDeliveryJob S s m u of
        Inl e \<Rightarrow> s
      | Inr job \<Rightarrow>
          if Status job \<in> {DeliveryPending, DeliveryFailed}
          then retry_run W S d m u xs (fst (attempt W S d now r resp s job)) else s)"

definition success :: "string + int \<Rightarrow> bool" where
  "success resp = (case resp of Inl e \<Rightarrow> False | Inr st \<Rightarrow> 200 \<le> st \<and> st < 300)"

definition transient :: "string + int \<Rightarrow> bool" where
  "transient resp = (case resp of Inl e \<Rightarrow> True | Inr st \<Rightarrow> \<not> (200 \<le> st \<and> st < 300) \<and> \<not> isPermanentFailure st)"

text \<open>The environment lets the job be attempted: the message can be fetched and encoded, and the
  endpoint is a valid URL.\<close>

definition attemptable :: "webhook_env \<Rightarrow> string \<Rightarrow> string \<Rightarrow> string \<Rightarrow> bool" where
  "attemptable W m u url \<longleftrightarrow> (\<exists>msg. MailboxGet W u m = Inr msg \<and> (\<forall>t. \<exists>b. MarshalPayload W (BuildPayload u msg t) = Inr b))
     \<and> NewRequest W url = None"

lemma attemptableE:
  assumes "attemptable W m u url"
  obtains msg b where "MailboxGet W u m = Inr msg" "MarshalPayload W (BuildPayload u msg t) = Inr b" "NewRequest W url = None"
  using assms unfolding attemptable_def by blast

lemma attempt_fail:
  assumes "attemptable W (MessageID j) (RecipientID j) (EndpointURL j)" and "\<not> success resp"
  shows "\<exists>msg perm. fst (attempt W S d now r resp s j)
     = fst (op_UpdateDeliveryJob S now s (failed_job now r (j\<lparr>Attempts := Attempts j + 1\<rparr>) msg perm)) \<and> (transient resp \<longrightarrow> \<not> perm)"
  using assms(2)
  by (rule_tac attemptableE [OF assms(1), of now])
    (auto simp: attempt_def success_def transient_def fail_job_eq Let_def split: sum.splits)

lemma attempt_success:
  assumes "attemptable W (MessageID j) (RecipientID j) (EndpointURL j)" and "success resp"
  shows "fst (attempt W S d now r resp s j) = fst (op_UpdateDeliveryJob S now s
     (j\<lparr>Attempts := Attempts j + 1, Status := DeliveryDelivered, DeliveredAt := Some now, LastError := ''''\<rparr>))"
  using assms(2)
  by (rule_tac attemptableE [OF assms(1), of now])
    (auto simp: attempt_def success_def Let_def split: sum.splits)

context job_store begin

text \<open>One attempt of the stored job, seen through the store.\<close>

lemma update_seen:
  assumes "inv s" and "up s" and "op_GetDeliveryJob S s m u = Inr e" and "job_key j = (m, u)"
  shows "inv (fst (op_UpdateDeliveryJob S now s j)) \<and> up (fst (op_UpdateDeliveryJob S now s j))
    \<and> op_GetDeliveryJob S (fst (op_UpdateDeliveryJob S now s j)) m u = Inr (job_merge (tm now) (job_tm tm j) e)"
proof -
  have e: "a_jobs (abs s) (job_key j) = Some e" using assms get_job [of s m u] by simp
  obtain s' where s': "op_UpdateDeliveryJob S now s j = (s', None)"
    using update_job_live [OF assms(1,2), of j now] e by (metis option.distinct(1) prod.collapse)
  then show ?thesis
    using update_job_ok [OF assms(1) s'] update_job_roundtrip [OF assms(1,2) _ s', of e] assms(3,4) by auto
qed

lemma stored_key:
  assumes "inv s" and "up s" and "op_GetDeliveryJob S s m u = Inr e"
  shows "MessageID e = m" and "RecipientID e = u"
  using inv_awf [OF assms(1)] get_job [OF assms(1,2), of m u] assms(3) by (auto simp: awf_def)

lemma retry_run_dead:
  assumes "inv s" and "up s" and "op_GetDeliveryJob S s m u = Inr e"
    and "Status e \<in> {DeliveryPending, DeliveryFailed}" and "attemptable W m u (EndpointURL e)"
    and "Attempts e < MaxAttempts e" and "list_all (\<lambda>(t, r, resp). \<not> success resp) xs"
    and "MaxAttempts e - Attempts e \<le> int (length xs)"
  shows "\<exists>e'. op_GetDeliveryJob S (retry_run W S d m u xs s) m u = Inr e' \<and> Status e' = DeliveryDead
           \<and> Attempts e' \<le> MaxAttempts e \<and> MaxAttempts e' = MaxAttempts e"
  using assms
proof (induction xs arbitrary: s e)
  case (Cons x xs)
  obtain t r resp where x: "x = (t, r, resp)" by (cases x)
  note k = stored_key [OF Cons.prems(1-3)]
  obtain msg perm where at: "fst (attempt W S d t r resp s e)
      = fst (op_UpdateDeliveryJob S t s (failed_job t r (e\<lparr>Attempts := Attempts e + 1\<rparr>) msg perm))"
    using attempt_fail [of W e resp S d t r s] Cons.prems(5,7) k x by (auto simp: case_prod_beta)
  define j where "j = failed_job t r (e\<lparr>Attempts := Attempts e + 1\<rparr>) msg perm"
  define s' where "s' = fst (attempt W S d t r resp s e)"
  define e1 where "e1 = job_merge (tm t) (job_tm tm j) e"
  have jk: "job_key j = (m, u)" using k by (simp add: j_def failed_job_def)
  have s': "inv s'" "up s'" "op_GetDeliveryJob S s' m u = Inr e1"
    using update_seen [OF Cons.prems(1-3) jk, of t] at by (auto simp: s'_def j_def e1_def)
  have run: "retry_run W S d m u (x # xs) s = retry_run W S d m u xs s'"
    using Cons.prems(3,4) x by (simp add: s'_def)
  have e1: "Attempts e1 = Attempts e + 1" "MaxAttempts e1 = MaxAttempts e" "EndpointURL e1 = EndpointURL e"
    "Status e1 = (if perm \<or> Attempts e + 1 \<ge> MaxAttempts e then DeliveryDead else DeliveryFailed)"
    by (simp_all add: e1_def j_def failed_job_def)
  show ?case
  proof (cases "Status e1 = DeliveryDead")
    case True
    have "retry_run W S d m u xs s' = s'"
      using s'(3) True by (cases xs) (auto simp: status_defs)
    then show ?thesis using run s'(3) True e1 Cons.prems(6) by auto
  next
    case False
    then have f: "Status e1 = DeliveryFailed" "Attempts e1 < MaxAttempts e1" using e1 by (auto split: if_splits)
    show ?thesis
      unfolding run using Cons.IH [OF s' _ _ f(2)] f(1) Cons.prems(5,7,8) e1 by simp
  qed
qed simp

text \<open>A job whose endpoint is not a valid URL is never given up: its attempts are not counted.\<close>

lemma retry_run_unbuildable:
  assumes "inv s" and "up s" and "op_GetDeliveryJob S s m u = Inr e"
    and "Status e \<in> {DeliveryPending, DeliveryFailed}" and "NewRequest W (EndpointURL e) \<noteq> None" and "Attempts e < MaxAttempts e"
  shows "\<exists>e'. op_GetDeliveryJob S (retry_run W S d m u xs s) m u = Inr e'
           \<and> Status e' \<in> {DeliveryPending, DeliveryFailed} \<and> Attempts e' = Attempts e"
  using assms
proof (induction xs arbitrary: s e)
  case (Cons x xs)
  obtain t r resp where x: "x = (t, r, resp)" by (cases x)
  note k = stored_key [OF Cons.prems(1-3)]
  obtain err where err: "NewRequest W (EndpointURL e) = Some err" using Cons.prems(5) by blast
  define j where "j = failed_job t r e (''build request: '' @ err) False"
  define s' where "s' = fst (attempt W S d t r resp s e)"
  have at: "s' = s \<or> s' = fst (op_UpdateDeliveryJob S t s j)"
    using err by (auto simp: s'_def attempt_def fail_job_eq j_def Let_def split: sum.splits)
  have jk: "job_key j = (m, u)" using k by (simp add: j_def failed_job_def)
  have "\<exists>e1. inv s' \<and> up s' \<and> op_GetDeliveryJob S s' m u = Inr e1 \<and> Status e1 \<in> {DeliveryPending, DeliveryFailed}
      \<and> EndpointURL e1 = EndpointURL e \<and> Attempts e1 = Attempts e \<and> MaxAttempts e1 = MaxAttempts e"
  proof (cases "s' = s")
    case True
    then show ?thesis using Cons.prems by blast
  next
    case False
    then show ?thesis
      using at update_seen [OF Cons.prems(1-3) jk, of t] Cons.prems(6) by (auto simp: j_def failed_job_def)
  qed
  then obtain e1 where e1: "inv s'" "up s'" "op_GetDeliveryJob S s' m u = Inr e1" "Status e1 \<in> {DeliveryPending, DeliveryFailed}"
      "EndpointURL e1 = EndpointURL e" "Attempts e1 = Attempts e" "MaxAttempts e1 = MaxAttempts e" by blast
  have run: "retry_run W S d m u (x # xs) s = retry_run W S d m u xs s'"
    using Cons.prems(3,4) x by (simp add: s'_def)
  show ?case
    unfolding run using Cons.IH [OF e1(1-4)] e1(5-7) Cons.prems(5,6) by simp
qed auto

end


definition db_job_ex :: "int sqldb" where
  "db_job_ex = sql_empty\<lparr>t_jobs := [((''m'', ''r''), job_ex ''m'' ''pending'' 0)]\<rparr>"

lemma db_job_ex:
  "sqlite_inv db_job_ex" "sql_up db_job_ex" "sqlite_GetDeliveryJob db_job_ex ''m'' ''r'' = Inr (job_ex ''m'' ''pending'' 0)"
  by (simp_all add: db_job_ex_def sql_inv_def sql_empty_def gm_wf_def awf_def sql_abs_def one_default_def job_ex_def
      sql_up_def sqlite_GetDeliveryJob_def sql_query_def)

lemma attemptable_ex: "attemptable env_ex m u url"
  by (simp add: attemptable_def env_ex_def)


text \<open>C39: a job whose endpoint URL does not parse is retried forever: a failed request
  construction is recorded without counting an attempt, so after any number of attempts the job is
  still to be retried and its attempt count has not moved.\<close>

theorem unbuildable_job_never_dies:
  assumes "sqlite_inv s" and "sql_up s" and "sqlite_GetDeliveryJob s m u = Inr e"
    and "Status e \<in> {DeliveryPending, DeliveryFailed}" and "NewRequest W (EndpointURL e) \<noteq> None" and "Attempts e < MaxAttempts e"
  shows "\<exists>e'. sqlite_GetDeliveryJob (retry_run W (sqlite_ops E) d m u xs s) m u = Inr e'
           \<and> Status e' \<in> {DeliveryPending, DeliveryFailed} \<and> Attempts e' = Attempts e"
  using sq.retry_run_unbuildable [OF assms(1,2) _ assms(4-6), where E = E and d = d and xs = xs] assms(3) by (simp add: sqlite_ops_def)

lemma unbuildable_job_never_dies_witness:
  "\<exists>e'. sqlite_GetDeliveryJob (retry_run (env_ex\<lparr>NewRequest := \<lambda>u. Some ''bad url''\<rparr>) (sqlite_ops engine_ex) dispatcher_ex ''m'' ''r''
          (replicate 50 (1, 0, Inr 500)) db_job_ex) ''m'' ''r'' = Inr e' \<and> Attempts e' = 0 \<and> Status e' \<noteq> DeliveryDead"
  using unbuildable_job_never_dies [OF db_job_ex, of "env_ex\<lparr>NewRequest := \<lambda>u. Some ''bad url''\<rparr>" engine_ex dispatcher_ex
      "replicate 50 (1, 0, Inr 500)"]
  by (auto simp: job_ex_def status_defs)

end
