(* ===== verification/Mailbox_Service.thy ===== *)
theory Mailbox_Service
  imports Go_Strings
begin

text \<open>
  The factory of the mailbox service over a durable store (\<open>internal/mbxstore/factory.go\<close>). The mailbox
  library is outside the repository: a service is what the factory hands to \<open>mailbox.New\<close>, the message
  store, whether it has a user resolver, and the plugins of type \<open>'p\<close>; what opening, pinging, \<open>New\<close> and
  \<open>Connect\<close> answer is the record \<open>mbx_env\<close>.
\<close>

record MailboxStoreConfig =
  mb_Backend :: string
  mb_DSN :: string
  mb_Database :: string

datatype mbx_store = MemoryStore | PostgresStore string | MongoStore string "string option"

record 'p mbx_options =
  mo_store :: mbx_store
  mo_resolver :: bool
  mo_plugins :: "'p list"

text \<open>The first result of \<open>open_store\<close> and \<open>buildOptions\<close>: whether a handle that was opened has been closed again.\<close>

record mbx_env =
  me_sqlOpen :: "string \<Rightarrow> error option"
  me_sqlPing :: "string \<Rightarrow> error option"
  me_mongoConnect :: "string \<Rightarrow> error option"
  me_mongoPing :: "string \<Rightarrow> error option"
  me_New :: "error option"
  me_Connect :: "error option"

definition open_store :: "golib \<Rightarrow> mbx_env \<Rightarrow> MailboxStoreConfig \<Rightarrow> bool \<times> mbx_store result" where
  "open_store G E cfg =
     (if mb_Backend cfg = '''' \<or> mb_Backend cfg = ''memory'' then (False, Inr MemoryStore)
      else if mb_Backend cfg = ''postgres'' then
        (if mb_DSN cfg = '''' then (False, Inl (EText ''mbxstore: postgres backend requires --mailbox-dsn''))
         else case me_sqlOpen E (mb_DSN cfg) of
                Some e \<Rightarrow> (False, Inl (EWrap ''mbxstore: open postgres'' e))
              | None \<Rightarrow>
                  (case me_sqlPing E (mb_DSN cfg) of
                     Some e \<Rightarrow> (True, Inl (EWrap ''mbxstore: ping postgres'' e))
                   | None \<Rightarrow> (False, Inr (PostgresStore (mb_DSN cfg)))))
      else if mb_Backend cfg = ''mongo'' then
        (if mb_DSN cfg = '''' then (False, Inl (EText ''mbxstore: mongo backend requires --mailbox-dsn''))
         else case me_mongoConnect E (mb_DSN cfg) of
                Some e \<Rightarrow> (False, Inl (EWrap ''mbxstore: connect mongo'' e))
              | None \<Rightarrow>
                  (case me_mongoPing E (mb_DSN cfg) of
                     Some e \<Rightarrow> (True, Inl (EWrap ''mbxstore: ping mongo'' e))
                   | None \<Rightarrow> (False, Inr (MongoStore (mb_DSN cfg) (if mb_Database cfg \<noteq> '''' then Some (mb_Database cfg) else None)))))
      else (False, Inl (EText (''mbxstore: unknown backend '' @ quote G (mb_Backend cfg) @ ''; want memory|postgres|mongo''))))"

definition buildOptions :: "golib \<Rightarrow> mbx_env \<Rightarrow> MailboxStoreConfig \<Rightarrow> 'p list \<Rightarrow> bool \<Rightarrow> bool \<times> 'p mbx_options result" where
  "buildOptions G E cfg plugins hasResolver =
     (case open_store G E cfg of
        (shut, Inl e) \<Rightarrow> (shut, Inl e)
      | (shut, Inr st) \<Rightarrow> (shut, Inr \<lparr>mo_store = st, mo_resolver = hasResolver, mo_plugins = plugins\<rparr>))"

definition NewMailboxFactory :: "golib \<Rightarrow> mbx_env \<Rightarrow> MailboxStoreConfig \<Rightarrow> 'p list \<Rightarrow> bool \<Rightarrow> 'p mbx_options result" where
  "NewMailboxFactory G E cfg plugins hasResolver =
     (case snd (buildOptions G E cfg plugins hasResolver) of
        Inl e \<Rightarrow> Inl e
      | Inr opts \<Rightarrow>
          (case me_New E of
             Some e \<Rightarrow> Inl (EWrap ''mbxstore: mailbox.New'' e)
           | None \<Rightarrow> (case me_Connect E of Some e \<Rightarrow> Inl (EWrap ''mbxstore: connect'' e) | None \<Rightarrow> Inr opts)))"

section \<open>What a factory returns\<close>

text \<open>A service that a factory returns has the configured store, the resolver that was passed and exactly the plugins
  that were passed, in their order.\<close>

lemma buildOptions_ok:
  "snd (buildOptions G E cfg plugins r) = Inr mo \<longleftrightarrow>
     snd (open_store G E cfg) = Inr (mo_store mo) \<and> mo = \<lparr>mo_store = mo_store mo, mo_resolver = r, mo_plugins = plugins\<rparr>"
  by (cases mo) (auto simp: buildOptions_def split: prod.split sum.split)

lemma NewMailboxFactory_ok:
  "NewMailboxFactory G E cfg plugins r = Inr mo \<longleftrightarrow>
     me_New E = None \<and> me_Connect E = None \<and> snd (buildOptions G E cfg plugins r) = Inr mo"
  by (auto simp: NewMailboxFactory_def split: sum.split option.split)

text \<open>No handle leaks: one that was opened and does not answer a ping is closed, and a handle is closed only then.\<close>

lemma open_store_closes:
  "fst (open_store G E cfg) \<longleftrightarrow>
     (mb_Backend cfg = ''postgres'' \<and> mb_DSN cfg \<noteq> '''' \<and> me_sqlOpen E (mb_DSN cfg) = None \<and> me_sqlPing E (mb_DSN cfg) \<noteq> None)
     \<or> (mb_Backend cfg = ''mongo'' \<and> mb_DSN cfg \<noteq> '''' \<and> me_mongoConnect E (mb_DSN cfg) = None \<and> me_mongoPing E (mb_DSN cfg) \<noteq> None)"
  by (auto simp: open_store_def split: option.split)

end
