(* ===== verification/Controller.thy ===== *)
theory Controller
  imports Postbox_Server Relay Webhook Mailbox_Service
begin

text \<open>
  The node controller (\<open>internal/server/node.go\<close>, \<open>internal/server/options.go\<close>): how \<open>NewController\<close>
  puts the store, the key, the registry, the outbound relay, the forwarder and the webhook signer
  together, the heartbeat, the shutdown, and the adapters between the store and the mailbox library.

  The state is the pair of the Redis state and the store's state; on a single node the first
  component is not used. What the controller asks of the outside world while it starts is the
  record \<open>boot_env\<close>.
\<close>

section \<open>Options\<close>

record ('r, 'p) options =
  o_nodeID :: string
  o_mode :: string
  o_address :: string
  o_mailboxFactory :: "(bool \<Rightarrow> 'p mbx_options result) option"
  o_webhookEnabled :: bool
  o_webhookOpts :: "webhook_option list"
  o_redisClient :: "'r redis_ops option"
  o_mailboxPlugins :: "'p list"
  o_relayNodeID :: string
  o_relayBackend :: "backend option"
  o_relayQueueCfg :: "QueueConfig option"

definition ModeStandalone :: string where "ModeStandalone = ''standalone''"
definition ModeTemp :: string where "ModeTemp = ''temp''"
definition defaultAddress :: string where "defaultAddress = ''localhost:50051''"

definition default_options :: "('r, 'p) options" where
  "default_options = \<lparr>o_nodeID = '''', o_mode = ModeStandalone, o_address = defaultAddress, o_mailboxFactory = None, o_webhookEnabled = False, o_webhookOpts = [],
     o_redisClient = None, o_mailboxPlugins = [], o_relayNodeID = '''', o_relayBackend = None, o_relayQueueCfg = None\<rparr>"

type_synonym ('r, 'p) option_fn = "('r, 'p) options \<Rightarrow> ('r, 'p) options"

definition WithNodeID :: "string \<Rightarrow> ('r, 'p) option_fn" where "WithNodeID nid o' = o'\<lparr>o_nodeID := nid\<rparr>"
definition WithMode :: "string \<Rightarrow> ('r, 'p) option_fn" where "WithMode m o' = o'\<lparr>o_mode := m\<rparr>"
definition WithAddress :: "string \<Rightarrow> ('r, 'p) option_fn" where "WithAddress addr o' = o'\<lparr>o_address := addr\<rparr>"
definition WithRedisClient :: "'r redis_ops \<Rightarrow> ('r, 'p) option_fn" where "WithRedisClient client o' = o'\<lparr>o_redisClient := Some client\<rparr>"
definition WithMailboxFactory :: "(bool \<Rightarrow> 'p mbx_options result) \<Rightarrow> ('r, 'p) option_fn" where
  "WithMailboxFactory f o' = o'\<lparr>o_mailboxFactory := Some f\<rparr>"
definition WithMailboxPlugins :: "'p list \<Rightarrow> ('r, 'p) option_fn" where
  "WithMailboxPlugins plugins o' = o'\<lparr>o_mailboxPlugins := o_mailboxPlugins o' @ plugins\<rparr>"
definition WithWebhook :: "webhook_option list \<Rightarrow> ('r, 'p) option_fn" where
  "WithWebhook opts o' = o'\<lparr>o_webhookEnabled := True, o_webhookOpts := opts\<rparr>"
definition WithOutboundRelay :: "string \<Rightarrow> backend \<Rightarrow> ('r, 'p) option_fn" where
  "WithOutboundRelay nid be o' = o'\<lparr>o_relayNodeID := nid, o_relayBackend := Some be\<rparr>"
definition WithOutboundRelayQueue :: "QueueConfig \<Rightarrow> ('r, 'p) option_fn" where
  "WithOutboundRelayQueue cfg o' = o'\<lparr>o_relayQueueCfg := Some cfg\<rparr>"

text \<open>The default factory: a service over the in-memory store.\<close>

definition newMailboxFactory :: "mbx_env \<Rightarrow> 'p list \<Rightarrow> bool \<Rightarrow> 'p mbx_options result" where
  "newMailboxFactory E plugins hasResolver =
     (case me_New E of
        Some e \<Rightarrow> Inl e
      | None \<Rightarrow>
          (case me_Connect E of
             Some e \<Rightarrow> Inl e
           | None \<Rightarrow> Inr \<lparr>mo_store = MemoryStore, mo_resolver = hasResolver, mo_plugins = plugins\<rparr>))"

section \<open>Start-up\<close>

record boot_env =
  b_lib :: golib
  b_uuid :: string
  b_Connect :: "error option"
  b_GenerateKey :: "(string \<times> string) result"
  b_mailbox :: mbx_env
  b_codec :: route_codec
  b_relayListen :: "string result"
  b_dispatcherStart :: "error option"
  b_rfc3339 :: "gotime \<Rightarrow> string"

text \<open>\<open>k_resolver\<close> is the node resolver of the forwarder, which exists exactly if there is one.\<close>

record ('g, 'p) Controller = "'g ctl" +
  k_mailbox :: "'p mbx_options"
  k_nodePrivKey :: string
  k_relaySrv :: "RelayServer option"
  k_resolver :: "(gotime \<Rightarrow> 'g \<Rightarrow> string \<Rightarrow> string result) option"
  k_heartbeater :: "redis_registry option"
  k_dispatcher :: "Dispatcher option"

text \<open>The registry, the resolver and the relay server that \<open>NewController\<close> chooses, once Redis and the
  relay have been started. The relay's \<open>FallbackRegistry\<close> has no \<open>ResolveNode\<close>.\<close>

definition base_registry ::
  "golib \<Rightarrow> route_codec \<Rightarrow> 's store_ops \<Rightarrow> ('r, 'p) options \<Rightarrow> string \<Rightarrow> ('r \<times> 's) reg_ops" where
  "base_registry G J S cfg nid =
     (case o_redisClient cfg of
        Some R \<Rightarrow> redis_reg_ops G R J S \<lparr>rr_nodeID = nid, rr_address = o_address cfg\<rparr>
      | None \<Rightarrow> local_ops G (snd_ops S) nid)"

definition base_resolver ::
  "golib \<Rightarrow> ('r, 'p) options \<Rightarrow> string \<Rightarrow> (gotime \<Rightarrow> 'r \<times> 's \<Rightarrow> string \<Rightarrow> string result) option" where
  "base_resolver G cfg nid =
     (case o_redisClient cfg of
        Some R \<Rightarrow> Some (\<lambda>now g. redis_ResolveNode G R \<lparr>rr_nodeID = nid, rr_address = o_address cfg\<rparr> now (fst g))
      | None \<Rightarrow> None)"

definition announce ::
  "('r, 'p) options \<Rightarrow> string \<Rightarrow> gotime \<Rightarrow> 'r \<Rightarrow> 'r \<times> error option" where
  "announce cfg nid now r =
     (case o_redisClient cfg of
        Some R \<Rightarrow> redis_Announce R \<lparr>rr_nodeID = nid, rr_address = o_address cfg\<rparr> now r
      | None \<Rightarrow> (r, None))"

definition start_relay :: "boot_env \<Rightarrow> ('r, 'p) options \<Rightarrow> RelayServer option result" where
  "start_relay W cfg =
     (case o_relayBackend cfg of
        None \<Rightarrow> Inr None
      | Some be \<Rightarrow>
          (case relay_Start (relay_New be (o_relayQueueCfg cfg)) ''127.0.0.1:0'' (b_relayListen W) of
             (_, Some e) \<Rightarrow> Inl (EWrap ''controller: start relay'' e)
           | (srv, None) \<Rightarrow> Inr (Some srv)))"

definition assemble ::
  "boot_env \<Rightarrow> 's store_ops \<Rightarrow> ('r, 'p) options \<Rightarrow> string \<Rightarrow> node \<Rightarrow> string \<Rightarrow> 'p mbx_options \<Rightarrow> RelayServer option \<Rightarrow> ('r \<times> 's, 'p) Controller" where
  "assemble W S cfg nid nd priv mbx relaySrv =
     (let reg0 = base_registry (b_lib W) (b_codec W) S cfg nid;
          res0 = base_resolver (b_lib W) cfg nid;
          reg = (case relaySrv of None \<Rightarrow> reg0 | Some _ \<Rightarrow> fallback_ops reg0 \<lparr>relayNodeID = o_relayNodeID cfg\<rparr>);
          res = (case relaySrv of
                   None \<Rightarrow> res0
                 | Some srv \<Rightarrow>
                     Some (\<lambda>now g. static_ResolveNode [(o_relayNodeID cfg, relay_Addr srv)] (map_option (\<lambda>f. f now g) res0)))
      in \<lparr>c_lib = b_lib W, c_nodeID = nid, c_mode = o_mode cfg, c_address = o_address cfg, c_pubkey = PublicKeyB64 nd,
          c_store = snd_ops S, c_registry = reg, c_resolver = (if relaySrv = None then res0 else None),
          c_connected = True, c_rfc3339 = b_rfc3339 W,
          k_mailbox = mbx, k_nodePrivKey = priv, k_relaySrv = relaySrv, k_resolver = res,
          k_heartbeater = map_option (\<lambda>_. \<lparr>rr_nodeID = nid, rr_address = o_address cfg\<rparr>) (o_redisClient cfg), k_dispatcher = None\<rparr>)"

definition mailbox_factory :: "boot_env \<Rightarrow> ('r, 'p) options \<Rightarrow> bool \<Rightarrow> 'p mbx_options result" where
  "mailbox_factory W cfg =
     (case o_mailboxFactory cfg of None \<Rightarrow> newMailboxFactory (b_mailbox W) (o_mailboxPlugins cfg) | Some f \<Rightarrow> f)"

definition start_webhook :: "boot_env \<Rightarrow> ('r, 'p) options \<Rightarrow> ('g, 'p) Controller \<Rightarrow> ('g, 'p) Controller result" where
  "start_webhook W cfg c =
     (if o_webhookEnabled cfg then
        (case NewSigner (k_nodePrivKey c) ''v1'' of
           Inl e \<Rightarrow> Inl (EWrap ''controller: create webhook signer'' e)
         | Inr signer \<Rightarrow>
             (case b_dispatcherStart W of
                Some e \<Rightarrow> Inl (EWrap ''controller: start webhook dispatcher'' e)
              | None \<Rightarrow> Inr (c\<lparr>k_dispatcher := Some (NewDispatcher signer (o_webhookOpts cfg))\<rparr>)))
      else Inr c)"

definition NewController ::
  "boot_env \<Rightarrow> 's store_ops option \<Rightarrow> ('r, 'p) option_fn list \<Rightarrow> gotime \<Rightarrow> 'r \<times> 's \<Rightarrow> ('r \<times> 's) \<times> ('r \<times> 's, 'p) Controller result" where
  "NewController W s opts now g =
     (case s of
        None \<Rightarrow> (g, Inl (EText ''controller: store is required''))
      | Some S \<Rightarrow>
          (let cfg = foldl (\<lambda>c opt. opt c) default_options opts;
               nid = (if o_nodeID cfg = '''' then b_uuid W else o_nodeID cfg)
           in case b_Connect W of
                Some e \<Rightarrow> (g, Inl (EWrap ''controller: connect store'' e))
              | None \<Rightarrow>
                  (case EnsureKey (snd_ops S) (b_GenerateKey W) g \<lparr>ID = nid, PrivateKeyB64 = '''', PublicKeyB64 = ''''\<rparr> of
                     (g1, _, Some e) \<Rightarrow> (g1, Inl (EWrap ''controller: ensure node key'' e))
                   | (g1, nd, None) \<Rightarrow>
                       (case DecodePrivate (PrivateKeyB64 nd) of
                          Inl e \<Rightarrow> (g1, Inl (EWrap ''controller: decode node private key'' e))
                        | Inr priv \<Rightarrow>
                            (case mailbox_factory W cfg True of
                               Inl e \<Rightarrow> (g1, Inl (EWrap ''controller: create mailbox service'' e))
                             | Inr mbx \<Rightarrow>
                                 (case announce cfg nid now (fst g1) of
                                    (r, Some e) \<Rightarrow> ((r, snd g1), Inl (EWrap ''controller: announce node to Redis'' e))
                                  | (r, None) \<Rightarrow>
                                      (case start_relay W cfg of
                                         Inl e \<Rightarrow> ((r, snd g1), Inl e)
                                       | Inr relaySrv \<Rightarrow>
                                           ((r, snd g1), start_webhook W cfg (assemble W S cfg nid nd priv mbx relaySrv)))))))))"

section \<open>Adapters\<close>

text \<open>What the mailbox library sees of a stored user; it has no names.\<close>

record mailbox_user =
  mu_ID :: string
  mu_FirstName :: string
  mu_LastName :: string
  mu_Email :: string
  mu_Type :: string
  mu_PublicKey :: string
  mu_Capabilities :: strmap

definition storeMailboxUser :: "user \<Rightarrow> mailbox_user" where
  "storeMailboxUser u = \<lparr>mu_ID = Email u, mu_FirstName = '''', mu_LastName = '''', mu_Email = Email u, mu_Type = Type u,
     mu_PublicKey = UserKeyB64 u, mu_Capabilities = Metadata u\<rparr>"

definition store_ResolveUser :: "'g store_ops \<Rightarrow> 'g \<Rightarrow> string \<Rightarrow> mailbox_user result" where
  "store_ResolveUser S g userID = (case op_GetUser S g userID of Inl e \<Rightarrow> Inl e | Inr u \<Rightarrow> Inr (storeMailboxUser u))"

definition Route :: "'g store_ops \<Rightarrow> 'g \<Rightarrow> (string \<Rightarrow> 'mbx) \<Rightarrow> string \<Rightarrow> 'mbx result" where
  "Route S g client userID = (case op_GetUser S g userID of Inl e \<Rightarrow> Inl e | Inr _ \<Rightarrow> Inr (client userID))"

text \<open>The stream of a recipient's messages with a given external ID, as the mailbox library gives it.\<close>

record 'it stream_env =
  it_Stream :: "string \<Rightarrow> string \<Rightarrow> 'it result"
  it_Next :: "'it \<Rightarrow> bool result"
  it_Message :: "'it \<Rightarrow> string result"

definition buildThreadResolver :: "'it stream_env \<Rightarrow> string \<Rightarrow> string \<Rightarrow> string result" where
  "buildThreadResolver M recipientID smtpMessageID =
     (case it_Stream M recipientID smtpMessageID of
        Inl e \<Rightarrow> Inl e
      | Inr iter \<Rightarrow>
          (case it_Next M iter of
             Inl e \<Rightarrow> Inl e
           | Inr hasNext \<Rightarrow> if \<not> hasNext then Inl ErrStoreNotFound else it_Message M iter))"

text \<open>The default factory builds a server without a password validator.\<close>

definition defaultSMTPFactory :: "'l limiter_ops \<Rightarrow> Config \<Rightarrow> 'l Server" where
  "defaultSMTPFactory LM cfg = smtp_New LM cfg"

text \<open>One tick of the heartbeat: a failed announcement is logged.\<close>

definition heartbeat_tick :: "'r redis_ops \<Rightarrow> redis_registry \<Rightarrow> gotime \<Rightarrow> 'r \<Rightarrow> 'r" where
  "heartbeat_tick R rr now r = fst (redis_Announce R rr now r)"

section \<open>Shutdown\<close>

text \<open>What runs on behalf of the controller. \<open>nr_heartbeat\<close> is the channel that stops the heartbeat: absent,
  open or closed.\<close>

record 'v node_run =
  nr_heartbeat :: "bool option"
  nr_pool :: "conns option"
  nr_relay :: bool
  nr_smtp :: "'v option"
  nr_lmtp :: "LMTPServer option \<times> string list"
  nr_dispatcher :: bool

definition ctl_Close :: "'v lifecycle_ops \<Rightarrow> os_env \<Rightarrow> error option \<Rightarrow> 'v node_run \<Rightarrow> 'v node_run \<times> error option" where
  "ctl_Close L O' storeClose n =
     (if nr_heartbeat n = Some False then (n, Some (EText ''panic: close of closed channel''))
      else
        (n\<lparr>nr_heartbeat := map_option (\<lambda>_. False) (nr_heartbeat n),
           nr_pool := map_option fwd_Close (nr_pool n),
           nr_relay := False,
           nr_smtp := (case nr_smtp n of None \<Rightarrow> None | Some srv \<Rightarrow> if lc_IsRunning L srv then Some (fst (lc_Stop L srv)) else Some srv),
           nr_lmtp := (case nr_lmtp n of
                         (None, files) \<Rightarrow> (None, files)
                       | (Some srv, files) \<Rightarrow>
                           if lm_running srv then (case lm_Stop O' (srv\<lparr>lm_files := files\<rparr>) of (srv', _) \<Rightarrow> (Some srv', lm_files srv'))
                           else (Some srv, files)),
           nr_dispatcher := False\<rparr>, storeClose))"

section \<open>What a started controller looks like\<close>

abbreviation (input) config_of :: "('r, 'p) option_fn list \<Rightarrow> ('r, 'p) options" where
  "config_of opts \<equiv> foldl (\<lambda>c opt. opt c) default_options opts"

definition node_id_of :: "boot_env \<Rightarrow> ('r, 'p) option_fn list \<Rightarrow> string" where
  "node_id_of W opts = (if o_nodeID (config_of opts) = '''' then b_uuid W else o_nodeID (config_of opts))"

lemma start_webhook_ctl:
  assumes "start_webhook W cfg c0 = Inr c"
  shows "c = c0\<lparr>k_dispatcher := k_dispatcher c\<rparr> \<and> (k_dispatcher c0 = None \<longrightarrow> k_dispatcher c = Some ds \<longrightarrow> privKey (d_signer ds) = k_nodePrivKey c0)"
  using assms by (auto simp: start_webhook_def NewSigner_def split: if_splits option.splits)

lemma NewController_started:
  assumes "NewController W (Some S) opts now g = (g', Inr c)"
  obtains g1 nd priv mbx relaySrv where
    "EnsureKey (snd_ops S) (b_GenerateKey W) g \<lparr>ID = node_id_of W opts, PrivateKeyB64 = '''', PublicKeyB64 = ''''\<rparr> = (g1, nd, None)"
    "DecodePrivate (PrivateKeyB64 nd) = Inr priv" "mailbox_factory W (config_of opts) True = Inr mbx"
    "announce (config_of opts) (node_id_of W opts) now (fst g1) = (fst g', None)" "snd g' = snd g1"
    "start_relay W (config_of opts) = Inr relaySrv"
    "start_webhook W (config_of opts) (assemble W S (config_of opts) (node_id_of W opts) nd priv mbx relaySrv) = Inr c"
proof -
  obtain g1 nd e1 where k: "EnsureKey (snd_ops S) (b_GenerateKey W) g \<lparr>ID = node_id_of W opts, PrivateKeyB64 = '''', PublicKeyB64 = ''''\<rparr> = (g1, nd, e1)"
    by (metis prod.collapse)
  obtain r e2 where a: "announce (config_of opts) (node_id_of W opts) now (fst g1) = (r, e2)" by fastforce
  have con: "b_Connect W = None" using assms by (cases "b_Connect W") (simp_all add: NewController_def Let_def)
  have e1: "e1 = None" using assms con k by (cases e1) (simp_all add: NewController_def node_id_of_def Let_def)
  obtain priv where d: "DecodePrivate (PrivateKeyB64 nd) = Inr priv"
    using assms con k e1 by (cases "DecodePrivate (PrivateKeyB64 nd)") (simp_all add: NewController_def node_id_of_def Let_def)
  obtain mbx where mb: "mailbox_factory W (config_of opts) True = Inr mbx"
    using assms con k e1 d by (cases "mailbox_factory W (config_of opts) True") (simp_all add: NewController_def node_id_of_def Let_def)
  have e2: "e2 = None" using assms con k e1 d mb a by (cases e2) (simp_all add: NewController_def node_id_of_def Let_def)
  obtain relaySrv where rl: "start_relay W (config_of opts) = Inr relaySrv"
    using assms con k e1 d mb a e2 by (cases "start_relay W (config_of opts)") (simp_all add: NewController_def node_id_of_def Let_def)
  show ?thesis
    using assms con k e1 d mb a e2 rl by (intro that [of g1 nd priv mbx relaySrv]) (auto simp: NewController_def node_id_of_def Let_def)
qed

lemma NewController_ok:
  assumes "b_Connect W = None" and "mailbox_factory W (config_of opts) True = Inr mbx"
    and "EnsureKey (snd_ops S) (b_GenerateKey W) g \<lparr>ID = node_id_of W opts, PrivateKeyB64 = '''', PublicKeyB64 = ''''\<rparr> = (g1, nd, None)"
    and "DecodePrivate (PrivateKeyB64 nd) = Inr priv" and "announce (config_of opts) (node_id_of W opts) now (fst g1) = (r, None)"
    and "start_relay W (config_of opts) = Inr rs"
    and "start_webhook W (config_of opts) (assemble W S (config_of opts) (node_id_of W opts) nd priv mbx rs) = Inr c"
  shows "NewController W (Some S) opts now g = ((r, snd g1), Inr c)"
  using assms by (simp add: NewController_def node_id_of_def Let_def)

text \<open>The handlers' view of an assembled controller.\<close>

definition registry_of :: "boot_env \<Rightarrow> 's store_ops \<Rightarrow> ('r, 'p) options \<Rightarrow> string \<Rightarrow> ('r \<times> 's) reg_ops" where
  "registry_of W S cfg nid =
     (if o_relayBackend cfg = None then base_registry (b_lib W) (b_codec W) S cfg nid
      else fallback_ops (base_registry (b_lib W) (b_codec W) S cfg nid) \<lparr>relayNodeID = o_relayNodeID cfg\<rparr>)"

lemma start_relay_cases:
  assumes "start_relay W cfg = Inr relaySrv"
  shows "relaySrv = None \<longleftrightarrow> o_relayBackend cfg = None"
    and "relaySrv = Some srv \<Longrightarrow> b_relayListen W = Inr (relay_Addr srv)"
  using assms by (auto simp: start_relay_def relay_Start_def relay_New_def relay_Addr_def split: option.splits sum.splits prod.splits)

lemma started_wired:
  assumes "NewController W (Some S) opts now g = (g', Inr c)"
  shows "wired (ctl.truncate c) (snd_ops S) (registry_of W S (config_of opts) (node_id_of W opts)) (node_id_of W opts)"
    and "c_resolver (ctl.truncate c) = (if o_relayBackend (config_of opts) = None then base_resolver (b_lib W) (config_of opts) (node_id_of W opts) else None)"
    and "c_address (ctl.truncate c) = o_address (config_of opts)" and "c_mode (ctl.truncate c) = o_mode (config_of opts)"
proof -
  obtain g1 nd priv mbx rs where s: "start_relay W (config_of opts) = Inr rs"
      "start_webhook W (config_of opts) (assemble W S (config_of opts) (node_id_of W opts) nd priv mbx rs) = Inr c"
    using NewController_started [OF assms] by metis
  define c0 where "c0 = assemble W S (config_of opts) (node_id_of W opts) nd priv mbx rs"
  have c: "c = c0\<lparr>k_dispatcher := k_dispatcher c\<rparr>" using start_webhook_ctl [OF s(2)] by (simp add: c0_def)
  have sel: "c_store c = c_store c0" "c_registry c = c_registry c0" "c_nodeID c = c_nodeID c0" "c_resolver c = c_resolver c0"
    "c_address c = c_address c0" "c_mode c = c_mode c0" by (subst c, simp)+
  show "wired (ctl.truncate c) (snd_ops S) (registry_of W S (config_of opts) (node_id_of W opts)) (node_id_of W opts)"
    using start_relay_cases(1) [OF s(1)]
    by (cases rs) (auto simp: wired_def ctl.truncate_def sel c0_def assemble_def registry_of_def Let_def)
  show "c_resolver (ctl.truncate c) = (if o_relayBackend (config_of opts) = None then base_resolver (b_lib W) (config_of opts) (node_id_of W opts) else None)"
    "c_address (ctl.truncate c) = o_address (config_of opts)" "c_mode (ctl.truncate c) = o_mode (config_of opts)"
    using start_relay_cases(1) [OF s(1)] by (simp_all add: ctl.truncate_def sel c0_def assemble_def Let_def)
qed

section \<open>Properties\<close>

text \<open>C13: Whoever asks a started node for its public key can verify its webhooks: the key that
  \<open>GetNodePublicKey\<close> returns is the stored one and verifies every signature of the dispatcher's signer,
  within the allowed clock skew.\<close>

theorem published_key_verifies_webhooks:
  assumes "key_pair C pub priv" and "b_GenerateKey W = Inr (pub, priv)" and "sqlite_inv s"
    and "NewController W (Some (sqlite_ops E)) opts now (r, s) = ((r', s'), Inr c)" and "k_dispatcher c = Some ds"
    and "\<bar>t - ts\<bar> \<le> maxAge"
  shows "\<exists>nd p. sqlite_GetNode s' (node_id_of W opts) = Inr nd \<and> PublicKeyB64 nd = pk_PublicKey (GetNodePublicKey (ctl.truncate c))
    \<and> DecodePublic (pk_PublicKey (GetNodePublicKey (ctl.truncate c))) = Inr p
    \<and> Verify C p body (gm_str (SignedHeaders C (d_signer ds) body ts) ''X-Postbox-Signature-Ed25519'') ts maxAge t = None"
proof -
  let ?nd0 = "\<lparr>ID = node_id_of W opts, PrivateKeyB64 = '''', PublicKeyB64 = ''''\<rparr>"
  obtain g1 nd pk mbx rs where b: "EnsureKey (snd_ops (sqlite_ops E)) (b_GenerateKey W) (r, s) ?nd0 = (g1, nd, None)"
      "DecodePrivate (PrivateKeyB64 nd) = Inr pk" "snd (r', s') = snd g1"
      "start_webhook W (config_of opts) (assemble W (sqlite_ops E) (config_of opts) (node_id_of W opts) nd pk mbx rs) = Inr c"
    using NewController_started [OF assms(4)] by metis

  have ne: "pub \<noteq> []" "priv \<noteq> []" using assms(1) by (auto simp: key_pair_def PublicKeySize_def PrivateKeySize_def)
  have st: "op_GetNode (snd_ops (sqlite_ops E)) g1 (ID ?nd0) = Inr nd
      \<and> nd = \<lparr>ID = ID ?nd0, PrivateKeyB64 = b64_encode priv, PublicKeyB64 = b64_encode pub\<rparr>"
    using node_user_store.ensure_key_stored [OF sq.snd_users, of "(r, s)" ?nd0 E pub priv g1 nd] b(1) assms(2,3) ne by simp
  then have pk: "pk = priv" using b(2) assms(1) by (simp add: key_pair_def)
  have c: "c = (assemble W (sqlite_ops E) (config_of opts) (node_id_of W opts) nd pk mbx rs)\<lparr>k_dispatcher := k_dispatcher c\<rparr>"
    "privKey (d_signer ds) = priv"
    using start_webhook_ctl [OF b(4), of ds] assms(5) pk by (simp_all add: assemble_def Let_def)
  have "c_pubkey c = b64_encode pub" by (subst c(1)) (simp add: assemble_def Let_def st)
  then show ?thesis
    using st b(3) assms(1,6) c(2)
    by (auto simp: GetNodePublicKey_def ctl.truncate_def key_pair_def snd_ops_sel sqlite_ops_def Verify_def SignedHeaders_def gm_str_def Let_def)
qed

definition mbx_env_ex :: mbx_env where
  "mbx_env_ex = \<lparr>me_sqlOpen = (\<lambda>_. None), me_sqlPing = (\<lambda>_. None), me_mongoConnect = (\<lambda>_. None), me_mongoPing = (\<lambda>_. None), me_New = None, me_Connect = None\<rparr>"

definition boot_ex :: boot_env where
  "boot_ex = \<lparr>b_lib = golib_ex, b_uuid = ''u'', b_Connect = None, b_GenerateKey = Inr (replicate 32 CHR ''k'', replicate 64 CHR ''k''),
     b_mailbox = mbx_env_ex, b_codec = codec_ex, b_relayListen = Inr ''127.0.0.1:9'', b_dispatcherStart = None, b_rfc3339 = (\<lambda>_. '''')\<rparr>"

lemma boot_ex_key:
  assumes "sqlite_inv s" and "sql_up s" and "n \<noteq> ''''"
  shows "\<exists>s'. EnsureKey (snd_ops (sqlite_ops engine_ex)) (b_GenerateKey boot_ex) (r, s) \<lparr>ID = n, PrivateKeyB64 = '''', PublicKeyB64 = ''''\<rparr>
     = ((r, s'), \<lparr>ID = n, PrivateKeyB64 = b64_encode (replicate 64 CHR ''k''), PublicKeyB64 = b64_encode (replicate 32 CHR ''k'')\<rparr>, None) \<and> sqlite_inv s' \<and> sql_up s'"
proof -
  define nd where "nd = \<lparr>ID = n, PrivateKeyB64 = b64_encode (replicate 64 CHR ''k''), PublicKeyB64 = b64_encode (replicate 32 CHR ''k'')\<rparr>"
  obtain s' where sv: "op_SaveNode (sqlite_ops engine_ex) s nd = (s', None)"
    using assms(2,3) by (simp add: sqlite_ops_def sqlite_SaveNode_def sql_exec_def sql_up_def nd_def)
  then have "sqlite_inv s' \<and> sql_up s'" using sq.save_node_ok [OF assms(1)] by blast
  then show ?thesis using sv by (simp add: EnsureKey_def boot_ex_def snd_ops_sel snd_write_def nd_def)
qed

lemma boot_ex_mailbox: "o_mailboxFactory cfg = None \<Longrightarrow> ok (mailbox_factory boot_ex cfg r)"
  by (simp add: mailbox_factory_def newMailboxFactory_def boot_ex_def mbx_env_ex_def)

lemma sql_up_fresh: "sql_up sql_empty"
  by (simp add: sql_up_def sql_empty_def)

text \<open>A start with any options that only need the relay to listen and Redis to accept the announcement.\<close>

lemma boot_ex_starts:
  assumes "o_nodeID (config_of opts) \<noteq> ''''" and "snd (announce (config_of opts) (o_nodeID (config_of opts)) now r) = None"
    and "ok (mailbox_factory boot_ex (config_of opts) True)"
  shows "\<exists>s' c. NewController boot_ex (Some (sqlite_ops engine_ex)) opts now (r, sql_empty)
      = ((fst (announce (config_of opts) (o_nodeID (config_of opts)) now r), s'), Inr c)
    \<and> sqlite_inv s' \<and> sql_up s' \<and> (o_webhookEnabled (config_of opts) \<longrightarrow> k_dispatcher c \<noteq> None)"
proof -
  have nid: "node_id_of boot_ex opts = o_nodeID (config_of opts)" using assms(1) by (simp add: node_id_of_def)
  obtain s' where k: "EnsureKey (snd_ops (sqlite_ops engine_ex)) (b_GenerateKey boot_ex) (r, sql_empty)
      \<lparr>ID = node_id_of boot_ex opts, PrivateKeyB64 = '''', PublicKeyB64 = ''''\<rparr>
     = ((r, s'), \<lparr>ID = node_id_of boot_ex opts, PrivateKeyB64 = b64_encode (replicate 64 CHR ''k''), PublicKeyB64 = b64_encode (replicate 32 CHR ''k'')\<rparr>, None)"
     and s': "sqlite_inv s'" "sql_up s'"
    using boot_ex_key [OF sql_inv_fresh sql_up_fresh, of "node_id_of boot_ex opts" r] assms(1) nid by auto
  obtain rs where rs: "start_relay boot_ex (config_of opts) = Inr rs"
    by (cases "o_relayBackend (config_of opts)") (simp_all add: start_relay_def boot_ex_def relay_Start_def relay_New_def)
  have len: "length (replicate 64 CHR ''k'') = PrivateKeySize" by (simp add: PrivateKeySize_def)
  obtain mbx where mbx: "mailbox_factory boot_ex (config_of opts) True = Inr mbx"
    using assms(3) by (cases "mailbox_factory boot_ex (config_of opts) True") auto
  have wh: "\<exists>c. start_webhook boot_ex (config_of opts) (assemble boot_ex (sqlite_ops engine_ex) (config_of opts) nid nd (replicate 64 CHR ''k'') mbx rs) = Inr c
      \<and> (o_webhookEnabled (config_of opts) \<longrightarrow> k_dispatcher c \<noteq> None)" for nid nd
    by (simp add: start_webhook_def NewSigner_def assemble_def PrivateKeySize_def boot_ex_def Let_def)
  obtain c where c: "start_webhook boot_ex (config_of opts) (assemble boot_ex (sqlite_ops engine_ex) (config_of opts) (node_id_of boot_ex opts)
      \<lparr>ID = node_id_of boot_ex opts, PrivateKeyB64 = b64_encode (replicate 64 CHR ''k''), PublicKeyB64 = b64_encode (replicate 32 CHR ''k'')\<rparr>
      (replicate 64 CHR ''k'') mbx rs) = Inr c" "o_webhookEnabled (config_of opts) \<longrightarrow> k_dispatcher c \<noteq> None"
    using wh by blast
  have a: "announce (config_of opts) (node_id_of boot_ex opts) now (fst (r, s')) = (fst (announce (config_of opts) (o_nodeID (config_of opts)) now r), None)"
    using assms(2) nid by (simp add: prod_eq_iff)
  have "b_Connect boot_ex = None" by (simp add: boot_ex_def)
  from NewController_ok [OF this mbx k _ a rs c(1)] show ?thesis
    using s' c(2) DecodePrivate_encode [OF len] by auto
qed

theorem published_key_verifies_webhooks_witness:
  "\<exists>s' (c :: (_, unit) Controller) ds p. NewController boot_ex (Some (sqlite_ops engine_ex)) [WithNodeID ''n1'', WithWebhook [WithWorkers 2]] 1 ((), sql_empty) = (((), s'), Inr c)
     \<and> k_dispatcher c = Some ds \<and> DecodePublic (pk_PublicKey (GetNodePublicKey (ctl.truncate c))) = Inr p
     \<and> Verify ed_ex p ''body'' (gm_str (SignedHeaders ed_ex (d_signer ds) ''body'' 5) ''X-Postbox-Signature-Ed25519'') 5 10 7 = None"
proof -
  define opts :: "(unit, unit) option_fn list" where "opts = [WithNodeID ''n1'', WithWebhook [WithWorkers 2]]"
  have cfg: "o_nodeID (config_of opts) \<noteq> ''''" "o_webhookEnabled (config_of opts)" "announce (config_of opts) n t r = (r, None)"
      "o_mailboxFactory (config_of opts) = None" for n t r
    by (simp_all add: opts_def WithNodeID_def WithWebhook_def announce_def default_options_def)
  obtain s' c ds where b: "NewController boot_ex (Some (sqlite_ops engine_ex)) opts 1 ((), sql_empty) = (((), s'), Inr c)" and ds: "k_dispatcher c = Some ds"
    using boot_ex_starts [OF cfg(1) _ boot_ex_mailbox [OF cfg(4)], of 1 "()"] cfg(2,3) by auto
  have k: "b_GenerateKey boot_ex = Inr (replicate 32 CHR ''k'', replicate 64 CHR ''k'')" by (simp add: boot_ex_def)
  show ?thesis
    using published_key_verifies_webhooks [OF key_pair_ex k sql_inv_fresh b ds, of 7 5 10 "''body''"] b ds unfolding opts_def by auto
qed

text \<open>The forwarder that \<open>NewController\<close> creates asks the controller's registry and resolver; the rest of its
  environment is \<open>E\<close>.\<close>

definition forwarder_env :: "fwd_env \<Rightarrow> ('g, 'p) Controller \<Rightarrow> gotime \<Rightarrow> 'g \<Rightarrow> fwd_env" where
  "forwarder_env E c now g = E\<lparr>fe_Lookup := reg_Lookup (c_registry c) now g,
     fe_Resolve := (case k_resolver c of Some f \<Rightarrow> f now g | None \<Rightarrow> (\<lambda>_. Inl ErrRegistryNotFound))\<rparr>"

text \<open>A recipient is external if the node's own domains and the default domain do not cover it.\<close>

definition external :: "'s store_ops \<Rightarrow> string \<Rightarrow> gotime \<Rightarrow> 's \<Rightarrow> string \<Rightarrow> bool" where
  "external S rid now s u \<longleftrightarrow> (case local_Lookup S now s u of Inl _ \<Rightarrow> True | Inr nid \<Rightarrow> nid = rid)"

lemma local_Lookup_error: "local_Lookup S now s u = Inl e \<Longrightarrow> e = ErrRegistryNotFound"
  by (auto simp: local_Lookup_two_tier split: sum.splits)

lemma classify_one_remote:
  assumes "\<And>u. u \<in> set rs \<Longrightarrow> ext u \<Longrightarrow> routed_to E me addr u" and "\<And>u a. u \<in> set rs \<Longrightarrow> \<not> ext u \<Longrightarrow> \<not> routed_to E me a u"
  shows "classify E me rs = (if filter ext rs = [] then [] else [(addr, filter ext rs)], filter (Not \<circ> ext) rs)"
proof -
  have "fold (classify1 E me) rs (if xs = [] then [] else [(addr, xs)], ls)
      = (if xs @ filter ext rs = [] then [] else [(addr, xs @ filter ext rs)], ls @ filter (Not \<circ> ext) rs)" for xs ls
    using assms
  proof (induction rs arbitrary: xs ls)
    case (Cons u rs)
    show ?case
    proof (cases "ext u")
      case True
      then obtain nid where "fe_Lookup E u = Inr nid" "nid \<noteq> me" "fe_Resolve E nid = Inr addr"
        using Cons.prems(1) [of u] by (auto simp: routed_to_def)
      then have "classify1 E me u (if xs = [] then [] else [(addr, xs)], ls) = ([(addr, xs @ [u])], ls)"
        by (simp add: classify1_def)
      then show ?thesis using Cons.IH [of "xs @ [u]" ls] Cons.prems True by simp
    next
      case False
      then have "classify1 E me u (m, ls) = (m, ls @ [u])" for m
        using Cons.prems(2) [of u] by (auto simp: classify1_def routed_to_def split: sum.splits)
      then show ?thesis using Cons.IH [of xs "ls @ [u]"] Cons.prems False by simp
    qed
  qed simp
  from this [of "[]" "[]"] show ?thesis by (simp add: classify_def)
qed

lemma relay_routes:
  assumes "NewController W (Some S) opts now0 g0 = (g', Inr c)" and "o_redisClient (config_of opts) = None"
    and "o_relayBackend (config_of opts) = Some B" and "o_relayNodeID (config_of opts) \<noteq> node_id_of W opts" and "b_relayListen W = Inr addr"
  shows "routed_to (forwarder_env E c now g) (node_id_of W opts) a u \<longleftrightarrow>
    a = addr \<and> external (snd_ops S) (o_relayNodeID (config_of opts)) now g u"
proof -
  let ?cfg = "config_of opts" and ?nid = "node_id_of W opts"
  obtain g1 nd priv mbx rs where s: "start_relay W ?cfg = Inr rs" "start_webhook W ?cfg (assemble W S ?cfg ?nid nd priv mbx rs) = Inr c"
    using NewController_started [OF assms(1)] by metis
  obtain srv where rs: "rs = Some srv" using start_relay_cases(1) [OF s(1)] assms(3) by auto
  have addr: "relay_Addr srv = addr" using start_relay_cases(2) [OF s(1) rs] assms(5) by simp
  define c0 where "c0 = assemble W S ?cfg ?nid nd priv mbx rs"
  have c: "c = c0\<lparr>k_dispatcher := k_dispatcher c\<rparr>" using start_webhook_ctl [OF s(2)] by (simp add: c0_def)
  have "c_registry c = c_registry c0" "k_resolver c = k_resolver c0" by (subst c, simp)+
  then have reg: "c_registry c = fallback_ops (local_ops (b_lib W) (snd_ops S) ?nid) \<lparr>relayNodeID = o_relayNodeID ?cfg\<rparr>"
    and res: "k_resolver c = Some (\<lambda>now g. static_ResolveNode [(o_relayNodeID ?cfg, addr)] None)"
    by (simp_all add: c0_def assemble_def base_registry_def base_resolver_def assms(2) rs addr Let_def)
  show ?thesis
    using assms(4)
    by (auto simp: routed_to_def forwarder_env_def reg res fallback_ops_def fallback_Lookup_def local_ops_def external_def static_ResolveNode_def
        dest: local_Lookup_error split: sum.splits if_splits)
qed

text \<open>C6: Outbound mail from end to end. On a single node with a relay, a message is split by the
  forwarder: exactly the external recipients go, in one call, to the relay, which submits them and
  nobody else to its backend or its queue; exactly the others reach the local mailbox handler.\<close>

theorem outbound_recipients_relayed:
  assumes "NewController W (Some S) opts now0 g0 = (g', Inr c)" and "o_redisClient (config_of opts) = None"
    and "o_relayBackend (config_of opts) = Some B" and "o_relayNodeID (config_of opts) \<noteq> node_id_of W opts" and "b_relayListen W = Inr addr"
    and "\<And>m. mset (fe_order E m) = mset m" and "fe_NewClient E addr = None" and "\<And>q. fe_Call E addr q = None"
    and "length (ReqBody req) \<le> maxRelayBodyBytes"
    and "ext = filter (external (snd_ops S) (o_relayNodeID (config_of opts)) now g) (RecipientIds req)"
    and "loc = filter (Not \<circ> external (snd_ops S) (o_relayNodeID (config_of opts)) now g) (RecipientIds req)"
  shows "snd (handle (forwarder_env E c now g) (node_id_of W opts) conns req handler synth) =
      (if ext = [] then [] else [(addr, req\<lparr>DeliverTo := ext\<rparr>, True)], if loc = [] then Inr synth else handler (req\<lparr>RecipientIds := loc\<rparr>))
    \<and> (ext \<noteq> [] \<longrightarrow> (\<exists>h. snd (relay_SendMessage B enq (req\<lparr>DeliverTo := ext\<rparr>)) = Some (UserId req, ext, ReqSubject req, ReqBody req, h)))"
proof -
  let ?E = "forwarder_env E c now g"
  note routes = relay_routes [OF assms(1-5), of E now g]
  have cl: "classify ?E (node_id_of W opts) (RecipientIds req) = (if ext = [] then [] else [(addr, ext)], loc)"
    unfolding assms(10,11) by (rule classify_one_remote) (simp_all add: routes)
  have same: "fe_order ?E = fe_order E" "fe_NewClient ?E = fe_NewClient E" "fe_Call ?E = fe_Call E" by (simp_all add: forwarder_env_def)
  have ord: "fe_order E [] = []" "fe_order E [x] = [x]" for x using assms(6) [of "[]"] assms(6) [of "[x]"] by simp_all
  have fwd: "forward ?E conns req addr rs = (c', [(addr, req\<lparr>DeliverTo := rs\<rparr>)], None)" if "dial ?E conns addr = (c', None)" for rs c'
    using that assms(8) by (simp add: forward_def cloneReq_def same)
  have "snd (dial ?E conns addr) = None" using assms(7) by (simp add: dial_def same split: option.split)
  then obtain c' where dl: "dial ?E conns addr = (c', None)" by (metis prod.collapse)
  have "snd (handle ?E (node_id_of W opts) conns req handler synth) =
      (if ext = [] then [] else [(addr, req\<lparr>DeliverTo := ext\<rparr>, True)], if loc = [] then Inr synth else handler (req\<lparr>RecipientIds := loc\<rparr>))"
    by (simp add: handle_def cl same ord fwd [OF dl] cloneReq_def)
  moreover have "\<exists>h. snd (relay_SendMessage B enq (req\<lparr>DeliverTo := ext\<rparr>)) = Some (UserId req, ext, ReqSubject req, ReqBody req, h)" if "ext \<noteq> []"
    using that assms(9) by (simp add: relay_SendMessage_def Let_def split: option.split)
  ultimately show ?thesis by blast
qed

definition backend_ex :: backend where
  "backend_ex = \<lparr>be_Name = ''x'', be_Send = (\<lambda>f t s b h. None), be_Raw = None\<rparr>"

text \<open>A node without any domain: everything is external.\<close>

theorem outbound_recipients_relayed_witness:
  "\<exists>g' (c :: (_, unit) Controller). NewController boot_ex (Some (sqlite_ops engine_ex)) [WithNodeID ''n1'', WithOutboundRelay ''outbound'' backend_ex] 1 ((), sql_empty) = (g', Inr c)
     \<and> snd (handle (forwarder_env (fwd_env_ex\<lparr>fe_Call := \<lambda>_ _. None\<rparr>) c 2 ((), sql_empty)) ''n1'' [] (req_ex\<lparr>RecipientIds := [''a@x'', ''b@y'']\<rparr>) (\<lambda>q. Inr False) True)
        = ([(''127.0.0.1:9'', req_ex\<lparr>RecipientIds := [''a@x'', ''b@y''], DeliverTo := [''a@x'', ''b@y'']\<rparr>, True)], Inr True)"
proof -
  define opts :: "(unit, unit) option_fn list" where "opts = [WithNodeID ''n1'', WithOutboundRelay ''outbound'' backend_ex]"
  define req where "req = req_ex\<lparr>RecipientIds := [''a@x'', ''b@y'']\<rparr>"
  define E where "E = fwd_env_ex\<lparr>fe_Call := \<lambda>_ _. None\<rparr>"
  have cfg: "o_nodeID (config_of opts) = ''n1''" "o_redisClient (config_of opts) = None" "o_relayBackend (config_of opts) = Some backend_ex"
      "o_relayNodeID (config_of opts) = ''outbound''" "o_mailboxFactory (config_of opts) = None"
    by (simp_all add: opts_def WithNodeID_def WithOutboundRelay_def default_options_def)
  have nid: "node_id_of boot_ex opts = ''n1''" by (simp add: node_id_of_def cfg)
  obtain g' c where b: "NewController boot_ex (Some (sqlite_ops engine_ex)) opts 1 ((), sql_empty) = (g', Inr c)"
    using boot_ex_starts [of opts 1 "()"] boot_ex_mailbox [OF cfg(5)] cfg(1-4) by (auto simp: announce_def)
  have none: "local_Lookup (snd_ops (sqlite_ops engine_ex)) 2 ((), sql_empty) u = Inl ErrRegistryNotFound" for u
    by (simp add: local_Lookup_two_tier snd_ops_sel sqlite_ops_def sqlite_GetDomain_def sqlite_GetDefaultDomain_def sql_query_def sql_empty_def)
  have ext: "external (snd_ops (sqlite_ops engine_ex)) rid 2 ((), sql_empty) u" for rid u by (simp add: external_def none)
  have ne: "o_relayNodeID (config_of opts) \<noteq> node_id_of boot_ex opts" by (simp add: cfg nid)
  have l: "b_relayListen boot_ex = Inr ''127.0.0.1:9''" by (simp add: boot_ex_def)
  have e: "mset (fe_order E m) = mset m" "fe_NewClient E a = None" "fe_Call E a q = None" "length (ReqBody req) \<le> maxRelayBodyBytes" for m a q
    by (simp_all add: E_def fwd_env_ex_def req_def req_ex_def)
  have f: "[''a@x'', ''b@y''] = filter (external (snd_ops (sqlite_ops engine_ex)) (o_relayNodeID (config_of opts)) 2 ((), sql_empty)) (RecipientIds req)"
      "[] = filter (Not \<circ> external (snd_ops (sqlite_ops engine_ex)) (o_relayNodeID (config_of opts)) 2 ((), sql_empty)) (RecipientIds req)"
    by (simp_all add: ext req_def)
  show ?thesis
    using outbound_recipients_relayed [OF b cfg(2,3) ne l e f, of "[]" "\<lambda>q. Inr False" True None] b
    unfolding nid by (intro exI [of _ g'] exI [of _ c]) (simp add: opts_def req_def E_def)
qed

text \<open>With both Redis and a relay, \<open>Discover\<close> gives a wrong address: for a domain that belongs to another
  node it names that node, but with the address of the node that was asked, because the registry is
  then wrapped in a \<open>FallbackRegistry\<close>, which cannot resolve nodes. Without the relay the address is
  the one the owner has announced.\<close>

theorem relay_hides_peer_address:
  assumes "NewController W (Some S) opts now0 g0 = (g', Inr c)" and "o_redisClient (config_of opts) = Some R"
    and "redis_Lookup R (b_codec W) now (fst g) target = Inr peer" and "peer \<noteq> node_id_of W opts" and "target \<noteq> ''''"
    and "rd_Get R now (fst g) (nodeKeyPrefix @ peer) = RVal addr"
  shows "Discover (ctl.truncate c) now g target = Inr \<lparr>ni_NodeId = peer,
     ni_Address = (if o_relayBackend (config_of opts) = None then addr else o_address (config_of opts)), ni_Mode = o_mode (config_of opts)\<rparr>"
proof -
  note w = started_wired [OF assms(1)]
  have reg: "reg_Lookup (registry_of W S (config_of opts) (node_id_of W opts)) now g target = Inr peer"
    using assms(2,3) by (simp add: registry_of_def base_registry_def redis_reg_ops_def fallback_ops_def fallback_Lookup_def)
  have res: "redis_ResolveNode G R \<lparr>rr_nodeID = node_id_of W opts, rr_address = a\<rparr> now (fst g) peer = Inr addr" for G a
    using assms(4,6) by (simp add: redis_ResolveNode_def)
  have st: "c_registry (ctl.truncate c) = registry_of W S (config_of opts) (node_id_of W opts)" "c_nodeID (ctl.truncate c) = node_id_of W opts"
    using wiredD [OF w(1)] by simp_all
  show ?thesis
    using assms(2,4,5) by (simp add: Discover_def st reg w(2-4) base_resolver_def res)
qed

lemma kv_ops_announce: "snd (redis_Announce kv_ops rr now r) = None"
  by (simp add: redis_Announce_def kv_ops_def)

text \<open>The state in which \<open>n2\<close> has claimed \<open>y.org\<close> and announced itself.\<close>

theorem relay_hides_peer_address_witness:
  "\<exists>g' (c :: (_, unit) Controller) r. NewController boot_ex (Some (sqlite_ops engine_ex)) [WithNodeID ''n1'', WithAddress ''h:1'', WithRedisClient kv_ops, WithOutboundRelay ''outbound'' backend_ex] 1 ([], sql_empty) = (g', Inr c)
     \<and> Discover (ctl.truncate c) 5 (r, sql_empty) ''y.org'' = Inr \<lparr>ni_NodeId = ''n2'', ni_Address = ''h:1'', ni_Mode = ''standalone''\<rparr>
     \<and> rd_Get kv_ops 5 r (nodeKeyPrefix @ ''n2'') = RVal ''h:2''"
proof -
  define opts :: "(_, unit) option_fn list" where "opts = [WithNodeID ''n1'', WithAddress ''h:1'', WithRedisClient kv_ops, WithOutboundRelay ''outbound'' backend_ex]"
  have cfg: "o_nodeID (config_of opts) = ''n1''" "o_redisClient (config_of opts) = Some kv_ops" "o_relayBackend (config_of opts) = Some backend_ex"
      "o_address (config_of opts) = ''h:1''" "o_mode (config_of opts) = ''standalone''" "o_mailboxFactory (config_of opts) = None"
    by (simp_all add: opts_def WithNodeID_def WithOutboundRelay_def WithAddress_def WithRedisClient_def default_options_def ModeStandalone_def)
  have nid: "node_id_of boot_ex opts = ''n1''" by (simp add: node_id_of_def cfg)
  obtain g' c where b: "NewController boot_ex (Some (sqlite_ops engine_ex)) opts 1 ([], sql_empty) = (g', Inr c)"
    using boot_ex_starts [of opts 1 "[]"] boot_ex_mailbox [OF cfg(6)] cfg(1-5) kv_ops_announce by (auto simp: announce_def)
  define r where "r = [(domainKeyPrefix @ ''y.org'', (re_Marshal codec_ex \<lparr>re_NodeID = ''n2'', re_Address = ''h:2''\<rparr>, None :: gotime option)),
      (nodeKeyPrefix @ ''n2'', (''h:2'', None))]"
  have g: "rd_Get kv_ops 5 r (nodeKeyPrefix @ ''n2'') = RVal ''h:2''"
    "rd_Get kv_ops 5 r (domainKeyPrefix @ ''y.org'') = RVal (re_Marshal codec_ex \<lparr>re_NodeID = ''n2'', re_Address = ''h:2''\<rparr>)"
    by (simp_all add: kv_ops_def r_def nodeKeyPrefix_def domainKeyPrefix_def)
  have l: "redis_Lookup kv_ops (b_codec boot_ex) 5 (fst (r, sql_empty :: int sqldb)) ''y.org'' = Inr ''n2''"
    using g(2) codec_ex_law by (simp add: redis_Lookup_def getDomainRoute_def boot_ex_def domain_part_def)
  show ?thesis
    using relay_hides_peer_address [OF b cfg(2) l, of "''h:2''"] b g(1) unfolding opts_def [symmetric]
    by (intro exI [of _ g'] exI [of _ c] exI [of _ r]) (simp add: nid cfg)
qed

text \<open>The environment of a session on a listener that the controller has built: users are those of the
  store, and a password is checked only if the server has a validator.\<close>

definition session_env :: "'l Server \<Rightarrow> 'g store_ops \<Rightarrow> 'g \<Rightarrow> 'm smtp_env \<Rightarrow> 'm smtp_env" where
  "session_env sv S g E = E\<lparr>users := Some (\<lambda>u. case store_ResolveUser S g u of Inl e \<Rightarrow> Some e | Inr _ \<Rightarrow> None),
     validator := (if sv_hasValidator sv then validator E else None)\<rparr>"

text \<open>Authentication on the listener that the controller builds by default: no password is ever
  checked. AUTH PLAIN succeeds exactly if the given identity (the user name if there is none) is a
  registered user, whatever the password; a success remembers the identity, a failure is counted.\<close>

theorem default_auth_ignores_password:
  "case plain_response cfg H (session_env (defaultSMTPFactory LM scfg) S g E) now (h, s) identity username password of
     ((h', s'), r) \<Rightarrow>
       (let email = (if identity \<noteq> '''' then identity else username) in
        if isl (op_GetUser S g email) then r \<noteq> None \<and> authedUser s' = authedUser s \<and> authFailures s' = authFailures s + 1
        else r = None \<and> h' = h \<and> s' = s\<lparr>authedUser := email\<rparr>)"
proof -
  have v: "validator (session_env (defaultSMTPFactory LM scfg) S g E) = None"
    by (simp add: session_env_def defaultSMTPFactory_def smtp_New_def NewWithValidator_def Let_def)
  have u: "users (session_env (defaultSMTPFactory LM scfg) S g E) = Some (\<lambda>u. case op_GetUser S g u of Inl e \<Rightarrow> Some e | Inr _ \<Rightarrow> None)"
    by (auto simp: session_env_def store_ResolveUser_def split: sum.split)
  obtain h1 s1 e1 where f: "authFailed cfg H now (h, s) = ((h1, s1), e1)" by (metis prod.collapse)
  show ?thesis
    using authFailed_session [OF f] by (simp add: plain_response_def v u f Let_def split: sum.split)
qed

text \<open>\<open>Close\<close> stops everything: afterwards no SMTP and no LMTP listener runs, the LMTP socket file is gone,
  the connection pool is empty, the heartbeat and the dispatcher are stopped, and what is returned is the
  error of the store alone. A second \<open>Close\<close> in a cluster panics on the closed channel.\<close>

lemma close_stops_everything:
  assumes "nr_heartbeat n \<noteq> Some False" and "ctl_Close (smtp_lifecycle O') O' storeClose n = (n', r)"
    and "nr_lmtp n = (lmtp, files)" and "case lmtp of None \<Rightarrow> True | Some srv \<Rightarrow> lm_inv (srv\<lparr>lm_files := files\<rparr>)"
  shows "r = storeClose \<and> nr_heartbeat n' \<noteq> Some True \<and> \<not> nr_relay n' \<and> \<not> nr_dispatcher n'
    \<and> \<not> is_running (nr_smtp n') \<and> (\<forall>srv. fst (nr_lmtp n') = Some srv \<longrightarrow> \<not> lm_running srv)
    \<and> (\<forall>srv. lmtp = Some srv \<longrightarrow> lm_running srv \<longrightarrow> lcfg_SocketPath (lm_cfg srv) \<noteq> '''' \<longrightarrow> lcfg_SocketPath (lm_cfg srv) \<notin> set (snd (nr_lmtp n')))
    \<and> (\<forall>pool a. nr_pool n' = Some pool \<longrightarrow> gm_get pool a = None)
    \<and> (nr_heartbeat n \<noteq> None \<longrightarrow> ctl_Close (smtp_lifecycle O') O' storeClose n' = (n', Some (EText ''panic: close of closed channel'')))"
proof -
  have n': "n' = fst (ctl_Close (smtp_lifecycle O') O' storeClose n)" "r = storeClose"
    using assms(1,2) by (auto simp: ctl_Close_def)
  have hb: "nr_heartbeat n' = map_option (\<lambda>_. False) (nr_heartbeat n)" "\<not> nr_relay n'" "\<not> nr_dispatcher n'"
    "nr_pool n' = map_option fwd_Close (nr_pool n)"
    using assms(1) by (simp_all add: n'(1) ctl_Close_def)
  have pool: "gm_get (fwd_Close p) a = None" for p a by (auto simp: fwd_Close_def gm_del_fold map_of_eq_None_iff)
  have smtp: "\<not> is_running (nr_smtp n')"
    using assms(1) svl.stop_stops [of O'] by (auto simp: n'(1) ctl_Close_def is_running_def smtp_lifecycle_def split: option.split)
  have lm: "nr_lmtp n' = (case lmtp of None \<Rightarrow> (None, files)
      | Some srv \<Rightarrow> if lm_running srv then (Some (lm_serve_exit (srv\<lparr>lm_files := files\<rparr>)), lm_files (lm_serve_exit (srv\<lparr>lm_files := files\<rparr>))) else (Some srv, files))"
    using assms(1,3) by (simp add: n'(1) ctl_Close_def lm_Stop_def split: option.split)
  have sock: "lcfg_SocketPath (lm_cfg srv) \<notin> set (lm_files (lm_serve_exit (srv\<lparr>lm_files := files\<rparr>)))"
    if "lmtp = Some srv" "lm_running srv" "lcfg_SocketPath (lm_cfg srv) \<noteq> ''''" for srv
    using lmtp_stop_removes_socket [of "srv\<lparr>lm_files := files\<rparr>" O'] that assms(4) by (simp add: lm_Stop_def)
  have "ctl_Close (smtp_lifecycle O') O' storeClose n' = (n', Some (EText ''panic: close of closed channel''))" if "nr_heartbeat n \<noteq> None"
    using that hb(1) by (auto simp: ctl_Close_def)
  then show ?thesis
    using hb pool smtp n'(2) sock lm_serve_exit_sel(1) by (auto simp: lm split: option.splits if_splits)
qed

definition lmtp_ex :: LMTPServer where
  "lmtp_ex = (NewLMTP \<lparr>lcfg_SocketPath = ''/run/l'', lcfg_Port = 0, lcfg_BindAddr = '''', lcfg_Domain = '''', lcfg_MaxMessageBytes = 0,
     lcfg_MaxRecipients = 0, lcfg_ReadTimeout = 0, lcfg_WriteTimeout = 0\<rparr> [])\<lparr>lm_running := True, lm_socketPath := ''/run/l''\<rparr>"

lemma close_stops_everything_witness:
  "\<exists>n' :: unit Server node_run. ctl_Close (smtp_lifecycle (os_ex None)) (os_ex None) None
     \<lparr>nr_heartbeat = Some True, nr_pool = Some [(''a:1'', ())], nr_relay = True, nr_smtp = None, nr_lmtp = (Some lmtp_ex, [''/run/l'', ''/run/m'']), nr_dispatcher = True\<rparr>
       = (n', None) \<and> ''/run/l'' \<notin> set (snd (nr_lmtp n')) \<and> (\<forall>pool. nr_pool n' = Some pool \<longrightarrow> gm_get pool ''a:1'' = None)"
proof -
  define n :: "unit Server node_run" where
    "n = \<lparr>nr_heartbeat = Some True, nr_pool = Some [(''a:1'', ())], nr_relay = True, nr_smtp = None, nr_lmtp = (Some lmtp_ex, [''/run/l'', ''/run/m'']), nr_dispatcher = True\<rparr>"
  obtain n' r where c: "ctl_Close (smtp_lifecycle (os_ex None)) (os_ex None) None n = (n', r)" by fastforce
  have h: "nr_heartbeat n \<noteq> Some False" "nr_lmtp n = (Some lmtp_ex, [''/run/l'', ''/run/m''])" by (simp_all add: n_def)
  have i: "case Some lmtp_ex of None \<Rightarrow> True | Some srv \<Rightarrow> lm_inv (srv\<lparr>lm_files := [''/run/l'', ''/run/m'']\<rparr>)"
    by (simp add: lmtp_ex_def NewLMTP_def lmtp_applyDefaults_def lm_inv_def)
  have l: "lm_running lmtp_ex" "lcfg_SocketPath (lm_cfg lmtp_ex) = ''/run/l''"
    by (simp_all add: lmtp_ex_def NewLMTP_def lmtp_applyDefaults_def)
  show ?thesis
    using close_stops_everything [OF h(1) c h(2) i] c l unfolding n_def by auto
qed

end
