(* ===== verification/Address_Filter.thy ===== *)
theory Address_Filter
  imports Plugin
begin

unbundle bit_operations_syntax

text \<open>
  The address filter (\<open>internal/plugin/address_filter.go\<close>): a block list or an allow list of
  regular expressions over the sender and the recipients, changed at run time and optionally kept
  in a \<open>RuleStore\<close>.

  The rule store is an interface, the locale \<open>rule_store\<close>; it is interpreted by \<open>MemRuleStore\<close>.
  The compiled rules are a Go slice, and \<open>RemoveRule\<close> compacts it in place: \<open>compact_loop\<close> works on
  the backing array, so that what a concurrent \<open>BeforeSend\<close> reads through its own slice header can
  be stated. \<open>regexp\<close> is a field of the library record.
\<close>

section \<open>Rules and filters\<close>

type_synonym FilterMode = "8 word"
type_synonym AddressField = "8 word"

definition ModeBlock :: FilterMode where "ModeBlock = 0"
definition ModeAllow :: FilterMode where "ModeAllow = 1"
definition FieldSender :: AddressField where "FieldSender = 1"
definition FieldRecipients :: AddressField where "FieldRecipients = 2"
definition FieldAll :: AddressField where "FieldAll = FieldSender OR FieldRecipients"

lemmas field_defs = FieldSender_def FieldRecipients_def FieldAll_def

record AddressRule =
  RuleID :: string
  Pattern :: string
  Field :: AddressField

record 'rs rule_ops =
  ListRules :: "'rs \<Rightarrow> AddressRule list result"
  SaveRule :: "'rs \<Rightarrow> AddressRule \<Rightarrow> 'rs \<times> error option"
  DeleteRule :: "'rs \<Rightarrow> string \<Rightarrow> 'rs \<times> error option"

text \<open>A compiled rule is the rule itself: \<open>re\<close> is determined by the pattern.\<close>

record AddressFilter =
  fl_name :: string
  fl_mode :: FilterMode
  compiled :: "AddressRule list"

definition NewAddressFilter :: "string \<Rightarrow> FilterMode \<Rightarrow> AddressFilter" where
  "NewAddressFilter nm mode = \<lparr>fl_name = nm, fl_mode = mode, compiled = []\<rparr>"

section \<open>Operations\<close>

definition compile_rules :: "golib \<Rightarrow> AddressRule list \<Rightarrow> AddressRule list" where
  "compile_rules G rules = filter (\<lambda>r. regexp_Compile G (Pattern r) = None) rules"

definition reload :: "golib \<Rightarrow> 'rs rule_ops option \<Rightarrow> 'rs \<Rightarrow> AddressFilter \<Rightarrow> AddressFilter \<times> error option" where
  "reload G store rs f =
     (case store of
        None \<Rightarrow> (f, None)
      | Some R \<Rightarrow>
          (case ListRules R rs of
             Inl e \<Rightarrow> (f, Some (EWrap ''address filter: list rules'' e))
           | Inr rules \<Rightarrow> (f\<lparr>compiled := compile_rules G rules\<rparr>, None)))"

definition AddRule ::
  "golib \<Rightarrow> 'rs rule_ops option \<Rightarrow> 'rs \<times> AddressFilter \<Rightarrow> AddressRule \<Rightarrow> ('rs \<times> AddressFilter) \<times> error option" where
  "AddRule G store st r =
     (let (rs, f) = st in
      case regexp_Compile G (Pattern r) of
        Some e \<Rightarrow> (st, Some (EWrap (''address filter: invalid pattern '' @ quote G (Pattern r)) e))
      | None \<Rightarrow>
          (case store of
             Some R \<Rightarrow>
               (case SaveRule R rs r of
                  (rs', Some e) \<Rightarrow> ((rs', f), Some (EWrap ''address filter: save rule'' e))
                | (rs', None) \<Rightarrow> (case reload G store rs' f of (f', e) \<Rightarrow> ((rs', f'), e)))
           | None \<Rightarrow> ((rs, f\<lparr>compiled := compiled f @ [r]\<rparr>), None)))"

text \<open>The loop of \<open>RemoveRule\<close> on the backing array: \<open>i\<close> is the position of the \<open>range\<close>, \<open>n\<close> the
  next free slot.\<close>

function compact_loop :: "string \<Rightarrow> nat \<Rightarrow> nat \<Rightarrow> AddressRule list \<Rightarrow> AddressRule list \<times> nat" where
  "compact_loop ident i n arr =
     (if i < length arr then
        (let c = arr ! i in
         if RuleID c \<noteq> ident then compact_loop ident (Suc i) (Suc n) (arr[n := c])
         else compact_loop ident (Suc i) n arr)
      else (arr, n))"
  by pat_completeness auto
termination
  by (relation "measure (\<lambda>(_, i, _, arr). length arr - i)") auto

declare compact_loop.simps [simp del]

definition RemoveRule ::
  "golib \<Rightarrow> 'rs rule_ops option \<Rightarrow> 'rs \<times> AddressFilter \<Rightarrow> string \<Rightarrow> ('rs \<times> AddressFilter) \<times> error option" where
  "RemoveRule G store st ident =
     (let (rs, f) = st in
      case store of
        Some R \<Rightarrow>
          (case DeleteRule R rs ident of
             (rs', Some e) \<Rightarrow> ((rs', f), Some (EWrap ''address filter: delete rule'' e))
           | (rs', None) \<Rightarrow> (case reload G store rs' f of (f', e) \<Rightarrow> ((rs', f'), e)))
      | None \<Rightarrow>
          (let (arr, n) = compact_loop ident 0 0 (compiled f)
           in ((rs, f\<lparr>compiled := take n arr\<rparr>), None)))"

type_synonym addrEntry = "string \<times> AddressField"

definition addr_entries :: "draft \<Rightarrow> addrEntry list" where
  "addr_entries d = (GetSenderID d, FieldSender) # map (\<lambda>r. (r, FieldRecipients)) (GetRecipientIDs d)"

fun block_rules :: "golib \<Rightarrow> string \<Rightarrow> addrEntry \<Rightarrow> AddressRule list \<Rightarrow> error option" where
  "block_rules G nm a [] = None"
| "block_rules G nm a (r # rules) =
     (if Field r AND snd a = 0 then block_rules G nm a rules
      else if regexp_MatchString G (Pattern r) (fst a) then
        Some (reject nm (''address '' @ quote G (fst a) @ '' is blocked''))
      else block_rules G nm a rules)"

fun checkBlock :: "golib \<Rightarrow> string \<Rightarrow> addrEntry list \<Rightarrow> AddressRule list \<Rightarrow> error option" where
  "checkBlock G nm [] rules = None"
| "checkBlock G nm (a # addrs) rules =
     (case block_rules G nm a rules of Some e \<Rightarrow> Some e | None \<Rightarrow> checkBlock G nm addrs rules)"

text \<open>The inner loop of \<open>checkAllow\<close> with its two flags \<open>applicable\<close> and \<open>allowed\<close>.\<close>

fun allow_rules :: "golib \<Rightarrow> addrEntry \<Rightarrow> AddressRule list \<Rightarrow> bool \<Rightarrow> bool \<times> bool" where
  "allow_rules G a [] applicable = (applicable, False)"
| "allow_rules G a (r # rules) applicable =
     (if Field r AND snd a = 0 then allow_rules G a rules applicable
      else if regexp_MatchString G (Pattern r) (fst a) then (True, True)
      else allow_rules G a rules True)"

fun checkAllow :: "golib \<Rightarrow> string \<Rightarrow> addrEntry list \<Rightarrow> AddressRule list \<Rightarrow> error option" where
  "checkAllow G nm [] rules = None"
| "checkAllow G nm (a # addrs) rules =
     (let (applicable, allowed) = allow_rules G a rules False in
      if applicable \<and> \<not> allowed then
        Some (reject nm (''address '' @ quote G (fst a) @ '' is not in the allowlist''))
      else checkAllow G nm addrs rules)"

text \<open>\<open>BeforeSend\<close> reads the slice once; the rules it checks are an argument.\<close>

definition check_rules :: "golib \<Rightarrow> AddressFilter \<Rightarrow> AddressRule list \<Rightarrow> draft \<Rightarrow> error option" where
  "check_rules G f rules d =
     (if rules = [] then None
      else if fl_mode f = ModeBlock then checkBlock G (fl_name f) (addr_entries d) rules
      else if fl_mode f = ModeAllow then checkAllow G (fl_name f) (addr_entries d) rules
      else None)"

definition fl_BeforeSend :: "golib \<Rightarrow> AddressFilter \<Rightarrow> draft \<Rightarrow> error option" where
  "fl_BeforeSend G f d = check_rules G f (compiled f) d"

section \<open>MemRuleStore\<close>

type_synonym MemRuleStore = "(string, AddressRule) gomap"

definition put_rule :: "AddressRule \<Rightarrow> MemRuleStore \<Rightarrow> MemRuleStore" where
  "put_rule r m = gm_put (RuleID r) r m"

definition NewMemRuleStore :: "AddressRule list \<Rightarrow> MemRuleStore" where
  "NewMemRuleStore rules = fold put_rule rules []"

definition mrs_ListRules :: "MemRuleStore \<Rightarrow> AddressRule list result" where
  "mrs_ListRules m = Inr (gm_vals m)"

definition mrs_SaveRule :: "MemRuleStore \<Rightarrow> AddressRule \<Rightarrow> MemRuleStore \<times> error option" where
  "mrs_SaveRule m r = (put_rule r m, None)"

definition mrs_DeleteRule :: "MemRuleStore \<Rightarrow> string \<Rightarrow> MemRuleStore \<times> error option" where
  "mrs_DeleteRule m ident = (gm_del ident m, None)"

definition mrs_ops :: "MemRuleStore rule_ops" where
  "mrs_ops = \<lparr>ListRules = mrs_ListRules, SaveRule = mrs_SaveRule, DeleteRule = mrs_DeleteRule\<rparr>"

section \<open>What a check decides\<close>

definition applies :: "golib \<Rightarrow> AddressRule \<Rightarrow> addrEntry \<Rightarrow> bool" where
  "applies G r a \<longleftrightarrow> Field r AND snd a \<noteq> 0"

definition matches :: "golib \<Rightarrow> AddressRule \<Rightarrow> addrEntry \<Rightarrow> bool" where
  "matches G r a \<longleftrightarrow> applies G r a \<and> regexp_MatchString G (Pattern r) (fst a)"

lemma block_rules_spec:
  "block_rules G nm a rules =
     (if \<exists>r\<in>set rules. matches G r a then Some (reject nm (''address '' @ quote G (fst a) @ '' is blocked'')) else None)"
  by (induction rules) (auto simp: matches_def applies_def)

lemma checkBlock_None: "checkBlock G nm addrs rules = None \<longleftrightarrow> (\<forall>a\<in>set addrs. \<forall>r\<in>set rules. \<not> matches G r a)"
  by (induction addrs) (auto simp: block_rules_spec)

lemma checkBlock_rejects: "checkBlock G nm addrs rules = Some e \<Longrightarrow> rejected_by nm (Some e)"
  by (induction addrs) (auto simp: block_rules_spec split: if_splits)

lemma allow_rules_spec:
  "allow_rules G a rules b = (b \<or> (\<exists>r\<in>set rules. applies G r a), \<exists>r\<in>set rules. matches G r a)"
  by (induction rules arbitrary: b) (auto simp: matches_def applies_def)

lemma checkAllow_None:
  "checkAllow G nm addrs rules = None \<longleftrightarrow>
     (\<forall>a\<in>set addrs. (\<exists>r\<in>set rules. applies G r a) \<longrightarrow> (\<exists>r\<in>set rules. matches G r a))"
  by (induction addrs) (auto simp: allow_rules_spec)

lemma checkAllow_rejects: "checkAllow G nm addrs rules = Some e \<Longrightarrow> rejected_by nm (Some e)"
  by (induction addrs) (auto simp: allow_rules_spec split: if_splits)

lemmas check_specs = checkBlock_None checkAllow_None

lemma check_rules_rejects: "check_rules G f rules d = Some e \<Longrightarrow> rejected_by (fl_name f) (Some e)"
  by (auto simp: check_rules_def dest: checkBlock_rejects checkAllow_rejects split: if_splits)

interpretation flh: send_hook "\<lambda>now f d. (f, fl_BeforeSend G f d)" "\<lambda>_. True" fl_name
  by unfold_locales (auto simp: fl_BeforeSend_def dest: check_rules_rejects)

text \<open>The decision depends on the set of rules only, not on their order.\<close>

lemma check_rules_set:
  assumes "set rules = set rules'"
  shows "check_rules G f rules d = None \<longleftrightarrow> check_rules G f rules' d = None"
  using assms by (cases "rules = []"; cases "rules' = []") (auto simp: check_rules_def check_specs)

section \<open>In-place removal\<close>

lemma compact_loop_spec:
  assumes "compact_loop ident i n arr = (arr', n')" and "n \<le> i" and "i \<le> length arr"
  shows "length arr' = length arr \<and> n' = n + length (filter (\<lambda>c. RuleID c \<noteq> ident) (drop i arr))
    \<and> take n' arr' = take n arr @ filter (\<lambda>c. RuleID c \<noteq> ident) (drop i arr) \<and> drop n' arr' = drop n' arr"
  using assms
proof (induction ident i n arr rule: compact_loop.induct)
  case (1 ident i n arr)
  show ?case
  proof (cases "i < length arr")
    case False
    then have "compact_loop ident i n arr = (arr, n)" by (simp add: compact_loop.simps [of ident i n arr])
    then show ?thesis using 1 False by simp
  next
    case True
    note d = Cons_nth_drop_Suc [OF True]
    show ?thesis
    proof (cases "RuleID (arr ! i) \<noteq> ident")
      case keep: True
      define c where "c = arr ! i"
      have c: "RuleID c \<noteq> ident" using keep by (simp add: c_def)
      have dd: "drop i arr = c # drop (Suc i) arr" using d by (simp add: c_def)
      have nl: "n < length arr" and ni: "n < Suc i" using 1(4) True by simp_all
      have e: "compact_loop ident (Suc i) (Suc n) (arr[n := c]) = (arr', n')"
        using 1(3) keep True by (simp add: compact_loop.simps [of ident i n arr] Let_def c_def)
      have len: "Suc i \<le> length (arr[n := c])" using True by simp
      have drp: "drop (Suc i) (arr[n := c]) = drop (Suc i) arr" using ni by simp
      have tk: "take (Suc n) (arr[n := c]) = take n arr @ [c]"
        using nl by (simp add: take_Suc_conv_app_nth)
      have IH: "length arr' = length (arr[n := c]) \<and> n' = Suc n + length (filter (\<lambda>c. RuleID c \<noteq> ident) (drop (Suc i) (arr[n := c])))
        \<and> take n' arr' = take (Suc n) (arr[n := c]) @ filter (\<lambda>c. RuleID c \<noteq> ident) (drop (Suc i) (arr[n := c])) \<and> drop n' arr' = drop n' (arr[n := c])"
        by (rule 1(1) [OF True c_def keep [folded c_def] e _ len]) (use 1(4) in simp)
      have "n < n'" using IH by simp
      then have "drop n' (arr[n := c]) = drop n' arr" by simp
      then show ?thesis using IH dd drp tk c by (elim conjE) simp
    next
      case drop_it: False
      have e: "compact_loop ident (Suc i) n arr = (arr', n')"
        using 1(3) drop_it True by (simp add: compact_loop.simps [of ident i n arr] Let_def)
      show ?thesis
        using 1(2) [OF True refl _ e] drop_it True 1(4) by (simp flip: d) (elim conjE, simp)
    qed
  qed
qed

lemma RemoveRule_mem:
  "RemoveRule G None (rs, f) ident = ((rs, f\<lparr>compiled := filter (\<lambda>c. RuleID c \<noteq> ident) (compiled f)\<rparr>), None)"
proof -
  obtain arr n where e: "compact_loop ident 0 0 (compiled f) = (arr, n)" by fastforce
  have "take n arr = filter (\<lambda>c. RuleID c \<noteq> ident) (compiled f)"
    using compact_loop_spec [OF e, simplified] by blast
  then show ?thesis by (simp add: RemoveRule_def e)
qed

section \<open>Contract of a rule store\<close>

text \<open>The rules that are enforced for a rule map: those whose pattern compiles.\<close>

definition active_rules :: "golib \<Rightarrow> (string \<rightharpoonup> AddressRule) \<Rightarrow> AddressRule set" where
  "active_rules G m = {r \<in> ran m. regexp_Compile G (Pattern r) = None}"

definition policy_ok :: "golib \<Rightarrow> FilterMode \<Rightarrow> AddressRule set \<Rightarrow> draft \<Rightarrow> bool" where
  "policy_ok G mode R d \<longleftrightarrow>
     (mode = ModeBlock \<longrightarrow> (\<forall>a\<in>set (addr_entries d). \<forall>r\<in>R. \<not> matches G r a))
     \<and> (mode = ModeAllow \<longrightarrow>
          (\<forall>a\<in>set (addr_entries d). (\<exists>r\<in>R. applies G r a) \<longrightarrow> (\<exists>r\<in>R. matches G r a)))"

lemma check_rules_policy: "check_rules G f rules d = None \<longleftrightarrow> policy_ok G (fl_mode f) (set rules) d"
  by (auto simp: check_rules_def policy_ok_def check_specs ModeBlock_def ModeAllow_def)

datatype rule_op = OpAdd AddressRule | OpRemove string | OpReload

fun rule_step :: "golib \<Rightarrow> 'rs rule_ops option \<Rightarrow> 'rs \<times> AddressFilter \<Rightarrow> rule_op \<Rightarrow> ('rs \<times> AddressFilter) \<times> error option" where
  "rule_step G store st (OpAdd r) = AddRule G store st r"
| "rule_step G store st (OpRemove ident) = RemoveRule G store st ident"
| "rule_step G store st OpReload = (case reload G store (fst st) (snd st) of (f, e) \<Rightarrow> ((fst st, f), e))"

definition rule_run :: "golib \<Rightarrow> 'rs rule_ops option \<Rightarrow> 'rs \<times> AddressFilter \<Rightarrow> rule_op list \<Rightarrow> 'rs \<times> AddressFilter" where
  "rule_run G store st ops = foldl (\<lambda>st oper. fst (rule_step G store st oper)) st ops"

text \<open>The abstract operation on the rule map.\<close>

fun rule_spec :: "golib \<Rightarrow> (string \<rightharpoonup> AddressRule) \<Rightarrow> rule_op \<Rightarrow> (string \<rightharpoonup> AddressRule)" where
  "rule_spec G m (OpAdd r) = (if regexp_Compile G (Pattern r) = None then m(RuleID r \<mapsto> r) else m)"
| "rule_spec G m (OpRemove ident) = m(ident := None)"
| "rule_spec G m OpReload = m"

locale rule_store =
  fixes R :: "'rs rule_ops" and inv :: "'rs \<Rightarrow> bool" and abs :: "'rs \<Rightarrow> string \<rightharpoonup> AddressRule"
  assumes list_law: "inv rs \<Longrightarrow> \<exists>rules. ListRules R rs = Inr rules \<and> set rules = ran (abs rs)"
    and save_law: "inv rs \<Longrightarrow> \<exists>rs'. SaveRule R rs r = (rs', None) \<and> inv rs' \<and> abs rs' = (abs rs)(RuleID r \<mapsto> r)"
    and delete_law: "inv rs \<Longrightarrow> \<exists>rs'. DeleteRule R rs ident = (rs', None) \<and> inv rs' \<and> abs rs' = (abs rs)(ident := None)"
begin

definition synced :: "golib \<Rightarrow> 'rs \<times> AddressFilter \<Rightarrow> bool" where
  "synced G st \<longleftrightarrow> inv (fst st) \<and> set (compiled (snd st)) = active_rules G (abs (fst st))"

lemma reload_sync:
  assumes "inv rs"
  shows "\<exists>f'. reload G (Some R) rs f = (f', None) \<and> synced G (rs, f') \<and> fl_mode f' = fl_mode f \<and> fl_name f' = fl_name f"
  using list_law [OF assms] assms
  by (auto simp: reload_def synced_def active_rules_def compile_rules_def)

text \<open>Every operation implements its abstract operation on the rule map and leaves the filter in
  step with the store; only an invalid pattern is an error.\<close>

lemma step_sync:
  assumes "synced G (rs, f)"
  shows "\<exists>rs' f' e. rule_step G (Some R) (rs, f) oper = ((rs', f'), e) \<and> synced G (rs', f')
    \<and> abs rs' = rule_spec G (abs rs) oper \<and> fl_mode f' = fl_mode f \<and> fl_name f' = fl_name f
    \<and> (e \<noteq> None \<longleftrightarrow> (\<exists>r. oper = OpAdd r \<and> regexp_Compile G (Pattern r) \<noteq> None))"
proof (cases oper)
  case (OpAdd r)
  have inv: "inv rs" using assms by (simp add: synced_def)
  obtain rs' where sv: "SaveRule R rs r = (rs', None)" "inv rs'" "abs rs' = (abs rs)(RuleID r \<mapsto> r)"
    using save_law [OF inv] by blast
  obtain f' where rl: "reload G (Some R) rs' f = (f', None)" "synced G (rs', f')" "fl_mode f' = fl_mode f" "fl_name f' = fl_name f"
    using reload_sync [OF sv(2)] by blast
  show ?thesis
    using OpAdd assms sv rl by (cases "regexp_Compile G (Pattern r)") (simp_all add: AddRule_def)
next
  case (OpRemove ident)
  have inv: "inv rs" using assms by (simp add: synced_def)
  obtain rs' where sv: "DeleteRule R rs ident = (rs', None)" "inv rs'" "abs rs' = (abs rs)(ident := None)"
    using delete_law [OF inv] by blast
  obtain f' where rl: "reload G (Some R) rs' f = (f', None)" "synced G (rs', f')" "fl_mode f' = fl_mode f" "fl_name f' = fl_name f"
    using reload_sync [OF sv(2)] by blast
  show ?thesis using OpRemove sv rl by (simp add: RemoveRule_def)
next
  case OpReload
  then show ?thesis using reload_sync [of rs G f] assms by (auto simp: synced_def)
qed

lemma run_sync:
  assumes "synced G (rs, f)" and "rule_run G (Some R) (rs, f) ops = (rs', f')"
  shows "synced G (rs', f') \<and> abs rs' = foldl (rule_spec G) (abs rs) ops \<and> fl_mode f' = fl_mode f \<and> fl_name f' = fl_name f"
  using assms
proof (induction ops arbitrary: rs f)
  case (Cons oper ops)
  obtain rs1 f1 e where s: "rule_step G (Some R) (rs, f) oper = ((rs1, f1), e)" "synced G (rs1, f1)"
    "abs rs1 = rule_spec G (abs rs) oper" "fl_mode f1 = fl_mode f" "fl_name f1 = fl_name f"
    using step_sync [OF Cons.prems(1)] by blast
  have "rule_run G (Some R) (rs1, f1) ops = (rs', f')"
    using Cons.prems(2) s(1) by (simp add: rule_run_def)
  then show ?case using Cons.IH [OF s(2)] s by simp
qed (simp add: rule_run_def)

text \<open>So the filter decides every draft by the current rule map.\<close>

lemma run_decides:
  assumes "inv rs" and "rule_run G (Some R) (rs, NewAddressFilter nm mode) (OpReload # ops) = (rs', f')"
  shows "abs rs' = foldl (rule_spec G) (abs rs) ops
    \<and> (fl_BeforeSend G f' d = None \<longleftrightarrow> policy_ok G mode (active_rules G (abs rs')) d)"
proof -
  obtain f1 where r: "reload G (Some R) rs (NewAddressFilter nm mode) = (f1, None)" "synced G (rs, f1)" "fl_mode f1 = mode"
    using reload_sync [OF assms(1)] by (metis AddressFilter.select_convs(2) NewAddressFilter_def)
  have "rule_run G (Some R) (rs, f1) ops = (rs', f')" using assms(2) r(1) by (simp add: rule_run_def)
  then show ?thesis
    using run_sync [OF r(2)] r(3) by (simp add: fl_BeforeSend_def check_rules_policy synced_def)
qed

end

lemma gm_wf_fold_put_rule: "gm_wf m \<Longrightarrow> gm_wf (fold put_rule rules m)"
  by (induction rules arbitrary: m) (simp_all add: put_rule_def)

lemma NewMemRuleStore_wf: "gm_wf (NewMemRuleStore rules)"
  by (simp add: NewMemRuleStore_def gm_wf_fold_put_rule)

interpretation mrs: rule_store mrs_ops gm_wf map_of
  by unfold_locales
     (auto simp: mrs_ops_def mrs_ListRules_def mrs_SaveRule_def mrs_DeleteRule_def put_rule_def set_gm_vals
        update_conv' delete_conv')

text \<open>C18: A filter backed by a rule store that is initialised and then changed by any sequence of
  \<open>AddRule\<close>, \<open>RemoveRule\<close> and \<open>Reload\<close> calls decides every draft by the rule map those calls
  describe: rules with the same ID replace each other, rules with an invalid pattern are refused,
  and a draft passes exactly when no monitored address matches a rule (block list), or every address
  that some rule covers matches one (allow list).\<close>

theorem address_rules_enforced:
  assumes "rule_run G (Some mrs_ops) (NewMemRuleStore initial, NewAddressFilter nm mode) (OpReload # ops) = (rs', f')"
  shows "map_of rs' = foldl (rule_spec G) (map_of (NewMemRuleStore initial)) ops
    \<and> (fl_BeforeSend G f' d = None \<longleftrightarrow> policy_ok G mode (active_rules G (map_of rs')) d)"
  by (rule mrs.run_decides [OF NewMemRuleStore_wf assms])

definition rule_ex :: "string \<Rightarrow> string \<Rightarrow> AddressField \<Rightarrow> AddressRule" where
  "rule_ex i p fl = \<lparr>RuleID = i, Pattern = p, Field = fl\<rparr>"

theorem address_rules_enforced_witness:
  "\<exists>rs' f'. rule_run golib_ex (Some mrs_ops) (NewMemRuleStore [], NewAddressFilter ''af'' ModeBlock)
       [OpReload, OpAdd (rule_ex ''1'' ''a@x'' FieldSender), OpRemove ''2''] = (rs', f')
     \<and> fl_BeforeSend golib_ex f' \<lparr>GetSenderID = ''a@x'', GetRecipientIDs = [], GetSubject = '''', GetBody = '''',
          GetHeaders = [], GetAttachments = []\<rparr> \<noteq> None"
proof -
  define st where "st = rule_run golib_ex (Some mrs_ops) (NewMemRuleStore [], NewAddressFilter ''af'' ModeBlock)
       [OpReload, OpAdd (rule_ex ''1'' ''a@x'' FieldSender), OpRemove ''2'']"
  obtain rs' f' where st: "st = (rs', f')" by fastforce
  have m: "map_of rs' ''1'' = Some (rule_ex ''1'' ''a@x'' FieldSender)"
    using address_rules_enforced [OF st [unfolded st_def]] by (simp add: rule_ex_def golib_ex_def)
  then have a: "rule_ex ''1'' ''a@x'' FieldSender \<in> active_rules golib_ex (map_of rs')"
    by (auto simp: active_rules_def golib_ex_def ran_def)
  define d where "d = \<lparr>GetSenderID = ''a@x'', GetRecipientIDs = [], GetSubject = '''', GetBody = '''',
          GetHeaders = [], GetAttachments = []\<rparr>"
  have "matches golib_ex (rule_ex ''1'' ''a@x'' FieldSender) (GetSenderID d, FieldSender)"
    by (simp add: d_def matches_def applies_def rule_ex_def field_defs golib_ex_def)
  then have "\<not> policy_ok golib_ex ModeBlock (active_rules golib_ex (map_of rs')) d"
    using a by (auto simp: policy_ok_def addr_entries_def)
  then have "fl_BeforeSend golib_ex f' d \<noteq> None"
    using address_rules_enforced [OF st [unfolded st_def], of d] by blast
  then show ?thesis using st unfolding st_def d_def by blast
qed

section \<open>Concurrent removal\<close>

text \<open>
  \<open>BeforeSend\<close> copies the slice header under the read lock and then walks the rules without it,
  while \<open>RemoveRule\<close> compacts the same backing array. \<open>mem t\<close> is the array at the \<open>t\<close>-th read.
\<close>

fun block_reads ::
  "golib \<Rightarrow> string \<Rightarrow> addrEntry \<Rightarrow> (nat \<Rightarrow> AddressRule list) \<Rightarrow> nat \<Rightarrow> nat list \<Rightarrow> error option \<times> nat" where
  "block_reads G nm a mem t [] = (None, t)"
| "block_reads G nm a mem t (i # is) =
     (let r = mem t ! i in
      if Field r AND snd a = 0 then block_reads G nm a mem (Suc t) is
      else if regexp_MatchString G (Pattern r) (fst a) then
        (Some (reject nm (''address '' @ quote G (fst a) @ '' is blocked'')), Suc t)
      else block_reads G nm a mem (Suc t) is)"

fun checkBlock_reads ::
  "golib \<Rightarrow> string \<Rightarrow> addrEntry list \<Rightarrow> (nat \<Rightarrow> AddressRule list) \<Rightarrow> nat \<Rightarrow> nat \<Rightarrow> error option" where
  "checkBlock_reads G nm [] mem t n = None"
| "checkBlock_reads G nm (a # addrs) mem t n =
     (case block_reads G nm a mem t [0..<n] of
        (Some e, _) \<Rightarrow> Some e
      | (None, t') \<Rightarrow> checkBlock_reads G nm addrs mem t' n)"

text \<open>While nobody writes, the walk is \<open>checkBlock\<close>.\<close>

lemma block_reads_const:
  "fst (block_reads G nm a (\<lambda>_. rules) t is) = block_rules G nm a (map (\<lambda>i. rules ! i) is)"
  by (induction "is" arbitrary: t) (simp_all add: Let_def)

lemma checkBlock_reads_const: "checkBlock_reads G nm addrs (\<lambda>_. rules) t (length rules) = checkBlock G nm addrs rules"
proof (induction addrs arbitrary: t)
  case (Cons a addrs)
  have "fst (block_reads G nm a (\<lambda>_. rules) t [0..<length rules]) = block_rules G nm a rules"
    by (simp add: block_reads_const map_nth)
  then show ?case using Cons by (auto split: prod.split option.split)
qed simp

text \<open>C40: \<open>RemoveRule\<close> compacts the rule slice in place although concurrent \<open>BeforeSend\<close> calls read
  the same array after releasing the lock. With block rules \<open>A\<close>, \<open>B\<close>, \<open>C\<close> where only \<open>B\<close> matches the
  sender, the filter rejects the draft before \<open>A\<close> is removed and after it, but a check that has read
  the first rule when \<open>A\<close> is removed never sees \<open>B\<close> and passes the draft.\<close>

theorem remove_rule_race:
  fixes f :: AddressFilter and rs :: 'rs and G :: golib and A B C :: AddressRule
  defines "f' \<equiv> snd (fst (RemoveRule G None (rs, f) (RuleID A)))"
    and "arr \<equiv> fst (compact_loop (RuleID A) 0 0 [A, B, C])"
  assumes "compiled f = [A, B, C]" and "fl_mode f = ModeBlock"
    and "RuleID B \<noteq> RuleID A" and "RuleID C \<noteq> RuleID A"
    and "matches G B (GetSenderID d, FieldSender)"
    and "\<not> matches G A (GetSenderID d, FieldSender)" and "\<not> matches G C (GetSenderID d, FieldSender)"
    and "GetRecipientIDs d = []"
  shows "fl_BeforeSend G f d \<noteq> None \<and> fl_BeforeSend G f' d \<noteq> None
    \<and> checkBlock_reads G (fl_name f) (addr_entries d) (\<lambda>t. if t < 1 then [A, B, C] else arr) 0 (length (compiled f)) = None"
proof -
  have f': "f' = f\<lparr>compiled := [B, C]\<rparr>"
    using assms(3,5,6) by (simp add: f'_def RemoveRule_mem)
  have arr: "arr = [B, C, C]"
    using assms(5,6) by (simp add: arr_def compact_loop.simps Let_def)
  have is3: "[0..<length (compiled f)] = [0, 1, 2]" using assms(3) by (simp add: upt_rec)
  show ?thesis
    unfolding f' arr
    using assms(3-10)
    by (auto simp: fl_BeforeSend_def check_rules_policy policy_ok_def addr_entries_def is3 matches_def applies_def)
qed

theorem remove_rule_race_witness:
  "\<exists>f d. compiled f = [rule_ex ''1'' ''c@x'' 1, rule_ex ''2'' ''a@x'' 1, rule_ex ''3'' ''e@x'' 1] \<and> fl_BeforeSend golib_ex f d \<noteq> None
     \<and> checkBlock_reads golib_ex (fl_name f) (addr_entries d)
         (\<lambda>t. if t < 1 then compiled f else fst (compact_loop ''1'' 0 0 (compiled f))) 0 (length (compiled f)) = None"
proof -
  define f where "f = \<lparr>fl_name = ''af'', fl_mode = ModeBlock,
      compiled = [rule_ex ''1'' ''c@x'' 1, rule_ex ''2'' ''a@x'' 1, rule_ex ''3'' ''e@x'' 1]\<rparr>"
  define d where "d = \<lparr>GetSenderID = ''a@x'', GetRecipientIDs = [], GetSubject = '''', GetBody = '''',
          GetHeaders = [], GetAttachments = []\<rparr>"
  have s: "compiled f = [rule_ex ''1'' ''c@x'' 1, rule_ex ''2'' ''a@x'' 1, rule_ex ''3'' ''e@x'' 1]" "fl_mode f = ModeBlock"
    "GetSenderID d = ''a@x''" "GetRecipientIDs d = []"
    by (simp_all add: f_def d_def)
  have i: "RuleID (rule_ex i p fl) = i" for i p fl by (simp add: rule_ex_def)
  have m: "matches golib_ex (rule_ex i p 1) (GetSenderID d, FieldSender) \<longleftrightarrow> p = ''a@x''" for i p
    by (simp add: s(3) rule_ex_def matches_def applies_def field_defs golib_ex_def)
  show ?thesis
    by (rule exI [of _ f], rule exI [of _ d])
       (use remove_rule_race [OF s(1,2), of golib_ex d "()"] s(1,4) in \<open>simp add: i m cong: if_cong\<close>)
qed

end
