(* ===== verification/Attachment_Filter.thy ===== *)
theory Attachment_Filter
  imports Plugin
begin

text \<open>
  The attachment filter (\<open>internal/plugin/attachment_filter.go\<close>): a limit on the number of
  attachments, on the size of each and on their total size, a blocklist and an allowlist of media
  types. Sizes are \<open>int64\<close>, kept as 64-bit words, because the running total is an unchecked
  64-bit sum. \<open>mime.ParseMediaType\<close> is the field \<^const>\<open>mime_ParseMediaType\<close> of the library
  record.
\<close>

section \<open>Model\<close>

record AttachmentFilterConfig =
  MaxCount :: int
  MaxTotalBytes :: int64
  MaxSingleBytes :: int64
  AllowedMIMEs :: "string list"
  BlockedMIMEs :: "string list"

record AttachmentFilter =
  af_name :: string
  af_cfg :: AttachmentFilterConfig
  af_allowed :: strset
  af_blocked :: strset

definition NewAttachmentFilter :: "golib \<Rightarrow> string \<Rightarrow> AttachmentFilterConfig \<Rightarrow> AttachmentFilter" where
  "NewAttachmentFilter G nm cfg =
     \<lparr>af_name = nm, af_cfg = cfg, af_allowed = toSet G (AllowedMIMEs cfg), af_blocked = toSet G (BlockedMIMEs cfg)\<rparr>"

definition normaliseMediaType :: "golib \<Rightarrow> string \<Rightarrow> string" where
  "normaliseMediaType G ct =
     (if ct = '''' then ''''
      else case mime_ParseMediaType G ct of
             None \<Rightarrow>
               (let ct1 = (case index_byte CHR '';'' ct of Some idx \<Rightarrow> take idx ct | None \<Rightarrow> ct)
                in to_lower G (trim_space G ct1))
           | Some mediatype \<Rightarrow> mediatype)"

text \<open>The loop over the attachments: the rejection it returns, or the total so far.\<close>

fun check_attachments :: "golib \<Rightarrow> AttachmentFilter \<Rightarrow> attachment list \<Rightarrow> int64 \<Rightarrow> int64 result" where
  "check_attachments G f [] totalBytes = Inr totalBytes"
| "check_attachments G f (a # atts) totalBytes =
     (let sz = GetSize a in
      if sint sz < 0 then
        Inl (reject (af_name f) (''attachment '' @ quote G (GetFilename a) @ '' has invalid negative size '' @ itoa (sint sz)))
      else
        (let totalBytes = totalBytes + sz; lim = MaxSingleBytes (af_cfg f) in
         if 0 < sint lim \<and> sint lim < sint sz then
           Inl (reject (af_name f) (''attachment '' @ quote G (GetFilename a) @ '' size '' @ itoa (sint sz)
                  @ '' exceeds limit of '' @ itoa (sint lim) @ '' bytes''))
         else
           (let mtype = normaliseMediaType G (GetContentType a) in
            if in_set mtype (af_blocked f) then
              Inl (reject (af_name f) (''attachment '' @ quote G (GetFilename a) @ '' has blocked MIME type '' @ quote G mtype))
            else if af_allowed f \<noteq> [] \<and> \<not> in_set mtype (af_allowed f) then
              Inl (reject (af_name f) (''attachment '' @ quote G (GetFilename a) @ '' has disallowed MIME type '' @ quote G mtype))
            else check_attachments G f atts totalBytes)))"

definition af_BeforeSend :: "golib \<Rightarrow> AttachmentFilter \<Rightarrow> draft \<Rightarrow> error option" where
  "af_BeforeSend G f d =
     (let atts = GetAttachments d; cfg = af_cfg f in
      if 0 < MaxCount cfg \<and> MaxCount cfg < int (length atts) then
        Some (reject (af_name f) (''too many attachments: '' @ itoa (int (length atts)) @ '' > max '' @ itoa (MaxCount cfg)))
      else case check_attachments G f atts 0 of
             Inl e \<Rightarrow> Some e
           | Inr totalBytes \<Rightarrow>
               if 0 < sint (MaxTotalBytes cfg) \<and> sint (MaxTotalBytes cfg) < sint totalBytes then
                 Some (reject (af_name f) (''total attachment size '' @ itoa (sint totalBytes) @ '' exceeds limit of ''
                        @ itoa (sint (MaxTotalBytes cfg)) @ '' bytes''))
               else None)"

section \<open>Specification\<close>

text \<open>The policy one attachment has to satisfy, from the configuration alone.\<close>

definition attachment_ok :: "golib \<Rightarrow> AttachmentFilterConfig \<Rightarrow> attachment \<Rightarrow> bool" where
  "attachment_ok G cfg a \<longleftrightarrow>
     0 \<le> sint (GetSize a)
     \<and> (0 < sint (MaxSingleBytes cfg) \<longrightarrow> sint (GetSize a) \<le> sint (MaxSingleBytes cfg))
     \<and> normaliseMediaType G (GetContentType a) \<notin> to_lower G ` set (BlockedMIMEs cfg)
     \<and> (AllowedMIMEs cfg \<noteq> [] \<longrightarrow> normaliseMediaType G (GetContentType a) \<in> to_lower G ` set (AllowedMIMEs cfg))"

definition total_size :: "attachment list \<Rightarrow> int" where
  "total_size atts = (\<Sum>a\<leftarrow>atts. sint (GetSize a))"

lemma total_size_simps [simp]:
  "total_size [] = 0" "total_size (a # atts) = sint (GetSize a) + total_size atts"
  by (simp_all add: total_size_def)

text \<open>The loop passes exactly the attachments that satisfy the policy, and returns the wrapped sum.\<close>

lemma check_attachments_Cons:
  "check_attachments G (NewAttachmentFilter G nm cfg) (a # atts) t =
     (if attachment_ok G cfg a then check_attachments G (NewAttachmentFilter G nm cfg) atts (t + GetSize a)
      else Inl (reject nm (rej_reason (projl (check_attachments G (NewAttachmentFilter G nm cfg) (a # atts) t)))))"
  by (simp add: attachment_ok_def NewAttachmentFilter_def Let_def reject_def)

lemma check_attachments_ok:
  "list_all (attachment_ok G cfg) atts \<Longrightarrow>
     check_attachments G (NewAttachmentFilter G nm cfg) atts t = Inr (t + sum_list (map GetSize atts))"
proof (induction atts arbitrary: t)
  case (Cons a atts)
  then show ?case by (subst check_attachments_Cons) (simp add: add.assoc)
qed simp

lemma check_attachments_bad:
  "\<not> list_all (attachment_ok G cfg) atts \<Longrightarrow>
     \<exists>reason. check_attachments G (NewAttachmentFilter G nm cfg) atts t = Inl (reject nm reason)"
proof (induction atts arbitrary: t)
  case (Cons a atts)
  then show ?case by (subst check_attachments_Cons) (auto simp del: check_attachments.simps)
qed simp

text \<open>Without overflow the 64-bit total is the sum of the sizes.\<close>

lemma sint_sum_sizes:
  assumes "list_all (\<lambda>a. 0 \<le> sint (GetSize a)) atts" and "total_size atts < 2 ^ 63"
  shows "sint (sum_list (map GetSize atts)) = total_size atts"
  using assms
proof (induction atts)
  case (Cons a atts)
  have nn: "0 \<le> total_size xs" if "list_all (\<lambda>a. 0 \<le> sint (GetSize a)) xs" for xs
    using that by (induction xs) auto
  have "0 \<le> total_size atts" using nn Cons.prems by simp
  then have eq: "sint (sum_list (map GetSize atts)) = total_size atts"
    using Cons.IH Cons.prems by simp
  show ?case
    using Cons.prems eq \<open>0 \<le> total_size atts\<close>
    by (simp add: sint_word_ariths(1) signed_take_bit_int_eq_self)
qed simp

section \<open>Properties\<close>

lemma af_BeforeSend_rejects: "af_BeforeSend G (NewAttachmentFilter G nm cfg) d = Some e \<Longrightarrow> rejected_by nm (Some e)"
  using check_attachments_bad [of G cfg "GetAttachments d" nm 0] check_attachments_ok [of G cfg "GetAttachments d" nm 0]
  by (cases "list_all (attachment_ok G cfg) (GetAttachments d)")
     (auto simp: af_BeforeSend_def Let_def NewAttachmentFilter_def split: if_splits)

interpretation afh: send_hook "\<lambda>now f d. (f, af_BeforeSend G f d)" "\<lambda>f. \<exists>nm cfg. f = NewAttachmentFilter G nm cfg" af_name
  by unfold_locales (auto simp: NewAttachmentFilter_def dest: af_BeforeSend_rejects [unfolded NewAttachmentFilter_def])

definition attachments_ok :: "golib \<Rightarrow> AttachmentFilterConfig \<Rightarrow> attachment list \<Rightarrow> bool" where
  "attachments_ok G cfg atts \<longleftrightarrow>
     (0 < MaxCount cfg \<longrightarrow> int (length atts) \<le> MaxCount cfg)
     \<and> list_all (attachment_ok G cfg) atts
     \<and> (0 < sint (MaxTotalBytes cfg) \<longrightarrow> total_size atts \<le> sint (MaxTotalBytes cfg))"

lemma af_policy:
  assumes "total_size (GetAttachments d) < 2 ^ 63"
  shows "if attachments_ok G cfg (GetAttachments d)
         then af_BeforeSend G (NewAttachmentFilter G nm cfg) d = None
         else rejected_by nm (af_BeforeSend G (NewAttachmentFilter G nm cfg) d)"
proof (cases "list_all (attachment_ok G cfg) (GetAttachments d)")
  case True
  then have "list_all (\<lambda>a. 0 \<le> sint (GetSize a)) (GetAttachments d)"
    by (auto simp: list_all_iff attachment_ok_def)
  then have "sint (sum_list (map GetSize (GetAttachments d))) = total_size (GetAttachments d)"
    using assms by (rule sint_sum_sizes)
  then show ?thesis
    using True check_attachments_ok [OF True, of nm 0]
    by (auto simp: af_BeforeSend_def attachments_ok_def Let_def) (simp_all add: NewAttachmentFilter_def)
next
  case False
  then show ?thesis
    using check_attachments_bad [OF False, of nm 0]
    by (auto simp: af_BeforeSend_def attachments_ok_def Let_def) (simp_all add: NewAttachmentFilter_def)
qed

text \<open>C35: For attachments whose sizes add up to less than \<open>2^63\<close> bytes the filter implements its
  configuration exactly: a draft passes if and only if the number of attachments, the size and
  media type of each one and the total size satisfy the policy; otherwise the error is a rejection
  by this plugin.\<close>

theorem attachment_filter_policy:
  assumes "total_size (GetAttachments d) < 2 ^ 63"
  shows "if attachments_ok G cfg (GetAttachments d)
         then af_BeforeSend G (NewAttachmentFilter G nm cfg) d = None
         else rejected_by nm (af_BeforeSend G (NewAttachmentFilter G nm cfg) d)"
  by (rule af_policy [OF assms])

definition draft_ex :: "attachment list \<Rightarrow> draft" where
  "draft_ex atts = \<lparr>GetSenderID = ''a@x'', GetRecipientIDs = [''b@y''], GetSubject = ''s'', GetBody = ''b'',
     GetHeaders = [], GetAttachments = atts\<rparr>"

definition att_ex :: "int64 \<Rightarrow> attachment" where
  "att_ex n = \<lparr>GetFilename = ''a.txt'', GetContentType = '''', GetSize = n, GetID = '''', GetURI = ''''\<rparr>"

definition af_cfg_ex :: AttachmentFilterConfig where
  "af_cfg_ex = \<lparr>MaxCount = 2, MaxTotalBytes = 1000, MaxSingleBytes = 0, AllowedMIMEs = [], BlockedMIMEs = []\<rparr>"

theorem attachment_filter_policy_witness:
  "af_BeforeSend golib_ex (NewAttachmentFilter golib_ex ''af'' af_cfg_ex) (draft_ex [att_ex 400, att_ex 600]) = None
   \<and> rejected_by ''af'' (af_BeforeSend golib_ex (NewAttachmentFilter golib_ex ''af'' af_cfg_ex) (draft_ex [att_ex 400, att_ex 601]))"
proof -
  have lt: "total_size (GetAttachments (draft_ex [att_ex 400, att_ex n])) < 2 ^ 63" if "n = 600 \<or> n = 601" for n
    using that by (auto simp: draft_ex_def att_ex_def)
  have ok: "attachments_ok golib_ex af_cfg_ex (GetAttachments (draft_ex [att_ex 400, att_ex 600]))"
    and bad: "\<not> attachments_ok golib_ex af_cfg_ex (GetAttachments (draft_ex [att_ex 400, att_ex 601]))"
    by (simp_all add: draft_ex_def att_ex_def af_cfg_ex_def attachments_ok_def attachment_ok_def normaliseMediaType_def)
  show ?thesis
    using attachment_filter_policy [OF lt [of 600], of golib_ex af_cfg_ex "''af''"]
      attachment_filter_policy [OF lt [of 601], of golib_ex af_cfg_ex "''af''"] ok bad by simp
qed

text \<open>The running total is a 64-bit sum that is not checked for overflow: two attachments of
  \<open>2^62\<close> bytes each pass a filter whose total limit is any positive number when no limit on single
  attachments is set.\<close>

theorem attachment_total_overflow:
  assumes "MaxCount cfg \<le> 0 \<or> 2 \<le> MaxCount cfg" and "sint (MaxSingleBytes cfg) = 0"
    and "AllowedMIMEs cfg = []" and "BlockedMIMEs cfg = []"
    and "map GetSize (GetAttachments d) = [2 ^ 62, 2 ^ 62]"
  shows "af_BeforeSend G (NewAttachmentFilter G nm cfg) d = None \<and> total_size (GetAttachments d) = 2 ^ 63"
proof -
  obtain a b where ab: "GetAttachments d = [a, b]" "GetSize a = 2 ^ 62" "GetSize b = 2 ^ 62"
    using assms(5) by auto
  have cnt: "\<not> (0 < MaxCount cfg \<and> MaxCount cfg < 2)" using assms(1) by auto
  then show ?thesis
    using assms ab by (simp add: af_BeforeSend_def NewAttachmentFilter_def Let_def toSet_def)
qed

theorem attachment_total_overflow_witness:
  "af_BeforeSend golib_ex (NewAttachmentFilter golib_ex ''af'' af_cfg_ex) (draft_ex [att_ex (2 ^ 62), att_ex (2 ^ 62)]) = None"
proof -
  show ?thesis
    using attachment_total_overflow [of af_cfg_ex "draft_ex [att_ex (2 ^ 62), att_ex (2 ^ 62)]" golib_ex "''af''"]
    by (simp add: af_cfg_ex_def draft_ex_def att_ex_def)
qed

end

