(* ===== verification/Security_Agent.thy ===== *)
theory Security_Agent
  imports Plugin
begin

text \<open>
  The security agent (\<open>internal/plugin/security_agent.go\<close>): per-sender rate limits, recipient and
  body limits, header-injection checks and blocked attachment extensions.

  The limiter of \<open>golang.org/x/time/rate\<close> is a parameter \<open>limiter_ops\<close>; rates are reals. The
  limiter of a sender is shared through a pointer, so the state \<open>Allow\<close> changes is the one in the
  sender map. \<open>time.Now()\<close> is an argument, and the ticker's call of \<open>evict\<close> is an operation that can
  happen between any two messages.
\<close>

section \<open>Model\<close>

text \<open>\<open>BlockedExtensions\<close> is \<open>None\<close> for a nil slice.\<close>

record SecurityAgentConfig =
  MaxRecipients :: int
  MaxBodyBytes :: int
  RatePerSender :: real
  BurstPerSender :: int
  SenderTTL :: duration
  BlockedExtensions :: "string list option"

definition defaultBlockedExtensions :: "string list" where
  "defaultBlockedExtensions =
     [''.exe'', ''.bat'', ''.cmd'', ''.sh'', ''.ps1'', ''.vbs'', ''.js'',
      ''.jar'', ''.msi'', ''.dll'', ''.scr'', ''.pif'', ''.com'']"

record 'l senderEntry =
  lim :: 'l
  lastSec :: int

record 'l SecurityAgent =
  sa_name :: string
  sa_cfg :: SecurityAgentConfig
  blockedExt :: strset
  senders :: "(string, 'l senderEntry) gomap"
  evicting :: bool
  stopped :: bool

definition NewSecurityAgent :: "golib \<Rightarrow> string \<Rightarrow> SecurityAgentConfig \<Rightarrow> 'l SecurityAgent" where
  "NewSecurityAgent G nm cfg =
     (let exts = (case BlockedExtensions cfg of None \<Rightarrow> defaultBlockedExtensions | Some e \<Rightarrow> e);
          extSet = fold (add_lower G) exts [];
          burst = (if BurstPerSender cfg < 1 then 1 else BurstPerSender cfg);
          ttl = (if SenderTTL cfg = 0 then 10 * minute else SenderTTL cfg)
      in \<lparr>sa_name = nm, sa_cfg = cfg\<lparr>SenderTTL := ttl, BurstPerSender := burst\<rparr>, blockedExt = extSet, senders = [],
          evicting = False, stopped = False\<rparr>)"

text \<open>\<open>Init\<close> starts the eviction goroutine once, \<open>Close\<close> stops it once.\<close>

definition sa_Init :: "'l SecurityAgent \<Rightarrow> 'l SecurityAgent" where
  "sa_Init sa = sa\<lparr>evicting := True\<rparr>"

definition sa_Close :: "'l SecurityAgent \<Rightarrow> 'l SecurityAgent" where
  "sa_Close sa = sa\<lparr>stopped := True\<rparr>"

definition containsNewline :: "string \<Rightarrow> bool" where
  "containsNewline s \<longleftrightarrow> list_ex (\<lambda>c. c = char_of (13 :: nat) \<or> c = char_of (10 :: nat)) s"

text \<open>The loop of \<open>blockedExtension\<close> on the lower-cased name; the empty string means none.\<close>

function scan_ext :: "strset \<Rightarrow> string \<Rightarrow> string" where
  "scan_ext blocked lower =
     (case last_index_byte CHR ''.'' lower of
        None \<Rightarrow> ''''
      | Some idx \<Rightarrow>
          (let ext = drop idx lower in
           if in_set ext blocked then ext else scan_ext blocked (take idx lower)))"
  by pat_completeness auto
termination
  by (relation "measure (\<lambda>(_, s). length s)") (auto dest: last_index_byte_SomeD)

declare scan_ext.simps [simp del]

definition blockedExtension :: "golib \<Rightarrow> string \<Rightarrow> strset \<Rightarrow> string" where
  "blockedExtension G filename blocked = scan_ext blocked (to_lower G filename)"

definition limiterFor :: "'l limiter_ops \<Rightarrow> gotime \<Rightarrow> 'l SecurityAgent \<Rightarrow> string \<Rightarrow> 'l SecurityAgent \<times> 'l" where
  "limiterFor L now sa sender =
     (let e = (case gm_get (senders sa) sender of
                 None \<Rightarrow> \<lparr>lim = NewLimiter L (RatePerSender (sa_cfg sa)) (BurstPerSender (sa_cfg sa)), lastSec = unix now\<rparr>
               | Some e \<Rightarrow> e\<lparr>lastSec := unix now\<rparr>)
      in (sa\<lparr>senders := gm_put sender e (senders sa)\<rparr>, lim e))"

text \<open>\<open>sa.limiterFor(sender).Allow()\<close>: the limiter behind the pointer is updated.\<close>

definition rate_check :: "'l limiter_ops \<Rightarrow> gotime \<Rightarrow> 'l SecurityAgent \<Rightarrow> string \<Rightarrow> 'l SecurityAgent \<times> bool" where
  "rate_check L now sa sender =
     (let (sa1, l) = limiterFor L now sa sender; (l', allowed) = Allow L now l
      in (sa1\<lparr>senders := gm_put sender \<lparr>lim = l', lastSec = unix now\<rparr> (senders sa1)\<rparr>, allowed))"

fun check_headers :: "golib \<Rightarrow> string \<Rightarrow> strmap \<Rightarrow> error option" where
  "check_headers G nm [] = None"
| "check_headers G nm ((k, v) # hs) =
     (if containsNewline k \<or> containsNewline v then
        Some (reject nm (''header '' @ quote G k @ '' contains illegal newline characters''))
      else check_headers G nm hs)"

fun check_extensions :: "golib \<Rightarrow> string \<Rightarrow> strset \<Rightarrow> attachment list \<Rightarrow> error option" where
  "check_extensions G nm blocked [] = None"
| "check_extensions G nm blocked (a # atts) =
     (let ext = blockedExtension G (GetFilename a) blocked in
      if ext \<noteq> '''' then
        Some (reject nm (''attachment '' @ quote G (GetFilename a) @ '' has blocked extension '' @ quote G ext))
      else check_extensions G nm blocked atts)"

definition check_content :: "golib \<Rightarrow> 'l SecurityAgent \<Rightarrow> draft \<Rightarrow> error option" where
  "check_content G sa d =
     (let cfg = sa_cfg sa; nrcpt = int (length (GetRecipientIDs d)); nbody = int (length (GetBody d)) in
      if 0 < MaxRecipients cfg \<and> MaxRecipients cfg < nrcpt then
        Some (reject (sa_name sa) (''too many recipients: '' @ itoa nrcpt @ '' > max '' @ itoa (MaxRecipients cfg)))
      else if 0 < MaxBodyBytes cfg \<and> MaxBodyBytes cfg < nbody then
        Some (reject (sa_name sa) (''body size '' @ itoa nbody @ '' exceeds limit of '' @ itoa (MaxBodyBytes cfg) @ '' bytes''))
      else case check_headers G (sa_name sa) (GetHeaders d) of
             Some e \<Rightarrow> Some e
           | None \<Rightarrow> check_extensions G (sa_name sa) (blockedExt sa) (GetAttachments d))"

definition sa_BeforeSend ::
  "golib \<Rightarrow> 'l limiter_ops \<Rightarrow> gotime \<Rightarrow> 'l SecurityAgent \<Rightarrow> draft \<Rightarrow> 'l SecurityAgent \<times> error option" where
  "sa_BeforeSend G L now sa d =
     (let sender = GetSenderID d;
          (sa1, allowed) = (if 0 < RatePerSender (sa_cfg sa) then rate_check L now sa sender else (sa, True))
      in if \<not> allowed then (sa1, Some (reject (sa_name sa) (''sender '' @ quote G sender @ '' is sending too fast'')))
         else (sa1, check_content G sa1 d))"

definition sa_evict :: "gotime \<Rightarrow> 'l SecurityAgent \<Rightarrow> 'l SecurityAgent" where
  "sa_evict now sa =
     (let cutoff = unix (now - SenderTTL (sa_cfg sa))
      in sa\<lparr>senders := filter (\<lambda>(k, e). \<not> lastSec e < cutoff) (senders sa)\<rparr>)"

text \<open>One tick of \<open>evictLoop\<close>, which runs between \<open>Init\<close> and \<open>Close\<close>.\<close>

definition sa_tick :: "gotime \<Rightarrow> 'l SecurityAgent \<Rightarrow> 'l SecurityAgent" where
  "sa_tick now sa = (if evicting sa \<and> \<not> stopped sa then sa_evict now sa else sa)"

section \<open>Blocked extensions\<close>

text \<open>The scan finds an extension exactly when one of the dot-separated segments behind the first is
  blocked; the one it returns is the last such segment.\<close>

lemma scan_ext_spec:
  "scan_ext blocked s =
     (let segs = filter (\<lambda>seg. in_set (CHR ''.'' # seg) blocked) (tl (split_byte CHR ''.'' s))
      in if segs = [] then '''' else CHR ''.'' # last segs)"
proof (induction blocked s rule: scan_ext.induct)
  case (1 blocked s)
  show ?case
  proof (cases "last_index_byte CHR ''.'' s")
    case None
    have "scan_ext blocked s = []" by (subst scan_ext.simps) (simp only: None option.case)
    then show ?thesis using None by (simp add: split_byte_whole)
  next
    case (Some i)
    define a b where "a = take i s" and "b = drop (Suc i) s"
    have s: "i < length s" "s ! i = CHR ''.''" "CHR ''.'' \<notin> set b"
      using last_index_byte_SomeD [OF Some] by (simp_all add: b_def)
    have d: "drop i s = CHR ''.'' # b" using Cons_nth_drop_Suc [OF s(1)] s(2) by (simp add: b_def)
    have "s = a @ CHR ''.'' # b" using append_take_drop_id [of i s] d by (simp add: a_def)
    then have sp: "split_byte CHR ''.'' s = split_byte CHR ''.'' a @ [b]"
      by (simp add: split_byte_append split_byte_whole [OF s(3)])
    have tl: "tl (split_byte CHR ''.'' s) = tl (split_byte CHR ''.'' a) @ [b]"
      by (simp add: sp)
    have e: "scan_ext blocked s = (if in_set (CHR ''.'' # b) blocked then CHR ''.'' # b else scan_ext blocked a)"
      by (simp add: scan_ext.simps [of blocked s] Some Let_def d a_def)
    show ?thesis
    proof (cases "in_set (CHR ''.'' # b) blocked")
      case True
      then show ?thesis by (simp add: e tl)
    next
      case False
      then have "scan_ext blocked a = (let segs = filter (\<lambda>seg. in_set (CHR ''.'' # seg) blocked) (tl (split_byte CHR ''.'' a))
          in if segs = [] then '''' else CHR ''.'' # last segs)"
        using 1 [OF Some refl] by (simp add: d a_def)
      then show ?thesis using False by (simp add: e tl)
    qed
  qed
qed

lemma scan_ext_empty:
  "scan_ext blocked s = '''' \<longleftrightarrow> (\<forall>seg\<in>set (tl (split_byte CHR ''.'' s)). \<not> in_set (CHR ''.'' # seg) blocked)"
  unfolding scan_ext_spec
  by (auto simp: filter_empty_conv Let_def)

section \<open>What passes\<close>

lemma check_headers_None:
  "check_headers G nm hs = None \<longleftrightarrow> (\<forall>(k, v)\<in>set hs. \<not> containsNewline k \<and> \<not> containsNewline v)"
  by (induction G nm hs rule: check_headers.induct) auto

lemma check_headers_rejects: "check_headers G nm hs = Some e \<Longrightarrow> rejected_by nm (Some e)"
  by (induction G nm hs rule: check_headers.induct) (auto split: if_splits)

lemma check_extensions_None:
  "check_extensions G nm blocked atts = None \<longleftrightarrow> (\<forall>a\<in>set atts. blockedExtension G (GetFilename a) blocked = '''')"
  by (induction atts) (auto simp: Let_def)

lemma check_extensions_rejects: "check_extensions G nm blocked atts = Some e \<Longrightarrow> rejected_by nm (Some e)"
  by (induction atts) (auto simp: Let_def split: if_splits)

lemma check_content_rejects: "check_content G sa d = Some e \<Longrightarrow> rejected_by (sa_name sa) (Some e)"
  by (auto simp: check_content_def Let_def dest: check_headers_rejects check_extensions_rejects
      split: if_splits option.splits)

lemma rate_check_frame [simp]:
  "sa_name (fst (rate_check L now sa s)) = sa_name sa" "sa_cfg (fst (rate_check L now sa s)) = sa_cfg sa"
  "blockedExt (fst (rate_check L now sa s)) = blockedExt sa"
  by (simp_all add: rate_check_def limiterFor_def case_prod_beta Let_def)

lemma rate_check_frameD:
  "rate_check L now sa s = (sa1, a) \<Longrightarrow> sa_name sa1 = sa_name sa \<and> sa_cfg sa1 = sa_cfg sa \<and> blockedExt sa1 = blockedExt sa"
  using rate_check_frame [of L now sa s] by simp

lemma sa_BeforeSend_frame:
  assumes "sa_BeforeSend G L now sa d = (sa', r)"
  shows "sa_name sa' = sa_name sa \<and> sa_cfg sa' = sa_cfg sa \<and> blockedExt sa' = blockedExt sa"
  using assms by (auto simp: sa_BeforeSend_def Let_def dest!: rate_check_frameD split: if_splits prod.splits)

interpretation sah: send_hook "sa_BeforeSend G L" "\<lambda>_. True" sa_name
proof (unfold_locales, goal_cases)
  case (1 p now d p' r)
  then show ?case using sa_BeforeSend_frame by blast
next
  case (2 p now d p' e)
  obtain sa1 allowed where a: "(if 0 < RatePerSender (sa_cfg p) then rate_check L now p (GetSenderID d) else (p, True)) = (sa1, allowed)"
    by fastforce
  have "sa_name sa1 = sa_name p"
    using a by (auto dest!: rate_check_frameD split: if_splits)
  then show ?case
    using 2(2) check_content_rejects [of G sa1 d e] by (auto simp: sa_BeforeSend_def a split: if_splits)
qed

definition content_ok :: "golib \<Rightarrow> SecurityAgentConfig \<Rightarrow> draft \<Rightarrow> bool" where
  "content_ok G cfg d \<longleftrightarrow>
     (0 < MaxRecipients cfg \<longrightarrow> int (length (GetRecipientIDs d)) \<le> MaxRecipients cfg)
     \<and> (0 < MaxBodyBytes cfg \<longrightarrow> int (length (GetBody d)) \<le> MaxBodyBytes cfg)
     \<and> (\<forall>(k, v)\<in>set (GetHeaders d). set (k @ v) \<inter> {char_of (13 :: nat), char_of (10 :: nat)} = {})
     \<and> (\<forall>a\<in>set (GetAttachments d). \<forall>seg\<in>set (tl (split_byte CHR ''.'' (to_lower G (GetFilename a)))).
          CHR ''.'' # seg \<notin> to_lower G ` set (case BlockedExtensions cfg of None \<Rightarrow> defaultBlockedExtensions | Some e \<Rightarrow> e))"

lemma containsNewline_iff: "containsNewline s \<longleftrightarrow> set s \<inter> {char_of (13 :: nat), char_of (10 :: nat)} \<noteq> {}"
  by (auto simp: containsNewline_def list_ex_iff)

lemma check_content_spec:
  fixes sa :: "'l SecurityAgent"
  assumes "sa_cfg sa = sa_cfg (NewSecurityAgent G nm cfg :: 'l SecurityAgent)"
    and "blockedExt sa = blockedExt (NewSecurityAgent G nm cfg :: 'l SecurityAgent)"
  shows "check_content G sa d = None \<longleftrightarrow> content_ok G cfg d"
proof -
  have ext: "in_set k (blockedExt sa) \<longleftrightarrow>
      k \<in> to_lower G ` set (case BlockedExtensions cfg of None \<Rightarrow> defaultBlockedExtensions | Some e \<Rightarrow> e)" for k
    unfolding assms(2) by (simp add: NewSecurityAgent_def Let_def in_fold_add_lower)
  have cfg: "MaxRecipients (sa_cfg sa) = MaxRecipients cfg" "MaxBodyBytes (sa_cfg sa) = MaxBodyBytes cfg"
    unfolding assms(1) by (simp_all add: NewSecurityAgent_def Let_def)
  have hd: "check_headers G (sa_name sa) (GetHeaders d) = None \<longleftrightarrow>
      (\<forall>(k, v)\<in>set (GetHeaders d). set (k @ v) \<inter> {char_of (13 :: nat), char_of (10 :: nat)} = {})"
    unfolding check_headers_None containsNewline_iff by auto
  have ex: "check_extensions G (sa_name sa) (blockedExt sa) (GetAttachments d) = None \<longleftrightarrow>
      (\<forall>a\<in>set (GetAttachments d). \<forall>seg\<in>set (tl (split_byte CHR ''.'' (to_lower G (GetFilename a)))).
          CHR ''.'' # seg \<notin> to_lower G ` set (case BlockedExtensions cfg of None \<Rightarrow> defaultBlockedExtensions | Some e \<Rightarrow> e))"
    unfolding check_extensions_None blockedExtension_def scan_ext_empty ext by simp
  show ?thesis
    unfolding check_content_def content_ok_def Let_def cfg using hd ex
    by (simp only: split: option.split) (auto simp: not_less)
qed

text \<open>C36: With rate limiting off, the security agent passes a draft exactly when it has no more
  recipients and body bytes than configured, no header key or value contains CR or LF, and no
  dot-separated segment behind the first of any attachment name, lower-cased, is a blocked
  extension. So a blocked extension is found wherever it stands (\<open>evil.exe.pdf\<close>).\<close>

theorem security_agent_policy:
  fixes L :: "'l limiter_ops"
  assumes "RatePerSender cfg \<le> 0"
  shows "snd (sa_BeforeSend G L now (NewSecurityAgent G nm cfg) d) = None \<longleftrightarrow> content_ok G cfg d"
proof -
  define sa :: "'l SecurityAgent" where "sa = NewSecurityAgent G nm cfg"
  have "\<not> 0 < RatePerSender (sa_cfg sa)" using assms by (simp add: sa_def NewSecurityAgent_def Let_def)
  then have "snd (sa_BeforeSend G L now sa d) = check_content G sa d" by (simp add: sa_BeforeSend_def)
  then show ?thesis using check_content_spec [of sa G nm cfg d] by (simp add: sa_def)
qed

definition sa_cfg_ex :: "real \<Rightarrow> SecurityAgentConfig" where
  "sa_cfg_ex r = \<lparr>MaxRecipients = 0, MaxBodyBytes = 0, RatePerSender = r, BurstPerSender = 1, SenderTTL = 0, BlockedExtensions = None\<rparr>"

definition draft_named :: "string \<Rightarrow> draft" where
  "draft_named fname = \<lparr>GetSenderID = ''a@x'', GetRecipientIDs = [''b@y''], GetSubject = ''s'', GetBody = ''b'',
     GetHeaders = [(''X-A'', ''1'')], GetAttachments = [\<lparr>GetFilename = fname, GetContentType = '''', GetSize = 1, GetID = '''', GetURI = ''''\<rparr>]\<rparr>"

theorem security_agent_policy_witness:
  "snd (sa_BeforeSend golib_ex \<lparr>NewLimiter = \<lambda>_ _. (), Allow = \<lambda>_ _. ((), True)\<rparr> 0 (NewSecurityAgent golib_ex ''sa'' (sa_cfg_ex 0))
      (draft_named ''evil.EXE.pdf'')) \<noteq> None"
proof -
  have "\<not> content_ok golib_ex (sa_cfg_ex 0) (draft_named ''evil.EXE.pdf'')"
    by code_simp
  moreover have "RatePerSender (sa_cfg_ex 0) \<le> 0" by (simp add: sa_cfg_ex_def)
  ultimately show ?thesis using security_agent_policy by blast
qed

section \<open>Rate limiting\<close>

lemma rate_check_wf: "gm_wf (senders sa) \<Longrightarrow> gm_wf (senders (fst (rate_check L now sa s)))"
  by (simp add: rate_check_def limiterFor_def case_prod_beta Let_def)

lemma rate_check_entry:
  "gm_get (senders (fst (rate_check L now sa s))) s' =
     (if s' = s then Some \<lparr>lim = fst (Allow L now (case gm_get (senders sa) s of
          None \<Rightarrow> NewLimiter L (RatePerSender (sa_cfg sa)) (BurstPerSender (sa_cfg sa)) | Some e \<Rightarrow> lim e)), lastSec = unix now\<rparr>
      else gm_get (senders sa) s')"
  by (simp add: rate_check_def limiterFor_def case_prod_beta Let_def split: option.split)

lemma rate_check_allowed:
  "snd (rate_check L now sa s) = snd (Allow L now (case gm_get (senders sa) s of
     None \<Rightarrow> NewLimiter L (RatePerSender (sa_cfg sa)) (BurstPerSender (sa_cfg sa)) | Some e \<Rightarrow> lim e))"
  by (simp add: rate_check_def limiterFor_def case_prod_beta Let_def split: option.split)

lemma check_content_cong:
  "sa_name sa = sa_name sb \<Longrightarrow> sa_cfg sa = sa_cfg sb \<Longrightarrow> blockedExt sa = blockedExt sb \<Longrightarrow> check_content G sa d = check_content G sb d"
  by (simp add: check_content_def Let_def cong: option.case_cong)

lemma sa_BeforeSend_result:
  "snd (sa_BeforeSend G L now sa d) =
     (if 0 < RatePerSender (sa_cfg sa) \<and> \<not> snd (rate_check L now sa (GetSenderID d))
      then Some (reject (sa_name sa) (''sender '' @ quote G (GetSenderID d) @ '' is sending too fast''))
      else check_content G sa d)"
proof -
  have "check_content G (fst (rate_check L now sa (GetSenderID d))) d = check_content G sa d"
    by (rule check_content_cong) simp_all
  then show ?thesis by (simp add: sa_BeforeSend_def case_prod_beta Let_def)
qed

lemma sa_BeforeSend_state:
  "fst (sa_BeforeSend G L now sa d) =
     (if 0 < RatePerSender (sa_cfg sa) then fst (rate_check L now sa (GetSenderID d)) else sa)"
  by (simp add: sa_BeforeSend_def case_prod_beta Let_def)

text \<open>Messages of one sender never touch the budget of another one.\<close>

lemma rate_isolated:
  "s \<noteq> GetSenderID d \<Longrightarrow> gm_get (senders (fst (sa_BeforeSend G L now sa d))) s = gm_get (senders sa) s"
  by (simp add: sa_BeforeSend_state rate_check_entry)

lemma sa_tick_evicts:
  assumes "gm_wf (senders sa)" and "evicting sa" and "\<not> stopped sa"
    and "gm_get (senders sa) s = Some e" and "lastSec e < unix (now - SenderTTL (sa_cfg sa))"
  shows "gm_get (senders (sa_tick now sa)) s = None"
  using assms by (simp add: sa_tick_def sa_evict_def Let_def gm_get_filter)

text \<open>The configured rate does not bound a sender that pauses: once the eviction tick has removed
  an entry that was idle for longer than \<open>SenderTTL\<close>, the next message of the sender gets a full
  bucket and passes, however low \<open>RatePerSender\<close> is and however few tokens were left. The hypothesis
  on the limiter is its documented initial state: a new limiter with a burst of at least one allows
  an event.\<close>

theorem eviction_refills_bucket:
  assumes "\<forall>now r b. 1 \<le> b \<longrightarrow> snd (Allow L now (NewLimiter L r b))"
    and "1 \<le> BurstPerSender (sa_cfg sa)" and "gm_wf (senders sa)" and "evicting sa" and "\<not> stopped sa"
    and "unix t0 < unix (t1 - SenderTTL (sa_cfg sa))"
    and "GetSenderID d' = GetSenderID d" and "check_content G sa d' = None" and "0 < RatePerSender (sa_cfg sa)"
  shows "snd (sa_BeforeSend G L t2 (sa_tick t1 (fst (sa_BeforeSend G L t0 sa d))) d') = None"
proof -
  define sa1 where "sa1 = fst (sa_BeforeSend G L t0 sa d)"
  have st: "sa1 = fst (rate_check L t0 sa (GetSenderID d))"
    using assms(9) by (simp add: sa1_def sa_BeforeSend_state)
  have same: "sa_name sa1 = sa_name sa" "sa_cfg sa1 = sa_cfg sa" "blockedExt sa1 = blockedExt sa"
    by (simp_all add: st)
  have run: "evicting sa1" "\<not> stopped sa1"
    using assms(4,5) by (simp_all add: st rate_check_def limiterFor_def case_prod_beta Let_def)
  have "gm_get (senders (sa_tick t1 sa1)) (GetSenderID d) = None"
    by (rule sa_tick_evicts [OF _ run, OF _ rate_check_entry [of L t0 sa "GetSenderID d" "GetSenderID d", folded st, simplified]])
       (use assms(3,6) in \<open>simp_all add: st rate_check_wf\<close>)
  moreover have "sa_cfg (sa_tick t1 sa1) = sa_cfg sa" "check_content G (sa_tick t1 sa1) d' = None"
    using same assms(8) check_content_cong [of "sa_tick t1 sa1" sa G d']
    by (simp_all add: sa_tick_def sa_evict_def Let_def)
  ultimately show ?thesis
    using assms(1,2,7) by (simp add: sa_BeforeSend_result rate_check_allowed flip: sa1_def)
qed

text \<open>A token bucket: tokens left, time of the last event (none yet), rate per second and burst.\<close>

definition bucket_ops :: "(real \<times> gotime option \<times> real \<times> int) limiter_ops" where
  "bucket_ops = \<lparr>NewLimiter = \<lambda>r b. (real_of_int b, None, r, b),
     Allow = \<lambda>now (tok, last, r, b).
       let t = (case last of None \<Rightarrow> tok | Some l \<Rightarrow> min (real_of_int b) (tok + r * real_of_int (now - l) / 1000000000)) in
       if 1 \<le> t then ((t - 1, Some now, r, b), True) else ((t, Some now, r, b), False)\<rparr>"

theorem eviction_refills_bucket_witness:
  "snd (sa_BeforeSend golib_ex bucket_ops (700 * second)
          (sa_tick (650 * second) (fst (sa_BeforeSend golib_ex bucket_ops 0
             (sa_Init (NewSecurityAgent golib_ex ''sa'' (sa_cfg_ex (1 / 3600)))) (draft_named ''a.txt''))))
          (draft_named ''a.txt'')) = None
   \<and> snd (sa_BeforeSend golib_ex bucket_ops (700 * second)
          (fst (sa_BeforeSend golib_ex bucket_ops 0
             (sa_Init (NewSecurityAgent golib_ex ''sa'' (sa_cfg_ex (1 / 3600)))) (draft_named ''a.txt'')))
          (draft_named ''a.txt'')) \<noteq> None"
proof -
  define sa :: "(real \<times> gotime option \<times> real \<times> int) SecurityAgent"
    where "sa = sa_Init (NewSecurityAgent golib_ex ''sa'' (sa_cfg_ex (1 / 3600)))"
  have fresh: "\<forall>now r b. 1 \<le> b \<longrightarrow> snd (Allow bucket_ops now (NewLimiter bucket_ops r b))"
    by (simp add: bucket_ops_def)
  have sa: "sa_cfg sa = (sa_cfg_ex (1 / 3600))\<lparr>SenderTTL := 10 * minute, BurstPerSender := 1\<rparr>" "senders sa = []"
    "evicting sa" "\<not> stopped sa" "blockedExt sa = blockedExt (NewSecurityAgent golib_ex ''sa'' (sa_cfg_ex (1 / 3600)) :: unit SecurityAgent)"
    by (simp_all add: sa_def sa_Init_def NewSecurityAgent_def sa_cfg_ex_def Let_def)
  have "content_ok golib_ex (sa_cfg_ex 0) (draft_named ''a.txt'')" by code_simp
  then have "content_ok golib_ex (sa_cfg_ex (1 / 3600)) (draft_named ''a.txt'')"
    by (simp add: content_ok_def sa_cfg_ex_def)
  then have ok: "check_content golib_ex sa (draft_named ''a.txt'') = None"
    by (subst check_content_spec) (simp_all add: sa_def sa_Init_def)
  have cfg: "SenderTTL (sa_cfg sa) = 10 * minute" "BurstPerSender (sa_cfg sa) = 1" "RatePerSender (sa_cfg sa) = 1 / 3600"
    by (simp_all add: sa sa_cfg_ex_def)
  have slow: "\<not> snd (rate_check bucket_ops (700 * second) (fst (rate_check bucket_ops 0 sa s)) s)" for s
    by (simp add: rate_check_allowed rate_check_entry sa(2) cfg bucket_ops_def)
  show ?thesis
    using eviction_refills_bucket [OF fresh _ _ sa(3,4) _ refl ok, of 0 "650 * second" "700 * second"] slow
    by (simp add: cfg sa(2) unix_def sa_BeforeSend_result sa_BeforeSend_state flip: sa_def)
qed

end
