(* ===== verification/Email_Auth.thy ===== *)
theory Email_Auth
  imports Plugin
begin

text \<open>
  The email authentication plugin (\<open>internal/plugin/email_auth.go\<close>): SPF, DKIM and DMARC policies
  evaluated on the internal headers of a draft. DNS and the public suffix list are the record
  \<open>dns_env\<close>; \<open>mail.ParseAddress\<close> is a field of the library record.
\<close>

section \<open>Model\<close>

record dns_env =
  net_LookupTXT :: "string \<Rightarrow> string list option"
  EffectiveTLDPlusOne :: "string \<Rightarrow> string option"

record EmailAuthConfig =
  SPFPolicy :: string
  DKIMPolicy :: string
  DMARCPolicy :: string

record EmailAuthPlugin =
  ea_name :: string
  ea_cfg :: EmailAuthConfig

definition NewEmailAuth :: "string \<Rightarrow> EmailAuthConfig \<Rightarrow> EmailAuthPlugin" where
  "NewEmailAuth nm cfg = \<lparr>ea_name = nm, ea_cfg = cfg\<rparr>"

definition checkSPF :: "golib \<Rightarrow> EmailAuthPlugin \<Rightarrow> strmap \<Rightarrow> error option" where
  "checkSPF G p headers =
     (let policy = SPFPolicy (ea_cfg p) in
      if policy = '''' \<or> policy = ''off'' then None
      else
        (let result = gm_str headers ''X-SPF-Result'';
             failed = (result = ''fail'' \<or> result = ''softfail'');
             missing = (result = '''' \<or> result = ''none'')
         in if policy = ''warn'' then None
            else if policy = ''reject'' then
              (if failed then Some (reject (ea_name p) (''SPF check failed: '' @ result)) else None)
            else if policy = ''require'' then
              (if missing \<or> failed
               then Some (reject (ea_name p) (''SPF check required but result is '' @ quote G result)) else None)
            else None))"

definition checkDKIM :: "golib \<Rightarrow> EmailAuthPlugin \<Rightarrow> strmap \<Rightarrow> error option" where
  "checkDKIM G p headers =
     (let policy = DKIMPolicy (ea_cfg p) in
      if policy = '''' \<or> policy = ''off'' then None
      else
        (let result = gm_str headers ''X-DKIM-Result'';
             failed = (result = ''fail'');
             missing = (result = '''' \<or> result = ''none'')
         in if policy = ''warn'' then None
            else if policy = ''reject'' then
              (if failed then Some (reject (ea_name p) (''DKIM verification failed: '' @ result)) else None)
            else if policy = ''require'' then
              (if missing \<or> failed
               then Some (reject (ea_name p) (''DKIM required but result is '' @ quote G result)) else None)
            else None))"

text \<open>One tag of a DMARC record, and the first record of the answer.\<close>

definition dmarc_tag :: "golib \<Rightarrow> string \<times> string \<times> string \<Rightarrow> string \<Rightarrow> string \<times> string \<times> string" where
  "dmarc_tag G acc tag0 =
     (let (p, aspf, adkim) = acc; tag = trim_space G tag0 in
      if has_prefix tag ''p='' then (to_lower G (trim_prefix ''p='' tag), aspf, adkim)
      else if has_prefix tag ''aspf='' then (p, to_lower G (trim_prefix ''aspf='' tag), adkim)
      else if has_prefix tag ''adkim='' then (p, aspf, to_lower G (trim_prefix ''adkim='' tag))
      else (p, aspf, adkim))"

fun parseDMARCRecord :: "golib \<Rightarrow> string list \<Rightarrow> string \<times> string \<times> string" where
  "parseDMARCRecord G [] = ('''', ''r'', ''r'')"
| "parseDMARCRecord G (txt # txts) =
     (if \<not> has_prefix txt ''v=DMARC1'' then parseDMARCRecord G txts
      else foldl (dmarc_tag G) ('''', ''r'', ''r'') (split_byte CHR '';'' txt))"

definition domainOf :: "golib \<Rightarrow> string \<Rightarrow> string" where
  "domainOf G addr = (case cut CHR ''@'' addr of Some (_, d) \<Rightarrow> to_lower G d | None \<Rightarrow> to_lower G addr)"

definition orgDomain :: "dns_env \<Rightarrow> string \<Rightarrow> string" where
  "orgDomain D domain =
     (case EffectiveTLDPlusOne D domain of
        Some etld1 \<Rightarrow> etld1
      | None \<Rightarrow>
          (let parts = split_byte CHR ''.'' domain in
           if length parts \<le> 2 then domain else join ''.'' (drop (length parts - 2) parts)))"

definition domainMatch :: "golib \<Rightarrow> dns_env \<Rightarrow> string \<Rightarrow> string \<Rightarrow> string \<Rightarrow> bool" where
  "domainMatch G D got want mode =
     (if got = '''' \<or> want = '''' then False
      else
        (let got1 = to_lower G got; want1 = to_lower G want in
         if equal_fold G got1 want1 then True
         else if mode = ''s'' then False
         else orgDomain D got1 = orgDomain D want1))"

text \<open>The RFC 5322 From domain, if the header is present and parses.\<close>

definition from_domain :: "golib \<Rightarrow> strmap \<Rightarrow> string option" where
  "from_domain G headers =
     (let fromHeader = gm_str headers ''From'' in
      if fromHeader = '''' then None
      else case mail_ParseAddress G fromHeader of
             None \<Rightarrow> None
           | Some address \<Rightarrow> (case cut CHR ''@'' address of None \<Rightarrow> None | Some (_, d) \<Rightarrow> Some (to_lower G d)))"

definition aligned :: "golib \<Rightarrow> dns_env \<Rightarrow> strmap \<Rightarrow> string \<Rightarrow> string \<Rightarrow> string \<Rightarrow> bool" where
  "aligned G D headers fromDomain aspf adkim \<longleftrightarrow>
     (let spfPass = (gm_str headers ''X-SPF-Result'' = ''pass''
                     \<and> domainMatch G D (domainOf G (gm_str headers ''X-SMTP-Envelope-From'')) fromDomain aspf);
          dkimPass = (gm_str headers ''X-DKIM-Result'' = ''pass''
                      \<and> domainMatch G D (to_lower G (gm_str headers ''X-DKIM-Domain'')) fromDomain adkim)
      in spfPass \<or> dkimPass)"

definition checkDMARC :: "golib \<Rightarrow> dns_env \<Rightarrow> EmailAuthPlugin \<Rightarrow> strmap \<Rightarrow> error option" where
  "checkDMARC G D p headers =
     (let policy = DMARCPolicy (ea_cfg p) in
      if policy = '''' \<or> policy = ''off'' then None
      else case from_domain G headers of
             None \<Rightarrow> None
           | Some fromDomain \<Rightarrow>
               (case net_LookupTXT D (''_dmarc.'' @ fromDomain) of
                  None \<Rightarrow> None
                | Some txts \<Rightarrow>
                    (let (dnsPolicy, aspf, adkim) = parseDMARCRecord G txts in
                     if dnsPolicy = '''' \<or> dnsPolicy = ''none'' then None
                     else if aligned G D headers fromDomain aspf adkim then None
                     else
                       (let msg = ''DMARC failed for '' @ fromDomain @ '' (dns_policy='' @ dnsPolicy @ '' spf=''
                              @ gm_str headers ''X-SPF-Result'' @ '' dkim='' @ gm_str headers ''X-DKIM-Result'' @ '')''
                        in if policy = ''reject'' then Some (reject (ea_name p) msg) else None))))"

definition ea_BeforeSend :: "golib \<Rightarrow> dns_env \<Rightarrow> EmailAuthPlugin \<Rightarrow> draft \<Rightarrow> error option" where
  "ea_BeforeSend G D p d =
     (let headers = GetHeaders d in
      case checkSPF G p headers of
        Some e \<Rightarrow> Some e
      | None \<Rightarrow> (case checkDKIM G p headers of Some e \<Rightarrow> Some e | None \<Rightarrow> checkDMARC G D p headers))"

section \<open>Rejections\<close>

lemma checkSPF_rejects: "checkSPF G p h = Some e \<Longrightarrow> rejected_by (ea_name p) (Some e)"
  by (auto simp: checkSPF_def Let_def split: if_splits)

lemma checkDKIM_rejects: "checkDKIM G p h = Some e \<Longrightarrow> rejected_by (ea_name p) (Some e)"
  by (auto simp: checkDKIM_def Let_def split: if_splits)

lemma checkDMARC_rejects: "checkDMARC G D p h = Some e \<Longrightarrow> rejected_by (ea_name p) (Some e)"
  by (auto simp: checkDMARC_def Let_def split: if_splits option.splits prod.splits)

interpretation eah: send_hook "\<lambda>now p d. (p, ea_BeforeSend G D p d)" "\<lambda>_. True" ea_name
  by unfold_locales
     (auto simp: ea_BeforeSend_def Let_def dest: checkSPF_rejects checkDKIM_rejects checkDMARC_rejects split: option.splits)

section \<open>Organisational domains\<close>

text \<open>Without an entry in the public suffix list the organisational domain is the last two labels.\<close>

lemma orgDomain_two_labels:
  assumes "EffectiveTLDPlusOne D (sub @ ''.'' @ a @ ''.'' @ b) = None" and "EffectiveTLDPlusOne D (a @ ''.'' @ b) = None"
    and "CHR ''.'' \<notin> set a" and "CHR ''.'' \<notin> set b"
  shows "orgDomain D (sub @ ''.'' @ a @ ''.'' @ b) = a @ ''.'' @ b \<and> orgDomain D (a @ ''.'' @ b) = a @ ''.'' @ b"
proof -
  have ab: "split_byte CHR ''.'' (a @ CHR ''.'' # b) = [a, b]"
    by (simp only: split_byte_append split_byte_whole [OF assms(3)] split_byte_whole [OF assms(4)] append_Cons append_Nil)
  have sab: "split_byte CHR ''.'' (sub @ CHR ''.'' # a @ CHR ''.'' # b) = split_byte CHR ''.'' sub @ [a, b]"
    unfolding split_byte_append [of _ sub] ab ..
  show ?thesis
    using assms(1,2) split_byte_nonempty [of "CHR ''.''" sub] by (simp add: orgDomain_def ab sab Let_def)
qed

section \<open>DMARC\<close>

text \<open>Rendering of a DMARC record with its policy and alignment modes.\<close>

definition dmarc_record :: "string \<Rightarrow> string \<Rightarrow> string \<Rightarrow> string" where
  "dmarc_record p aspf adkim = ''v=DMARC1; p='' @ p @ ''; aspf='' @ aspf @ ''; adkim='' @ adkim"

definition tag_value :: "string \<Rightarrow> bool" where
  "tag_value v \<longleftrightarrow> v \<noteq> [] \<and> list_all (\<lambda>c. 97 \<le> byte c \<and> byte c \<le> 122) v"

lemma tag_valueD:
  assumes "tag_value v"
  shows "ascii v" "map ascii_lower v = v" "c \<in> set v \<Longrightarrow> \<not> ascii_space c \<and> c \<noteq> CHR '';''" "v \<noteq> []"
proof -
  have r: "\<And>c. c \<in> set v \<Longrightarrow> 97 \<le> byte c \<and> byte c \<le> 122" using assms by (auto simp: tag_value_def list_all_iff)
  show "ascii v" using r by (fastforce simp: ascii_def list_all_iff)
  show "map ascii_lower v = v"
    by (intro map_idI) (auto simp: ascii_lower_def dest!: r)
  show "c \<in> set v \<Longrightarrow> \<not> ascii_space c \<and> c \<noteq> CHR '';''" using r [of c] by (auto simp: ascii_space_def)
  show "v \<noteq> []" using assms by (simp add: tag_value_def)
qed

lemma ascii_space_blank: "ascii_space CHR '' ''"
  by (simp add: ascii_space_def)

lemma trim_space_value:
  assumes "ascii s" and "s \<noteq> []" and "\<not> ascii_space (hd s)" and "\<not> ascii_space (last s)"
  shows "trim_space G (CHR '' '' # s) = s" and "trim_space G s = s"
proof -
  obtain c t where s: "s = c # t" using assms(2) by (cases s) auto
  obtain e u where r: "rev s = e # u" using assms(2) by (cases "rev s") auto
  have "last s = e" using r by (metis last_snoc rev.simps(2) rev_rev_ident)
  then have d: "dropWhile ascii_space (rev s) = rev s" using assms(4) r by simp
  have h: "dropWhile ascii_space s = s" "dropWhile ascii_space (CHR '' '' # s) = s"
    using assms(3) s ascii_space_blank by simp_all
  show "trim_space G (CHR '' '' # s) = s" "trim_space G s = s"
    using assms(1) h d by (simp_all add: trim_space_def)
qed

text \<open>Parsing inverts rendering: the three tags are found and nothing else matters.\<close>

lemma parse_dmarc_record:
  assumes "tag_value p" and "tag_value aspf" and "tag_value adkim"
  shows "parseDMARCRecord G (dmarc_record p aspf adkim # txts) = (p, aspf, adkim)"
proof -
  have no: "CHR '';'' \<notin> set p" "CHR '';'' \<notin> set aspf" "CHR '';'' \<notin> set adkim"
    using tag_valueD(3) assms by blast+
  have sp: "split_byte CHR '';'' (dmarc_record p aspf adkim) =
      [''v=DMARC1'', '' p='' @ p, '' aspf='' @ aspf, '' adkim='' @ adkim]"
    by (simp add: dmarc_record_def split_byte_append split_byte_whole no)
  have l: "\<not> ascii_space (last v)" if "tag_value v" for v
    using tag_valueD(3,4) [OF that] by (meson last_in_set)
  have t: "trim_space G (CHR '' '' # s @ v) = s @ v" if "tag_value v" "ascii s" "s \<noteq> []" "\<not> ascii_space (hd s)" for s v
    using that l [OF that(1)] tag_valueD(1,4) [OF that(1)] by (intro trim_space_value) (simp_all add: last_append)
  have v: "trim_space G ''v=DMARC1'' = ''v=DMARC1''"
    by (rule trim_space_value) (simp_all add: ascii_space_def)
  have "trim_space G ('' p='' @ p) = ''p='' @ p" "trim_space G ('' aspf='' @ aspf) = ''aspf='' @ aspf"
    "trim_space G ('' adkim='' @ adkim) = ''adkim='' @ adkim"
    using t [OF assms(1), of "''p=''"] t [OF assms(2), of "''aspf=''"] t [OF assms(3), of "''adkim=''"]
    by (simp_all add: ascii_space_def)
  moreover have "to_lower G p = p" "to_lower G aspf = aspf" "to_lower G adkim = adkim"
    using tag_valueD(1,2) assms by simp_all
  moreover have "has_prefix (dmarc_record p aspf adkim) ''v=DMARC1''"
    by (simp add: dmarc_record_def)
  ultimately show ?thesis
    using v by (simp add: sp dmarc_tag_def trim_prefix_def)
qed


text \<open>With the setting \<open>warn\<close> a DMARC failure is never enforced, even when the From domain
  publishes \<open>p=reject\<close> and neither SPF nor DKIM passed; the configuration comment says that the
  stricter of the published policy and the setting applies.\<close>

theorem dmarc_warn_not_stricter:
  assumes "DMARCPolicy (ea_cfg p) = ''warn''"
  shows "checkDMARC G D p h = None"
  using assms by (auto simp: checkDMARC_def Let_def split: option.split prod.split)

definition dns_ex :: dns_env where
  "dns_ex = \<lparr>net_LookupTXT = (\<lambda>_. Some [dmarc_record ''reject'' ''s'' ''r'']), EffectiveTLDPlusOne = (\<lambda>_. None)\<rparr>"


theorem dmarc_warn_not_stricter_witness:
  "checkDMARC golib_ex dns_ex (NewEmailAuth ''ea'' \<lparr>SPFPolicy = ''off'', DKIMPolicy = ''off'', DMARCPolicy = ''warn''\<rparr>)
     [(''From'', ''a@x.org'')] = None"
  by (rule dmarc_warn_not_stricter) (simp add: NewEmailAuth_def)

end
