(* ===== verification/Smtp_Security.thy ===== *)
theory Smtp_Security
  imports Plugin
begin

text \<open>
  The SMTP security plugin (\<open>internal/plugin/smtp_security.go\<close>) and the Redis lockout store
  (\<open>internal/plugin/redis_lockout.go\<close>): lockout of an IP after repeated AUTH failures, sender
  domain lists, envelope spoofing, subject length and authenticated senders.

  The Go interface \<open>LockoutStore\<close> is the record \<open>lockout_ops\<close> and its contract the locale
  \<open>lockout_store\<close>: the failure that reaches the threshold locks the IP for the lockout time. The
  in-process map of the plugin (with its 32-bit counter) interprets it; the Redis store is shown to
  satisfy it for every client with the documented behaviour of INCR, EXPIRE, SET and EXISTS.
\<close>

section \<open>Model\<close>

record SMTPSecurityConfig =
  MaxAuthFailuresPerIP :: int
  LockoutDuration :: duration
  IPLookupTTL :: duration
  EnvelopeSpoofCheck :: bool
  AllowedSenderDomains :: "string list"
  BlockedSenderDomains :: "string list"
  MaxSubjectBytes :: int
  RequireAuthenticatedSender :: bool

record ipEntry =
  failures :: "32 word"
  lockedUntil :: gotime
  lastSeen :: int

type_synonym ipmap = "(string, ipEntry) gomap"

record 'l lockout_ops =
  lk_RecordFailure :: "gotime \<Rightarrow> 'l \<Rightarrow> string \<Rightarrow> int \<Rightarrow> duration \<Rightarrow> duration \<Rightarrow> 'l \<times> bool result"
  lk_IsLockedOut :: "gotime \<Rightarrow> 'l \<Rightarrow> string \<Rightarrow> bool result"

record SMTPSecurityPlugin =
  sp_name :: string
  sp_cfg :: SMTPSecurityConfig
  allowedDomains :: strset
  blockedDomains :: strset
  ipMap :: ipmap
  sp_evicting :: bool
  sp_stopped :: bool

definition smtp_security_defaults :: "SMTPSecurityConfig \<Rightarrow> SMTPSecurityConfig" where
  "smtp_security_defaults cfg =
     cfg\<lparr>LockoutDuration := (if LockoutDuration cfg = 0 then 15 * minute else LockoutDuration cfg),
         IPLookupTTL := (if IPLookupTTL cfg = 0 then hour else IPLookupTTL cfg),
         MaxSubjectBytes := (if MaxSubjectBytes cfg = 0 then 998 else MaxSubjectBytes cfg)\<rparr>"

definition NewSMTPSecurityPlugin :: "golib \<Rightarrow> string \<Rightarrow> SMTPSecurityConfig \<Rightarrow> SMTPSecurityPlugin" where
  "NewSMTPSecurityPlugin G nm cfg =
     \<lparr>sp_name = nm, sp_cfg = smtp_security_defaults cfg, allowedDomains = toSet G (AllowedSenderDomains cfg),
      blockedDomains = toSet G (BlockedSenderDomains cfg), ipMap = [],
      sp_evicting = False, sp_stopped = False\<rparr>"

definition hostOnly :: "string \<Rightarrow> string" where
  "hostOnly addr = (case split_host_port addr of None \<Rightarrow> addr | Some (host, _) \<Rightarrow> host)"

definition senderDomain :: "golib \<Rightarrow> string \<Rightarrow> string" where
  "senderDomain G email =
     (case last_index_byte CHR ''@'' email of Some i \<Rightarrow> to_lower G (drop (Suc i) email) | None \<Rightarrow> '''')"

definition parseEmailAddr :: "golib \<Rightarrow> string \<Rightarrow> string" where
  "parseEmailAddr G header = (case mail_ParseAddress G header of None \<Rightarrow> header | Some address \<Rightarrow> address)"

text \<open>The in-memory branch of \<open>RecordAuthFailure\<close> and of \<open>IsLockedOut\<close>.\<close>

definition mem_RecordFailure :: "gotime \<Rightarrow> ipmap \<Rightarrow> string \<Rightarrow> int \<Rightarrow> duration \<Rightarrow> ipmap \<times> bool" where
  "mem_RecordFailure now m ip mx lockout =
     (let e = (case gm_get m ip of None \<Rightarrow> \<lparr>failures = 0, lockedUntil = 0, lastSeen = 0\<rparr> | Some e \<Rightarrow> e);
          n = failures e + 1;
          e1 = e\<lparr>lastSeen := unix now, failures := n\<rparr>
      in if mx \<le> sint n then (gm_put ip (e1\<lparr>lockedUntil := now + lockout\<rparr>) m, True)
         else (gm_put ip e1 m, False))"

definition mem_IsLockedOut :: "gotime \<Rightarrow> ipmap \<Rightarrow> string \<Rightarrow> bool" where
  "mem_IsLockedOut now m ip = (case gm_get m ip of None \<Rightarrow> False | Some e \<Rightarrow> now < lockedUntil e)"

definition RecordAuthFailure ::
  "'l lockout_ops option \<Rightarrow> gotime \<Rightarrow> 'l \<times> SMTPSecurityPlugin \<Rightarrow> string \<Rightarrow> ('l \<times> SMTPSecurityPlugin) \<times> bool" where
  "RecordAuthFailure store now st remoteAddr =
     (let (l, p) = st; cfg = sp_cfg p in
      if MaxAuthFailuresPerIP cfg = 0 then (st, False)
      else
        (let ip = hostOnly remoteAddr in
         case store of
           Some K \<Rightarrow>
             (case lk_RecordFailure K now l ip (MaxAuthFailuresPerIP cfg) (IPLookupTTL cfg) (LockoutDuration cfg) of
                (l', Inl _) \<Rightarrow> ((l', p), False)
              | (l', Inr locked) \<Rightarrow> ((l', p), locked))
         | None \<Rightarrow>
             (let (m, locked) = mem_RecordFailure now (ipMap p) ip (MaxAuthFailuresPerIP cfg) (LockoutDuration cfg)
              in ((l, p\<lparr>ipMap := m\<rparr>), locked))))"

definition IsLockedOut :: "'l lockout_ops option \<Rightarrow> gotime \<Rightarrow> 'l \<times> SMTPSecurityPlugin \<Rightarrow> string \<Rightarrow> bool" where
  "IsLockedOut store now st remoteAddr =
     (let (l, p) = st in
      if MaxAuthFailuresPerIP (sp_cfg p) = 0 then False
      else
        (let ip = hostOnly remoteAddr in
         case store of
           Some K \<Rightarrow> (case lk_IsLockedOut K now l ip of Inl _ \<Rightarrow> False | Inr locked \<Rightarrow> locked)
         | None \<Rightarrow> mem_IsLockedOut now (ipMap p) ip))"

definition sp_BeforeSend ::
  "golib \<Rightarrow> 'l lockout_ops option \<Rightarrow> gotime \<Rightarrow> 'l \<times> SMTPSecurityPlugin \<Rightarrow> draft \<Rightarrow> error option" where
  "sp_BeforeSend G store now st d =
     (let p = snd st; cfg = sp_cfg p; headers = GetHeaders d; senderID = GetSenderID d;
          remoteAddr = gm_str headers ''X-SMTP-Remote-Addr'';
          domain = senderDomain G senderID;
          envelopeFrom = parseEmailAddr G (gm_str headers ''X-SMTP-Envelope-From'');
          subjlen = int (length (GetSubject d))
      in if remoteAddr \<noteq> '''' \<and> IsLockedOut store now st remoteAddr then
           Some (reject (sp_name p) (''connection from locked-out IP '' @ hostOnly remoteAddr))
         else if senderID \<noteq> '''' \<and> in_set domain (blockedDomains p) then
           Some (reject (sp_name p) (''sender domain '' @ quote G domain @ '' is blocked''))
         else if senderID \<noteq> '''' \<and> allowedDomains p \<noteq> [] \<and> \<not> in_set domain (allowedDomains p) then
           Some (reject (sp_name p) (''sender domain '' @ quote G domain @ '' is not in the allowlist''))
         else if EnvelopeSpoofCheck cfg \<and> envelopeFrom \<noteq> '''' \<and> senderID \<noteq> '''' \<and> \<not> equal_fold G envelopeFrom senderID then
           Some (reject (sp_name p) (''envelope sender '' @ quote G envelopeFrom @ '' does not match message sender '' @ quote G senderID))
         else if 0 < MaxSubjectBytes cfg \<and> MaxSubjectBytes cfg < subjlen then
           Some (reject (sp_name p) (''subject length '' @ itoa subjlen @ '' exceeds maximum of '' @ itoa (MaxSubjectBytes cfg) @ '' bytes''))
         else if RequireAuthenticatedSender cfg \<and> senderID = '''' then
           Some (reject (sp_name p) ''unauthenticated sender not permitted'')
         else None)"

definition sp_evict :: "gotime \<Rightarrow> SMTPSecurityPlugin \<Rightarrow> SMTPSecurityPlugin" where
  "sp_evict now p =
     (let cutoff = unix (now - IPLookupTTL (sp_cfg p))
      in p\<lparr>ipMap := filter (\<lambda>(ip, e). \<not> (lastSeen e < cutoff \<and> lockedUntil e < now)) (ipMap p)\<rparr>)"

text \<open>\<open>Init\<close> starts the eviction goroutine once, \<open>Close\<close> stops it once; one tick of \<open>evictLoop\<close>.\<close>

definition sp_Init :: "SMTPSecurityPlugin \<Rightarrow> SMTPSecurityPlugin" where
  "sp_Init p = p\<lparr>sp_evicting := True\<rparr>"

definition sp_Close :: "SMTPSecurityPlugin \<Rightarrow> SMTPSecurityPlugin" where
  "sp_Close p = p\<lparr>sp_stopped := True\<rparr>"

definition sp_tick :: "gotime \<Rightarrow> SMTPSecurityPlugin \<Rightarrow> SMTPSecurityPlugin" where
  "sp_tick now p = (if sp_evicting p \<and> \<not> sp_stopped p then sp_evict now p else p)"

section \<open>Redis lockout store\<close>

record 'r redis_lock_ops =
  rl_Incr :: "gotime \<Rightarrow> 'r \<Rightarrow> string \<Rightarrow> 'r \<times> int result"
  rl_Expire :: "gotime \<Rightarrow> 'r \<Rightarrow> string \<Rightarrow> duration \<Rightarrow> 'r \<times> error option"
  rl_Set :: "gotime \<Rightarrow> 'r \<Rightarrow> string \<Rightarrow> int \<Rightarrow> duration \<Rightarrow> 'r \<times> error option"
  rl_Exists :: "gotime \<Rightarrow> 'r \<Rightarrow> string \<Rightarrow> int result"

definition defaultLockoutKeyPrefix :: string where "defaultLockoutKeyPrefix = ''postbox:lockout''"

definition NewRedisLockoutStore :: "string \<Rightarrow> string" where
  "NewRedisLockoutStore keyPrefix = (if keyPrefix = '''' then defaultLockoutKeyPrefix else keyPrefix)"

definition cntKey :: "string \<Rightarrow> string \<Rightarrow> string" where
  "cntKey keyPrefix ip = keyPrefix @ '':cnt:'' @ ip"

definition blockedKey :: "string \<Rightarrow> string \<Rightarrow> string" where
  "blockedKey keyPrefix ip = keyPrefix @ '':blocked:'' @ ip"

definition redis_RecordFailure ::
  "'r redis_lock_ops \<Rightarrow> string \<Rightarrow> gotime \<Rightarrow> 'r \<Rightarrow> string \<Rightarrow> int \<Rightarrow> duration \<Rightarrow> duration \<Rightarrow> 'r \<times> bool result" where
  "redis_RecordFailure R keyPrefix now r ip mx window lockout =
     (case rl_Incr R now r (cntKey keyPrefix ip) of
        (r1, Inl e) \<Rightarrow> (r1, Inl (EWrap (''redis lockout: incr '' @ cntKey keyPrefix ip) e))
      | (r1, Inr n) \<Rightarrow>
          (case (if n = 1 then rl_Expire R now r1 (cntKey keyPrefix ip) window else (r1, None)) of
             (r2, Some e) \<Rightarrow> (r2, Inl (EWrap (''redis lockout: expire '' @ cntKey keyPrefix ip) e))
           | (r2, None) \<Rightarrow>
               if mx \<le> n then
                 (case rl_Set R now r2 (blockedKey keyPrefix ip) 1 lockout of
                    (r3, Some e) \<Rightarrow> (r3, Inl (EWrap (''redis lockout: set blocked '' @ blockedKey keyPrefix ip) e))
                  | (r3, None) \<Rightarrow> (r3, Inr True))
               else (r2, Inr False)))"

definition redis_IsLockedOut :: "'r redis_lock_ops \<Rightarrow> string \<Rightarrow> gotime \<Rightarrow> 'r \<Rightarrow> string \<Rightarrow> bool result" where
  "redis_IsLockedOut R keyPrefix now r ip =
     (case rl_Exists R now r (blockedKey keyPrefix ip) of
        Inl e \<Rightarrow> Inl (EWrap (''redis lockout: exists '' @ blockedKey keyPrefix ip) e)
      | Inr n \<Rightarrow> Inr (0 < n))"

definition redis_lockout :: "'r redis_lock_ops \<Rightarrow> string \<Rightarrow> 'r lockout_ops" where
  "redis_lockout R keyPrefix =
     \<lparr>lk_RecordFailure = redis_RecordFailure R keyPrefix, lk_IsLockedOut = redis_IsLockedOut R keyPrefix\<rparr>"

text \<open>The in-memory tracker seen through the same interface.\<close>

definition mem_lockout :: "ipmap lockout_ops" where
  "mem_lockout =
     \<lparr>lk_RecordFailure = (\<lambda>now m ip mx window lockout. map_prod id Inr (mem_RecordFailure now m ip mx lockout)),
      lk_IsLockedOut = (\<lambda>now m ip. Inr (mem_IsLockedOut now m ip))\<rparr>"

lemma mem_lockout_simps:
  "lk_RecordFailure mem_lockout now m ip mx w lockout =
     (fst (mem_RecordFailure now m ip mx lockout), Inr (snd (mem_RecordFailure now m ip mx lockout)))"
  "lk_IsLockedOut mem_lockout now m ip = Inr (mem_IsLockedOut now m ip)"
  by (simp_all add: mem_lockout_def map_prod_def case_prod_beta)

section \<open>The contract of a lockout store\<close>

locale lockout_store =
  fixes K :: "'l lockout_ops" and count :: "gotime \<Rightarrow> 'l \<Rightarrow> string \<Rightarrow> int"
  assumes record_result: "0 \<le> count now s ip \<Longrightarrow> count now s ip < 2 ^ 31 - 1
        \<Longrightarrow> lk_RecordFailure K now s ip mx window lockout = (s', Inr b) \<Longrightarrow> b \<longleftrightarrow> mx \<le> count now s ip + 1"
    and record_count: "0 \<le> count now s ip \<Longrightarrow> count now s ip < 2 ^ 31 - 1
        \<Longrightarrow> lk_RecordFailure K now s ip mx window lockout = (s', Inr b) \<Longrightarrow> now \<le> t
        \<Longrightarrow> (count now s ip = 0 \<longrightarrow> t < now + window) \<Longrightarrow> (0 < count now s ip \<longrightarrow> count t s ip = count now s ip)
        \<Longrightarrow> count t s' ip = count now s ip + 1"
    and record_locks: "lk_RecordFailure K now s ip mx window lockout = (s', Inr True) \<Longrightarrow> now \<le> t \<Longrightarrow> t < now + lockout
        \<Longrightarrow> lk_IsLockedOut K t s' ip = Inr True"
    and record_other: "lk_RecordFailure K now s ip mx window lockout = (s', r) \<Longrightarrow> ip' \<noteq> ip
        \<Longrightarrow> lk_IsLockedOut K t s' ip' = lk_IsLockedOut K t s ip'"
begin

text \<open>A sequence of failures from one IP.\<close>

fun record_all :: "string \<Rightarrow> int \<Rightarrow> duration \<Rightarrow> duration \<Rightarrow> 'l \<Rightarrow> gotime list \<Rightarrow> 'l \<times> bool result list" where
  "record_all ip mx window lockout s [] = (s, [])"
| "record_all ip mx window lockout s (t # ts) =
     (let (s1, r) = lk_RecordFailure K t s ip mx window lockout; (s2, rs) = record_all ip mx window lockout s1 ts
      in (s2, r # rs))"

lemma failures_counted:
  assumes "record_all ip mx window lockout s ts = (s', rs)" and "list_all ok rs" and "sorted ts" and "ts \<noteq> []"
    and "\<And>t. hd ts \<le> t \<Longrightarrow> t < bound \<Longrightarrow> count t s ip = k" and "0 \<le> k" and "k + int (length ts) < 2 ^ 31"
    and "last ts < bound" and "k = 0 \<Longrightarrow> bound \<le> hd ts + window"
  shows "(\<forall>t. last ts \<le> t \<and> t < bound \<longrightarrow> count t s' ip = k + int (length ts))
    \<and> (last rs = Inr True \<longleftrightarrow> mx \<le> k + int (length ts))
    \<and> (last rs = Inr True \<longrightarrow> (\<forall>t. last ts \<le> t \<and> t < last ts + lockout \<longrightarrow> lk_IsLockedOut K t s' ip = Inr True))"
  using assms
proof (induction ts arbitrary: s s' rs k)
  case (Cons t0 ts)
  obtain s1 r where r: "lk_RecordFailure K t0 s ip mx window lockout = (s1, r)" by fastforce
  obtain s2 rs2 where rest: "record_all ip mx window lockout s1 ts = (s2, rs2)" by fastforce
  have rs: "rs = r # rs2" "s' = s2" using Cons.prems(1) r rest by simp_all
  obtain b where b: "r = Inr b" using Cons.prems(2) rs by (cases r) auto
  have "t0 \<le> last (t0 # ts)" using Cons.prems(3) by (cases ts) auto
  then have t0: "t0 < bound" using Cons.prems(8) by simp
  have k: "count t0 s ip = k" using Cons.prems(5) [of t0] t0 by simp
  have k31: "k < 2 ^ 31 - 1" using Cons.prems(7) by simp
  have c1: "count t s1 ip = k + 1" if "t0 \<le> t" "t < bound" for t
  proof -
    have "k = 0 \<longrightarrow> t < t0 + window" using Cons.prems(9) that by auto
    then show ?thesis
      using record_count [OF _ _ r [unfolded b] that(1)] k k31 Cons.prems(5) [of t] Cons.prems(6) that by simp
  qed
  have b_iff: "b \<longleftrightarrow> mx \<le> k + 1"
    using record_result [OF _ _ r [unfolded b]] k k31 Cons.prems(6) by simp
  show ?case
  proof (cases "ts = []")
    case True
    then show ?thesis
      using rest rs b b_iff c1 record_locks r by auto
  next
    case False
    have hd: "t0 \<le> hd ts" using Cons.prems(3) False by (cases ts) auto
    have ne: "rs2 \<noteq> []" using rest False by (cases ts) (auto split: prod.splits)
    have "list_all ok rs2" "sorted ts" using Cons.prems(2,3) rs by simp_all
    moreover have "count t s1 ip = k + 1" if "hd ts \<le> t" "t < bound" for t using c1 hd that by simp
    ultimately have "(\<forall>t. last ts \<le> t \<and> t < bound \<longrightarrow> count t s2 ip = k + 1 + int (length ts))
      \<and> (last rs2 = Inr True \<longleftrightarrow> mx \<le> k + 1 + int (length ts))
      \<and> (last rs2 = Inr True \<longrightarrow> (\<forall>t. last ts \<le> t \<and> t < last ts + lockout \<longrightarrow> lk_IsLockedOut K t s2 ip = Inr True))"
      using Cons.IH [OF rest _ _ False, of "k + 1"] Cons.prems(6,7,8) False by simp
    then show ?thesis using rs ne False by (simp add: algebra_simps)
  qed
qed simp

text \<open>The threshold failure inside one window locks the IP, and no earlier one does.\<close>

lemma burst_locks:
  assumes "record_all ip mx window lockout s ts = (s', rs)" and "list_all ok rs" and "sorted ts" and "ts \<noteq> []"
    and "\<And>t. hd ts \<le> t \<Longrightarrow> count t s ip = 0" and "int (length ts) < 2 ^ 31" and "last ts < hd ts + window"
    and "mx \<le> int (length ts)" and "last ts \<le> t" and "t < last ts + lockout"
  shows "lk_IsLockedOut K t s' ip = Inr True"
  using failures_counted [OF assms(1-4), of "hd ts + window" 0] assms(5-10) by auto

end

section \<open>The in-process tracker\<close>

definition mem_count :: "gotime \<Rightarrow> ipmap \<Rightarrow> string \<Rightarrow> int" where
  "mem_count t m ip = (case gm_get m ip of None \<Rightarrow> 0 | Some e \<Rightarrow> sint (failures e))"

lemma sint_succ32:
  fixes w :: "32 word"
  assumes "0 \<le> sint w" and "sint w < 2 ^ 31 - 1"
  shows "sint (w + 1) = sint w + 1"
  using assms by (simp add: sint_word_ariths(1) signed_take_bit_int_eq_self)

interpretation mlk: lockout_store mem_lockout mem_count
proof (unfold_locales, goal_cases)
  case (1 now s ip mx window lockout s' b)
  then show ?case
    by (auto simp: mem_lockout_def mem_RecordFailure_def mem_count_def Let_def sint_succ32 split: option.splits if_splits)
next
  case (2 now s ip mx window lockout s' b t)
  then show ?case
    by (auto simp: mem_lockout_def mem_RecordFailure_def mem_count_def Let_def sint_succ32 split: option.splits if_splits)
next
  case (3 now s ip mx window lockout s' t)
  then show ?case
    by (auto simp: mem_lockout_def mem_RecordFailure_def mem_IsLockedOut_def Let_def split: if_splits)
next
  case (4 now s ip mx window lockout s' r ip' t)
  then show ?case
    by (auto simp: mem_lockout_def mem_RecordFailure_def mem_IsLockedOut_def Let_def split: if_splits)
qed

section \<open>Redis\<close>

text \<open>Documented behaviour of the commands, for a valuation of the keys: a value and an optional
  expiry time.\<close>

type_synonym redis_val = "string \<Rightarrow> (int \<times> gotime option) option"

definition live :: "gotime \<Rightarrow> (int \<times> gotime option) option \<Rightarrow> int option" where
  "live t v = (case v of None \<Rightarrow> None | Some (n, None) \<Rightarrow> Some n | Some (n, Some x) \<Rightarrow> if t < x then Some n else None)"

definition incr_sound :: "'r redis_lock_ops \<Rightarrow> ('r \<Rightarrow> redis_val) \<Rightarrow> bool" where
  "incr_sound R val \<longleftrightarrow> (\<forall>now r k r' i. rl_Incr R now r k = (r', i) \<longrightarrow>
     (case i of Inl e \<Rightarrow> val r' = val r
      | Inr n \<Rightarrow> val r' = (val r)(k \<mapsto> (n, if live now (val r k) = None then None else snd (the (val r k))))
                \<and> n = (case live now (val r k) of None \<Rightarrow> 1 | Some v \<Rightarrow> v + 1)))"

definition expire_sound :: "'r redis_lock_ops \<Rightarrow> ('r \<Rightarrow> redis_val) \<Rightarrow> bool" where
  "expire_sound R val \<longleftrightarrow> (\<forall>now r k d r' e. rl_Expire R now r k d = (r', e) \<longrightarrow>
     val r' = (case (e, val r k) of (None, Some (v, x)) \<Rightarrow> (val r)(k \<mapsto> (v, Some (now + d))) | _ \<Rightarrow> val r))"

definition set_sound :: "'r redis_lock_ops \<Rightarrow> ('r \<Rightarrow> redis_val) \<Rightarrow> bool" where
  "set_sound R val \<longleftrightarrow> (\<forall>now r k v d r' e. rl_Set R now r k v d = (r', e) \<longrightarrow>
     val r' = (if e = None then (val r)(k \<mapsto> (v, Some (now + d))) else val r))"

definition exists_sound :: "'r redis_lock_ops \<Rightarrow> ('r \<Rightarrow> redis_val) \<Rightarrow> bool" where
  "exists_sound R val \<longleftrightarrow> (\<forall>now r k. rl_Exists R now r k = Inr (if live now (val r k) = None then 0 else 1))"

definition redis_lock_sound :: "'r redis_lock_ops \<Rightarrow> ('r \<Rightarrow> redis_val) \<Rightarrow> bool" where
  "redis_lock_sound R val \<longleftrightarrow> incr_sound R val \<and> expire_sound R val \<and> set_sound R val \<and> exists_sound R val"

lemma redis_IncrD:
  assumes "redis_lock_sound R val" and "rl_Incr R now r k = (r', i)"
  shows "case i of Inl e \<Rightarrow> val r' = val r
      | Inr n \<Rightarrow> val r' = (val r)(k \<mapsto> (n, if live now (val r k) = None then None else snd (the (val r k))))
                \<and> n = (case live now (val r k) of None \<Rightarrow> 1 | Some v \<Rightarrow> v + 1)"
proof -
  have "incr_sound R val" using assms(1) by (simp add: redis_lock_sound_def)
  then show ?thesis unfolding incr_sound_def using assms(2) by blast
qed

lemma redis_ExpireD:
  assumes "redis_lock_sound R val" and "rl_Expire R now r k d = (r', e)"
  shows "val r' = (case (e, val r k) of (None, Some (v, x)) \<Rightarrow> (val r)(k \<mapsto> (v, Some (now + d))) | _ \<Rightarrow> val r)"
proof -
  have "expire_sound R val" using assms(1) by (simp add: redis_lock_sound_def)
  then show ?thesis unfolding expire_sound_def using assms(2) by blast
qed

lemma redis_SetD:
  assumes "redis_lock_sound R val" and "rl_Set R now r k v d = (r', e)"
  shows "val r' = (if e = None then (val r)(k \<mapsto> (v, Some (now + d))) else val r)"
proof -
  have "set_sound R val" using assms(1) by (simp add: redis_lock_sound_def)
  then show ?thesis unfolding set_sound_def using assms(2) by blast
qed

definition redis_count :: "('r \<Rightarrow> redis_val) \<Rightarrow> string \<Rightarrow> gotime \<Rightarrow> 'r \<Rightarrow> string \<Rightarrow> int" where
  "redis_count val keyPrefix t r ip = (case live t (val r (cntKey keyPrefix ip)) of None \<Rightarrow> 0 | Some v \<Rightarrow> v)"

lemma key_neq [simp]: "cntKey p ip \<noteq> blockedKey p ip'" "blockedKey p ip \<noteq> cntKey p ip'"
  by (simp_all add: cntKey_def blockedKey_def)

lemma key_inject [simp]: "cntKey p ip = cntKey p ip' \<longleftrightarrow> ip = ip'" "blockedKey p ip = blockedKey p ip' \<longleftrightarrow> ip = ip'"
  by (simp_all add: cntKey_def blockedKey_def)

lemma redis_IsLockedOut_val:
  "redis_lock_sound R val \<Longrightarrow> redis_IsLockedOut R p t r ip = Inr (live t (val r (blockedKey p ip)) \<noteq> None)"
  by (simp add: redis_lock_sound_def exists_sound_def redis_IsLockedOut_def)

text \<open>The effect of \<open>RecordFailure\<close> on the keys.\<close>

lemma redis_Record_cases:
  assumes "redis_lock_sound R val" and "redis_RecordFailure R p now r ip mx window lockout = (r', res)"
  shows "(\<forall>k. k \<noteq> cntKey p ip \<and> k \<noteq> blockedKey p ip \<longrightarrow> val r' k = val r k)
    \<and> (\<forall>b. res = Inr b \<longrightarrow>
         (let v = live now (val r (cntKey p ip)); n = (case v of None \<Rightarrow> 1 | Some v \<Rightarrow> v + 1) in
            b = (mx \<le> n)
            \<and> val r' (cntKey p ip) = Some (n, if n = 1 then Some (now + window) else (if v = None then None else snd (the (val r (cntKey p ip)))))
            \<and> (b \<longrightarrow> val r' (blockedKey p ip) = Some (1, Some (now + lockout)))))"
proof -
  note rs = assms(1)
  obtain r1 i where i: "rl_Incr R now r (cntKey p ip) = (r1, i)" by fastforce
  show ?thesis
  proof (cases i)
    case (Inl e)
    then show ?thesis using redis_IncrD [OF rs i] i assms(2) by (auto simp: redis_RecordFailure_def)
  next
    case (Inr n)
    obtain r2 x where x: "(if n = 1 then rl_Expire R now r1 (cntKey p ip) window else (r1, None)) = (r2, x)" by fastforce
    obtain r3 y where y: "rl_Set R now r2 (blockedKey p ip) 1 lockout = (r3, y)" by fastforce
    have v1: "val r1 = (val r)(cntKey p ip \<mapsto> (n, if live now (val r (cntKey p ip)) = None then None else snd (the (val r (cntKey p ip)))))"
      "n = (case live now (val r (cntKey p ip)) of None \<Rightarrow> 1 | Some v \<Rightarrow> v + 1)"
      using redis_IncrD [OF rs i] Inr by simp_all
    have v2: "x = None \<Longrightarrow> val r2 = (if n = 1 then (val r1)(cntKey p ip \<mapsto> (n, Some (now + window))) else val r1)"
      "x \<noteq> None \<Longrightarrow> val r2 = val r1"
      using x v1(1) redis_ExpireD [OF rs, of now r1 "cntKey p ip" window r2 x] by (auto split: if_splits)
    have v3: "y = None \<Longrightarrow> val r3 = (val r2)(blockedKey p ip \<mapsto> (1, Some (now + lockout)))" "y \<noteq> None \<Longrightarrow> val r3 = val r2"
      using redis_SetD [OF rs y] by auto
    have e: "(r', res) = (case x of Some e \<Rightarrow> (r2, Inl (EWrap (''redis lockout: expire '' @ cntKey p ip) e))
       | None \<Rightarrow> if mx \<le> n then (case y of Some e \<Rightarrow> (r3, Inl (EWrap (''redis lockout: set blocked '' @ blockedKey p ip) e)) | None \<Rightarrow> (r3, Inr True))
                else (r2, Inr False))"
      using assms(2) i Inr x y by (auto simp: redis_RecordFailure_def split: option.splits if_splits)
    show ?thesis
      using e v1 v2 v3 by (auto simp: Let_def split: option.splits if_splits)
  qed
qed

lemma live_Some: "live t (Some (n, x)) = (case x of None \<Rightarrow> Some n | Some e \<Rightarrow> if t < e then Some n else None)"
  by (simp add: live_def split: option.split)

lemma live_mono:
  assumes "live now v = Some n" and "now \<le> t"
  shows "live t v = Some n \<or> live t v = None" and "snd (the v) = None \<or> (\<exists>x. snd (the v) = Some x \<and> now < x)"
  using assms by (auto simp: live_def split: option.splits prod.splits if_splits)

lemma redis_lockout_store:
  assumes "redis_lock_sound R val"
  shows "lockout_store (redis_lockout R p) (redis_count val p)"
proof (unfold_locales, goal_cases)
  case (1 now s ip mx window lockout s' b)
  then show ?case
    using redis_Record_cases [OF assms, of p now s ip mx window lockout s' "Inr b"]
    by (auto simp: redis_lockout_def redis_count_def Let_def split: option.splits)
next
  case (2 now s ip mx window lockout s' b t)
  define v where "v = val s (cntKey p ip)"
  have e: "val s' (cntKey p ip) = (let l = live now v; n = (case l of None \<Rightarrow> 1 | Some v \<Rightarrow> v + 1) in
      Some (n, if n = 1 then Some (now + window) else if l = None then None else snd (the v)))"
    using redis_Record_cases [OF assms, of p now s ip mx window lockout s' "Inr b"] 2(3)
    by (simp add: redis_lockout_def Let_def v_def)
  have c: "redis_count val p now s ip = (case live now v of None \<Rightarrow> 0 | Some n \<Rightarrow> n)"
    by (simp add: redis_count_def v_def)
  show ?case
  proof (cases "redis_count val p now s ip = 0")
    case True
    then have "(case live now v of None \<Rightarrow> 1 | Some v \<Rightarrow> v + 1) = 1" unfolding c by (cases "live now v") auto
    then show ?thesis using e 2(4,5) True by (simp add: redis_count_def live_Some Let_def)
  next
    case False
    then obtain n where n: "live now v = Some n" "0 < n" using c 2(1) by (cases "live now v") auto
    then have "redis_count val p t s ip = n" using 2(6) c by simp
    then have lt: "live t v = Some n" using n by (auto simp: redis_count_def v_def split: option.splits)
    have "live t (Some (n + 1, snd (the v))) = Some (n + 1)"
      using lt by (auto simp: live_def split: option.splits prod.splits if_splits)
    then show ?thesis using e n c by (simp add: redis_count_def Let_def)
  qed
next
  case (3 now s ip mx window lockout s' t)
  then have "val s' (blockedKey p ip) = Some (1, Some (now + lockout))"
    using redis_Record_cases [OF assms, of p now s ip mx window lockout s' "Inr True"]
    by (auto simp: redis_lockout_def Let_def)
  then show ?case
    using 3(2,3) by (simp add: redis_lockout_def redis_IsLockedOut_val [OF assms] live_Some)
next
  case (4 now s ip mx window lockout s' r ip' t)
  then show ?case
    using redis_Record_cases [OF assms, of p now s ip mx window lockout s' r]
    by (simp add: redis_lockout_def redis_IsLockedOut_val [OF assms])
qed

section \<open>The send hook\<close>

lemma sp_BeforeSend_rejects: "sp_BeforeSend G store now st d = Some e \<Longrightarrow> rejected_by (sp_name (snd st)) (Some e)"
  by (auto simp: sp_BeforeSend_def Let_def split: if_splits)

interpretation sph: send_hook "\<lambda>now st d. (st, sp_BeforeSend G store now st d)" "\<lambda>_. True" "\<lambda>st. sp_name (snd st)"
  by unfold_locales (auto dest: sp_BeforeSend_rejects)

text \<open>The policy that the configuration describes, apart from the lockout.\<close>

definition smtp_policy_ok :: "golib \<Rightarrow> SMTPSecurityConfig \<Rightarrow> draft \<Rightarrow> bool" where
  "smtp_policy_ok G cfg d \<longleftrightarrow>
     (let s = GetSenderID d; env = parseEmailAddr G (gm_str (GetHeaders d) ''X-SMTP-Envelope-From'');
          limit = (if MaxSubjectBytes cfg = 0 then 998 else MaxSubjectBytes cfg) in
      (s \<noteq> '''' \<longrightarrow> senderDomain G s \<notin> to_lower G ` set (BlockedSenderDomains cfg)
        \<and> (AllowedSenderDomains cfg \<noteq> [] \<longrightarrow> senderDomain G s \<in> to_lower G ` set (AllowedSenderDomains cfg))
        \<and> (EnvelopeSpoofCheck cfg \<longrightarrow> env = '''' \<or> equal_fold G env s))
      \<and> (0 < limit \<longrightarrow> int (length (GetSubject d)) \<le> limit)
      \<and> (RequireAuthenticatedSender cfg \<longrightarrow> s \<noteq> ''''))"

lemma sp_BeforeSend_None:
  assumes "sp_cfg (snd st) = smtp_security_defaults cfg" and "allowedDomains (snd st) = toSet G (AllowedSenderDomains cfg)"
    and "blockedDomains (snd st) = toSet G (BlockedSenderDomains cfg)"
  shows "sp_BeforeSend G store now st d = None \<longleftrightarrow>
    \<not> (gm_str (GetHeaders d) ''X-SMTP-Remote-Addr'' \<noteq> '''' \<and> IsLockedOut store now st (gm_str (GetHeaders d) ''X-SMTP-Remote-Addr''))
    \<and> smtp_policy_ok G cfg d"
  unfolding sp_BeforeSend_def smtp_policy_ok_def Let_def assms
  by (simp add: smtp_security_defaults_def) (auto simp: not_less)

section \<open>Lockout end to end\<close>

text \<open>A sequence of failed AUTH attempts: time and remote address of each.\<close>

definition auth_failures ::
  "'l lockout_ops option \<Rightarrow> 'l \<times> SMTPSecurityPlugin \<Rightarrow> (gotime \<times> string) list \<Rightarrow> 'l \<times> SMTPSecurityPlugin" where
  "auth_failures store st tas = foldl (\<lambda>st ta. fst (RecordAuthFailure store (fst ta) st (snd ta))) st tas"

lemma sp_locked_rejects:
  "gm_str (GetHeaders d) ''X-SMTP-Remote-Addr'' = addr \<Longrightarrow> addr \<noteq> '''' \<Longrightarrow> IsLockedOut store now st addr
     \<Longrightarrow> sp_BeforeSend G store now st d = Some (reject (sp_name (snd st)) (''connection from locked-out IP '' @ hostOnly addr))"
  by (simp add: sp_BeforeSend_def)

lemma auth_failures_mem:
  assumes "\<forall>ta\<in>set tas. hostOnly (snd ta) = ip" and "MaxAuthFailuresPerIP (sp_cfg p) \<noteq> 0"
  shows "auth_failures None (l, p) tas =
      (l, p\<lparr>ipMap := fst (mlk.record_all ip (MaxAuthFailuresPerIP (sp_cfg p)) w (LockoutDuration (sp_cfg p)) (ipMap p) (map fst tas))\<rparr>)
    \<and> list_all ok (snd (mlk.record_all ip (MaxAuthFailuresPerIP (sp_cfg p)) w (LockoutDuration (sp_cfg p)) (ipMap p) (map fst tas)))"
  using assms
proof (induction tas arbitrary: p)
  case (Cons ta tas)
  define m1 where "m1 = fst (mem_RecordFailure (fst ta) (ipMap p) ip (MaxAuthFailuresPerIP (sp_cfg p)) (LockoutDuration (sp_cfg p)))"
  have "fst (RecordAuthFailure None (fst ta) (l, p) (snd ta)) = (l, p\<lparr>ipMap := m1\<rparr>)"
    using Cons.prems by (simp add: RecordAuthFailure_def m1_def case_prod_beta Let_def)
  then have "auth_failures None (l, p) (ta # tas) = auth_failures None (l, p\<lparr>ipMap := m1\<rparr>) tas"
    by (simp add: auth_failures_def)
  then show ?case
    using Cons.IH [of "p\<lparr>ipMap := m1\<rparr>"] Cons.prems
    by (simp add: mem_lockout_simps case_prod_beta Let_def flip: m1_def)
qed (simp add: auth_failures_def)

lemma failures_lock_ip:
  assumes "MaxAuthFailuresPerIP (sp_cfg p) = int (length tas)" and "0 < length tas" and "length tas < 2 ^ 31"
    and "gm_get (ipMap p) ip = None" and "\<forall>ta\<in>set tas. hostOnly (snd ta) = ip" and "sorted (map fst tas)"
    and "hostOnly addr = ip" and "fst (last tas) \<le> t" and "t < fst (last tas) + LockoutDuration (sp_cfg p)"
  shows "IsLockedOut None t (auth_failures None (l, p) tas) addr \<and> sp_name (snd (auth_failures None (l, p) tas)) = sp_name p"
proof -
  define w where "w = fst (last tas) - fst (hd tas) + 1"
  define st where "st = mlk.record_all ip (MaxAuthFailuresPerIP (sp_cfg p)) w (LockoutDuration (sp_cfg p)) (ipMap p) (map fst tas)"
  have ne: "tas \<noteq> []" using assms(2) by simp
  have run: "auth_failures None (l, p) tas = (l, p\<lparr>ipMap := fst st\<rparr>)" "list_all ok (snd st)"
    using auth_failures_mem [OF assms(5), of p l w] assms(1,2) by (simp_all add: st_def)
  have "lk_IsLockedOut mem_lockout t (fst st) ip = Inr True"
    by (rule mlk.burst_locks [of ip "MaxAuthFailuresPerIP (sp_cfg p)" w "LockoutDuration (sp_cfg p)" "ipMap p" "map fst tas" "fst st" "snd st"])
       (use assms run(2) ne in \<open>simp_all add: st_def w_def mem_count_def last_map hd_map\<close>)
  then show ?thesis
    using assms(1,2,7) run(1) by (simp add: IsLockedOut_def mem_lockout_simps)
qed

text \<open>An IP address that fails to authenticate \<open>MaxAuthFailuresPerIP\<close> times, from whatever ports
  and however far apart, is locked out: from the last failure until the lockout time has passed,
  every draft received from that address is rejected, whatever else the draft contains.\<close>

theorem ip_lockout:
  assumes "MaxAuthFailuresPerIP (sp_cfg p) = int (length tas)" and "0 < length tas" and "length tas < 2 ^ 31"
    and "gm_get (ipMap p) ip = None" and "\<forall>ta\<in>set tas. hostOnly (snd ta) = ip" and "sorted (map fst tas)"
    and "gm_str (GetHeaders d) ''X-SMTP-Remote-Addr'' = addr" and "addr \<noteq> ''''" and "hostOnly addr = ip"
    and "fst (last tas) \<le> t" and "t < fst (last tas) + LockoutDuration (sp_cfg p)"
  shows "sp_BeforeSend G None t (auth_failures None (l, p) tas) d =
    Some (reject (sp_name p) (''connection from locked-out IP '' @ ip))"
proof -
  have "IsLockedOut None t (auth_failures None (l, p) tas) addr \<and> sp_name (snd (auth_failures None (l, p) tas)) = sp_name p"
    by (rule failures_lock_ip [OF assms(1-6,9-11)])
  then show ?thesis
    using sp_locked_rejects [OF assms(7,8), of None t "auth_failures None (l, p) tas" G] assms(9) by simp
qed

definition smtp_cfg_ex :: SMTPSecurityConfig where
  "smtp_cfg_ex = \<lparr>MaxAuthFailuresPerIP = 2, LockoutDuration = 0, IPLookupTTL = 0, EnvelopeSpoofCheck = True,
     AllowedSenderDomains = [], BlockedSenderDomains = [''Spam.example''], MaxSubjectBytes = 0, RequireAuthenticatedSender = False\<rparr>"

definition smtp_draft_ex :: "string \<Rightarrow> string \<Rightarrow> draft" where
  "smtp_draft_ex addr sender = \<lparr>GetSenderID = sender, GetRecipientIDs = [''b@y''], GetSubject = ''s'', GetBody = ''b'',
     GetHeaders = [(''X-SMTP-Remote-Addr'', addr), (''X-SMTP-Envelope-From'', sender)], GetAttachments = []\<rparr>"

theorem ip_lockout_witness:
  "sp_BeforeSend golib_ex (None :: unit lockout_ops option) (hour + minute)
     (auth_failures None ((), NewSMTPSecurityPlugin golib_ex ''sec'' smtp_cfg_ex) [(0, ''10.0.0.1:40000''), (hour, ''10.0.0.1:50000'')])
     (smtp_draft_ex ''10.0.0.1:60000'' ''a@x'')
   = Some (reject ''sec'' (''connection from locked-out IP '' @ ''10.0.0.1''))"
proof -
  have h: "hostOnly ''10.0.0.1:40000'' = ''10.0.0.1''" "hostOnly ''10.0.0.1:50000'' = ''10.0.0.1''" "hostOnly ''10.0.0.1:60000'' = ''10.0.0.1''"
    by code_simp+
  have a: "gm_str (GetHeaders (smtp_draft_ex ''10.0.0.1:60000'' ''a@x'')) ''X-SMTP-Remote-Addr'' = ''10.0.0.1:60000''"
    by (simp add: smtp_draft_ex_def gm_str_def)
  show ?thesis
    using ip_lockout [of "NewSMTPSecurityPlugin golib_ex ''sec'' smtp_cfg_ex" "[(0, ''10.0.0.1:40000''), (hour, ''10.0.0.1:50000'')]"
        "''10.0.0.1''" _ "''10.0.0.1:60000''" "hour + minute" golib_ex "()", OF _ _ _ _ _ _ a _ h(3)] h
    by (simp add: NewSMTPSecurityPlugin_def smtp_cfg_ex_def smtp_security_defaults_def)
qed

text \<open>Apart from the lockout the plugin implements its configuration: it passes a draft exactly
  when the sender's domain is not blocked and, with an allow list, is on it; when the envelope sender,
  if checked, is the message sender up to case; when the subject has at most 998 (or the configured
  number of) bytes; and when a required authenticated sender is present.\<close>

theorem smtp_security_policy:
  "sp_BeforeSend G (None :: 'l lockout_ops option) now (l, NewSMTPSecurityPlugin G nm cfg) d = None \<longleftrightarrow> smtp_policy_ok G cfg d"
  by (subst sp_BeforeSend_None [where cfg = cfg])
     (auto simp: NewSMTPSecurityPlugin_def IsLockedOut_def mem_IsLockedOut_def)

section \<open>Lockout shared by a cluster\<close>

context lockout_store begin

lemma auth_failures_store:
  assumes "\<forall>ta\<in>set tas. hostOnly (snd ta) = ip" and "MaxAuthFailuresPerIP (sp_cfg p) \<noteq> 0"
  shows "auth_failures (Some K) (l, p) tas =
      (fst (record_all ip (MaxAuthFailuresPerIP (sp_cfg p)) (IPLookupTTL (sp_cfg p)) (LockoutDuration (sp_cfg p)) l (map fst tas)), p)"
  using assms
proof (induction tas arbitrary: l)
  case (Cons ta tas)
  obtain l1 r where r: "lk_RecordFailure K (fst ta) l ip (MaxAuthFailuresPerIP (sp_cfg p)) (IPLookupTTL (sp_cfg p)) (LockoutDuration (sp_cfg p)) = (l1, r)"
    by fastforce
  then have "fst (RecordAuthFailure (Some K) (fst ta) (l, p) (snd ta)) = (l1, p)"
    using Cons.prems by (cases r) (simp_all add: RecordAuthFailure_def)
  then have "auth_failures (Some K) (l, p) (ta # tas) = auth_failures (Some K) (l1, p) tas"
    by (simp add: auth_failures_def)
  then show ?case using Cons.IH [of l1] Cons.prems r by (simp add: case_prod_beta Let_def)
qed (simp add: auth_failures_def)

text \<open>Failures recorded through one node lock the IP on every node that shares the store.\<close>

lemma shared_lockout:
  assumes "MaxAuthFailuresPerIP (sp_cfg p) = int (length tas)" and "0 < length tas" and "length tas < 2 ^ 31"
    and "\<forall>ta\<in>set tas. hostOnly (snd ta) = ip" and "sorted (map fst tas)" and "\<And>t. fst (hd tas) \<le> t \<Longrightarrow> count t l ip = 0"
    and "fst (last tas) < fst (hd tas) + IPLookupTTL (sp_cfg p)"
    and "list_all ok (snd (record_all ip (MaxAuthFailuresPerIP (sp_cfg p)) (IPLookupTTL (sp_cfg p)) (LockoutDuration (sp_cfg p)) l (map fst tas)))"
    and "fst (last tas) \<le> t" and "t < fst (last tas) + LockoutDuration (sp_cfg p)"
    and "MaxAuthFailuresPerIP (sp_cfg q) \<noteq> 0" and "hostOnly addr = ip"
  shows "IsLockedOut (Some K) t (fst (auth_failures (Some K) (l, p) tas), q) addr"
proof -
  define st where "st = record_all ip (MaxAuthFailuresPerIP (sp_cfg p)) (IPLookupTTL (sp_cfg p)) (LockoutDuration (sp_cfg p)) l (map fst tas)"
  have ne: "tas \<noteq> []" using assms(2) by simp
  have run: "auth_failures (Some K) (l, p) tas = (fst st, p)"
    using auth_failures_store [OF assms(4)] assms(1,2) by (simp add: st_def)
  have "lk_IsLockedOut K t (fst st) ip = Inr True"
    by (rule burst_locks [of ip "MaxAuthFailuresPerIP (sp_cfg p)" "IPLookupTTL (sp_cfg p)" "LockoutDuration (sp_cfg p)" l "map fst tas" "fst st" "snd st"])
       (use assms ne in \<open>simp_all add: st_def last_map hd_map\<close>)
  then show ?thesis using assms(11,12) run by (simp add: IsLockedOut_def)
qed

end

definition redis_up :: "'r redis_lock_ops \<Rightarrow> bool" where
  "redis_up R \<longleftrightarrow> (\<forall>now r k. ok (snd (rl_Incr R now r k))) \<and> (\<forall>now r k d. snd (rl_Expire R now r k d) = None)
     \<and> (\<forall>now r k v d. snd (rl_Set R now r k v d) = None)"

lemma redis_up_ok:
  assumes "redis_up R"
  shows "ok (snd (redis_RecordFailure R kp now r ip mx w lockout))"
proof -
  obtain r1 i where i: "rl_Incr R now r (cntKey kp ip) = (r1, i)" by fastforce
  have "ok (snd (rl_Incr R now r (cntKey kp ip)))" using assms unfolding redis_up_def by blast
  then obtain n where n: "i = Inr n" using i by (cases i) auto
  obtain r2 where r2: "(if n = 1 then rl_Expire R now r1 (cntKey kp ip) w else (r1, None)) = (r2, None)"
    using assms unfolding redis_up_def by (metis prod.collapse)
  obtain r3 where r3: "rl_Set R now r2 (blockedKey kp ip) 1 lockout = (r3, None)"
    using assms unfolding redis_up_def by (metis prod.collapse)
  show ?thesis by (simp add: redis_RecordFailure_def i n r2 r3)
qed

text \<open>C33: With the Redis lockout store the lockout is shared: when an IP fails to authenticate
  \<open>MaxAuthFailuresPerIP\<close> times within the counting window on one node, every node that uses the same
  Redis rejects drafts from that IP until the lockout time has passed. Hypotheses on the client are
  the documented behaviour of the commands and that the server answers.\<close>

theorem redis_shared_lockout:
  assumes "redis_lock_sound R val" and "redis_up R" and "val r (cntKey kp ip) = None"
    and "MaxAuthFailuresPerIP (sp_cfg p) = int (length tas)" and "0 < length tas" and "length tas < 2 ^ 31"
    and "\<forall>ta\<in>set tas. hostOnly (snd ta) = ip" and "sorted (map fst tas)"
    and "fst (last tas) < fst (hd tas) + IPLookupTTL (sp_cfg p)"
    and "fst (last tas) \<le> t" and "t < fst (last tas) + LockoutDuration (sp_cfg p)"
    and "MaxAuthFailuresPerIP (sp_cfg q) \<noteq> 0"
    and "gm_str (GetHeaders d) ''X-SMTP-Remote-Addr'' = addr" and "addr \<noteq> ''''" and "hostOnly addr = ip"
  shows "sp_BeforeSend G (Some (redis_lockout R kp)) t (fst (auth_failures (Some (redis_lockout R kp)) (r, p) tas), q) d =
    Some (reject (sp_name q) (''connection from locked-out IP '' @ ip))"
proof -
  have ls: "lockout_store (redis_lockout R kp) (redis_count val kp)" by (rule redis_lockout_store [OF assms(1)])
  have rec: "ok (snd (lk_RecordFailure (redis_lockout R kp) now s ip mx w lo))" for now s mx w lo
    using redis_up_ok [OF assms(2)] by (simp add: redis_lockout_def)
  have ok_all: "list_all ok (snd (lockout_store.record_all (redis_lockout R kp) ip mx w lo s ts))" for mx w lo s ts
    by (induction ts arbitrary: s)
       (simp_all add: lockout_store.record_all.simps [OF ls] case_prod_beta Let_def rec)
  have "IsLockedOut (Some (redis_lockout R kp)) t (fst (auth_failures (Some (redis_lockout R kp)) (r, p) tas), q) addr"
    by (rule lockout_store.shared_lockout [OF ls assms(4-8) _ assms(9) ok_all assms(10-12,15)])
       (simp add: redis_count_def assms(3) live_def)
  from sp_locked_rejects [OF assms(13,14) this, of G] show ?thesis using assms(15) by simp
qed

text \<open>A key-value store with expiry.\<close>

definition kvl_ops :: "(string, int \<times> gotime option) gomap redis_lock_ops" where
  "kvl_ops =
     \<lparr>rl_Incr = (\<lambda>now m k. let l = live now (gm_get m k); n = (case l of None \<Rightarrow> 1 | Some v \<Rightarrow> v + 1) in
         (gm_put k (n, if l = None then None else snd (the (gm_get m k))) m, Inr n)),
      rl_Expire = (\<lambda>now m k d. (case gm_get m k of None \<Rightarrow> m | Some (v, x) \<Rightarrow> gm_put k (v, Some (now + d)) m, None)),
      rl_Set = (\<lambda>now m k v d. (gm_put k (v, Some (now + d)) m, None)),
      rl_Exists = (\<lambda>now m k. Inr (if live now (gm_get m k) = None then 0 else 1))\<rparr>"

lemma kvl_sound: "redis_lock_sound kvl_ops map_of"
  by (auto simp: redis_lock_sound_def incr_sound_def expire_sound_def set_sound_def exists_sound_def kvl_ops_def Let_def
      update_conv' split: option.splits prod.splits)

lemma kvl_up: "redis_up kvl_ops"
  by (simp add: redis_up_def kvl_ops_def Let_def)

theorem redis_shared_lockout_witness:
  "sp_BeforeSend golib_ex (Some (redis_lockout kvl_ops ''lk'')) (3 * minute)
     (fst (auth_failures (Some (redis_lockout kvl_ops ''lk'')) ([], NewSMTPSecurityPlugin golib_ex ''n1'' smtp_cfg_ex)
        [(0, ''10.0.0.1:40000''), (minute, ''10.0.0.1:50000'')]), NewSMTPSecurityPlugin golib_ex ''n2'' smtp_cfg_ex)
     (smtp_draft_ex ''10.0.0.1:60000'' ''a@x'')
   = Some (reject (sp_name (NewSMTPSecurityPlugin golib_ex ''n2'' smtp_cfg_ex)) (''connection from locked-out IP '' @ ''10.0.0.1''))"
proof -
  have h: "hostOnly ''10.0.0.1:40000'' = ''10.0.0.1''" "hostOnly ''10.0.0.1:50000'' = ''10.0.0.1''" "hostOnly ''10.0.0.1:60000'' = ''10.0.0.1''"
    by code_simp+
  have a: "gm_str (GetHeaders (smtp_draft_ex ''10.0.0.1:60000'' ''a@x'')) ''X-SMTP-Remote-Addr'' = ''10.0.0.1:60000''"
    by (simp add: smtp_draft_ex_def gm_str_def)
  show ?thesis
    by (rule redis_shared_lockout [OF kvl_sound kvl_up _ _ _ _ _ _ _ _ _ _ a _ h(3)])
       (simp_all add: h NewSMTPSecurityPlugin_def smtp_cfg_ex_def smtp_security_defaults_def)
qed

text \<open>Eviction never ends a lockout: an entry that is still locked is kept.\<close>

lemma evict_keeps_lockout:
  assumes "gm_wf (ipMap p)" and "mem_IsLockedOut t (ipMap p) ip" and "now \<le> t"
  shows "mem_IsLockedOut t (ipMap (sp_tick now p)) ip"
  using assms by (auto simp: sp_tick_def sp_evict_def mem_IsLockedOut_def Let_def gm_get_filter split: option.splits)

end
