(* ===== verification/Ip_Reputation.thy ===== *)
theory Ip_Reputation
  imports Plugin
begin

text \<open>
  The two plugins that ask an outside source about the connecting IP and cache the answer: DNS block
  lists (\<open>internal/plugin/dnsbl.go\<close>) and CrowdSec (\<open>internal/plugin/crowdsec.go\<close>). DNS and the
  CrowdSec API are parameters whose answers depend on the time of the question.

  Both caches satisfy the locale \<open>ttl_cache\<close>: a verdict is always an answer the source gave less
  than the configured time ago.
\<close>

section \<open>DNS block lists\<close>

record verdict =
  banned :: bool
  expires :: gotime

type_synonym verdicts = "(string, verdict) gomap"

record DNSBLConfig =
  Zones :: "string list"
  bl_CacheTTL :: duration
  bl_FailOpen :: bool

record DNSBLPlugin =
  bl_name :: string
  bl_cfg :: DNSBLConfig
  bl_cache :: verdicts

definition NewDNSBL :: "string \<Rightarrow> DNSBLConfig \<Rightarrow> DNSBLPlugin" where
  "NewDNSBL nm cfg =
     \<lparr>bl_name = nm, bl_cfg = (if bl_CacheTTL cfg \<le> 0 then cfg\<lparr>bl_CacheTTL := 5 * minute\<rparr> else cfg), bl_cache = []\<rparr>"

text \<open>\<open>net.LookupHost\<close>: addresses, NXDOMAIN, or another error.\<close>

datatype dns_answer = Addrs "string list" | NotFoundDNS | DNSFail error

definition reverseIPv4 :: "nat \<times> nat \<times> nat \<times> nat \<Rightarrow> string" where
  "reverseIPv4 ip = (case ip of (a, b, c, d) \<Rightarrow>
     itoa (int d) @ ''.'' @ itoa (int c) @ ''.'' @ itoa (int b) @ ''.'' @ itoa (int a))"

definition zone_key :: "string \<Rightarrow> string \<Rightarrow> string" where
  "zone_key zone reversed = zone @ '':'' @ reversed"

definition queryZone ::
  "(gotime \<Rightarrow> string \<Rightarrow> dns_answer) \<Rightarrow> gotime \<Rightarrow> DNSBLPlugin \<Rightarrow> string \<Rightarrow> string \<Rightarrow> DNSBLPlugin \<times> bool result" where
  "queryZone dns now p reversed zone =
     (let key = zone_key zone reversed;
          store = (\<lambda>b. (p\<lparr>bl_cache := gm_put key \<lparr>banned = b, expires = now + bl_CacheTTL (bl_cfg p)\<rparr> (bl_cache p)\<rparr>, Inr b));
          ask = (case dns now (reversed @ ''.'' @ zone) of
                   NotFoundDNS \<Rightarrow> store False
                 | DNSFail e \<Rightarrow> (p, Inl e)
                 | Addrs addrs \<Rightarrow> store (addrs \<noteq> []))
      in case gm_get (bl_cache p) key of
           Some e \<Rightarrow> if now < expires e then (p, Inr (banned e)) else ask
         | None \<Rightarrow> ask)"

fun check_zones ::
  "(gotime \<Rightarrow> string \<Rightarrow> dns_answer) \<Rightarrow> gotime \<Rightarrow> DNSBLPlugin \<Rightarrow> string \<Rightarrow> string \<Rightarrow> string list \<Rightarrow> DNSBLPlugin \<times> error option" where
  "check_zones dns now p ipStr reversed [] = (p, None)"
| "check_zones dns now p ipStr reversed (zone # zones) =
     (case queryZone dns now p reversed zone of
        (p', Inl e) \<Rightarrow>
          if \<not> bl_FailOpen (bl_cfg p) then
            (p', Some (reject (bl_name p) (''DNSBL lookup failed for '' @ ipStr @ '': '' @ error_text e)))
          else check_zones dns now p' ipStr reversed zones
      | (p', Inr b) \<Rightarrow>
          if b then (p', Some (reject (bl_name p) (''IP '' @ ipStr @ '' is listed in '' @ zone)))
          else check_zones dns now p' ipStr reversed zones)"

definition bl_BeforeSend ::
  "golib \<Rightarrow> (gotime \<Rightarrow> string \<Rightarrow> dns_answer) \<Rightarrow> gotime \<Rightarrow> DNSBLPlugin \<Rightarrow> draft \<Rightarrow> DNSBLPlugin \<times> error option" where
  "bl_BeforeSend G dns now p d =
     (if Zones (bl_cfg p) = [] then (p, None)
      else
        (let addr = gm_str (GetHeaders d) ''X-SMTP-Remote-Addr'' in
         if addr = '''' then (p, None)
         else case split_host_port addr of
                None \<Rightarrow> (p, None)
              | Some (ipStr, _) \<Rightarrow>
                  (case net_ParseIP G ipStr of
                     Some (IPv4 a b c e) \<Rightarrow> check_zones dns now p ipStr (reverseIPv4 (a, b, c, e)) (Zones (bl_cfg p))
                   | _ \<Rightarrow> (p, None))))"

section \<open>CrowdSec\<close>

record CrowdSecConfig =
  cs_Endpoint :: string
  cs_APIKey :: string
  cs_Timeout :: duration
  cs_FailOpen :: bool
  cs_CacheTTL :: duration

record CrowdSecPlugin =
  cs_name :: string
  cs_cfg :: CrowdSecConfig
  cs_cache :: verdicts

definition NewCrowdSec :: "string \<Rightarrow> CrowdSecConfig \<Rightarrow> CrowdSecPlugin" where
  "NewCrowdSec nm cfg =
     \<lparr>cs_name = nm,
      cs_cfg = cfg\<lparr>cs_Endpoint := (if cs_Endpoint cfg = '''' then ''http://localhost:8080'' else cs_Endpoint cfg),
                   cs_Timeout := (if cs_Timeout cfg = 0 then 2 * second else cs_Timeout cfg),
                   cs_CacheTTL := (if cs_CacheTTL cfg = 0 then 30 * second else cs_CacheTTL cfg)\<rparr>,
      cs_cache = []\<rparr>"

text \<open>The HTTP exchange: it cannot be built, cannot be sent, or has a status and a body that may fail
  to be read. \<open>cs_decode\<close> is the JSON decoder; a decision entry is its \<open>type\<close> field.\<close>

datatype http_reply = BuildErr error | SendErr error | Reply nat "string result"

record cs_env =
  cs_get :: "gotime \<Rightarrow> string \<Rightarrow> strmap \<Rightarrow> http_reply"
  cs_decode :: "string \<Rightarrow> string list result"

definition queryLAPI :: "cs_env \<Rightarrow> gotime \<Rightarrow> CrowdSecConfig \<Rightarrow> string \<Rightarrow> bool result" where
  "queryLAPI E now cfg ip =
     (let url = cs_Endpoint cfg @ ''/v1/decisions?ip='' @ ip @ ''&type=ban'' in
      case cs_get E now url [(''Authorization'', ''ApiKey '' @ cs_APIKey cfg), (''Accept'', ''application/json'')] of
        BuildErr e \<Rightarrow> Inl (EWrap ''build request'' e)
      | SendErr e \<Rightarrow> Inl (EWrap ''LAPI request'' e)
      | Reply status rbody \<Rightarrow>
          if status = 404 then Inr False
          else if status \<noteq> 200 then Inl (EText (''LAPI returned HTTP '' @ itoa (int status)))
          else (case rbody of
                  Inl e \<Rightarrow> Inl (EWrap ''read LAPI response'' e)
                | Inr full \<Rightarrow>
                    (let body = take 65536 full in
                     if body = ''null'' then Inr False
                     else case cs_decode E body of
                            Inl e \<Rightarrow> Inl (EWrap ''parse LAPI response'' e)
                          | Inr types \<Rightarrow> Inr (list_ex (\<lambda>t. t = ''ban'') types))))"

text \<open>\<open>now\<close> is the time of the cache check, \<open>done\<close> the time at which the answer is stored.\<close>

definition isBanned :: "cs_env \<Rightarrow> gotime \<times> gotime \<Rightarrow> CrowdSecPlugin \<Rightarrow> string \<Rightarrow> CrowdSecPlugin \<times> bool result" where
  "isBanned E tt p ip =
     (let (now, done) = tt;
          ask = (case queryLAPI E now (cs_cfg p) ip of
                   Inl e \<Rightarrow> (p, Inl e)
                 | Inr b \<Rightarrow>
                     (p\<lparr>cs_cache := gm_put ip \<lparr>banned = b, expires = done + cs_CacheTTL (cs_cfg p)\<rparr> (cs_cache p)\<rparr>, Inr b))
      in case gm_get (cs_cache p) ip of
           Some e \<Rightarrow> if now < expires e then (p, Inr (banned e)) else ask
         | None \<Rightarrow> ask)"

definition cs_BeforeSend :: "cs_env \<Rightarrow> gotime \<times> gotime \<Rightarrow> CrowdSecPlugin \<Rightarrow> draft \<Rightarrow> CrowdSecPlugin \<times> error option" where
  "cs_BeforeSend E tt p d =
     (let remoteAddr = gm_str (GetHeaders d) ''X-SMTP-Remote-Addr'' in
      if remoteAddr = '''' then (p, None)
      else
        (let ipStr = (case split_host_port remoteAddr of None \<Rightarrow> remoteAddr | Some (h, _) \<Rightarrow> h) in
         case isBanned E tt p ipStr of
           (p', Inl e) \<Rightarrow>
             if \<not> cs_FailOpen (cs_cfg p) then (p', Some (reject (cs_name p) (''CrowdSec check failed: '' @ error_text e)))
             else (p', None)
         | (p', Inr b) \<Rightarrow>
             if b then (p', Some (reject (cs_name p) (''IP '' @ ipStr @ '' has an active CrowdSec ban decision'')))
             else (p', None)))"

section \<open>Caches with a time to live\<close>

text \<open>\<open>source t k\<close> is what the source answers to \<open>k\<close> at time \<open>t\<close>; \<open>cache p k\<close> is the entry for \<open>k\<close>;
  \<open>ask (now, done) p k\<close> the cached question, whose answer is stored with the time \<open>stamp (now, done)\<close>.\<close>

locale ttl_cache =
  fixes ask :: "gotime \<times> gotime \<Rightarrow> 'p \<Rightarrow> 'k \<Rightarrow> 'p \<times> bool result"
    and cache :: "'p \<Rightarrow> 'k \<Rightarrow> verdict option" and valid :: "'k \<Rightarrow> bool"
    and source :: "gotime \<Rightarrow> 'p \<Rightarrow> 'k \<Rightarrow> bool result" and ttl :: "'p \<Rightarrow> duration"
    and stamp :: "gotime \<times> gotime \<Rightarrow> gotime"
  assumes hit: "valid k \<Longrightarrow> cache p k = Some e \<Longrightarrow> now < expires e \<Longrightarrow> ask (now, done) p k = (p, Inr (banned e))"
    and miss: "valid k \<Longrightarrow> (\<And>e. cache p k = Some e \<Longrightarrow> \<not> now < expires e) \<Longrightarrow> ask (now, done) p k = (p', r) \<Longrightarrow>
        (case source now p k of
           Inl e \<Rightarrow> p' = p \<and> r = Inl e
         | Inr b \<Rightarrow> r = Inr b \<and> ttl p' = ttl p \<and> (\<forall>t j. source t p' j = source t p j)
            \<and> (\<forall>j. valid j \<longrightarrow> cache p' j = (if j = k then Some \<lparr>banned = b, expires = stamp (now, done) + ttl p\<rparr> else cache p j)))"
begin

text \<open>Every entry is an answer the source gave; it was stored at most \<open>slack\<close> after the question.\<close>

definition fresh :: "duration \<Rightarrow> gotime \<Rightarrow> 'p \<Rightarrow> bool" where
  "fresh slack now p \<longleftrightarrow>
     (\<forall>k e. valid k \<longrightarrow> cache p k = Some e \<longrightarrow>
        (\<exists>t. t \<le> now \<and> expires e \<le> t + slack + ttl p \<and> source t p k = Inr (banned e)))"

lemma ask_fresh:
  assumes "fresh slack t0 p" and "t0 \<le> now" and "stamp (now, done) \<le> now + slack" and "valid k" and "ask (now, done) p k = (p', r)"
  shows "fresh slack now p'" and "ttl p' = ttl p" and "source t p' j = source t p j"
    and "r = Inr b \<Longrightarrow> (\<exists>t. t \<le> now \<and> now - slack - ttl p < t \<and> source t p k = Inr b) \<or> source now p k = Inr b"
    and "r = Inl e \<Longrightarrow> source now p k = Inl e"
proof -
  have keep: "fresh slack now p" using assms(1,2) unfolding fresh_def by (meson order_trans)
  have "fresh slack now p' \<and> ttl p' = ttl p \<and> (\<forall>t j. source t p' j = source t p j)
    \<and> (\<forall>b. r = Inr b \<longrightarrow> (\<exists>t. t \<le> now \<and> now - slack - ttl p < t \<and> source t p k = Inr b) \<or> source now p k = Inr b)
    \<and> (\<forall>e. r = Inl e \<longrightarrow> source now p k = Inl e)"
  proof (cases "\<exists>e. cache p k = Some e \<and> now < expires e")
    case True
    then obtain e where e: "cache p k = Some e" "now < expires e" by blast
    then have pr: "p' = p" "r = Inr (banned e)" using hit [OF assms(4) e] assms(5) by auto
    obtain t where "t \<le> now" "expires e \<le> t + slack + ttl p" "source t p k = Inr (banned e)"
      using keep assms(4) e(1) unfolding fresh_def by blast
    then have "now - slack - ttl p < t" using e(2) by linarith
    then show ?thesis using pr keep \<open>t \<le> now\<close> \<open>source t p k = Inr (banned e)\<close> by auto
  next
    case False
    then have m: "case source now p k of Inl e \<Rightarrow> p' = p \<and> r = Inl e
         | Inr b \<Rightarrow> r = Inr b \<and> ttl p' = ttl p \<and> (\<forall>t j. source t p' j = source t p j)
            \<and> (\<forall>j. valid j \<longrightarrow> cache p' j = (if j = k then Some \<lparr>banned = b, expires = stamp (now, done) + ttl p\<rparr> else cache p j))"
      using miss [OF assms(4) _ assms(5)] by blast
    show ?thesis
    proof (cases "source now p k")
      case (Inl e)
      then show ?thesis using m keep by simp
    next
      case (Inr b)
      have "fresh slack now p'"
        unfolding fresh_def
      proof (intro allI impI)
        fix j e assume j: "valid j" "cache p' j = Some e"
        show "\<exists>t. t \<le> now \<and> expires e \<le> t + slack + ttl p' \<and> source t p' j = Inr (banned e)"
        proof (cases "j = k")
          case True
          then have "e = \<lparr>banned = b, expires = stamp (now, done) + ttl p\<rparr>" using j m Inr by simp
          then show ?thesis using True Inr m assms(3) by auto
        next
          case False
          then have "cache p j = Some e" using j m Inr by auto
          then show ?thesis using keep j(1) m Inr unfolding fresh_def by auto
        qed
      qed
      then show ?thesis using m Inr by simp
    qed
  qed
  then show "fresh slack now p'" "ttl p' = ttl p" "source t p' j = source t p j"
    "r = Inr b \<Longrightarrow> (\<exists>t. t \<le> now \<and> now - slack - ttl p < t \<and> source t p k = Inr b) \<or> source now p k = Inr b"
    "r = Inl e \<Longrightarrow> source now p k = Inl e"
    by blast+
qed

end

section \<open>Both plugins keep fresh verdicts\<close>

definition dns_source :: "(gotime \<Rightarrow> string \<Rightarrow> dns_answer) \<Rightarrow> gotime \<Rightarrow> DNSBLPlugin \<Rightarrow> string \<times> string \<Rightarrow> bool result" where
  "dns_source dns t p k =
     (case dns t (snd k @ ''.'' @ fst k) of NotFoundDNS \<Rightarrow> Inr False | DNSFail e \<Rightarrow> Inl e | Addrs addrs \<Rightarrow> Inr (addrs \<noteq> []))"

lemma dns_source_cache: "dns_source dns t (p\<lparr>bl_cache := c\<rparr>) j = dns_source dns t p j"
  by (simp add: dns_source_def)

lemma zone_key_inject:
  assumes "CHR '':'' \<notin> set r" and "CHR '':'' \<notin> set r'" and "zone_key z r = zone_key z' r'"
  shows "z = z' \<and> r = r'"
proof -
  have "last_index_byte CHR '':'' (zone_key z r) = Some (length z)" "last_index_byte CHR '':'' (zone_key z' r') = Some (length z')"
    using assms(1,2) by (simp_all add: zone_key_def)
  then have "length z = length z'" using assms(3) by simp
  then show ?thesis using assms(3) by (simp add: zone_key_def)
qed

interpretation blc: ttl_cache "\<lambda>tt p k. queryZone dns (fst tt) p (snd k) (fst k)" "\<lambda>p k. gm_get (bl_cache p) (zone_key (fst k) (snd k))"
  "\<lambda>k. CHR '':'' \<notin> set (snd k)" "dns_source dns" "\<lambda>p. bl_CacheTTL (bl_cfg p)" fst
proof (unfold_locales, goal_cases)
  case (1 k p e now don)
  then show ?case by (simp add: queryZone_def)
next
  case (2 k p now don p' r)
  have q: "queryZone dns now p (snd k) (fst k) =
      (case dns_source dns now p k of Inl e \<Rightarrow> (p, Inl e)
       | Inr b \<Rightarrow> (p\<lparr>bl_cache := gm_put (zone_key (fst k) (snd k)) \<lparr>banned = b, expires = now + bl_CacheTTL (bl_cfg p)\<rparr> (bl_cache p)\<rparr>, Inr b))"
    using 2(2) by (auto simp: queryZone_def dns_source_def Let_def split: option.split dns_answer.split)
  have inj: "zone_key (fst j) (snd j) = zone_key (fst k) (snd k) \<longleftrightarrow> j = k" if "CHR '':'' \<notin> set (snd j)" for j
    using zone_key_inject [OF that 2(1)] by (auto simp: prod_eq_iff)
  show ?case
  proof (cases "dns_source dns now p k")
    case (Inl e)
    then have "p' = p \<and> r = Inl e" using 2(3) q by simp
    then show ?thesis by (simp add: Inl)
  next
    case (Inr b)
    then have "p' = p\<lparr>bl_cache := gm_put (zone_key (fst k) (snd k)) \<lparr>banned = b, expires = now + bl_CacheTTL (bl_cfg p)\<rparr> (bl_cache p)\<rparr> \<and> r = Inr b"
      using 2(3) q by simp
    then show ?thesis using inj by (simp add: Inr dns_source_cache)
  qed
qed

interpretation csc: ttl_cache "isBanned E" "\<lambda>p. gm_get (cs_cache p)" "\<lambda>_. True" "\<lambda>t p. queryLAPI E t (cs_cfg p)"
  "\<lambda>p. cs_CacheTTL (cs_cfg p)" snd
proof (unfold_locales, goal_cases)
  case (1 k p e now don)
  then show ?case by (simp add: isBanned_def)
next
  case (2 k p now don p' r)
  have "isBanned E (now, don) p k =
      (case queryLAPI E now (cs_cfg p) k of Inl e \<Rightarrow> (p, Inl e)
       | Inr b \<Rightarrow> (p\<lparr>cs_cache := gm_put k \<lparr>banned = b, expires = don + cs_CacheTTL (cs_cfg p)\<rparr> (cs_cache p)\<rparr>, Inr b))"
    using 2(2) by (auto simp: isBanned_def Let_def split: option.split sum.split)
  then show ?case using 2(3) by (cases "queryLAPI E now (cs_cfg p) k") auto
qed

lemma isBanned_frame: "cs_name (fst (isBanned E tt p ip)) = cs_name p" "cs_cfg (fst (isBanned E tt p ip)) = cs_cfg p"
  by (simp_all add: isBanned_def case_prod_beta Let_def split: option.split sum.split)

lemma queryZone_frame: "bl_name (fst (queryZone dns now p r z)) = bl_name p" "bl_cfg (fst (queryZone dns now p r z)) = bl_cfg p"
  by (simp_all add: queryZone_def Let_def split: option.split dns_answer.split)

lemma check_zones_frame:
  "check_zones dns now p ipStr rv zones = (p', e) \<Longrightarrow> bl_name p' = bl_name p \<and> bl_cfg p' = bl_cfg p \<and> (\<forall>x. e = Some x \<longrightarrow> rejected_by (bl_name p) (Some x))"
proof (induction zones arbitrary: p)
  case (Cons z zones)
  obtain p1 r where q: "queryZone dns now p rv z = (p1, r)" by fastforce
  have f: "bl_name p1 = bl_name p" "bl_cfg p1 = bl_cfg p" using queryZone_frame [of dns now p rv z] q by simp_all
  show ?case
    using Cons.IH [of p1] Cons.prems q f by (cases r) (auto split: if_splits)
qed simp

interpretation blh: send_hook "bl_BeforeSend G dns" "\<lambda>_. True" bl_name
  by unfold_locales
     (auto simp: bl_BeforeSend_def Let_def dest: check_zones_frame split: if_splits option.splits ipaddr.splits prod.splits)

lemma cs_BeforeSend_frame:
  "cs_BeforeSend E tt p d = (p', e) \<Longrightarrow> cs_name p' = cs_name p \<and> cs_cfg p' = cs_cfg p \<and> (\<forall>x. e = Some x \<longrightarrow> rejected_by (cs_name p) (Some x))"
  using isBanned_frame [of E tt p]
  by (auto simp: cs_BeforeSend_def Let_def split: if_splits prod.splits sum.splits option.splits) (metis fst_conv)+

lemma cs_BeforeSend_cfg: "cs_cfg (fst (cs_BeforeSend E tt p d)) = cs_cfg p"
  by (metis cs_BeforeSend_frame prod.collapse)

interpretation csh: send_hook "\<lambda>now. cs_BeforeSend E (now, now)" "\<lambda>_. True" cs_name
  by unfold_locales (auto dest: cs_BeforeSend_frame)

section \<open>CrowdSec verdicts are fresh\<close>

definition remote_ip :: "draft \<Rightarrow> string" where
  "remote_ip d = (let a = gm_str (GetHeaders d) ''X-SMTP-Remote-Addr'' in
     case split_host_port a of None \<Rightarrow> a | Some (h, _) \<Rightarrow> h)"

lemma cs_BeforeSend_fresh:
  assumes "csc.fresh E slack t0 p" and "t0 \<le> now" and "don \<le> now + slack" and "cs_BeforeSend E (now, don) p d = (p', r)"
  shows "csc.fresh E slack now p'" and "cs_cfg p' = cs_cfg p"
proof -
  show "cs_cfg p' = cs_cfg p" using cs_BeforeSend_frame [OF assms(4)] by simp
  show "csc.fresh E slack now p'"
  proof (cases "gm_str (GetHeaders d) ''X-SMTP-Remote-Addr'' = ''''")
    case True
    then have "p' = p" using assms(4) by (simp add: cs_BeforeSend_def)
    then show ?thesis using assms(1,2) unfolding csc.fresh_def by (meson order_trans)
  next
    case False
    obtain p1 b where b: "isBanned E (now, don) p (remote_ip d) = (p1, b)" by fastforce
    have "p' = p1"
      using assms(4) False b by (auto simp: cs_BeforeSend_def remote_ip_def Let_def split: sum.splits if_splits)
    then show ?thesis using csc.ask_fresh(1) [OF assms(1,2) _ _ b] assms(3) by simp
  qed
qed

text \<open>The plugin over a sequence of messages, with the times of the check and of the stored answer.\<close>

fun cs_run :: "cs_env \<Rightarrow> CrowdSecPlugin \<Rightarrow> ((gotime \<times> gotime) \<times> draft) list \<Rightarrow> CrowdSecPlugin" where
  "cs_run E p [] = p"
| "cs_run E p (m # ms) = cs_run E (fst (cs_BeforeSend E (fst m) p (snd m))) ms"

lemma cs_run_fresh:
  assumes "csc.fresh E slack t0 p" and "sorted (t0 # map (fst \<circ> fst) ms)"
    and "\<forall>m\<in>set ms. snd (fst m) \<le> fst (fst m) + slack"
  shows "csc.fresh E slack (last (t0 # map (fst \<circ> fst) ms)) (cs_run E p ms) \<and> cs_cfg (cs_run E p ms) = cs_cfg p"
  using assms
proof (induction ms arbitrary: p t0)
  case (Cons m ms)
  obtain now don d where m: "m = ((now, don), d)" by (cases m) auto
  obtain p1 r where b: "cs_BeforeSend E (now, don) p d = (p1, r)" by fastforce
  have "csc.fresh E slack now p1" "cs_cfg p1 = cs_cfg p"
    using cs_BeforeSend_fresh [OF Cons.prems(1) _ _ b] Cons.prems(2,3) m by auto
  then show ?case using Cons.IH [of now p1] Cons.prems(2,3) m b by simp
qed simp

text \<open>After any sequence of messages, a message from an IP passes a fail-closed CrowdSec plugin
  only if the CrowdSec API answered "not banned" for that IP less than the cache time (plus the time
  one request takes) ago, and it is rejected as banned only if the API answered "banned" within that
  time; an API failure at the time of the message rejects it.\<close>

theorem crowdsec_verdict_fresh:
  assumes "p = cs_run E (NewCrowdSec nm cfg) ms" and "sorted (map (fst \<circ> fst) ms)"
    and "\<forall>m\<in>set ms. snd (fst m) \<le> fst (fst m) + slack \<and> fst (fst m) \<le> now"
    and "gm_str (GetHeaders d) ''X-SMTP-Remote-Addr'' \<noteq> ''''" and "0 \<le> slack" and "0 \<le> cs_CacheTTL cfg"
    and "don \<le> now + slack" and "\<not> cs_FailOpen cfg" and "cs_BeforeSend E (now, don) p d = (p', r)"
  shows "case r of
      None \<Rightarrow> \<exists>t\<le>now. now - slack - cs_CacheTTL (cs_cfg p) < t \<and> queryLAPI E t (cs_cfg p) (remote_ip d) = Inr False
    | Some _ \<Rightarrow> (\<exists>t\<le>now. now - slack - cs_CacheTTL (cs_cfg p) < t \<and> queryLAPI E t (cs_cfg p) (remote_ip d) = Inr True)
        \<or> (\<exists>e. queryLAPI E now (cs_cfg p) (remote_ip d) = Inl e)"
proof -
  define t0 where "t0 = (if ms = [] then now else fst (fst (hd ms)))"
  have f0: "csc.fresh E slack t0 (NewCrowdSec nm cfg)" by (simp add: csc.fresh_def NewCrowdSec_def)
  have srt: "sorted (t0 # map (fst \<circ> fst) ms)" using assms(2) by (cases ms) (auto simp: t0_def)
  have run: "csc.fresh E slack (last (t0 # map (fst \<circ> fst) ms)) p" "cs_cfg p = cs_cfg (NewCrowdSec nm cfg)"
    using cs_run_fresh [OF f0 srt] assms(1,3) by auto
  have le: "last (t0 # map (fst \<circ> fst) ms) \<le> now"
    using assms(3) by (auto simp: t0_def last_map)
  have ttl: "0 < cs_CacheTTL (cs_cfg p)" "\<not> cs_FailOpen (cs_cfg p)"
    using run(2) assms(6,8) by (auto simp: NewCrowdSec_def)
  obtain p1 b where b: "isBanned E (now, don) p (remote_ip d) = (p1, b)" by fastforce
  have r: "r = None \<Longrightarrow> b = Inr False" "r \<noteq> None \<Longrightarrow> b = Inr True \<or> (\<exists>e. b = Inl e)"
    using assms(4,9) b ttl(2) by (auto simp: cs_BeforeSend_def remote_ip_def Let_def split: sum.splits if_splits)
  have src: "\<exists>t\<le>now. now - slack - cs_CacheTTL (cs_cfg p) < t \<and> queryLAPI E t (cs_cfg p) (remote_ip d) = Inr v" if "b = Inr v" for v
  proof -
    have "now - slack - cs_CacheTTL (cs_cfg p) < now" using assms(5) ttl(1) by simp
    then show ?thesis using csc.ask_fresh(4) [OF run(1) le _ _ b that] assms(7) by auto
  qed
  have err: "b = Inl e \<Longrightarrow> queryLAPI E now (cs_cfg p) (remote_ip d) = Inl e" for e
    using csc.ask_fresh(5) [OF run(1) le _ _ b] assms(7) by simp
  show ?thesis using r src err by (cases r) auto
qed

definition cs_env_ex :: cs_env where
  "cs_env_ex = \<lparr>cs_get = (\<lambda>t url h. Reply 200 (Inr (if t < 0 then ''null'' else ''[ban]''))), cs_decode = (\<lambda>_. Inr [''ban''])\<rparr>"

definition cs_cfg_ex :: CrowdSecConfig where
  "cs_cfg_ex = \<lparr>cs_Endpoint = '''', cs_APIKey = ''k'', cs_Timeout = 0, cs_FailOpen = False, cs_CacheTTL = 0\<rparr>"

definition cs_draft_ex :: draft where
  "cs_draft_ex = \<lparr>GetSenderID = ''a@x'', GetRecipientIDs = [], GetSubject = '''', GetBody = '''',
     GetHeaders = [(''X-SMTP-Remote-Addr'', ''10.0.0.1:25'')], GetAttachments = []\<rparr>"

theorem crowdsec_verdict_fresh_witness:
  "\<exists>t \<le> 10 * second. 10 * second - second - cs_CacheTTL (cs_cfg (NewCrowdSec ''cs'' cs_cfg_ex)) < t
     \<and> queryLAPI cs_env_ex t (cs_cfg (NewCrowdSec ''cs'' cs_cfg_ex)) (remote_ip cs_draft_ex) = Inr False"
proof -
  define ms where "ms = [((- second, - second), cs_draft_ex)]"
  define p where "p = cs_run cs_env_ex (NewCrowdSec ''cs'' cs_cfg_ex) ms"
  have cfg: "cs_cfg p = cs_cfg (NewCrowdSec ''cs'' cs_cfg_ex)" 
    unfolding p_def ms_def by (simp add: cs_BeforeSend_cfg)
  obtain p' r where r: "cs_BeforeSend cs_env_ex (10 * second, 10 * second) p cs_draft_ex = (p', r)" by fastforce
  have addr: "gm_str (GetHeaders cs_draft_ex) ''X-SMTP-Remote-Addr'' = ''10.0.0.1:25''" "split_host_port ''10.0.0.1:25'' = Some (''10.0.0.1'', ''25'')"
    by (simp add: cs_draft_ex_def gm_str_def) code_simp
  have old: "queryLAPI cs_env_ex (- second) cfg ip = Inr False" for cfg ip
    by (simp add: queryLAPI_def cs_env_ex_def)
  have "snd (cs_BeforeSend cs_env_ex (10 * second, 10 * second) p cs_draft_ex) = None"
    unfolding p_def ms_def
    by (simp add: cs_BeforeSend_def isBanned_def addr old) (simp add: NewCrowdSec_def cs_cfg_ex_def)
  then have "r = None" using r by simp
  then show ?thesis
    using crowdsec_verdict_fresh [OF p_def _ _ _ _ _ _ _ r, of second] cfg
    by (simp add: ms_def cs_cfg_ex_def cs_draft_ex_def gm_str_def)
qed

end
