(* ===== verification/Scanners.thy ===== *)
theory Scanners
  imports Plugin
begin

text \<open>
  The plugins that send a draft to an outside scanner: the spam checker
  (\<open>internal/plugin/spam_checker.go\<close>) and the virus scanner (\<open>internal/plugin/antivirus.go\<close>). The
  HTTP exchange, the JSON decoders and the verb \<open>%.2f\<close> are parameters; scores are reals. The spam
  checker may change the headers of the draft it is given.
\<close>

section \<open>Spam checker\<close>

record SpamCheckerConfig =
  sc_Endpoint :: string
  sc_Threshold :: real
  sc_TagOnly :: bool
  sc_Timeout :: duration

record spamRequest =
  sq_Sender :: string
  sq_Recipients :: "string list"
  sq_Subject :: string
  sq_Body :: string

record spamResponse =
  Score :: real
  IsSpam :: bool
  Reason :: string

record SpamChecker =
  sc_name :: string
  sc_cfg :: SpamCheckerConfig

definition NewSpamChecker :: "string \<Rightarrow> SpamCheckerConfig \<Rightarrow> SpamChecker" where
  "NewSpamChecker nm cfg =
     \<lparr>sc_name = nm, sc_cfg = cfg\<lparr>sc_Timeout := (if sc_Timeout cfg = 0 then 5 * second else sc_Timeout cfg)\<rparr>\<rparr>"

text \<open>The exchange with a scanner: the request cannot be built, cannot be sent, or is answered.\<close>

datatype scan_reply = NotBuilt error | NotSent error | Answer nat string

record spam_env =
  sc_post :: "string \<Rightarrow> spamRequest \<Rightarrow> scan_reply"
  sc_decode :: "string \<Rightarrow> spamResponse option"
  fmt_2f :: "real \<Rightarrow> string"

definition SetHeader :: "string \<Rightarrow> string \<Rightarrow> draft \<Rightarrow> draft" where
  "SetHeader k v d = d\<lparr>GetHeaders := gm_put k v (GetHeaders d)\<rparr>"

definition sc_BeforeSend :: "spam_env \<Rightarrow> SpamChecker \<Rightarrow> draft \<Rightarrow> draft \<times> error option" where
  "sc_BeforeSend E s d =
     (let req = \<lparr>sq_Sender = GetSenderID d, sq_Recipients = GetRecipientIDs d, sq_Subject = GetSubject d, sq_Body = GetBody d\<rparr> in
      case sc_post E (sc_Endpoint (sc_cfg s)) req of
        NotBuilt e \<Rightarrow> (d, Some (EWrap ''spam checker: build request'' e))
      | NotSent e \<Rightarrow> (d, None)
      | Answer status body \<Rightarrow>
          if status \<noteq> 200 then (d, None)
          else case sc_decode E (take (2 ^ 20) body) of
                 None \<Rightarrow> (d, None)
               | Some sr \<Rightarrow>
                   (let isSpam = (IsSpam sr \<or> sc_Threshold (sc_cfg s) < Score sr) in
                    if \<not> isSpam then (d, None)
                    else if sc_TagOnly (sc_cfg s) then
                      (let d1 = SetHeader ''X-Spam-Status'' ''Yes'' (SetHeader ''X-Spam-Score'' (fmt_2f E (Score sr)) d)
                       in (if Reason sr \<noteq> '''' then SetHeader ''X-Spam-Reason'' (Reason sr) d1 else d1, None))
                    else
                      (let reason = (if Reason sr = '''' then ''score '' @ fmt_2f E (Score sr) @ '' exceeds threshold ''
                                       @ fmt_2f E (sc_Threshold (sc_cfg s)) else Reason sr)
                       in (d, Some (reject (sc_name s) reason)))))"

section \<open>Virus scanner\<close>

record AntiVirusConfig =
  av_Endpoint :: string
  av_Timeout :: duration
  av_FailOpen :: bool

record avAttachment =
  aa_ID :: string
  aa_Filename :: string
  aa_ContentType :: string
  aa_Size :: int64
  aa_URI :: string

record avRequest =
  aq_Sender :: string
  aq_Subject :: string
  aq_Body :: string
  aq_Attachments :: "avAttachment list"

record avThreat =
  at_AttachmentID :: string
  at_Name :: string
  at_Description :: string

record avResponse =
  Clean :: bool
  Threats :: "avThreat list"

record AntiVirus =
  av_name :: string
  av_cfg :: AntiVirusConfig

definition NewAntiVirus :: "string \<Rightarrow> AntiVirusConfig \<Rightarrow> AntiVirus" where
  "NewAntiVirus nm cfg =
     \<lparr>av_name = nm, av_cfg = cfg\<lparr>av_Timeout := (if av_Timeout cfg = 0 then 30 * second else av_Timeout cfg)\<rparr>\<rparr>"

record av_env =
  av_post :: "string \<Rightarrow> avRequest \<Rightarrow> scan_reply"
  av_decode :: "string \<Rightarrow> avResponse option"

definition av_attachment :: "attachment \<Rightarrow> avAttachment" where
  "av_attachment a = \<lparr>aa_ID = GetID a, aa_Filename = GetFilename a, aa_ContentType = GetContentType a, aa_Size = GetSize a,
     aa_URI = GetURI a\<rparr>"

definition av_request :: "draft \<Rightarrow> avRequest" where
  "av_request d = \<lparr>aq_Sender = GetSenderID d, aq_Subject = GetSubject d, aq_Body = GetBody d,
     aq_Attachments = map av_attachment (GetAttachments d)\<rparr>"

definition av_BeforeSend :: "av_env \<Rightarrow> AntiVirus \<Rightarrow> draft \<Rightarrow> error option" where
  "av_BeforeSend E av d =
     (let failing = (\<lambda>reason. if av_FailOpen (av_cfg av) then None else Some (reject (av_name av) reason)) in
      case av_post E (av_Endpoint (av_cfg av)) (av_request d) of
        NotBuilt e \<Rightarrow> Some (EWrap ''antivirus: build request'' e)
      | NotSent e \<Rightarrow> failing ''AV scan unavailable''
      | Answer status body \<Rightarrow>
          if status \<noteq> 200 then failing (''AV scan returned status '' @ itoa (int status))
          else case av_decode E (take (2 ^ 20) body) of
                 None \<Rightarrow> failing ''AV scan response unreadable''
               | Some avr \<Rightarrow>
                   if Clean avr then None
                   else Some (reject (av_name av) (''threats detected: '' @ join '', '' (map at_Name (Threats avr)))))"

section \<open>Properties\<close>

text \<open>With a well-formed endpoint URL both plugins honour the contract of a send hook.\<close>

definition builds :: "(string \<Rightarrow> 'q \<Rightarrow> scan_reply) \<Rightarrow> string \<Rightarrow> bool" where
  "builds post url \<longleftrightarrow> (\<forall>q. case post url q of NotBuilt _ \<Rightarrow> False | _ \<Rightarrow> True)"

lemma sc_BeforeSend_rejects:
  assumes "builds (sc_post E) (sc_Endpoint (sc_cfg s))" and "sc_BeforeSend E s d = (d', Some e)"
  shows "rejected_by (sc_name s) (Some e)"
proof -
  define req where "req = \<lparr>sq_Sender = GetSenderID d, sq_Recipients = GetRecipientIDs d, sq_Subject = GetSubject d, sq_Body = GetBody d\<rparr>"
  have "case sc_post E (sc_Endpoint (sc_cfg s)) req of NotBuilt _ \<Rightarrow> False | _ \<Rightarrow> True"
    using assms(1) unfolding builds_def by blast
  then show ?thesis
    using assms(2) unfolding sc_BeforeSend_def Let_def req_def [symmetric]
    by (auto split: scan_reply.splits if_splits option.splits)
qed

lemma av_BeforeSend_rejects:
  assumes "builds (av_post E) (av_Endpoint (av_cfg av))" and "av_BeforeSend E av d = Some e"
  shows "rejected_by (av_name av) (Some e)"
proof -
  have "case av_post E (av_Endpoint (av_cfg av)) (av_request d) of NotBuilt _ \<Rightarrow> False | _ \<Rightarrow> True"
    using assms(1) unfolding builds_def by blast
  then show ?thesis
    using assms(2) by (auto simp: av_BeforeSend_def Let_def split: scan_reply.splits if_splits option.splits)
qed

interpretation sch: send_hook "\<lambda>now s d. (s, snd (sc_BeforeSend E s d))" "\<lambda>s. builds (sc_post E) (sc_Endpoint (sc_cfg s))" sc_name
  by unfold_locales (auto intro: sc_BeforeSend_rejects simp: prod_eq_iff)

interpretation avh: send_hook "\<lambda>now av d. (av, av_BeforeSend E av d)" "\<lambda>av. builds (av_post E) (av_Endpoint (av_cfg av))" av_name
  by unfold_locales (auto dest: av_BeforeSend_rejects)

text \<open>A fail-closed virus scanner lets a message through only when the scanner answered 200 with a
  readable report that calls the message clean, for a request that lists every attachment of the
  draft; a fail-open scanner stops only messages whose readable report is not clean.\<close>

theorem antivirus_verdict:
  assumes "builds (av_post E) (av_Endpoint (av_cfg av))"
  shows "av_BeforeSend E av d = None \<longleftrightarrow>
    (case av_post E (av_Endpoint (av_cfg av)) (av_request d) of
       Answer status body \<Rightarrow>
         (case (status = 200, av_decode E (take (2 ^ 20) body)) of
            (True, Some avr) \<Rightarrow> Clean avr
          | _ \<Rightarrow> av_FailOpen (av_cfg av))
     | _ \<Rightarrow> av_FailOpen (av_cfg av))
    \<and> length (aq_Attachments (av_request d)) = length (GetAttachments d)"
proof -
  have "case av_post E (av_Endpoint (av_cfg av)) (av_request d) of NotBuilt _ \<Rightarrow> False | _ \<Rightarrow> True"
    using assms unfolding builds_def by blast
  then show ?thesis
    by (auto simp: av_BeforeSend_def Let_def av_request_def split: scan_reply.splits option.splits bool.splits)
qed

definition av_env_ex :: av_env where
  "av_env_ex = \<lparr>av_post = (\<lambda>_ q. Answer 200 (aq_Body q)), av_decode = (\<lambda>b. Some \<lparr>Clean = (b = ''ok''), Threats = []\<rparr>)\<rparr>"

theorem antivirus_verdict_witness:
  "av_BeforeSend av_env_ex (NewAntiVirus ''av'' \<lparr>av_Endpoint = ''u'', av_Timeout = 0, av_FailOpen = False\<rparr>)
     \<lparr>GetSenderID = ''a'', GetRecipientIDs = [], GetSubject = '''', GetBody = ''ok'', GetHeaders = [], GetAttachments = []\<rparr> = None"
proof -
  have b: "builds (av_post av_env_ex) url" for url by (simp add: builds_def av_env_ex_def)
  show ?thesis
    by (subst antivirus_verdict [OF b]) (simp add: av_env_ex_def av_request_def)
qed

text \<open>The spam checker never changes what is delivered except by its own headers, and only in tag mode.\<close>

lemma sc_BeforeSend_draft:
  assumes "sc_BeforeSend E s d = (d', r)"
  shows "d' = d \<or> sc_TagOnly (sc_cfg s) \<and> r = None"
    and "k \<notin> {''X-Spam-Score'', ''X-Spam-Status'', ''X-Spam-Reason''} \<Longrightarrow> gm_get (GetHeaders d') k = gm_get (GetHeaders d) k"
  using assms by (auto simp: sc_BeforeSend_def SetHeader_def Let_def split: scan_reply.splits if_splits option.splits)

end
