(* ===== verification/Serve.thy ===== *)
theory Serve
  imports Controller Address_Filter Attachment_Filter Security_Agent Email_Auth Smtp_Security Ip_Reputation Scanners
begin

text \<open>
  The \<open>serve\<close> command (\<open>cmd/serve.go\<close>, \<open>cmd/config.go\<close>): how the configuration becomes the chain of
  plugins, the outbound backend, the options of the controller and the configurations of the
  listeners. Flag parsing and the configuration file are the library's; the model starts from the
  resolved configuration.

  The mailbox library runs the hooks in the order in which they were given and stops at the first
  error; \<open>run_hooks\<close> says so. What the plugins ask of the outside world is the record \<open>chain_env\<close>.
\<close>

section \<open>Configuration\<close>

text \<open>\<open>time.Duration(n) * time.Second\<close> and \<open>* time.Minute\<close>, in 64 bits.\<close>

definition secs :: "int \<Rightarrow> duration" where
  "secs n = sint (word_of_int (n * second) :: int64)"

definition mins :: "int \<Rightarrow> duration" where
  "mins n = sint (word_of_int (n * minute) :: int64)"

record CrowdSecPluginConfig =
  pcs_Enabled :: bool
  pcs_Endpoint :: string
  pcs_APIKey :: string
  pcs_TimeoutSecs :: int
  pcs_FailOpen :: bool
  pcs_CacheTTLSecs :: int

record DNSBLPluginConfig =
  pbl_Enabled :: bool
  pbl_Zones :: "string list"
  pbl_CacheTTLSecs :: int
  pbl_FailOpen :: bool

record AddressRuleConfig =
  arc_ID :: string
  arc_Pattern :: string
  arc_Field :: string

record AddressFilterPluginConfig =
  paf_Enabled :: bool
  paf_Mode :: string
  paf_Rules :: "AddressRuleConfig list"

record AttachmentPluginConfig =
  pat_Enabled :: bool
  pat_MaxCount :: int
  pat_MaxSingleBytes :: int64
  pat_MaxTotalBytes :: int64
  pat_AllowedMIMEs :: "string list"
  pat_BlockedMIMEs :: "string list"

record SMTPSecurityPluginConfig =
  pss_Enabled :: bool
  pss_MaxAuthFailuresPerIP :: int
  pss_LockoutMinutes :: int
  pss_EnvelopeSpoofCheck :: bool
  pss_AllowedSenderDomains :: "string list"
  pss_BlockedSenderDomains :: "string list"
  pss_MaxSubjectBytes :: int
  pss_RequireAuthenticatedSender :: bool
  pss_RedisLockout :: bool

record EmailAuthPluginConfig =
  pea_Enabled :: bool
  pea_SPFPolicy :: string
  pea_DKIMPolicy :: string
  pea_DMARCPolicy :: string

record SpamCheckerPluginConfig =
  psc_Enabled :: bool
  psc_Endpoint :: string
  psc_Threshold :: real
  psc_TagOnly :: bool
  psc_TimeoutSecs :: int

record AntiVirusPluginConfig =
  pav_Enabled :: bool
  pav_Endpoint :: string
  pav_TimeoutSecs :: int
  pav_FailOpen :: bool

record SecurityAgentPluginConfig =
  psa_Enabled :: bool
  psa_MaxRecipients :: int
  psa_MaxBodyBytes :: int
  psa_RatePerSender :: real
  psa_BurstPerSender :: int

record PluginsConfig =
  p_CrowdSec :: CrowdSecPluginConfig
  p_DNSBL :: DNSBLPluginConfig
  p_AddressFilter :: AddressFilterPluginConfig
  p_Attachment :: AttachmentPluginConfig
  p_SMTPSecurity :: SMTPSecurityPluginConfig
  p_EmailAuth :: EmailAuthPluginConfig
  p_SpamChecker :: SpamCheckerPluginConfig
  p_AntiVirus :: AntiVirusPluginConfig
  p_SecurityAgent :: SecurityAgentPluginConfig

section \<open>The chain of plugins\<close>

text \<open>The address filter comes with the rule store from which \<open>Init\<close> loads it. The SMTP security plugin
  remembers whether it uses the Redis lockout store.\<close>

datatype 'l plugin =
    PCrowdSec CrowdSecPlugin
  | PDNSBL DNSBLPlugin
  | PAddressFilter AddressFilter MemRuleStore
  | PAttachment AttachmentFilter
  | PSMTPSecurity SMTPSecurityPlugin bool
  | PEmailAuth EmailAuthPlugin
  | PSpam SpamChecker
  | PAntiVirus AntiVirus
  | PSecurityAgent "'l SecurityAgent"

fun plugin_name :: "'l plugin \<Rightarrow> string" where
  "plugin_name (PCrowdSec p) = cs_name p"
| "plugin_name (PDNSBL p) = bl_name p"
| "plugin_name (PAddressFilter p _) = fl_name p"
| "plugin_name (PAttachment p) = af_name p"
| "plugin_name (PSMTPSecurity p _) = sp_name p"
| "plugin_name (PEmailAuth p) = ea_name p"
| "plugin_name (PSpam p) = sc_name p"
| "plugin_name (PAntiVirus p) = av_name p"
| "plugin_name (PSecurityAgent p) = sa_name p"

definition rule_of_config :: "AddressRuleConfig \<Rightarrow> AddressRule" where
  "rule_of_config r =
     (let field = (if arc_Field r = ''sender'' then FieldSender else if arc_Field r = ''recipients'' then FieldRecipients else FieldAll)
      in \<lparr>RuleID = arc_ID r, Pattern = arc_Pattern r, Field = field\<rparr>)"

definition addressRulesFromConfig :: "AddressRuleConfig list \<Rightarrow> AddressRule list" where
  "addressRulesFromConfig rules = map rule_of_config rules"

definition attachment_cfg :: "AttachmentPluginConfig \<Rightarrow> AttachmentFilterConfig" where
  "attachment_cfg c = \<lparr>MaxCount = pat_MaxCount c, MaxTotalBytes = pat_MaxTotalBytes c, MaxSingleBytes = pat_MaxSingleBytes c,
     AllowedMIMEs = pat_AllowedMIMEs c, BlockedMIMEs = pat_BlockedMIMEs c\<rparr>"

definition smtp_security_cfg :: "SMTPSecurityPluginConfig \<Rightarrow> SMTPSecurityConfig" where
  "smtp_security_cfg c = \<lparr>MaxAuthFailuresPerIP = pss_MaxAuthFailuresPerIP c, LockoutDuration = mins (pss_LockoutMinutes c), IPLookupTTL = 0,
     EnvelopeSpoofCheck = pss_EnvelopeSpoofCheck c, AllowedSenderDomains = pss_AllowedSenderDomains c,
     BlockedSenderDomains = pss_BlockedSenderDomains c, MaxSubjectBytes = pss_MaxSubjectBytes c,
     RequireAuthenticatedSender = pss_RequireAuthenticatedSender c\<rparr>"

definition email_auth_cfg :: "EmailAuthPluginConfig \<Rightarrow> EmailAuthConfig" where
  "email_auth_cfg c = \<lparr>SPFPolicy = pea_SPFPolicy c, DKIMPolicy = pea_DKIMPolicy c, DMARCPolicy = pea_DMARCPolicy c\<rparr>"

definition agent_cfg :: "SecurityAgentPluginConfig \<Rightarrow> SecurityAgentConfig" where
  "agent_cfg c = \<lparr>MaxRecipients = psa_MaxRecipients c, MaxBodyBytes = psa_MaxBodyBytes c, RatePerSender = psa_RatePerSender c,
     BurstPerSender = psa_BurstPerSender c, SenderTTL = 0, BlockedExtensions = None\<rparr>"

text \<open>One block of \<open>buildPlugins\<close> each; the second result of \<open>buildPlugins\<close> is the plugin that is also the
  server's \<open>AuthFailureHook\<close>.\<close>

definition build_crowdsec :: "CrowdSecPluginConfig \<Rightarrow> 'l plugin list" where
  "build_crowdsec c =
     (if pcs_Enabled c then
        [PCrowdSec (NewCrowdSec ''crowdsec'' \<lparr>cs_Endpoint = pcs_Endpoint c, cs_APIKey = pcs_APIKey c, cs_Timeout = secs (pcs_TimeoutSecs c),
            cs_FailOpen = pcs_FailOpen c, cs_CacheTTL = secs (pcs_CacheTTLSecs c)\<rparr>)]
      else [])"

definition build_dnsbl :: "DNSBLPluginConfig \<Rightarrow> 'l plugin list" where
  "build_dnsbl c =
     (if pbl_Enabled c \<and> 0 < length (pbl_Zones c) then
        [PDNSBL (NewDNSBL ''dnsbl'' \<lparr>Zones = pbl_Zones c, bl_CacheTTL = secs (pbl_CacheTTLSecs c), bl_FailOpen = pbl_FailOpen c\<rparr>)]
      else [])"

definition build_address_filter :: "AddressFilterPluginConfig \<Rightarrow> 'l plugin list" where
  "build_address_filter c =
     (if paf_Enabled c then
        [PAddressFilter (NewAddressFilter ''address-filter'' (if paf_Mode c = ''allow'' then ModeAllow else ModeBlock))
           (NewMemRuleStore (addressRulesFromConfig (paf_Rules c)))]
      else [])"

definition build_attachment :: "golib \<Rightarrow> AttachmentPluginConfig \<Rightarrow> 'l plugin list" where
  "build_attachment G c = (if pat_Enabled c then [PAttachment (NewAttachmentFilter G ''attachment-filter'' (attachment_cfg c))] else [])"

definition build_smtp_security :: "golib \<Rightarrow> bool \<Rightarrow> SMTPSecurityPluginConfig \<Rightarrow> 'l plugin list" where
  "build_smtp_security G hasRedis c =
     (if pss_Enabled c then [PSMTPSecurity (NewSMTPSecurityPlugin G ''smtp-security'' (smtp_security_cfg c)) (pss_RedisLockout c \<and> hasRedis)] else [])"

definition build_email_auth :: "EmailAuthPluginConfig \<Rightarrow> 'l plugin list" where
  "build_email_auth c = (if pea_Enabled c then [PEmailAuth (NewEmailAuth ''email-auth'' (email_auth_cfg c))] else [])"

definition build_spam :: "SpamCheckerPluginConfig \<Rightarrow> 'l plugin list" where
  "build_spam c =
     (if psc_Enabled c \<and> psc_Endpoint c \<noteq> '''' then
        [PSpam (NewSpamChecker ''spam-checker'' \<lparr>sc_Endpoint = psc_Endpoint c, sc_Threshold = psc_Threshold c, sc_TagOnly = psc_TagOnly c,
            sc_Timeout = secs (psc_TimeoutSecs c)\<rparr>)]
      else [])"

definition build_antivirus :: "AntiVirusPluginConfig \<Rightarrow> 'l plugin list" where
  "build_antivirus c =
     (if pav_Enabled c \<and> pav_Endpoint c \<noteq> '''' then
        [PAntiVirus (NewAntiVirus ''antivirus'' \<lparr>av_Endpoint = pav_Endpoint c, av_Timeout = secs (pav_TimeoutSecs c), av_FailOpen = pav_FailOpen c\<rparr>)]
      else [])"

definition build_security_agent :: "golib \<Rightarrow> SecurityAgentPluginConfig \<Rightarrow> 'l plugin list" where
  "build_security_agent G c =
     (if psa_Enabled c then
        [PSecurityAgent (NewSecurityAgent G ''security-agent'' (agent_cfg c))]
      else [])"

definition buildPlugins :: "golib \<Rightarrow> bool \<Rightarrow> PluginsConfig \<Rightarrow> 'l plugin list \<times> SMTPSecurityPlugin option" where
  "buildPlugins G hasRedis cfg =
     (build_crowdsec (p_CrowdSec cfg) @ build_dnsbl (p_DNSBL cfg) @ build_address_filter (p_AddressFilter cfg)
      @ build_attachment G (p_Attachment cfg) @ build_smtp_security G hasRedis (p_SMTPSecurity cfg) @ build_email_auth (p_EmailAuth cfg)
      @ build_spam (p_SpamChecker cfg) @ build_antivirus (p_AntiVirus cfg) @ build_security_agent G (p_SecurityAgent cfg),
      if pss_Enabled (p_SMTPSecurity cfg) then Some (NewSMTPSecurityPlugin G ''smtp-security'' (smtp_security_cfg (p_SMTPSecurity cfg))) else None)"

section \<open>Running the chain\<close>

record ('l, 'k) chain_env =
  ce_lib :: golib
  ce_host :: "gotime \<Rightarrow> string \<Rightarrow> dns_answer"
  ce_lapi :: cs_env
  ce_dns :: dns_env
  ce_spam :: spam_env
  ce_av :: av_env
  ce_limiter :: "'l limiter_ops"
  ce_lockout :: "'k lockout_ops"

text \<open>\<open>Init\<close> of the address filter loads its rules; two other plugins start their eviction loops.\<close>

fun init_plugin :: "golib \<Rightarrow> 'l plugin \<Rightarrow> 'l plugin" where
  "init_plugin G (PAddressFilter f m) = PAddressFilter (fst (reload G (Some mrs_ops) m f)) m"
| "init_plugin G (PSMTPSecurity p r) = PSMTPSecurity (sp_Init p) r"
| "init_plugin G (PSecurityAgent a) = PSecurityAgent (sa_Init a)"
| "init_plugin G p = p"

text \<open>One hook: the plugin afterwards, the draft afterwards (the spam checker may tag it) and the verdict.
  \<open>k\<close> is the state of the Redis lockout store.\<close>

fun plugin_BeforeSend :: "('l, 'k) chain_env \<Rightarrow> gotime \<Rightarrow> 'k \<Rightarrow> 'l plugin \<Rightarrow> draft \<Rightarrow> 'l plugin \<times> draft \<times> error option" where
  "plugin_BeforeSend E now k (PCrowdSec p) d = (case cs_BeforeSend (ce_lapi E) (now, now) p d of (p', r) \<Rightarrow> (PCrowdSec p', d, r))"
| "plugin_BeforeSend E now k (PDNSBL p) d = (case bl_BeforeSend (ce_lib E) (ce_host E) now p d of (p', r) \<Rightarrow> (PDNSBL p', d, r))"
| "plugin_BeforeSend E now k (PAddressFilter f m) d = (PAddressFilter f m, d, fl_BeforeSend (ce_lib E) f d)"
| "plugin_BeforeSend E now k (PAttachment f) d = (PAttachment f, d, af_BeforeSend (ce_lib E) f d)"
| "plugin_BeforeSend E now k (PSMTPSecurity p r) d =
     (PSMTPSecurity p r, d, sp_BeforeSend (ce_lib E) (if r then Some (ce_lockout E) else None) now (k, p) d)"
| "plugin_BeforeSend E now k (PEmailAuth p) d = (PEmailAuth p, d, ea_BeforeSend (ce_lib E) (ce_dns E) p d)"
| "plugin_BeforeSend E now k (PSpam s) d = (case sc_BeforeSend (ce_spam E) s d of (d', r) \<Rightarrow> (PSpam s, d', r))"
| "plugin_BeforeSend E now k (PAntiVirus a) d = (PAntiVirus a, d, av_BeforeSend (ce_av E) a d)"
| "plugin_BeforeSend E now k (PSecurityAgent a) d = (case sa_BeforeSend (ce_lib E) (ce_limiter E) now a d of (a', r) \<Rightarrow> (PSecurityAgent a', d, r))"

fun run_hooks :: "('l, 'k) chain_env \<Rightarrow> gotime \<Rightarrow> 'k \<Rightarrow> 'l plugin list \<Rightarrow> draft \<Rightarrow> 'l plugin list \<times> draft \<times> error option" where
  "run_hooks E now k [] d = ([], d, None)"
| "run_hooks E now k (p # ps) d =
     (case plugin_BeforeSend E now k p d of
        (p', d', Some e) \<Rightarrow> (p' # ps, d', Some e)
      | (p', d', None) \<Rightarrow> (case run_hooks E now k ps d' of (ps', d'', r) \<Rightarrow> (p' # ps', d'', r)))"

section \<open>The outbound backend\<close>

record OutboundConfig =
  ob_Backend :: string
  ob_NodeID :: string
  ob_From :: string
  ob_SMTPHost :: string
  ob_SMTPUsername :: string
  ob_SMTPPassword :: string
  ob_SMTPTimeoutSecs :: int
  ob_SendGridAPIKey :: string
  ob_SendGridTimeoutSecs :: int
  ob_DKIMPrivateKeyFile :: string
  ob_DKIMDomain :: string
  ob_DKIMSelector :: string
  ob_QueueEnabled :: bool
  ob_QueueWorkers :: int
  ob_QueueMaxRetries :: int
  ob_QueueBaseDelaySecs :: int
  ob_QueueMaxDelaySecs :: int

record 'k outbound_env =
  oe_ReadFile :: "string \<Rightarrow> string result"
  oe_SendMail :: sendmail
  oe_Post :: "string \<Rightarrow> sendgrid_payload \<Rightarrow> error + int \<times> string"
  oe_x509 :: "'k x509"

definition outbound_smtp :: "OutboundConfig \<Rightarrow> SMTPConfig" where
  "outbound_smtp cfg = NewSMTP \<lparr>smtp_Host = ob_SMTPHost cfg, smtp_Username = ob_SMTPUsername cfg, smtp_Password = ob_SMTPPassword cfg,
     smtp_From = ob_From cfg, smtp_Timeout = secs (ob_SMTPTimeoutSecs cfg)\<rparr>"

definition outbound_sendgrid :: "OutboundConfig \<Rightarrow> SendGridConfig" where
  "outbound_sendgrid cfg = NewSendGrid \<lparr>sg_APIKey = ob_SendGridAPIKey cfg, sg_From = ob_From cfg, sg_Timeout = secs (ob_SendGridTimeoutSecs cfg)\<rparr>"

definition buildRelayBackend :: "golib \<Rightarrow> 'k outbound_env \<Rightarrow> OutboundConfig \<Rightarrow> backend result" where
  "buildRelayBackend G E cfg =
     (let wrap = (\<lambda>base.
            if ob_DKIMPrivateKeyFile cfg \<noteq> '''' \<and> ob_DKIMDomain cfg \<noteq> '''' \<and> ob_DKIMSelector cfg \<noteq> '''' then
              (case oe_ReadFile E (ob_DKIMPrivateKeyFile cfg) of
                 Inl e \<Rightarrow> Inl (EWrap (''read dkim private key '' @ quote G (ob_DKIMPrivateKeyFile cfg)) e)
               | Inr pem \<Rightarrow>
                   (case NewDKIMSigningBackend G (oe_x509 E) \<lparr>dk_PrivateKeyPEM = pem, dk_Domain = ob_DKIMDomain cfg, dk_Selector = ob_DKIMSelector cfg\<rparr> base of
                      Inl e \<Rightarrow> Inl (EWrap ''dkim signing backend'' e)
                    | Inr b \<Rightarrow> Inr b))
            else Inr base)
      in if ob_Backend cfg = ''sendgrid'' then wrap (sendgrid_backend (oe_Post E) (outbound_sendgrid cfg))
         else if ob_Backend cfg = ''smtp'' then wrap (smtp_backend G (oe_SendMail E) (outbound_smtp cfg))
         else Inl (EText (''unknown outbound backend '' @ quote G (ob_Backend cfg) @ ''; want smtp|sendgrid'')))"

section \<open>Options of the controller and of the listeners\<close>

record WebhookConfig =
  wh_Enabled :: bool
  wh_Workers :: int
  wh_MaxAttempts :: int
  wh_TimeoutSecs :: int

record ServerConfig =
  sv_Port :: string
  sv_Host :: string
  sv_Mode :: string
  sv_DB :: string
  sv_NodeID :: string

record serve_cfg =
  srv_Server :: ServerConfig
  srv_Plugins :: PluginsConfig
  srv_MailboxStore :: MailboxStoreConfig
  srv_Outbound :: OutboundConfig
  srv_Webhook :: WebhookConfig

definition db_path :: "ServerConfig \<Rightarrow> string" where
  "db_path cfg = (if sv_Mode cfg = ModeTemp then '':memory:'' else sv_DB cfg)"

definition relay_options :: "OutboundConfig \<Rightarrow> backend \<Rightarrow> ('r, 'p) option_fn list" where
  "relay_options ob outbound =
     (let nid = (if ob_NodeID ob = '''' then ''outbound'' else ob_NodeID ob)
      in WithOutboundRelay nid outbound #
         (if ob_QueueEnabled ob then
            [WithOutboundRelayQueue \<lparr>Workers = ob_QueueWorkers ob, MaxRetries = ob_QueueMaxRetries ob,
               BaseDelay = word_of_int (ob_QueueBaseDelaySecs ob * second), MaxDelay = word_of_int (ob_QueueMaxDelaySecs ob * second)\<rparr>]
          else []))"

text \<open>The time-out of the HTTP client and the logger are not options of the model.\<close>

definition webhook_options :: "WebhookConfig \<Rightarrow> ('r, 'p) option_fn list" where
  "webhook_options wh =
     (if wh_Enabled wh then
        [WithWebhook ((if 0 < wh_Workers wh then [WithWorkers (wh_Workers wh)] else [])
                      @ (if 0 < wh_MaxAttempts wh then [WithMaxAttempts (wh_MaxAttempts wh)] else []))]
      else [])"

text \<open>The options that give the plugins and the durable store to the mailbox service.\<close>

definition mailbox_opts :: "golib \<Rightarrow> mbx_env \<Rightarrow> MailboxStoreConfig \<Rightarrow> 'p list \<Rightarrow> ('r, 'p) option_fn list" where
  "mailbox_opts G M mb plugins =
     (if plugins \<noteq> [] then [WithMailboxPlugins plugins] else [])
     @ (if mb_Backend mb \<noteq> '''' \<and> mb_Backend mb \<noteq> ''memory'' then [WithMailboxFactory (NewMailboxFactory G M mb plugins)] else [])"

text \<open>What \<open>runServe\<close> sets up before it starts the controller: the controller's options in their order and the
  hook of the SMTP server; or the error of building the outbound backend.\<close>

record ('r, 'l) serve_setup =
  su_options :: "('r, 'l plugin) option_fn list"
  su_authHook :: "SMTPSecurityPlugin option"

definition serve_options ::
  "golib \<Rightarrow> 'k outbound_env \<Rightarrow> mbx_env \<Rightarrow> 'r redis_ops option \<Rightarrow> serve_cfg \<Rightarrow> ('r, 'l) serve_setup result" where
  "serve_options G E M redisClient cfg =
     (let base = [WithNodeID (sv_NodeID (srv_Server cfg)), WithMode (sv_Mode (srv_Server cfg)),
                  WithAddress (sv_Host (srv_Server cfg) @ '':'' @ sv_Port (srv_Server cfg))]
                 @ (case redisClient of Some R \<Rightarrow> [WithRedisClient R] | None \<Rightarrow> []);
          (plugins, authHook) = buildPlugins G (redisClient \<noteq> None) (srv_Plugins cfg);
          setup = (\<lambda>relay. \<lparr>su_options = base @ mailbox_opts G M (srv_MailboxStore cfg) plugins @ relay @ webhook_options (srv_Webhook cfg),
                             su_authHook = authHook\<rparr>)
      in if ob_Backend (srv_Outbound cfg) \<noteq> '''' then
           (case buildRelayBackend G E (srv_Outbound cfg) of
              Inl e \<Rightarrow> Inl e
            | Inr outbound \<Rightarrow> Inr (setup (relay_options (srv_Outbound cfg) outbound)))
         else Inr (setup []))"

record cmd_SMTPConfig =
  sm_Port :: int
  sm_BindAddr :: string
  sm_Domain :: string
  sm_InsecureAuth :: bool
  sm_MaxMsgBytes :: int64
  sm_MaxRecipients :: int
  sm_MaxConnections :: int
  sm_ReadTimeoutSecs :: int
  sm_WriteTimeoutSecs :: int
  sm_RateConns :: real
  sm_RateBurst :: int
  sm_RateConnsPerIP :: real
  sm_RateBurstPerIP :: int
  sm_RelayEnabled :: bool
  sm_TLSCertFile :: string
  sm_TLSKeyFile :: string
  sm_MaxAuthFailuresPerSession :: int
  sm_CheckSPF :: bool
  sm_VerifyDKIM :: bool

text \<open>\<open>hook\<close> says whether the plugins have given an \<open>authHook\<close>.\<close>

definition serve_smtp_cfg :: "bool \<Rightarrow> cmd_SMTPConfig \<Rightarrow> Config" where
  "serve_smtp_cfg hook c =
     \<lparr>cfg_Port = sm_Port c, cfg_BindAddr = sm_BindAddr c, cfg_Domain = sm_Domain c, cfg_AllowInsecureAuth = sm_InsecureAuth c,
      cfg_MaxMessageBytes = sm_MaxMsgBytes c, cfg_MaxRecipients = sm_MaxRecipients c, cfg_MaxConnections = sm_MaxConnections c,
      cfg_ReadTimeout = secs (sm_ReadTimeoutSecs c), cfg_WriteTimeout = secs (sm_WriteTimeoutSecs c), cfg_RelayEnabled = sm_RelayEnabled c,
      cfg_TLSCertFile = sm_TLSCertFile c, cfg_TLSKeyFile = sm_TLSKeyFile c, cfg_MaxAuthFailuresPerSession = sm_MaxAuthFailuresPerSession c,
      cfg_CheckSPF = sm_CheckSPF c, cfg_VerifyDKIM = sm_VerifyDKIM c, cfg_AuthFailureHook = hook, cfg_MaxConnsPerSec = sm_RateConns c, cfg_BurstConns = sm_RateBurst c,
      cfg_MaxConnsPerSecPerIP = sm_RateConnsPerIP c, cfg_BurstConnsPerIP = sm_RateBurstPerIP c\<rparr>"

record cmd_LMTPConfig =
  lt_SocketPath :: string
  lt_Port :: int
  lt_BindAddr :: string
  lt_Domain :: string
  lt_MaxMsgBytes :: int64
  lt_MaxRecipients :: int
  lt_ReadTimeoutSecs :: int
  lt_WriteTimeoutSecs :: int

definition serve_lmtp_cfg :: "cmd_LMTPConfig \<Rightarrow> LMTPConfig" where
  "serve_lmtp_cfg c =
     \<lparr>lcfg_SocketPath = lt_SocketPath c, lcfg_Port = lt_Port c, lcfg_BindAddr = lt_BindAddr c, lcfg_Domain = lt_Domain c,
      lcfg_MaxMessageBytes = lt_MaxMsgBytes c, lcfg_MaxRecipients = lt_MaxRecipients c,
      lcfg_ReadTimeout = secs (lt_ReadTimeoutSecs c), lcfg_WriteTimeout = secs (lt_WriteTimeoutSecs c)\<rparr>"

section \<open>Order of the chain\<close>

definition plugin_table :: "PluginsConfig \<Rightarrow> (string \<times> bool) list" where
  "plugin_table cfg =
     [(''crowdsec'', pcs_Enabled (p_CrowdSec cfg)), (''dnsbl'', pbl_Enabled (p_DNSBL cfg) \<and> pbl_Zones (p_DNSBL cfg) \<noteq> []),
      (''address-filter'', paf_Enabled (p_AddressFilter cfg)), (''attachment-filter'', pat_Enabled (p_Attachment cfg)),
      (''smtp-security'', pss_Enabled (p_SMTPSecurity cfg)), (''email-auth'', pea_Enabled (p_EmailAuth cfg)),
      (''spam-checker'', psc_Enabled (p_SpamChecker cfg) \<and> psc_Endpoint (p_SpamChecker cfg) \<noteq> ''''),
      (''antivirus'', pav_Enabled (p_AntiVirus cfg) \<and> pav_Endpoint (p_AntiVirus cfg) \<noteq> ''''),
      (''security-agent'', psa_Enabled (p_SecurityAgent cfg))]"

abbreviation enabled_plugins :: "PluginsConfig \<Rightarrow> string list" where
  "enabled_plugins cfg \<equiv> map fst (filter snd (plugin_table cfg))"

lemma build_names:
  "map plugin_name (build_crowdsec c1) = (if pcs_Enabled c1 then [''crowdsec''] else [])"
  "map plugin_name (build_dnsbl c2) = (if pbl_Enabled c2 \<and> pbl_Zones c2 \<noteq> [] then [''dnsbl''] else [])"
  "map plugin_name (build_address_filter c3) = (if paf_Enabled c3 then [''address-filter''] else [])"
  "map plugin_name (build_attachment G c4) = (if pat_Enabled c4 then [''attachment-filter''] else [])"
  "map plugin_name (build_smtp_security G r c5) = (if pss_Enabled c5 then [''smtp-security''] else [])"
  "map plugin_name (build_email_auth c6) = (if pea_Enabled c6 then [''email-auth''] else [])"
  "map plugin_name (build_spam c7) = (if psc_Enabled c7 \<and> psc_Endpoint c7 \<noteq> '''' then [''spam-checker''] else [])"
  "map plugin_name (build_antivirus c8) = (if pav_Enabled c8 \<and> pav_Endpoint c8 \<noteq> '''' then [''antivirus''] else [])"
  "map plugin_name (build_security_agent G c9) = (if psa_Enabled c9 then [''security-agent''] else [])"
  by (simp_all add: build_crowdsec_def NewCrowdSec_def build_dnsbl_def NewDNSBL_def build_address_filter_def NewAddressFilter_def
      build_attachment_def NewAttachmentFilter_def build_smtp_security_def NewSMTPSecurityPlugin_def build_email_auth_def NewEmailAuth_def
      build_spam_def NewSpamChecker_def build_antivirus_def NewAntiVirus_def build_security_agent_def NewSecurityAgent_def Let_def)

lemma buildPlugins_names: "map plugin_name (fst (buildPlugins G r cfg)) = enabled_plugins cfg"
  by (simp add: buildPlugins_def build_names plugin_table_def)

lemma init_plugin_name: "plugin_name (init_plugin G p) = plugin_name p"
  by (cases p) (simp_all add: reload_def mrs_ops_def mrs_ListRules_def sp_Init_def sa_Init_def)

text \<open>The chain of plugins has exactly the enabled plugins, each once, in the documented order (CrowdSec,
  DNSBL, address filter, attachments, SMTP security, e-mail authentication, spam, virus scan, security agent), and the
  SMTP server gets an authentication hook exactly if SMTP security is enabled, the same plugin that checks the messages.\<close>

theorem plugin_order:
  "map plugin_name (fst (buildPlugins G r cfg) :: 'l plugin list) = enabled_plugins cfg
   \<and> distinct (enabled_plugins cfg)
   \<and> snd (buildPlugins G r cfg :: 'l plugin list \<times> _) =
       (if ''smtp-security'' \<in> set (enabled_plugins cfg) then Some (NewSMTPSecurityPlugin G ''smtp-security'' (smtp_security_cfg (p_SMTPSecurity cfg))) else None)
   \<and> (\<forall>p. snd (buildPlugins G r cfg :: 'l plugin list \<times> _) = Some p \<longleftrightarrow>
          PSMTPSecurity p (pss_RedisLockout (p_SMTPSecurity cfg) \<and> r) \<in> set (fst (buildPlugins G r cfg) :: 'l plugin list))"
proof -
  have d: "distinct (enabled_plugins cfg)"
    by (rule distinct_map_filter) (simp add: plugin_table_def)
  have m: "''smtp-security'' \<in> set (enabled_plugins cfg) \<longleftrightarrow> pss_Enabled (p_SMTPSecurity cfg)"
    by (simp add: plugin_table_def)
  have s: "PSMTPSecurity p b \<in> set (fst (buildPlugins G r cfg) :: 'l plugin list) \<longleftrightarrow>
      pss_Enabled (p_SMTPSecurity cfg) \<and> p = NewSMTPSecurityPlugin G ''smtp-security'' (smtp_security_cfg (p_SMTPSecurity cfg))
      \<and> b = (pss_RedisLockout (p_SMTPSecurity cfg) \<and> r)" for p b
    by (simp add: buildPlugins_def build_crowdsec_def build_dnsbl_def build_address_filter_def build_attachment_def build_smtp_security_def
        build_email_auth_def build_spam_def build_antivirus_def build_security_agent_def) blast
  show ?thesis
    unfolding m s using buildPlugins_names [of G r cfg] d by (auto simp: buildPlugins_def)
qed

section \<open>What a delivered message has passed\<close>

definition spam_headers :: "string set" where
  "spam_headers = {''X-Spam-Score'', ''X-Spam-Status'', ''X-Spam-Reason''}"

text \<open>The same message, but for the tags of the spam checker.\<close>

definition same_message :: "draft \<Rightarrow> draft \<Rightarrow> bool" where
  "same_message d d' \<longleftrightarrow> draft.GetSenderID d' = draft.GetSenderID d \<and> GetRecipientIDs d' = GetRecipientIDs d \<and> draft.GetSubject d' = draft.GetSubject d
     \<and> draft.GetBody d' = draft.GetBody d \<and> GetAttachments d' = GetAttachments d
     \<and> (\<forall>k. k \<notin> spam_headers \<longrightarrow> gm_str (GetHeaders d') k = gm_str (GetHeaders d) k)"

lemma same_message_refl: "same_message d d"
  by (simp add: same_message_def)

lemma same_message_trans: "same_message d d' \<Longrightarrow> same_message d' d'' \<Longrightarrow> same_message d d''"
  by (simp add: same_message_def)

lemma SetHeader_same: "k \<in> spam_headers \<Longrightarrow> same_message d (SetHeader k v d)"
  by (auto simp: same_message_def SetHeader_def gm_str_def)

lemma spam_headers_in: "''X-Spam-Score'' \<in> spam_headers" "''X-Spam-Status'' \<in> spam_headers" "''X-Spam-Reason'' \<in> spam_headers"
  by (simp_all add: spam_headers_def)

lemma sc_same_message:
  assumes "sc_BeforeSend E s d = (d', r)"
  shows "same_message d d'"
proof -
  define d1 where "d1 x = SetHeader ''X-Spam-Status'' ''Yes'' (SetHeader ''X-Spam-Score'' x d)" for x
  have "d' = d \<or> (\<exists>x. d' = d1 x) \<or> (\<exists>x y. d' = SetHeader ''X-Spam-Reason'' y (d1 x))"
    using assms unfolding sc_BeforeSend_def Let_def d1_def [symmetric] by (auto split: scan_reply.splits if_splits option.splits)
  moreover have "same_message d (d1 x)" for x
    unfolding d1_def using same_message_trans [OF SetHeader_same SetHeader_same] spam_headers_in by blast
  ultimately show ?thesis
    using same_message_trans [OF _ SetHeader_same] spam_headers_in(3) same_message_refl by blast
qed

lemma plugin_same_message: "plugin_BeforeSend E now k p d = (p', d', r) \<Longrightarrow> same_message d d'"
  by (cases p) (auto simp: same_message_refl dest: sc_same_message split: prod.splits)

lemma run_hooks_pass:
  assumes "run_hooks E now k ps d = (ps', d', None)"
  shows "same_message d d' \<and> (\<forall>p\<in>set ps. \<exists>dp. same_message d dp \<and> snd (snd (plugin_BeforeSend E now k p dp)) = None)"
  using assms
proof (induction ps arbitrary: d ps')
  case (Cons p ps)
  obtain p1 d1 r1 where b: "plugin_BeforeSend E now k p d = (p1, d1, r1)" by (metis prod.collapse)
  obtain ps2 d2 r2 where h: "run_hooks E now k ps d1 = (ps2, d2, r2)" by (metis prod.collapse)
  have r: "r1 = None" "r2 = None" "d2 = d'" using Cons.prems b h by (auto split: option.splits)
  have s: "same_message d d1" by (rule plugin_same_message [OF b])
  show ?case
    using Cons.IH [OF h [unfolded r]] s same_message_trans [OF s] same_message_refl [of d] b r(1) by fastforce
qed (simp add: same_message_refl)

text \<open>The first plugin that objects decides, and the later ones are not asked.\<close>

lemma run_hooks_reject:
  assumes "run_hooks E now k ps d = (ps', d', Some e)"
  shows "\<exists>qs p rs dp. ps = qs @ p # rs \<and> same_message d dp \<and> snd (snd (plugin_BeforeSend E now k p dp)) = Some e \<and> drop (Suc (length qs)) ps' = rs"
  using assms
proof (induction ps arbitrary: d ps')
  case (Cons p ps)
  obtain p1 d1 r1 where b: "plugin_BeforeSend E now k p d = (p1, d1, r1)" by (metis prod.collapse)
  show ?case
  proof (cases r1)
    case (Some e')
    then have "e' = e" "ps' = p1 # ps" using Cons.prems b by auto
    then show ?thesis using b Some same_message_refl [of d] by (intro exI [of _ "[]"] exI [of _ p] exI [of _ ps] exI [of _ d]) simp
  next
    case None
    obtain ps2 d2 r2 where h: "run_hooks E now k ps d1 = (ps2, d2, r2)" by (metis prod.collapse)
    have r: "r2 = Some e" "ps' = p1 # ps2" "d2 = d'" using Cons.prems b h None by auto
    obtain qs q rs dq where q: "ps = qs @ q # rs" "same_message d1 dq" "snd (snd (plugin_BeforeSend E now k q dq)) = Some e" "drop (Suc (length qs)) ps2 = rs"
      using Cons.IH [OF h [unfolded r]] by blast
    then show ?thesis
      using same_message_trans [OF plugin_same_message [OF b]] r(2)
      by (intro exI [of _ "p # qs"] exI [of _ q] exI [of _ rs] exI [of _ dq]) simp
  qed
qed simp

lemma ea_same_message:
  assumes "same_message d d'"
  shows "ea_BeforeSend G D p d' = ea_BeforeSend G D p d"
proof -
  have k: "gm_str (GetHeaders d') ''From'' = gm_str (GetHeaders d) ''From''"
    "gm_str (GetHeaders d') ''X-SPF-Result'' = gm_str (GetHeaders d) ''X-SPF-Result''"
    "gm_str (GetHeaders d') ''X-DKIM-Result'' = gm_str (GetHeaders d) ''X-DKIM-Result''"
    "gm_str (GetHeaders d') ''X-DKIM-Domain'' = gm_str (GetHeaders d) ''X-DKIM-Domain''"
    "gm_str (GetHeaders d') ''X-SMTP-Envelope-From'' = gm_str (GetHeaders d) ''X-SMTP-Envelope-From''"
    using assms by (simp_all add: same_message_def spam_headers_def)
  have "checkSPF G p (GetHeaders d') = checkSPF G p (GetHeaders d)" unfolding checkSPF_def k ..
  moreover have "checkDKIM G p (GetHeaders d') = checkDKIM G p (GetHeaders d)" unfolding checkDKIM_def k ..
  moreover have "checkDMARC G D p (GetHeaders d') = checkDMARC G D p (GetHeaders d)"
    unfolding checkDMARC_def from_domain_def aligned_def k ..
  ultimately show ?thesis by (simp add: ea_BeforeSend_def Let_def split: option.split)
qed

lemma smtp_policy_same: "same_message d d' \<Longrightarrow> smtp_policy_ok G cfg d' = smtp_policy_ok G cfg d"
  by (simp add: smtp_policy_ok_def same_message_def spam_headers_def)

text \<open>The chain as the mailbox library has it after start-up.\<close>

definition chain :: "golib \<Rightarrow> bool \<Rightarrow> PluginsConfig \<Rightarrow> 'l plugin list" where
  "chain G r cfg = map (init_plugin G) (fst (buildPlugins G r cfg))"

lemma chain_members:
  "pat_Enabled (p_Attachment cfg) \<Longrightarrow> PAttachment (NewAttachmentFilter G ''attachment-filter'' (attachment_cfg (p_Attachment cfg))) \<in> set (chain G r cfg)"
  "pss_Enabled (p_SMTPSecurity cfg) \<Longrightarrow> PSMTPSecurity (sp_Init (NewSMTPSecurityPlugin G ''smtp-security'' (smtp_security_cfg (p_SMTPSecurity cfg))))
      (pss_RedisLockout (p_SMTPSecurity cfg) \<and> r) \<in> set (chain G r cfg)"
  "pea_Enabled (p_EmailAuth cfg) \<Longrightarrow> PEmailAuth (NewEmailAuth ''email-auth'' (email_auth_cfg (p_EmailAuth cfg))) \<in> set (chain G r cfg)"
  "psa_Enabled (p_SecurityAgent cfg) \<Longrightarrow> PSecurityAgent (sa_Init (NewSecurityAgent G ''security-agent'' (agent_cfg (p_SecurityAgent cfg)))) \<in> set (chain G r cfg)"
  by (simp_all add: chain_def buildPlugins_def build_attachment_def build_smtp_security_def build_email_auth_def build_security_agent_def agent_cfg_def)

lemma sa_pass_content:
  fixes L :: "'l limiter_ops"
  assumes "snd (sa_BeforeSend G L now (sa_Init (NewSecurityAgent G nm cfg)) d) = None"
  shows "content_ok G cfg d"
proof -
  define sa0 :: "'l SecurityAgent" where "sa0 = sa_Init (NewSecurityAgent G nm cfg)"
  obtain sa1 b where r: "(if 0 < RatePerSender (sa_cfg sa0) then rate_check L now sa0 (draft.GetSenderID d) else (sa0, True)) = (sa1, b)"
    by (metis prod.collapse)
  have "sa_cfg sa1 = sa_cfg sa0 \<and> blockedExt sa1 = blockedExt sa0"
    using r rate_check_frameD [of L now sa0 "draft.GetSenderID d" sa1 b] by (auto split: if_splits)
  then have f: "sa_cfg sa1 = sa_cfg (NewSecurityAgent G nm cfg :: 'l SecurityAgent)"
    "blockedExt sa1 = blockedExt (NewSecurityAgent G nm cfg :: 'l SecurityAgent)"
    by (simp_all add: sa0_def sa_Init_def)
  have "check_content G sa1 d = None"
    using assms unfolding sa0_def [symmetric] sa_BeforeSend_def r Let_def by (simp split: if_splits)
  then show ?thesis using check_content_spec [OF f] by simp
qed

text \<open>C3: A message that the chain lets through has passed the hook of every plugin of the chain, and arrives
  as it was sent, apart from the tags of the spam checker. In particular its attachments satisfy the attachment policy (for sizes that do not
  overflow), its sender and envelope the SMTP security policy, SPF, DKIM and DMARC passed under the configured policies,
  and the security agent's limits on recipients and body hold.\<close>

theorem plugin_chain_enforced:
  assumes "run_hooks E now k (chain (ce_lib E) r cfg) d = (ps', d', None)"
  shows "same_message d d'
    \<and> (\<forall>p\<in>set (chain (ce_lib E) r cfg). \<exists>dp. same_message d dp \<and> snd (snd (plugin_BeforeSend E now k p dp)) = None)
    \<and> (pat_Enabled (p_Attachment cfg) \<and> total_size (GetAttachments d) < 2 ^ 63 \<longrightarrow>
         attachments_ok (ce_lib E) (attachment_cfg (p_Attachment cfg)) (GetAttachments d))
    \<and> (pss_Enabled (p_SMTPSecurity cfg) \<longrightarrow> smtp_policy_ok (ce_lib E) (smtp_security_cfg (p_SMTPSecurity cfg)) d)
    \<and> (pea_Enabled (p_EmailAuth cfg) \<longrightarrow> ea_BeforeSend (ce_lib E) (ce_dns E) (NewEmailAuth ''email-auth'' (email_auth_cfg (p_EmailAuth cfg))) d = None)
    \<and> (psa_Enabled (p_SecurityAgent cfg) \<longrightarrow>
         (0 < psa_MaxRecipients (p_SecurityAgent cfg) \<longrightarrow> int (length (GetRecipientIDs d)) \<le> psa_MaxRecipients (p_SecurityAgent cfg))
       \<and> (0 < psa_MaxBodyBytes (p_SecurityAgent cfg) \<longrightarrow> int (length (draft.GetBody d)) \<le> psa_MaxBodyBytes (p_SecurityAgent cfg)))"
proof -
  let ?G = "ce_lib E"
  have same: "same_message d d'" and pass: "\<And>p. p \<in> set (chain ?G r cfg) \<Longrightarrow>
      \<exists>dp. same_message d dp \<and> snd (snd (plugin_BeforeSend E now k p dp)) = None"
    using run_hooks_pass [OF assms] by blast+
  have att: "attachments_ok ?G (attachment_cfg (p_Attachment cfg)) (GetAttachments d)"
    if on: "pat_Enabled (p_Attachment cfg)" and sz: "total_size (GetAttachments d) < 2 ^ 63"
  proof -
    obtain dp where dp: "same_message d dp" "af_BeforeSend ?G (NewAttachmentFilter ?G ''attachment-filter'' (attachment_cfg (p_Attachment cfg))) dp = None"
      using pass [OF chain_members(1) [OF on]] by auto
    show ?thesis
      using af_policy [of dp ?G "attachment_cfg (p_Attachment cfg)" "''attachment-filter''"] dp sz
      by (simp add: same_message_def split: if_splits)
  qed
  have sec: "smtp_policy_ok ?G (smtp_security_cfg (p_SMTPSecurity cfg)) d" if on: "pss_Enabled (p_SMTPSecurity cfg)"
  proof -
    obtain dp where dp: "same_message d dp" "sp_BeforeSend ?G (if pss_RedisLockout (p_SMTPSecurity cfg) \<and> r then Some (ce_lockout E) else None) now
        (k, sp_Init (NewSMTPSecurityPlugin ?G ''smtp-security'' (smtp_security_cfg (p_SMTPSecurity cfg)))) dp = None"
      using pass [OF chain_members(2) [OF on]] by auto
    then show ?thesis
      by (subst (asm) sp_BeforeSend_None [where cfg = "smtp_security_cfg (p_SMTPSecurity cfg)"])
         (simp_all add: sp_Init_def NewSMTPSecurityPlugin_def smtp_policy_same)
  qed
  have ea: "ea_BeforeSend ?G (ce_dns E) (NewEmailAuth ''email-auth'' (email_auth_cfg (p_EmailAuth cfg))) d = None" if on: "pea_Enabled (p_EmailAuth cfg)"
    using pass [OF chain_members(3) [OF on]] by (auto simp: ea_same_message)
  have "(0 < psa_MaxRecipients (p_SecurityAgent cfg) \<longrightarrow> int (length (GetRecipientIDs d)) \<le> psa_MaxRecipients (p_SecurityAgent cfg))
      \<and> (0 < psa_MaxBodyBytes (p_SecurityAgent cfg) \<longrightarrow> int (length (draft.GetBody d)) \<le> psa_MaxBodyBytes (p_SecurityAgent cfg))"
    if on: "psa_Enabled (p_SecurityAgent cfg)"
  proof -
    obtain dp where dp: "same_message d dp" and "content_ok ?G (agent_cfg (p_SecurityAgent cfg)) dp"
      using pass [OF chain_members(4) [OF on]] by (auto simp: case_prod_beta dest: sa_pass_content)
    then show ?thesis by (simp add: content_ok_def agent_cfg_def same_message_def)
  qed
  then show ?thesis using same pass att sec ea by blast
qed

definition chain_env_ex :: "(real \<times> gotime option \<times> real \<times> int, unit) chain_env" where
  "chain_env_ex = \<lparr>ce_lib = golib_ex, ce_host = (\<lambda>_ _. NotFoundDNS), ce_lapi = cs_env_ex, ce_dns = dns_ex,
     ce_spam = \<lparr>sc_post = (\<lambda>_ _. Answer 200 ''{}''), sc_decode = (\<lambda>_. None), fmt_2f = (\<lambda>_. ''0.00'')\<rparr>,
     ce_av = av_env_ex, ce_limiter = bucket_ops,
     ce_lockout = \<lparr>lk_RecordFailure = (\<lambda>_ l _ _ _ _. (l, Inr False)), lk_IsLockedOut = (\<lambda>_ _ _. Inr False)\<rparr>\<rparr>"

definition plugins_ex :: PluginsConfig where
  "plugins_ex =
     \<lparr>p_CrowdSec = \<lparr>pcs_Enabled = False, pcs_Endpoint = '''', pcs_APIKey = '''', pcs_TimeoutSecs = 0, pcs_FailOpen = False, pcs_CacheTTLSecs = 0\<rparr>,
      p_DNSBL = \<lparr>pbl_Enabled = True, pbl_Zones = [], pbl_CacheTTLSecs = 0, pbl_FailOpen = False\<rparr>,
      p_AddressFilter = \<lparr>paf_Enabled = False, paf_Mode = ''block'', paf_Rules = []\<rparr>,
      p_Attachment = \<lparr>pat_Enabled = True, pat_MaxCount = 2, pat_MaxSingleBytes = 0, pat_MaxTotalBytes = 1000, pat_AllowedMIMEs = [], pat_BlockedMIMEs = []\<rparr>,
      p_SMTPSecurity = \<lparr>pss_Enabled = True, pss_MaxAuthFailuresPerIP = 5, pss_LockoutMinutes = 15, pss_EnvelopeSpoofCheck = True,
        pss_AllowedSenderDomains = [], pss_BlockedSenderDomains = [''Spam.example''], pss_MaxSubjectBytes = 0,
        pss_RequireAuthenticatedSender = True, pss_RedisLockout = False\<rparr>,
      p_EmailAuth = \<lparr>pea_Enabled = False, pea_SPFPolicy = ''off'', pea_DKIMPolicy = ''off'', pea_DMARCPolicy = ''off''\<rparr>,
      p_SpamChecker = \<lparr>psc_Enabled = False, psc_Endpoint = '''', psc_Threshold = 5, psc_TagOnly = False, psc_TimeoutSecs = 0\<rparr>,
      p_AntiVirus = \<lparr>pav_Enabled = True, pav_Endpoint = '''', pav_TimeoutSecs = 0, pav_FailOpen = False\<rparr>,
      p_SecurityAgent = \<lparr>psa_Enabled = False, psa_MaxRecipients = 0, psa_MaxBodyBytes = 0, psa_RatePerSender = 0, psa_BurstPerSender = 0\<rparr>\<rparr>"

lemma chain_ex:
  "chain golib_ex False plugins_ex =
     [PAttachment (NewAttachmentFilter golib_ex ''attachment-filter'' (attachment_cfg (p_Attachment plugins_ex))),
      PSMTPSecurity (sp_Init (NewSMTPSecurityPlugin golib_ex ''smtp-security'' (smtp_security_cfg (p_SMTPSecurity plugins_ex)))) False]"
  by (simp add: chain_def buildPlugins_def plugins_ex_def build_crowdsec_def build_dnsbl_def build_address_filter_def build_attachment_def
      build_smtp_security_def build_email_auth_def build_spam_def build_antivirus_def build_security_agent_def)

lemma att_ex_size: "total_size (GetAttachments (draft_ex [att_ex 400])) < 2 ^ 63"
  by (simp add: draft_ex_def att_ex_def total_size_def)

lemma chain_ex_passes:
  "run_hooks chain_env_ex 0 () (chain golib_ex False plugins_ex) (draft_ex [att_ex 400]) = (chain golib_ex False plugins_ex, draft_ex [att_ex 400], None)"
proof -
  have "attachments_ok golib_ex (attachment_cfg (p_Attachment plugins_ex)) (GetAttachments (draft_ex [att_ex 400]))"
    by (simp add: plugins_ex_def attachment_cfg_def draft_ex_def att_ex_def attachments_ok_def attachment_ok_def normaliseMediaType_def total_size_def)
  then have a: "af_BeforeSend golib_ex (NewAttachmentFilter golib_ex ''attachment-filter'' (attachment_cfg (p_Attachment plugins_ex))) (draft_ex [att_ex 400]) = None"
    using af_policy [OF att_ex_size] by simp
  have "smtp_policy_ok golib_ex (smtp_security_cfg (p_SMTPSecurity plugins_ex)) (draft_ex [att_ex 400])"
    by code_simp
  then have "sp_BeforeSend golib_ex (None :: unit lockout_ops option) 0
      ((), sp_Init (NewSMTPSecurityPlugin golib_ex ''smtp-security'' (smtp_security_cfg (p_SMTPSecurity plugins_ex)))) (draft_ex [att_ex 400]) = None"
    by (subst sp_BeforeSend_None [where cfg = "smtp_security_cfg (p_SMTPSecurity plugins_ex)"])
       (auto simp: sp_Init_def NewSMTPSecurityPlugin_def IsLockedOut_def mem_IsLockedOut_def)
  then show ?thesis using a by (simp add: chain_ex chain_env_ex_def)
qed

theorem plugin_chain_enforced_witness:
  "smtp_policy_ok golib_ex (smtp_security_cfg (p_SMTPSecurity plugins_ex)) (draft_ex [att_ex 400])
   \<and> attachments_ok golib_ex (attachment_cfg (p_Attachment plugins_ex)) (GetAttachments (draft_ex [att_ex 400]))"
proof -
  have l: "ce_lib chain_env_ex = golib_ex" and on: "pat_Enabled (p_Attachment plugins_ex)" "pss_Enabled (p_SMTPSecurity plugins_ex)"
    by (simp_all add: chain_env_ex_def plugins_ex_def)
  show ?thesis
    using plugin_chain_enforced [of chain_env_ex 0 "()" False plugins_ex, unfolded l, OF chain_ex_passes] on att_ex_size by blast
qed

section \<open>Who may reject\<close>

text \<open>The invariant of each hook: the attachment filter comes from its constructor, and the requests of the two HTTP
  scanners can be built for their configured endpoints.\<close>

fun plugin_inv :: "('l, 'k) chain_env \<Rightarrow> 'l plugin \<Rightarrow> bool" where
  "plugin_inv E (PAttachment f) = (\<exists>nm cfg. f = NewAttachmentFilter (ce_lib E) nm cfg)"
| "plugin_inv E (PSpam s) = builds (sc_post (ce_spam E)) (sc_Endpoint (sc_cfg s))"
| "plugin_inv E (PAntiVirus a) = builds (av_post (ce_av E)) (av_Endpoint (av_cfg a))"
| "plugin_inv E _ = True"

lemma plugin_rejects:
  assumes "plugin_inv E p" and "plugin_BeforeSend E now k p d = (p', d', Some e)"
  shows "rejected_by (plugin_name p) (Some e)"
proof (cases p)
  case (PCrowdSec x)
  then show ?thesis using assms csh.before_rejects [where p = x] by (auto split: prod.splits)
next
  case (PDNSBL x)
  then show ?thesis using assms blh.before_rejects [where p = x] by (auto split: prod.splits)
next
  case (PAddressFilter x m)
  then show ?thesis using assms flh.before_rejects [where p = x] by auto
next
  case (PAttachment x)
  then show ?thesis using assms afh.before_rejects [where p = x and G = "ce_lib E"] by auto
next
  case (PSMTPSecurity x r)
  then show ?thesis using assms sph.before_rejects [where p = "(k, x)"] by auto
next
  case (PEmailAuth x)
  then show ?thesis using assms eah.before_rejects [where p = x] by auto
next
  case (PSpam x)
  then show ?thesis using assms sch.before_rejects [where p = x and E = "ce_spam E" and d = d] by (auto split: prod.splits)
next
  case (PAntiVirus x)
  then show ?thesis using assms avh.before_rejects [where p = x] by auto
next
  case (PSecurityAgent x)
  then show ?thesis using assms sah.before_rejects [where p = x] by (auto split: prod.splits)
qed

lemma chain_names: "map plugin_name (chain G r cfg :: 'l plugin list) = enabled_plugins cfg"
  unfolding chain_def map_map comp_def init_plugin_name using buildPlugins_names [of G r cfg] by (simp add: comp_def)

lemma build_inv:
  "list_all (plugin_inv E \<circ> init_plugin G) (build_crowdsec c1)"
  "list_all (plugin_inv E \<circ> init_plugin G) (build_dnsbl c2)"
  "list_all (plugin_inv E \<circ> init_plugin G) (build_address_filter c3)"
  "list_all (plugin_inv E \<circ> init_plugin G) (build_attachment (ce_lib E) c4)"
  "list_all (plugin_inv E \<circ> init_plugin G) (build_smtp_security G' r c5)"
  "list_all (plugin_inv E \<circ> init_plugin G) (build_email_auth c6)"
  "psc_Enabled c7 \<longrightarrow> builds (sc_post (ce_spam E)) (psc_Endpoint c7) \<Longrightarrow> list_all (plugin_inv E \<circ> init_plugin G) (build_spam c7)"
  "pav_Enabled c8 \<longrightarrow> builds (av_post (ce_av E)) (pav_Endpoint c8) \<Longrightarrow> list_all (plugin_inv E \<circ> init_plugin G) (build_antivirus c8)"
  "list_all (plugin_inv E \<circ> init_plugin G) (build_security_agent G' c9)"
  by (auto simp: build_crowdsec_def build_dnsbl_def build_address_filter_def build_attachment_def build_smtp_security_def build_email_auth_def
      build_spam_def NewSpamChecker_def build_antivirus_def NewAntiVirus_def build_security_agent_def Let_def)

lemma chain_inv:
  assumes "pav_Enabled (p_AntiVirus cfg) \<longrightarrow> builds (av_post (ce_av E)) (pav_Endpoint (p_AntiVirus cfg))"
    and "psc_Enabled (p_SpamChecker cfg) \<longrightarrow> builds (sc_post (ce_spam E)) (psc_Endpoint (p_SpamChecker cfg))"
  shows "list_all (plugin_inv E) (chain (ce_lib E) r cfg)"
  by (simp add: chain_def buildPlugins_def list.pred_map build_inv [where G = "ce_lib E"] assms)

text \<open>C25: A message that the chain does not let through is rejected by exactly one of the enabled plugins, in the
  plugin's own name, and the plugins after it are left as they were, provided that the requests to the configured scanners
  can be built. So the sender's error always says which policy refused the message, and is recognised as a rejection.\<close>

theorem plugin_chain_rejects:
  fixes E :: "('l, 'k) chain_env"
  assumes "run_hooks E now k (chain (ce_lib E) r cfg) d = (ps', d', Some e)"
    and "pav_Enabled (p_AntiVirus cfg) \<longrightarrow> builds (av_post (ce_av E)) (pav_Endpoint (p_AntiVirus cfg))"
    and "psc_Enabled (p_SpamChecker cfg) \<longrightarrow> builds (sc_post (ce_spam E)) (psc_Endpoint (p_SpamChecker cfg))"
  shows "errors_Is e ErrRejected \<and> (\<exists>i < length (enabled_plugins cfg). rejected_by (enabled_plugins cfg ! i) (Some e)
    \<and> drop (Suc i) ps' = drop (Suc i) (chain (ce_lib E) r cfg))"
proof -
  obtain qs p rs dp where q: "chain (ce_lib E) r cfg = qs @ p # rs" "snd (snd (plugin_BeforeSend E now k p dp)) = Some e"
    "drop (Suc (length qs)) ps' = rs"
    using run_hooks_reject [OF assms(1)] by blast
  have "plugin_inv E p" using chain_inv [OF assms(2,3), of r] by (simp add: q(1))
  then have rej: "rejected_by (plugin_name p) (Some e)"
    using plugin_rejects [of E p now k dp "fst (plugin_BeforeSend E now k p dp)" "fst (snd (plugin_BeforeSend E now k p dp))" e] q(2)
    by (simp add: prod_eq_iff)
  have n: "enabled_plugins cfg = map plugin_name qs @ plugin_name p # map plugin_name rs"
  proof -
    have "map plugin_name (chain (ce_lib E) r cfg :: 'l plugin list) = map plugin_name qs @ plugin_name p # map plugin_name rs"
      by (simp only: q(1) map_append list.map)
    then show ?thesis by (simp only: chain_names)
  qed
  show ?thesis
    using rej rejected_by_Is [OF rej] q(1,3) unfolding n by (intro conjI exI [of _ "length qs"]) (simp_all add: nth_append)
qed

lemma af_reject_ex: "rejected_by ''attachment-filter'' (af_BeforeSend golib_ex
    (NewAttachmentFilter golib_ex ''attachment-filter'' (attachment_cfg (p_Attachment plugins_ex))) (draft_ex [att_ex 1001]))"
proof -
  have "total_size (GetAttachments (draft_ex [att_ex 1001])) < 2 ^ 63"
    "\<not> attachments_ok golib_ex (attachment_cfg (p_Attachment plugins_ex)) (GetAttachments (draft_ex [att_ex 1001]))"
    by (simp_all add: plugins_ex_def attachment_cfg_def draft_ex_def att_ex_def attachments_ok_def total_size_def)
  then show ?thesis using af_policy by fastforce
qed

theorem plugin_chain_rejects_witness:
  "\<exists>e. snd (snd (run_hooks chain_env_ex 0 () (chain golib_ex False plugins_ex) (draft_ex [att_ex 1001]))) = Some e \<and> errors_Is e ErrRejected"
proof -
  obtain e where "af_BeforeSend golib_ex (NewAttachmentFilter golib_ex ''attachment-filter'' (attachment_cfg (p_Attachment plugins_ex)))
      (draft_ex [att_ex 1001]) = Some e"
    using af_reject_ex by (auto simp: rejected_by_def split: option.splits)
  then have "run_hooks chain_env_ex 0 () (chain golib_ex False plugins_ex) (draft_ex [att_ex 1001])
      = (chain golib_ex False plugins_ex, draft_ex [att_ex 1001], Some e)"
    by (simp add: chain_ex chain_env_ex_def)
  moreover have "builds (av_post (ce_av chain_env_ex)) u" "builds (sc_post (ce_spam chain_env_ex)) u" for u
    by (simp_all add: builds_def chain_env_ex_def av_env_ex_def)
  moreover have "ce_lib chain_env_ex = golib_ex" by (simp add: chain_env_ex_def)
  ultimately show ?thesis
    using plugin_chain_rejects [of chain_env_ex 0 "()" False plugins_ex] by fastforce
qed

section \<open>The plugins of a started node\<close>

definition durable :: "MailboxStoreConfig \<Rightarrow> bool" where
  "durable mb \<longleftrightarrow> mb_Backend mb \<noteq> '''' \<and> mb_Backend mb \<noteq> ''memory''"

lemma relay_options_mailbox:
  "o_mailboxPlugins (foldl (\<lambda>c opt. opt c) o' (relay_options ob be)) = o_mailboxPlugins o'"
  "o_mailboxFactory (foldl (\<lambda>c opt. opt c) o' (relay_options ob be)) = o_mailboxFactory o'"
  by (simp_all add: relay_options_def WithOutboundRelay_def WithOutboundRelayQueue_def Let_def)

lemma webhook_options_mailbox:
  "o_mailboxPlugins (foldl (\<lambda>c opt. opt c) o' (webhook_options wh)) = o_mailboxPlugins o'"
  "o_mailboxFactory (foldl (\<lambda>c opt. opt c) o' (webhook_options wh)) = o_mailboxFactory o'"
  by (simp_all add: webhook_options_def WithWebhook_def)

lemma mailbox_opts_mailbox:
  "o_mailboxPlugins (foldl (\<lambda>c opt. opt c) o' (mailbox_opts G M mb ps)) = o_mailboxPlugins o' @ ps"
  "o_mailboxFactory (foldl (\<lambda>c opt. opt c) o' (mailbox_opts G M mb ps)) =
     (if durable mb then Some (NewMailboxFactory G M mb ps) else o_mailboxFactory o')"
  by (simp_all add: mailbox_opts_def durable_def WithMailboxPlugins_def WithMailboxFactory_def)

lemma serve_options_mailbox:
  assumes "serve_options G E M R cfg = Inr su"
  shows "o_mailboxPlugins (config_of (su_options su)) = fst (buildPlugins G (R \<noteq> None) (srv_Plugins cfg))"
    and "o_mailboxFactory (config_of (su_options su)) = (if durable (srv_MailboxStore cfg)
      then Some (NewMailboxFactory G M (srv_MailboxStore cfg) (fst (buildPlugins G (R \<noteq> None) (srv_Plugins cfg)))) else None)"
proof -
  obtain relay where "su_options su = [WithNodeID (sv_NodeID (srv_Server cfg)), WithMode (sv_Mode (srv_Server cfg)),
        WithAddress (sv_Host (srv_Server cfg) @ '':'' @ sv_Port (srv_Server cfg))]
      @ (case R of Some r \<Rightarrow> [WithRedisClient r] | None \<Rightarrow> [])
      @ mailbox_opts G M (srv_MailboxStore cfg) (fst (buildPlugins G (R \<noteq> None) (srv_Plugins cfg)))
      @ relay @ webhook_options (srv_Webhook cfg)" and "relay = [] \<or> (\<exists>be. relay = relay_options (srv_Outbound cfg) be)"
    using assms by (auto simp: serve_options_def Let_def case_prod_beta split: if_splits sum.splits) blast
  then show "o_mailboxPlugins (config_of (su_options su)) = fst (buildPlugins G (R \<noteq> None) (srv_Plugins cfg))"
    and "o_mailboxFactory (config_of (su_options su)) = (if durable (srv_MailboxStore cfg)
      then Some (NewMailboxFactory G M (srv_MailboxStore cfg) (fst (buildPlugins G (R \<noteq> None) (srv_Plugins cfg)))) else None)"
    by (auto simp: relay_options_mailbox webhook_options_mailbox mailbox_opts_mailbox WithNodeID_def WithMode_def WithAddress_def
        WithRedisClient_def default_options_def split: option.splits)
qed

lemma start_webhook_mailbox: "start_webhook W cfg c0 = Inr c \<Longrightarrow> k_mailbox c = k_mailbox c0"
  by (auto simp: start_webhook_def split: if_splits option.splits sum.splits)

text \<open>C4: The plugins that the configuration enables are the plugins of the node: whenever a node starts with the options
  that \<open>serve\<close> builds, its mailbox service resolves senders through the store, keeps messages in the configured message
  store, and runs exactly the chain of plugins that the configuration describes, in that order and none twice, whether the
  message store is durable (then the factory of \<open>mbxstore\<close> passes the plugins) or in memory (then the default factory does).\<close>

theorem configured_plugins_installed:
  assumes "serve_options G E (b_mailbox W) R cfg = Inr su" and "NewController W (Some S) (su_options su) now g = (g', Inr c)"
  shows "map (init_plugin G) (mo_plugins (k_mailbox c)) = chain G (R \<noteq> None) (srv_Plugins cfg)
    \<and> mo_resolver (k_mailbox c) \<and> snd (open_store G (b_mailbox W) (srv_MailboxStore cfg)) = Inr (mo_store (k_mailbox c))"
proof -
  let ?cfg = "config_of (su_options su)"
  obtain g1 nd priv mbx rs where m: "mailbox_factory W ?cfg True = Inr mbx"
      "start_webhook W ?cfg (assemble W S ?cfg (node_id_of W (su_options su)) nd priv mbx rs) = Inr c"
    using NewController_started [OF assms(2)] by metis
  have c: "k_mailbox c = mbx" using start_webhook_mailbox [OF m(2)] by (simp add: assemble_def Let_def)
  note o' = serve_options_mailbox [OF assms(1)]
  show ?thesis
  proof (cases "durable (srv_MailboxStore cfg)")
    case True
    then have "NewMailboxFactory G (b_mailbox W) (srv_MailboxStore cfg) (fst (buildPlugins G (R \<noteq> None) (srv_Plugins cfg))) True = Inr mbx"
      using m(1) by (simp add: mailbox_factory_def o')
    then have "snd (open_store G (b_mailbox W) (srv_MailboxStore cfg)) = Inr (mo_store mbx)" "mo_resolver mbx"
      "mo_plugins mbx = fst (buildPlugins G (R \<noteq> None) (srv_Plugins cfg))"
      unfolding NewMailboxFactory_ok buildOptions_ok by (metis mbx_options.select_convs)+
    then show ?thesis by (simp add: c chain_def)
  next
    case False
    then have "mbx = \<lparr>mo_store = MemoryStore, mo_resolver = True, mo_plugins = fst (buildPlugins G (R \<noteq> None) (srv_Plugins cfg))\<rparr>"
      using m(1) by (simp add: mailbox_factory_def o' newMailboxFactory_def split: option.splits)
    then show ?thesis using False by (auto simp: c chain_def durable_def open_store_def)
  qed
qed

definition serve_cfg_ex :: serve_cfg where
  "serve_cfg_ex =
     \<lparr>srv_Server = \<lparr>sv_Port = ''50051'', sv_Host = ''h'', sv_Mode = ''standalone'', sv_DB = ''postbox.db'', sv_NodeID = ''n1''\<rparr>,
      srv_Plugins = plugins_ex, srv_MailboxStore = \<lparr>mb_Backend = ''postgres'', mb_DSN = ''dsn'', mb_Database = ''''\<rparr>,
      srv_Outbound = \<lparr>ob_Backend = '''', ob_NodeID = '''', ob_From = '''', ob_SMTPHost = '''', ob_SMTPUsername = '''', ob_SMTPPassword = '''', ob_SMTPTimeoutSecs = 0,
        ob_SendGridAPIKey = '''', ob_SendGridTimeoutSecs = 0, ob_DKIMPrivateKeyFile = '''', ob_DKIMDomain = '''', ob_DKIMSelector = '''', ob_QueueEnabled = False,
        ob_QueueWorkers = 0, ob_QueueMaxRetries = 0, ob_QueueBaseDelaySecs = 0, ob_QueueMaxDelaySecs = 0\<rparr>,
      srv_Webhook = \<lparr>wh_Enabled = False, wh_Workers = 0, wh_MaxAttempts = 0, wh_TimeoutSecs = 0\<rparr>\<rparr>"

theorem configured_plugins_installed_witness:
  "\<forall>E :: unit outbound_env. \<exists>su s' c. serve_options golib_ex E mbx_env_ex (None :: unit redis_ops option) serve_cfg_ex = Inr su
     \<and> NewController boot_ex (Some (sqlite_ops engine_ex)) (su_options su) 1 ((), sql_empty) = (((), s'), Inr c)
     \<and> mo_store (k_mailbox c) = PostgresStore ''dsn'' \<and> length (mo_plugins (k_mailbox c) :: unit plugin list) = 2"
proof
  fix E :: "unit outbound_env"
  have b: "b_mailbox boot_ex = mbx_env_ex" by (simp add: boot_ex_def)
  obtain su :: "(unit, unit) serve_setup" where su: "serve_options golib_ex E (b_mailbox boot_ex) None serve_cfg_ex = Inr su"
    by (simp add: serve_options_def serve_cfg_ex_def case_prod_beta Let_def)
  have op: "snd (open_store golib_ex mbx_env_ex (srv_MailboxStore serve_cfg_ex)) = Inr (PostgresStore ''dsn'')"
    by (simp add: open_store_def serve_cfg_ex_def mbx_env_ex_def)
  have "o_nodeID (config_of (su_options su)) = ''n1'' \<and> o_redisClient (config_of (su_options su)) = None"
    using su by (auto simp: serve_options_def serve_cfg_ex_def mailbox_opts_def webhook_options_def WithNodeID_def WithMode_def WithAddress_def
        WithMailboxPlugins_def WithMailboxFactory_def default_options_def case_prod_beta Let_def)
  moreover have "ok (mailbox_factory boot_ex (config_of (su_options su)) True)"
    using op by (auto simp: mailbox_factory_def serve_options_mailbox [OF su] durable_def serve_cfg_ex_def NewMailboxFactory_def buildOptions_def
        boot_ex_def mbx_env_ex_def newMailboxFactory_def split: prod.split sum.split)
  ultimately obtain s' c where st: "NewController boot_ex (Some (sqlite_ops engine_ex)) (su_options su) 1 ((), sql_empty) = (((), s'), Inr c)"
    using boot_ex_starts [of "su_options su" 1 "()"] by (auto simp: announce_def)
  have "length (chain golib_ex False plugins_ex :: unit plugin list) = 2" by (simp add: chain_ex)
  then show "\<exists>su s' c. serve_options golib_ex E mbx_env_ex (None :: unit redis_ops option) serve_cfg_ex = Inr su
     \<and> NewController boot_ex (Some (sqlite_ops engine_ex)) (su_options su) 1 ((), sql_empty) = (((), s'), Inr c)
     \<and> mo_store (k_mailbox c) = PostgresStore ''dsn'' \<and> length (mo_plugins (k_mailbox c) :: unit plugin list) = 2"
    using configured_plugins_installed [OF su st] op su st unfolding b
    by (intro exI [of _ su] exI [of _ s'] exI [of _ c]) (auto simp: serve_cfg_ex_def dest: arg_cong [of _ _ length])
qed

end
