(* ===== verification/Client.thy ===== *)
theory Client
  imports Postbox_Server "HOL-Library.Multiset"
begin

text \<open>
  The command-line client (\<open>cmd/user.go\<close>, \<open>register.go\<close>, \<open>discover.go\<close>, \<open>status.go\<close>, \<open>smtp.go\<close>,
  \<open>domain.go\<close> and \<open>cmd/mail\<close>): what every command sends to the node and what it prints.

  The stub of the node's service is the record \<open>pb_client\<close>, that of the mailbox service \<open>mb_client\<close>;
  a call takes the state of the node and returns the new one with the response or the error. A command
  gets its flags as arguments and returns the new state, what it wrote to standard output and the error
  that \<open>RunE\<close> returned. Each command opens its own connection without credentials other than the
  transport's; \<open>dial\<close> is the argument that says whether \<open>grpc.NewClient\<close> accepts the address.
\<close>

section \<open>Output\<close>

definition nl :: string where "nl = [char_of (10 :: nat)]"

text \<open>\<open>%-ns\<close> and \<open>%nd\<close>: the width counts runes.\<close>

definition pad_right :: "nat \<Rightarrow> string \<Rightarrow> string" where
  "pad_right n s = s @ replicate (n - length (runes s)) CHR '' ''"

definition pad_left :: "nat \<Rightarrow> string \<Rightarrow> string" where
  "pad_left n s = replicate (n - length (runes s)) CHR '' '' @ s"

definition fmt_bool :: "bool \<Rightarrow> string" where
  "fmt_bool b = (if b then ''true'' else ''false'')"

section \<open>Stubs\<close>

type_synonym ('w, 'q, 'r) rpc = "'q \<Rightarrow> 'w \<Rightarrow> 'w \<times> 'r result"

record 'w pb_client =
  cl_RegisterUser :: "('w, RegisterUserRequest, Response) rpc"
  cl_ListUsers :: "('w, unit, UserProfile list) rpc"
  cl_SearchUsers :: "('w, strmap, UserProfile list) rpc"
  cl_GetUser :: "('w, string, UserProfile) rpc"
  cl_RegisterDomain :: "('w, string \<times> bool, Response) rpc"
  cl_Discover :: "('w, string, NodeInfo) rpc"
  cl_GetStatus :: "('w, unit, StatusReport) rpc"
  cl_StartSMTP :: "('w, pb_SMTPConfig, Response) rpc"
  cl_StopSMTP :: "('w, unit, Response) rpc"
  cl_GetSMTPStatus :: "('w, unit, SMTPStatus) rpc"
  cl_ListDomains :: "('w, unit, DomainInfo list) rpc"
  cl_RemapDomain :: "('w, string \<times> string, Response) rpc"

type_synonym 'w cmd_result = "'w \<times> string \<times> error option"

definition run_rpc :: "(string \<Rightarrow> error option) \<Rightarrow> string \<Rightarrow> string \<Rightarrow> ('w, 'q, 'r) rpc \<Rightarrow> 'q \<Rightarrow> ('r \<Rightarrow> string) \<Rightarrow> 'w \<Rightarrow> 'w cmd_result" where
  "run_rpc dial addr what call req print w =
     (case dial addr of
        Some e \<Rightarrow> (w, '''', Some (EWrap (''connect '' @ addr) e))
      | None \<Rightarrow>
          (case call req w of
             (w', Inl e) \<Rightarrow> (w', '''', Some (EWrap what e))
           | (w', Inr resp) \<Rightarrow> (w', print resp, None)))"

definition print_message :: "Response \<Rightarrow> string" where
  "print_message resp = rsp_Message resp @ nl"

section \<open>Users\<close>

definition put_meta :: "string \<Rightarrow> strmap \<Rightarrow> strmap" where
  "put_meta p m = (let (k, v) = (case cut CHR ''='' p of None \<Rightarrow> (p, '''') | Some kv \<Rightarrow> kv) in if k \<noteq> '''' then gm_put k v m else m)"

definition parseMetaFlags :: "string list \<Rightarrow> strmap" where
  "parseMetaFlags pairs = fold put_meta pairs []"

text \<open>The two loops that sort the pairs of \<open>printUser\<close> by exchanging.\<close>

definition exchange :: "nat \<Rightarrow> nat \<Rightarrow> string list \<Rightarrow> string list" where
  "exchange i j pairs = (if pairs ! j < pairs ! i then pairs[i := pairs ! j, j := pairs ! i] else pairs)"

definition inner_loop :: "nat \<Rightarrow> string list \<Rightarrow> string list" where
  "inner_loop i pairs = fold (exchange i) [i + 1 ..< length pairs] pairs"

definition sort_pairs :: "string list \<Rightarrow> string list" where
  "sort_pairs pairs = fold inner_loop [0 ..< length pairs - 1] pairs"

definition metadata_line :: "strmap \<Rightarrow> string" where
  "metadata_line m = ''metadata: '' @ join '' '' (sort_pairs (map (\<lambda>(k, v). k @ ''='' @ v) m)) @ nl"

definition printUser :: "UserProfile \<Rightarrow> string" where
  "printUser u =
     ''email:    '' @ up_Email u @ nl
     @ (if up_Type u \<noteq> '''' then ''type:     '' @ up_Type u @ nl else '''')
     @ (if up_PublicKey u \<noteq> '''' then ''pubkey:   '' @ up_PublicKey u @ nl else '''')
     @ (if up_Metadata u \<noteq> [] then metadata_line (up_Metadata u) else '''')
     @ nl"

definition runUserRegister :: "(string \<Rightarrow> error option) \<Rightarrow> string \<Rightarrow> 'w pb_client \<Rightarrow> string \<Rightarrow> string \<Rightarrow> string \<Rightarrow> string list \<Rightarrow> 'w \<Rightarrow> 'w cmd_result" where
  "runUserRegister dial addr C email userType pubKey metaStrs =
     run_rpc dial addr ''register user'' (cl_RegisterUser C)
       \<lparr>ru_Email = email, ru_Type = userType, ru_PublicKey = pubKey, ru_Metadata = parseMetaFlags metaStrs\<rparr> print_message"

definition print_users :: "string \<Rightarrow> UserProfile list \<Rightarrow> string" where
  "print_users none us = (if us = [] then none @ nl else concat (map printUser us))"

definition runUserList :: "(string \<Rightarrow> error option) \<Rightarrow> string \<Rightarrow> 'w pb_client \<Rightarrow> 'w \<Rightarrow> 'w cmd_result" where
  "runUserList dial addr C = run_rpc dial addr ''list users'' (cl_ListUsers C) () (print_users ''no users registered'')"

definition runUserSearch :: "(string \<Rightarrow> error option) \<Rightarrow> string \<Rightarrow> 'w pb_client \<Rightarrow> string list \<Rightarrow> 'w \<Rightarrow> 'w cmd_result" where
  "runUserSearch dial addr C metaStrs =
     run_rpc dial addr ''search users'' (cl_SearchUsers C) (parseMetaFlags metaStrs) (print_users ''no matching users'')"

definition runUserGet :: "(string \<Rightarrow> error option) \<Rightarrow> string \<Rightarrow> 'w pb_client \<Rightarrow> string \<Rightarrow> 'w \<Rightarrow> 'w cmd_result" where
  "runUserGet dial addr C email = run_rpc dial addr ''get user'' (cl_GetUser C) email printUser"

section \<open>Domains, discovery and status\<close>

definition runRegister ::
  "(string \<Rightarrow> error option) \<Rightarrow> string \<Rightarrow> 'w pb_client \<Rightarrow> string \<Rightarrow> bool \<Rightarrow> string \<Rightarrow> string list \<Rightarrow> 'w \<Rightarrow> 'w cmd_result" where
  "runRegister dial addr C domainName isDefault userEmail metaSlice w =
     (if domainName = '''' \<and> userEmail = '''' then (w, '''', Some (EText ''provide --domain or --user''))
      else if domainName \<noteq> '''' then run_rpc dial addr ''register domain'' (cl_RegisterDomain C) (domainName, isDefault) print_message w
      else run_rpc dial addr ''register user'' (cl_RegisterUser C)
             \<lparr>ru_Email = userEmail, ru_Type = '''', ru_PublicKey = '''', ru_Metadata = parseMetaFlags metaSlice\<rparr> print_message w)"

definition runDiscover :: "(string \<Rightarrow> error option) \<Rightarrow> string \<Rightarrow> 'w pb_client \<Rightarrow> string \<Rightarrow> 'w \<Rightarrow> 'w cmd_result" where
  "runDiscover dial addr C target =
     run_rpc dial addr ''discover'' (cl_Discover C) target
       (\<lambda>r. ''node_id: '' @ ni_NodeId r @ nl @ ''address: '' @ ni_Address r @ nl @ ''mode:    '' @ ni_Mode r @ nl)"

definition runStatus :: "(string \<Rightarrow> error option) \<Rightarrow> string \<Rightarrow> 'w pb_client \<Rightarrow> 'w \<Rightarrow> 'w cmd_result" where
  "runStatus dial addr C =
     run_rpc dial addr ''get status'' (cl_GetStatus C) ()
       (\<lambda>r. ''node_id:  '' @ st_NodeId r @ nl @ ''mode:     '' @ st_Mode r @ nl @ ''domains:  '' @ itoa (st_DomainCount r) @ nl
          @ ''users:    '' @ itoa (st_UserCount r) @ nl @ ''mailbox:  '' @ (if st_MailboxConnected r then ''connected'' else ''disconnected'') @ nl)"

definition print_domain :: "DomainInfo \<Rightarrow> string" where
  "print_domain d = pad_right 40 (di_Name d) @ ''  node: '' @ di_NodeId d @ (if di_IsDefault d then '' (default)'' else '''') @ nl"

definition runDomainList :: "(string \<Rightarrow> error option) \<Rightarrow> string \<Rightarrow> 'w pb_client \<Rightarrow> 'w \<Rightarrow> 'w cmd_result" where
  "runDomainList dial addr C =
     run_rpc dial addr ''list domains'' (cl_ListDomains C) ()
       (\<lambda>ds. if ds = [] then ''no domains registered'' @ nl else concat (map print_domain ds))"

definition runDomainRemap :: "(string \<Rightarrow> error option) \<Rightarrow> string \<Rightarrow> 'w pb_client \<Rightarrow> string \<Rightarrow> string \<Rightarrow> 'w \<Rightarrow> 'w cmd_result" where
  "runDomainRemap dial addr C domain nid = run_rpc dial addr ''remap domain'' (cl_RemapDomain C) (domain, nid) print_message"

section \<open>The SMTP listener\<close>

definition runSMTPStart ::
  "(string \<Rightarrow> error option) \<Rightarrow> string \<Rightarrow> 'w pb_client \<Rightarrow> int \<Rightarrow> string \<Rightarrow> bool \<Rightarrow> int64 \<Rightarrow> int \<Rightarrow> real \<Rightarrow> int \<Rightarrow> 'w \<Rightarrow> 'w cmd_result" where
  "runSMTPStart dial addr C port domain insecureAuth maxMsgBytes maxRcpt rateConns rateBurst =
     run_rpc dial addr ''start smtp'' (cl_StartSMTP C)
       \<lparr>pb_Port = word_of_int port, pb_Domain = domain, pb_AllowInsecureAuth = insecureAuth, pb_MaxMessageBytes = maxMsgBytes,
        pb_MaxRecipients = word_of_int maxRcpt, pb_ReadTimeoutSecs = 0, pb_WriteTimeoutSecs = 0, pb_MaxConnsPerSec = rateConns,
        pb_BurstConns = word_of_int rateBurst\<rparr> print_message"

definition runSMTPStop :: "(string \<Rightarrow> error option) \<Rightarrow> string \<Rightarrow> 'w pb_client \<Rightarrow> 'w \<Rightarrow> 'w cmd_result" where
  "runSMTPStop dial addr C = run_rpc dial addr ''stop smtp'' (cl_StopSMTP C) () print_message"

definition runSMTPStatus :: "(string \<Rightarrow> error option) \<Rightarrow> string \<Rightarrow> 'w pb_client \<Rightarrow> 'w \<Rightarrow> 'w cmd_result" where
  "runSMTPStatus dial addr C =
     run_rpc dial addr ''get smtp status'' (cl_GetSMTPStatus C) ()
       (\<lambda>r. ''smtp: '' @ (if ss_Running r then ''running'' else ''stopped'') @ ''  port: '' @ itoa (sint (ss_Port r)) @ ''  domain: '' @ ss_Domain r @ nl)"

section \<open>Mailboxes\<close>

text \<open>The fields that the client sends and prints.\<close>

record mail_send =
  ms_UserId :: string
  ms_RecipientIds :: "string list"
  ms_Subject :: string
  ms_Body :: string
  ms_ReplyToId :: string
  ms_ThreadId :: string

record mail_message =
  mm_Id :: string
  mm_Status :: string
  mm_SenderId :: string
  mm_RecipientIds :: "string list"
  mm_Subject :: string
  mm_Body :: string
  mm_CreatedAt :: gotime
  mm_IsRead :: bool
  mm_FolderId :: string
  mm_Tags :: "string list"

record mail_page =
  mp_Messages :: "mail_message list"
  mp_Total :: int
  mp_HasMore :: bool

record mail_folder =
  mf_Id :: string
  mf_MessageCount :: int
  mf_UnreadCount :: int
  mf_IsSystem :: bool

record mail_stats =
  mt_Total :: int
  mt_Unread :: int
  mt_Drafts :: int
  mt_Folders :: "(string, int \<times> int) gomap"

record 'w mb_client =
  mb_SendMessage :: "('w, mail_send, mail_message) rpc"
  mb_ListMessages :: "('w, string \<times> string \<times> int \<times> int, mail_page) rpc"
  mb_GetMessage :: "('w, string \<times> string, mail_message) rpc"
  mb_AddTag :: "('w, string \<times> string \<times> string, unit) rpc"
  mb_RemoveTag :: "('w, string \<times> string \<times> string, unit) rpc"
  mb_ListFolders :: "('w, string, mail_folder list) rpc"
  mb_MoveMessage :: "('w, string \<times> string \<times> string, unit) rpc"
  mb_GetStats :: "('w, string, mail_stats) rpc"
  mb_DeleteMessage :: "('w, string \<times> string, unit) rpc"
  mb_RestoreMessage :: "('w, string \<times> string, unit) rpc"
  mb_PermanentlyDeleteMessage :: "('w, string \<times> string, unit) rpc"

definition runSend :: "(string \<Rightarrow> error option) \<Rightarrow> string \<Rightarrow> 'w mb_client \<Rightarrow> mail_send \<Rightarrow> 'w \<Rightarrow> 'w cmd_result" where
  "runSend dial addr M req =
     run_rpc dial addr ''send'' (mb_SendMessage M) req (\<lambda>msg. ''sent: id='' @ mm_Id msg @ '' status='' @ mm_Status msg @ nl)"

text \<open>\<open>fmt\<close> is \<open>time.Time.Format\<close>.\<close>

fun print_page_lines :: "(string \<Rightarrow> gotime \<Rightarrow> string) \<Rightarrow> int \<Rightarrow> mail_message list \<Rightarrow> string" where
  "print_page_lines fmt i [] = ''''"
| "print_page_lines fmt i (msg # msgs) =
     pad_left 3 (itoa (i + 1)) @ ''. '' @ (if mm_IsRead msg then ''[x]'' else ''[ ]'') @ '' ['' @ fmt ''2006-01-02 15:04'' (mm_CreatedAt msg) @ ''] ''
     @ mm_Subject msg @ nl @ ''     from='' @ pad_right 30 (mm_SenderId msg) @ ''  id='' @ mm_Id msg @ nl
     @ print_page_lines fmt (i + 1) msgs"

definition more_results :: "int \<Rightarrow> string" where
  "more_results n = nl @ ''(more results '' @ em_dash @ '' use --offset '' @ itoa n @ '')'' @ nl"

definition runList ::
  "(string \<Rightarrow> gotime \<Rightarrow> string) \<Rightarrow> (string \<Rightarrow> error option) \<Rightarrow> string \<Rightarrow> 'w mb_client \<Rightarrow> string \<Rightarrow> string \<Rightarrow> int32 \<Rightarrow> int32 \<Rightarrow> 'w \<Rightarrow> 'w cmd_result" where
  "runList fmt dial addr M user folder limit offset =
     run_rpc dial addr ''list'' (mb_ListMessages M) (user, folder, sint limit, sint offset)
       (\<lambda>r. ''Folder: '' @ folder @ ''  User: '' @ user @ ''  (total '' @ itoa (mp_Total r) @ '', hasMore: '' @ fmt_bool (mp_HasMore r) @ '')'' @ nl @ nl
          @ print_page_lines fmt 0 (mp_Messages r)
          @ (if mp_HasMore r then more_results (sint offset + int (length (mp_Messages r))) else ''''))"

definition runRead :: "(string \<Rightarrow> gotime \<Rightarrow> string) \<Rightarrow> (string \<Rightarrow> error option) \<Rightarrow> string \<Rightarrow> 'w mb_client \<Rightarrow> string \<Rightarrow> string \<Rightarrow> 'w \<Rightarrow> 'w cmd_result" where
  "runRead fmt dial addr M user mid =
     run_rpc dial addr ''get message'' (mb_GetMessage M) (user, mid)
       (\<lambda>msg. ''ID:        '' @ mm_Id msg @ nl @ ''From:      '' @ mm_SenderId msg @ nl @ ''To:        '' @ join '', '' (mm_RecipientIds msg) @ nl
          @ ''Subject:   '' @ mm_Subject msg @ nl @ ''Date:      '' @ fmt ''2006-01-02 15:04:05 MST'' (mm_CreatedAt msg) @ nl
          @ ''Read:      '' @ fmt_bool (mm_IsRead msg) @ nl @ ''Folder:    '' @ mm_FolderId msg @ nl
          @ (if mm_Tags msg \<noteq> [] then ''Tags:      '' @ join '', '' (mm_Tags msg) @ nl else '''') @ nl @ mm_Body msg @ nl)"

definition runTag :: "golib \<Rightarrow> (string \<Rightarrow> error option) \<Rightarrow> string \<Rightarrow> 'w mb_client \<Rightarrow> string \<Rightarrow> string \<Rightarrow> string \<Rightarrow> string \<Rightarrow> 'w \<Rightarrow> 'w cmd_result" where
  "runTag G dial addr M user mid add remove w =
     (if add = '''' \<and> remove = '''' then (w, '''', Some (EText ''provide --add or --remove''))
      else case dial addr of
             Some e \<Rightarrow> (w, '''', Some (EWrap (''connect '' @ addr) e))
           | None \<Rightarrow>
               (case (if add = '''' then (w, Inr '''')
                      else case mb_AddTag M (user, mid, add) w of
                             (w1, Inl e) \<Rightarrow> (w1, Inl (EWrap ''add tag'' e))
                           | (w1, Inr _) \<Rightarrow> (w1, Inr (''tag '' @ quote G add @ '' added to message '' @ mid @ nl))) of
                  (w1, Inl e) \<Rightarrow> (w1, '''', Some e)
                | (w1, Inr out) \<Rightarrow>
                    if remove = '''' then (w1, out, None)
                    else (case mb_RemoveTag M (user, mid, remove) w1 of
                            (w2, Inl e) \<Rightarrow> (w2, out, Some (EWrap ''remove tag'' e))
                          | (w2, Inr _) \<Rightarrow> (w2, out @ ''tag '' @ quote G remove @ '' removed from message '' @ mid @ nl, None))))"

definition print_folder :: "mail_folder \<Rightarrow> string" where
  "print_folder f = pad_right 20 (mf_Id f) @ '' '' @ pad_right 8 (itoa (mf_MessageCount f)) @ '' '' @ pad_right 8 (itoa (mf_UnreadCount f)) @ '' ''
     @ (if mf_IsSystem f then ''yes'' else '''') @ nl"

definition runFolders :: "(string \<Rightarrow> error option) \<Rightarrow> string \<Rightarrow> 'w mb_client \<Rightarrow> string \<Rightarrow> 'w \<Rightarrow> 'w cmd_result" where
  "runFolders dial addr M user =
     run_rpc dial addr ''list folders'' (mb_ListFolders M) user
       (\<lambda>fs. ''Folders for '' @ user @ '':'' @ nl @ nl
          @ pad_right 20 ''ID'' @ '' '' @ pad_right 8 ''Total'' @ '' '' @ pad_right 8 ''Unread'' @ '' System'' @ nl
          @ replicate 20 CHR ''-'' @ '' '' @ replicate 8 CHR ''-'' @ '' '' @ replicate 8 CHR ''-'' @ '' ------'' @ nl
          @ concat (map print_folder fs))"

definition runMove :: "(string \<Rightarrow> error option) \<Rightarrow> string \<Rightarrow> 'w mb_client \<Rightarrow> string \<Rightarrow> string \<Rightarrow> string \<Rightarrow> 'w \<Rightarrow> 'w cmd_result" where
  "runMove dial addr M user mid folder =
     run_rpc dial addr ''move'' (mb_MoveMessage M) (user, mid, folder) (\<lambda>_. ''message '' @ mid @ '' moved to '' @ folder @ nl)"

definition runStats :: "(string \<Rightarrow> error option) \<Rightarrow> string \<Rightarrow> 'w mb_client \<Rightarrow> string \<Rightarrow> 'w \<Rightarrow> 'w cmd_result" where
  "runStats dial addr M user =
     run_rpc dial addr ''get stats'' (mb_GetStats M) user
       (\<lambda>s. ''Stats for '' @ user @ '':'' @ nl @ ''  total:  '' @ itoa (mt_Total s) @ nl @ ''  unread: '' @ itoa (mt_Unread s) @ nl
          @ ''  drafts: '' @ itoa (mt_Drafts s) @ nl
          @ (if mt_Folders s \<noteq> [] then nl @ ''Per-folder breakdown:'' @ nl
               @ concat (map (\<lambda>(f, total, unread). ''  '' @ pad_right 20 f @ ''  total='' @ pad_right 6 (itoa total) @ '' unread='' @ itoa unread @ nl) (mt_Folders s))
             else ''''))"

definition runTrash :: "(string \<Rightarrow> error option) \<Rightarrow> string \<Rightarrow> 'w mb_client \<Rightarrow> string \<Rightarrow> string \<Rightarrow> 'w \<Rightarrow> 'w cmd_result" where
  "runTrash dial addr M user mid = run_rpc dial addr ''trash'' (mb_DeleteMessage M) (user, mid) (\<lambda>_. ''message '' @ mid @ '' moved to trash'' @ nl)"

definition runRestore :: "(string \<Rightarrow> error option) \<Rightarrow> string \<Rightarrow> 'w mb_client \<Rightarrow> string \<Rightarrow> string \<Rightarrow> 'w \<Rightarrow> 'w cmd_result" where
  "runRestore dial addr M user mid = run_rpc dial addr ''restore'' (mb_RestoreMessage M) (user, mid) (\<lambda>_. ''message '' @ mid @ '' restored'' @ nl)"

definition runDelete :: "(string \<Rightarrow> error option) \<Rightarrow> string \<Rightarrow> 'w mb_client \<Rightarrow> string \<Rightarrow> string \<Rightarrow> 'w \<Rightarrow> 'w cmd_result" where
  "runDelete dial addr M user mid =
     run_rpc dial addr ''delete'' (mb_PermanentlyDeleteMessage M) (user, mid) (\<lambda>_. ''message '' @ mid @ '' permanently deleted'' @ nl)"

section \<open>The exchange sort\<close>

lemma exchange_length [simp]: "length (exchange i j ps) = length ps"
  by (simp add: exchange_def)

lemma exchange_mset: "i < length ps \<Longrightarrow> j < length ps \<Longrightarrow> mset (exchange i j ps) = mset ps"
  by (simp add: exchange_def mset_swap)

text \<open>After the inner loop has passed position \<open>n\<close>, the element at \<open>i\<close> is the least of those from \<open>i\<close> up
  to \<open>n\<close>; the others have not been touched.\<close>

lemma inner_pass:
  assumes "i < length ps" and "i < n" and "n \<le> length ps"
  defines "ps' \<equiv> fold (exchange i) [i + 1 ..< n] ps"
  shows "length ps' = length ps \<and> mset ps' = mset ps \<and> (\<forall>k. k < i \<or> n \<le> k \<longrightarrow> ps' ! k = ps ! k) \<and> (\<forall>k. i \<le> k \<and> k < n \<longrightarrow> ps' ! i \<le> ps' ! k)"
  using assms(2,3) unfolding ps'_def
proof (induction n)
  case (Suc n)
  show ?case
  proof (cases "i = n")
    case True
    then show ?thesis by (auto simp: le_less_Suc_eq)
  next
    case False
    then have n: "i < n" "n < length ps" "[i + 1 ..< Suc n] = [i + 1 ..< n] @ [n]" using Suc.prems by auto
    define q where "q = fold (exchange i) [i + 1 ..< n] ps"
    have q: "length q = length ps" "mset q = mset ps" "\<forall>k. k < i \<or> n \<le> k \<longrightarrow> q ! k = ps ! k" "\<forall>k. i \<le> k \<and> k < n \<longrightarrow> q ! i \<le> q ! k"
      using Suc.IH n by (simp_all add: q_def)
    have f: "fold (exchange i) [i + 1 ..< Suc n] ps = exchange i n q" unfolding n(3) by (simp add: q_def)
    have "mset (exchange i n q) = mset ps" using exchange_mset [of i q n] q(1,2) assms(1) n(2) by simp
    moreover have "\<forall>k. k < i \<or> Suc n \<le> k \<longrightarrow> exchange i n q ! k = ps ! k"
      using q(3) n(1) by (auto simp: exchange_def)
    moreover have "exchange i n q ! i \<le> exchange i n q ! k" if "i \<le> k" "k < Suc n" for k
      using q(1,4) n assms(1) that unfolding exchange_def
      by (cases "k = n"; cases "k = i") (auto simp: nth_list_update less_Suc_eq intro: order_trans less_imp_le)
    ultimately show ?thesis unfolding f using q(1) by simp
  qed
qed simp

lemma inner_loop_spec:
  assumes "i < length ps"
  shows "length (inner_loop i ps) = length ps" "mset (inner_loop i ps) = mset ps" "\<And>k. k < i \<Longrightarrow> inner_loop i ps ! k = ps ! k"
    "\<And>k. i \<le> k \<Longrightarrow> k < length ps \<Longrightarrow> inner_loop i ps ! i \<le> inner_loop i ps ! k"
  using inner_pass [OF assms assms order_refl] by (simp_all add: inner_loop_def)

lemma inner_loop_rest:
  assumes "i < length ps"
  shows "set (drop i (inner_loop i ps)) = set (drop i ps)"
proof -
  have t: "take i (inner_loop i ps) = take i ps"
    using inner_loop_spec [OF assms] assms by (intro nth_equalityI) auto
  have "mset (take i (inner_loop i ps)) + mset (drop i (inner_loop i ps)) = mset (take i ps) + mset (drop i ps)"
    using inner_loop_spec(2) [OF assms] by (simp flip: mset_append)
  then have "mset (drop i (inner_loop i ps)) = mset (drop i ps)" unfolding t by simp
  then show ?thesis by (rule mset_eq_setD)
qed

text \<open>After \<open>m\<close> rounds of the outer loop every one of the first \<open>m\<close> elements is at most all that follow it.\<close>

lemma outer_rounds:
  assumes "m \<le> length ps - 1"
  defines "q \<equiv> fold inner_loop [0 ..< m] ps"
  shows "length q = length ps \<and> mset q = mset ps \<and> (\<forall>a b. a < m \<and> a \<le> b \<and> b < length ps \<longrightarrow> q ! a \<le> q ! b)"
  using assms(1) unfolding q_def
proof (induction m)
  case (Suc m)
  define q where "q = fold inner_loop [0 ..< m] ps"
  have q: "length q = length ps" "mset q = mset ps" "\<And>a b. a < m \<Longrightarrow> a \<le> b \<Longrightarrow> b < length ps \<Longrightarrow> q ! a \<le> q ! b"
    using Suc by (auto simp: q_def)
  have m: "m < length q" using Suc.prems q(1) by simp
  note s = inner_loop_spec [OF m]
  have "inner_loop m q ! a \<le> inner_loop m q ! b" if ab: "a < Suc m" "a \<le> b" "b < length ps" for a b
  proof (cases "a = m")
    case True
    then show ?thesis using s(4) [of b] ab q(1) by simp
  next
    case False
    then have a: "a < m" using ab(1) by simp
    show ?thesis
    proof (cases "b < m")
      case True
      then show ?thesis using s(3) a q(3) [OF a ab(2,3)] by simp
    next
      case False
      have "inner_loop m q ! b \<in> set (drop m (inner_loop m q))"
        using False ab(3) s(1) q(1) by (auto simp: in_set_conv_nth intro!: exI [of _ "b - m"])
      then obtain k where "k < length (drop m q)" "inner_loop m q ! b = drop m q ! k"
        unfolding inner_loop_rest [OF m] in_set_conv_nth by auto
      then have "inner_loop m q ! b = q ! (m + k)" "m + k < length ps" using m q(1) by auto
      then show ?thesis using s(3) [OF a] q(3) [OF a, of "m + k"] a by simp
    qed
  qed
  moreover have "fold inner_loop [0 ..< Suc m] ps = inner_loop m q" by (simp add: q_def)
  ultimately show ?case using s(1,2) q(1,2) by simp
qed simp

lemma sort_pairs_sort: "sort_pairs ps = sort ps"
proof (rule properties_for_sort [symmetric])
  note o = outer_rounds [of "length ps - 1" ps, OF order_refl, folded sort_pairs_def]
  show "mset (sort_pairs ps) = mset ps" using o by simp
  show "sorted (sort_pairs ps)"
    unfolding sorted_iff_nth_mono_less
  proof (intro allI impI)
    fix i j assume "i < j" "j < length (sort_pairs ps)"
    then show "sort_pairs ps ! i \<le> sort_pairs ps ! j" using o by auto
  qed
qed

lemma printUser_same:
  assumes "mset (up_Metadata u') = mset (up_Metadata u)" and "up_Email u' = up_Email u" and "up_Type u' = up_Type u" and "up_PublicKey u' = up_PublicKey u"
  shows "printUser u' = printUser u"
proof -
  have "sort (map f (up_Metadata u')) = sort (map f (up_Metadata u))" for f :: "string \<times> string \<Rightarrow> string"
    by (rule properties_for_sort) (simp_all add: assms(1))
  moreover have "up_Metadata u' = [] \<longleftrightarrow> up_Metadata u = []" using assms(1) by (metis mset_zero_iff)
  ultimately show ?thesis using assms(2-4) by (simp add: printUser_def metadata_line_def sort_pairs_sort)
qed

text \<open>What the client prints of a user does not depend on the order in which Go's \<open>range\<close> visits the
  metadata: the two nested loops sort the pairs, so two profiles that agree in every field up to the order of the
  metadata are printed alike.\<close>

theorem printUser_deterministic:
  assumes "mset (up_Metadata u') = mset (up_Metadata u)" and "up_Email u' = up_Email u" and "up_Type u' = up_Type u" and "up_PublicKey u' = up_PublicKey u"
  shows "printUser u' = printUser u"
  by (rule printUser_same [OF assms])

theorem printUser_deterministic_witness:
  "printUser \<lparr>up_Email = ''a@x'', up_Type = ''agent'', up_PublicKey = '''', up_Metadata = [(''b'', ''2''), (''a'', ''1'')], up_NodeId = ''n''\<rparr>
   = ''email:    a@x'' @ nl @ ''type:     agent'' @ nl @ ''metadata: a=1 b=2'' @ nl @ nl"
proof -
  let ?u = "\<lambda>m. \<lparr>up_Email = ''a@x'', up_Type = ''agent'', up_PublicKey = '''', up_Metadata = m, up_NodeId = ''n''\<rparr>"
  have "printUser (?u [(''b'', ''2''), (''a'', ''1'')]) = printUser (?u [(''a'', ''1''), (''b'', ''2'')])"
    by (rule printUser_deterministic) simp_all
  also have "\<dots> = ''email:    a@x'' @ nl @ ''type:     agent'' @ nl @ ''metadata: a=1 b=2'' @ nl @ nl"
    by (simp add: printUser_def metadata_line_def sort_pairs_sort)
  finally show ?thesis .
qed

section \<open>The client and the node\<close>

text \<open>The stub of a node, with the node's handlers behind it. The state is the state of the store and the registry,
  and the SMTP listener.\<close>

definition pure_rpc :: "('q \<Rightarrow> 'g \<Rightarrow> 'r result) \<Rightarrow> ('g \<times> 'v, 'q, 'r) rpc" where
  "pure_rpc f q w = (w, f q (fst w))"

definition state_rpc :: "('q \<Rightarrow> 'g \<Rightarrow> 'g \<times> 'r result) \<Rightarrow> ('g \<times> 'v, 'q, 'r) rpc" where
  "state_rpc f q w = (case f q (fst w) of (g, r) \<Rightarrow> ((g, snd w), r))"

definition smtp_rpc :: "('q \<Rightarrow> 'v \<Rightarrow> 'v \<times> 'r result) \<Rightarrow> ('g \<times> 'v, 'q, 'r) rpc" where
  "smtp_rpc f q w = (case f q (snd w) of (v, r) \<Rightarrow> ((fst w, v), r))"

definition node_client :: "'g ctl \<Rightarrow> 'v lifecycle_ops \<Rightarrow> (Config \<Rightarrow> 'v) \<Rightarrow> gotime \<Rightarrow> ('g \<times> 'v option) pb_client" where
  "node_client C L factory now =
     \<lparr>cl_RegisterUser = state_rpc (\<lambda>q g. RegisterUser C now g q),
      cl_ListUsers = pure_rpc (\<lambda>_. ListUsers C),
      cl_SearchUsers = pure_rpc (\<lambda>q g. SearchUsers C g q),
      cl_GetUser = pure_rpc (\<lambda>q g. GetUser C g q),
      cl_RegisterDomain = state_rpc (\<lambda>(n, d) g. RegisterDomain C now g n d),
      cl_Discover = pure_rpc (\<lambda>q g. Discover C now g q),
      cl_GetStatus = pure_rpc (\<lambda>_. GetStatus C),
      cl_StartSMTP = smtp_rpc (\<lambda>q v. rpc_StartSMTP L factory v q),
      cl_StopSMTP = smtp_rpc (\<lambda>_ v. rpc_StopSMTP L v),
      cl_GetSMTPStatus = (\<lambda>_ w. (w, Inr (GetSMTPStatus L (snd w)))),
      cl_ListDomains = pure_rpc (\<lambda>_. ListDomains C),
      cl_RemapDomain = state_rpc (\<lambda>(n, t) g. RemapDomain C g n t)\<rparr>"

lemma parseMetaFlags_wf: "gm_wf (parseMetaFlags ps)"
proof -
  have "gm_wf m \<Longrightarrow> gm_wf (fold put_meta ps m)" for m
    by (induction ps arbitrary: m) (simp_all add: put_meta_def Let_def split: prod.splits)
  then show ?thesis by (simp add: parseMetaFlags_def)
qed

lemma gm_mset_eq:
  assumes "gm_wf m" and "gm_wf m'" and "gm_get m' = gm_get m"
  shows "mset m' = mset m"
proof -
  have "distinct (map fst m)" "distinct (map fst m')" using assms(1,2) by (simp_all add: gm_wf_def)
  moreover from this have "set m' = set m" using map_of_inject_set assms(3) by blast
  ultimately show ?thesis using set_eq_iff_mset_eq_distinct [of m' m] by (simp add: distinct_map)
qed

text \<open>From the command line and back. After a successful \<open>postbox user register\<close> against a single node with
  the SQLite store, \<open>postbox user get\<close> prints the profile of the given address with the given type, key and the
  metadata of the \<open>--meta\<close> flags in sorted order, for metadata that is valid UTF-8.\<close>

lemma cli_register_get:
  assumes "sqlite_inv (fst w)" and "wired C (sqlite_ops E) (local_ops G (sqlite_ops E) nid) nid"
    and "\<forall>(k, v) \<in> set (parseMetaFlags metaStrs). valid_utf8 k = k \<and> valid_utf8 v = v"
    and "runUserRegister dial addr (node_client C L factory now) email userType pubKey metaStrs w = (w', out, None)"
  shows "runUserGet dial addr (node_client C L factory now) email w' =
    (w', printUser \<lparr>up_Email = email, up_Type = userType, up_PublicKey = pubKey, up_Metadata = parseMetaFlags metaStrs, up_NodeId = nid\<rparr>, None)"
proof -
  define req where "req = \<lparr>ru_Email = email, ru_Type = userType, ru_PublicKey = pubKey, ru_Metadata = parseMetaFlags metaStrs\<rparr>"
  have d: "dial addr = None"
    using assms(4) by (auto simp: runUserRegister_def run_rpc_def split: option.splits)
  obtain rsp where r: "RegisterUser C now (fst w) req = (fst w', Inr rsp)"
    using assms(4) d by (auto simp: runUserRegister_def run_rpc_def node_client_def state_rpc_def req_def split: prod.splits sum.splits)
  obtain md where md: "gm_wf md" "gm_get md = gm_get (parseMetaFlags metaStrs)"
      "GetUser C (fst w') email = Inr \<lparr>up_Email = email, up_Type = userType, up_PublicKey = pubKey, up_Metadata = md, up_NodeId = nid\<rparr>"
    using sqlite_register_found [OF assms(1,2) _ _ r] assms(3) parseMetaFlags_wf by (auto simp: req_def)
  have "mset md = mset (parseMetaFlags metaStrs)" by (rule gm_mset_eq [OF parseMetaFlags_wf md(1,2)])
  then have "printUser \<lparr>up_Email = email, up_Type = userType, up_PublicKey = pubKey, up_Metadata = md, up_NodeId = nid\<rparr>
      = printUser \<lparr>up_Email = email, up_Type = userType, up_PublicKey = pubKey, up_Metadata = parseMetaFlags metaStrs, up_NodeId = nid\<rparr>"
    by (intro printUser_same) simp_all
  then show ?thesis using d md(3) by (simp add: runUserGet_def run_rpc_def node_client_def pure_rpc_def)
qed

definition idle_lifecycle :: "unit lifecycle_ops" where
  "idle_lifecycle = \<lparr>lc_Start = (\<lambda>v. (v, None)), lc_Stop = (\<lambda>v. (v, None)), lc_IsRunning = (\<lambda>_. False), lc_Port = (\<lambda>_. 0), lc_Domain = (\<lambda>_. '''')\<rparr>"

abbreviation client_ex :: "(int sqldb \<times> unit option) pb_client" where
  "client_ex \<equiv> node_client single_ex idle_lifecycle (\<lambda>_. ()) 7"

lemma register_ex:
  "\<exists>w' out. runUserRegister (\<lambda>_. None) ''localhost:50051'' client_ex ''ann@x.org'' ''agent'' ''key'' [''lang=en'', ''=x''] (sql_empty, None) = (w', out, None)"
  "parseMetaFlags [''lang=en'', ''=x''] = [(''lang'', ''en'')]"
proof -
  show m: "parseMetaFlags [''lang=en'', ''=x''] = [(''lang'', ''en'')]" by code_simp
  show "\<exists>w' out. runUserRegister (\<lambda>_. None) ''localhost:50051'' client_ex ''ann@x.org'' ''agent'' ''key'' [''lang=en'', ''=x''] (sql_empty, None) = (w', out, None)"
    by (simp add: runUserRegister_def run_rpc_def node_client_def state_rpc_def m RegisterUser_def ctl_ex_def sqlite_ops_def sqlite_GetUser_def
        sqlite_SaveUser_def sql_query_def sql_exec_def sql_empty_def local_ops_def local_Register_def user_entity_def EntityDomain_def EntityUser_def
        upsert_user_def user_of_row_def Let_def)
qed

end
