(* ===== verification/Sql_Schema.thy ===== *)
theory Sql_Schema
  imports Sqlstore
begin

text \<open>
  Connecting the SQL stores and migrating their databases (\<open>Connect\<close>, \<open>Close\<close>, \<open>schema\<close>,
  \<open>migrations\<close> and \<open>migrate\<close> of \<open>internal/store/sqlite/store.go\<close> and \<open>internal/store/sqlstore/store.go\<close>).

  A database is its catalogue: tables with their columns and rows, and indexes. \<open>exec_ddl\<close> is the
  meaning of the data definition statements that the two packages run; the texts of the engines'
  errors and whether a script of several statements is atomic are the record \<open>ddl_engine\<close>. SQLite runs
  a script statement by statement, PostgreSQL rolls all of it back when one statement fails.

  Both migrations run a list of \<open>ALTER TABLE\<close> statements that must do nothing on a database that has
  the columns already: SQLite's answers are filtered by their text, PostgreSQL's statements say
  \<open>IF NOT EXISTS\<close>. That is the locale \<open>migrator\<close>, interpreted by both.
\<close>

section \<open>Catalogues\<close>

datatype cell = Txt string | Num int | Flag bool | Time gotime | Null

record table =
  tb_cols :: "string list"
  tb_rows :: "(string, cell) gomap list"

record catalog =
  ct_tables :: "(string, table) gomap"
  ct_indexes :: "(string \<times> string) list"
  ct_fault :: "string option"

datatype ddl =
    CreateTable string "string list"
  | CreateIndex string string "string list"
  | CreateUniqueIndex string string string cell
  | AddColumn bool string string
  | DropTable string

datatype ddl_error = NoTable string | NoColumn string | DupColumn string | NotUnique string | Fault string

record ddl_engine =
  ddl_text :: "ddl_error \<Rightarrow> string"
  ddl_atomic :: bool

section \<open>The meaning of the statements\<close>

text \<open>Every \<open>CREATE\<close> of the two packages is \<open>IF NOT EXISTS\<close> and every \<open>DROP\<close> is \<open>IF EXISTS\<close>; the first
  argument of \<open>AddColumn\<close> is whether it says \<open>IF NOT EXISTS\<close>. An added column has the default \<open>''\<close>. The
  unique index is partial: it covers the rows whose column has the given value.\<close>

definition create_index :: "string \<Rightarrow> string \<Rightarrow> string list \<Rightarrow> (table \<Rightarrow> bool) \<Rightarrow> catalog \<Rightarrow> catalog \<times> ddl_error option" where
  "create_index i t cs fits c =
     (if i \<in> fst ` set (ct_indexes c) then (c, None)
      else case gm_get (ct_tables c) t of
             None \<Rightarrow> (c, Some (NoTable t))
           | Some tb \<Rightarrow>
               (case find (\<lambda>k. k \<notin> set (tb_cols tb)) cs of
                  Some k \<Rightarrow> (c, Some (NoColumn k))
                | None \<Rightarrow> if fits tb then (c\<lparr>ct_indexes := ct_indexes c @ [(i, t)]\<rparr>, None) else (c, Some (NotUnique i))))"

definition put_column :: "string \<Rightarrow> string \<Rightarrow> table \<Rightarrow> catalog \<Rightarrow> catalog" where
  "put_column t k tb c = c\<lparr>ct_tables := gm_put t \<lparr>tb_cols = tb_cols tb @ [k], tb_rows = map (gm_put k (Txt '''')) (tb_rows tb)\<rparr> (ct_tables c)\<rparr>"

definition drop_table :: "string \<Rightarrow> catalog \<Rightarrow> catalog" where
  "drop_table t c = c\<lparr>ct_tables := gm_del t (ct_tables c), ct_indexes := filter (\<lambda>(_, t'). t' \<noteq> t) (ct_indexes c)\<rparr>"

definition at_most_one :: "string \<Rightarrow> cell \<Rightarrow> table \<Rightarrow> bool" where
  "at_most_one k v tb \<longleftrightarrow> length (filter (\<lambda>r. gm_get r k = Some v) (tb_rows tb)) \<le> 1"

fun run_ddl :: "ddl \<Rightarrow> catalog \<Rightarrow> catalog \<times> ddl_error option" where
  "run_ddl (CreateTable t cs) c =
     (if gm_get (ct_tables c) t \<noteq> None then (c, None)
      else (c\<lparr>ct_tables := gm_put t \<lparr>tb_cols = cs, tb_rows = []\<rparr> (ct_tables c)\<rparr>, None))"
| "run_ddl (CreateIndex i t cs) c = create_index i t cs (\<lambda>_. True) c"
| "run_ddl (CreateUniqueIndex i t k v) c = create_index i t [k] (at_most_one k v) c"
| "run_ddl (AddColumn ifne t k) c =
     (case gm_get (ct_tables c) t of
        None \<Rightarrow> (c, Some (NoTable t))
      | Some tb \<Rightarrow>
          if k \<in> set (tb_cols tb) then (c, if ifne then None else Some (DupColumn k))
          else (put_column t k tb c, None))"
| "run_ddl (DropTable t) c = (drop_table t c, None)"

definition exec_ddl :: "ddl \<Rightarrow> catalog \<Rightarrow> catalog \<times> ddl_error option" where
  "exec_ddl st c = (case ct_fault c of Some m \<Rightarrow> (c, Some (Fault m)) | None \<Rightarrow> run_ddl st c)"

fun exec_script :: "ddl list \<Rightarrow> catalog \<Rightarrow> catalog \<times> ddl_error option" where
  "exec_script [] c = (c, None)"
| "exec_script (st # sts) c =
     (case exec_ddl st c of (c', Some e) \<Rightarrow> (c', Some e) | (c', None) \<Rightarrow> exec_script sts c')"

definition ExecContext :: "ddl_engine \<Rightarrow> ddl list \<Rightarrow> catalog \<Rightarrow> catalog \<times> error option" where
  "ExecContext E sts c =
     (case exec_script sts c of
        (c', Some e) \<Rightarrow> (if ddl_atomic E then c else c', Some (EText (ddl_text E e)))
      | (c', None) \<Rightarrow> (c', None))"

section \<open>Schema and migrations\<close>

abbreviation nodes_cols :: "string list" where
  "nodes_cols \<equiv> [''id'', ''private_key'', ''public_key'']"

abbreviation domains_cols :: "string list" where
  "domains_cols \<equiv> [''name'', ''node_id'', ''is_default'']"

abbreviation users_cols :: "string list" where
  "users_cols \<equiv> [''email'', ''type'', ''public_key'', ''metadata'', ''created_at'']"

abbreviation jobs_cols :: "string list" where
  "jobs_cols \<equiv> [''message_id'', ''recipient_id'', ''endpoint_url'', ''status'', ''attempts'', ''max_attempts'', ''last_error'',
     ''next_retry_at'', ''delivered_at'', ''created_at'', ''updated_at'']"

text \<open>The two schemas differ in the type of \<open>is_default\<close>, and so in the condition of the unique index.\<close>

definition schema_with :: "cell \<Rightarrow> ddl list" where
  "schema_with v =
     [CreateTable ''nodes'' nodes_cols, CreateTable ''domains'' domains_cols,
      CreateUniqueIndex ''idx_domains_default'' ''domains'' ''is_default'' v,
      CreateTable ''users'' users_cols, CreateTable ''webhook_delivery_jobs'' jobs_cols,
      CreateIndex ''idx_wdj_pending'' ''webhook_delivery_jobs'' [''next_retry_at'', ''status'']]"

definition sqlite_schema :: "ddl list" where "sqlite_schema = schema_with (Num 1)"
definition pg_schema :: "ddl list" where "pg_schema = schema_with (Flag True)"

abbreviation migrations_with :: "bool \<Rightarrow> ddl list" where
  "migrations_with ifne \<equiv>
     [AddColumn ifne ''nodes'' ''private_key'', AddColumn ifne ''nodes'' ''public_key'',
      AddColumn ifne ''users'' ''public_key'', AddColumn ifne ''users'' ''type'', DropTable ''agents'']"

definition sqlite_migrations :: "ddl list" where "sqlite_migrations = migrations_with False"
definition pg_migrations :: "ddl list" where "pg_migrations = migrations_with True"

fun sqlite_loop :: "ddl_engine \<Rightarrow> ddl list \<Rightarrow> catalog \<Rightarrow> catalog \<times> error option" where
  "sqlite_loop E [] c = (c, None)"
| "sqlite_loop E (m # ms) c =
     (case ExecContext E [m] c of
        (c', Some e) \<Rightarrow> if contains (error_text e) ''duplicate column name'' then sqlite_loop E ms c' else (c', Some e)
      | (c', None) \<Rightarrow> sqlite_loop E ms c')"

fun pg_loop :: "ddl_engine \<Rightarrow> ddl list \<Rightarrow> catalog \<Rightarrow> catalog \<times> error option" where
  "pg_loop E [] c = (c, None)"
| "pg_loop E (m # ms) c = (case ExecContext E [m] c of (c', Some e) \<Rightarrow> (c', Some e) | (c', None) \<Rightarrow> pg_loop E ms c')"

definition sqlite_migrate :: "ddl_engine \<Rightarrow> catalog \<Rightarrow> catalog \<times> error option" where
  "sqlite_migrate E c =
     (case ExecContext E sqlite_schema c of (c', Some e) \<Rightarrow> (c', Some e) | (c', None) \<Rightarrow> sqlite_loop E sqlite_migrations c')"

definition pg_migrate :: "ddl_engine \<Rightarrow> catalog \<Rightarrow> catalog \<times> error option" where
  "pg_migrate E c =
     (case ExecContext E pg_schema c of (c', Some e) \<Rightarrow> (c', Some e) | (c', None) \<Rightarrow> pg_loop E pg_migrations c')"

section \<open>Connections\<close>

record sql_driver =
  dr_Open :: "string \<Rightarrow> string \<Rightarrow> error option"
  dr_Ping :: "error option"
  dr_Close :: "error option"

text \<open>\<open>h_db\<close>: whether the field \<open>db\<close> of the store is set.\<close>

record sql_handle =
  h_driver :: string
  h_dsn :: string
  h_db :: bool

definition sqlite_New :: "string \<Rightarrow> sql_handle" where
  "sqlite_New dsn = \<lparr>h_driver = ''sqlite'', h_dsn = dsn, h_db = False\<rparr>"

definition pg_New :: "string \<Rightarrow> string \<Rightarrow> sql_handle" where
  "pg_New driver dsn = \<lparr>h_driver = driver, h_dsn = dsn, h_db = False\<rparr>"

definition NewFromDB :: sql_handle where
  "NewFromDB = \<lparr>h_driver = '''', h_dsn = '''', h_db = True\<rparr>"

definition sqlite_Connect :: "golib \<Rightarrow> sql_driver \<Rightarrow> ddl_engine \<Rightarrow> sql_handle \<times> catalog \<Rightarrow> (sql_handle \<times> catalog) \<times> error option" where
  "sqlite_Connect G D E st =
     (let (h, c) = st in
      case dr_Open D ''sqlite'' (h_dsn h) of
        Some e \<Rightarrow> (st, Some (EWrap (''sqlite: open '' @ quote G (h_dsn h)) e))
      | None \<Rightarrow>
          (case dr_Ping D of
             Some e \<Rightarrow> (st, Some (EWrap ''sqlite: ping'' e))
           | None \<Rightarrow> (case sqlite_migrate E c of (c', err) \<Rightarrow> ((h\<lparr>h_db := True\<rparr>, c'), err))))"

definition pg_Connect :: "sql_driver \<Rightarrow> ddl_engine \<Rightarrow> sql_handle \<times> catalog \<Rightarrow> (sql_handle \<times> catalog) \<times> error option" where
  "pg_Connect D E st =
     (let (h, c) = st in
      case (if h_db h then None else dr_Open D (h_driver h) (h_dsn h)) of
        Some e \<Rightarrow> (st, Some (EWrap ''sqlstore: open'' e))
      | None \<Rightarrow>
          (case dr_Ping D of
             Some e \<Rightarrow> ((h\<lparr>h_db := True\<rparr>, c), Some (EWrap ''sqlstore: ping'' e))
           | None \<Rightarrow> (case pg_migrate E c of (c', err) \<Rightarrow> ((h\<lparr>h_db := True\<rparr>, c'), err))))"

definition sql_Close :: "sql_driver \<Rightarrow> sql_handle \<Rightarrow> error option" where
  "sql_Close D h = (if h_db h then dr_Close D else None)"

section \<open>Growing a catalogue\<close>

text \<open>A table keeps its rows: old columns keep their cells, added columns hold the empty text.\<close>

definition row_kept :: "string set \<Rightarrow> (string, cell) gomap \<Rightarrow> (string, cell) gomap \<Rightarrow> bool" where
  "row_kept added r r' \<longleftrightarrow> (\<forall>k. gm_get r' k = (if k \<in> added then Some (Txt '''') else gm_get r k))"

definition kept :: "table \<Rightarrow> table \<Rightarrow> bool" where
  "kept tb tb' \<longleftrightarrow> set (tb_cols tb) \<subseteq> set (tb_cols tb')
     \<and> list_all2 (row_kept (set (tb_cols tb') - set (tb_cols tb))) (tb_rows tb) (tb_rows tb')"

definition grows :: "catalog \<Rightarrow> catalog \<Rightarrow> bool" where
  "grows c c' \<longleftrightarrow> ct_fault c' = ct_fault c \<and> set (ct_indexes c) \<subseteq> set (ct_indexes c')
     \<and> (\<forall>t tb. gm_get (ct_tables c) t = Some tb \<longrightarrow> (\<exists>tb'. gm_get (ct_tables c') t = Some tb' \<and> kept tb tb'))"

definition has_cols :: "catalog \<Rightarrow> string \<Rightarrow> string list \<Rightarrow> bool" where
  "has_cols c t cs \<longleftrightarrow> (case gm_get (ct_tables c) t of None \<Rightarrow> False | Some tb \<Rightarrow> set cs \<subseteq> set (tb_cols tb))"

lemma kept_refl: "kept tb tb"
  by (simp add: kept_def row_kept_def list.rel_refl)

lemma kept_trans:
  assumes "kept tb tb'" and "kept tb' tb''"
  shows "kept tb tb''"
proof -
  let ?A = "set (tb_cols tb') - set (tb_cols tb)" and ?B = "set (tb_cols tb'') - set (tb_cols tb')"
  have u: "set (tb_cols tb'') - set (tb_cols tb) = ?A \<union> ?B" using assms by (auto simp: kept_def)
  have "row_kept ?A r r' \<Longrightarrow> row_kept ?B r' r'' \<Longrightarrow> row_kept (?A \<union> ?B) r r''" for r r' r''
    by (auto simp: row_kept_def)
  then have "list_all2 (row_kept (?A \<union> ?B)) (tb_rows tb) (tb_rows tb'')"
    using assms list_all2_trans [of "row_kept ?A" "row_kept ?B" "row_kept (?A \<union> ?B)" "tb_rows tb" "tb_rows tb'" "tb_rows tb''"]
    unfolding kept_def by blast
  then show ?thesis using assms unfolding kept_def u by blast
qed

lemma kept_put: "k \<notin> set (tb_cols tb) \<Longrightarrow> kept tb \<lparr>tb_cols = tb_cols tb @ [k], tb_rows = map (gm_put k (Txt '''')) (tb_rows tb)\<rparr>"
  by (auto simp: kept_def row_kept_def list_all2_map2 intro: list.rel_refl)

lemma grows_refl: "grows c c"
  by (auto simp: grows_def kept_refl)

lemma grows_trans: "grows c c' \<Longrightarrow> grows c' c'' \<Longrightarrow> grows c c''"
  unfolding grows_def by (intro conjI allI impI) (simp, blast, blast intro: kept_trans)

lemma has_cols_grows: "grows c c' \<Longrightarrow> has_cols c t cs \<Longrightarrow> has_cols c' t cs"
  by (fastforce simp: grows_def has_cols_def kept_def split: option.splits)

lemma has_cols_mono: "has_cols c t cs \<Longrightarrow> set cs' \<subseteq> set cs \<Longrightarrow> has_cols c t cs'"
  by (auto simp: has_cols_def split: option.splits)

section \<open>Statements on a catalogue that can be migrated\<close>

definition ensure_col :: "string \<Rightarrow> string \<Rightarrow> catalog \<Rightarrow> catalog" where
  "ensure_col t k c =
     (case gm_get (ct_tables c) t of None \<Rightarrow> c | Some tb \<Rightarrow> if k \<in> set (tb_cols tb) then c else put_column t k tb c)"

lemma ensure_col_grows: "grows c (ensure_col t k c)"
  by (auto simp: ensure_col_def put_column_def grows_def kept_refl kept_put split: option.split)

lemma ensure_col_has: "has_cols c t cs \<Longrightarrow> has_cols (ensure_col t k c) t (k # cs)"
  by (auto simp: ensure_col_def put_column_def has_cols_def split: option.splits)

lemma ensure_col_id: "has_cols c t cs \<Longrightarrow> k \<in> set cs \<Longrightarrow> ensure_col t k c = c"
  by (auto simp: ensure_col_def has_cols_def split: option.splits)

lemma ensure_col_indexes: "ct_indexes (ensure_col t k c) = ct_indexes c"
  by (simp add: ensure_col_def put_column_def split: option.split)

text \<open>What the schema script needs: the engine runs statements, and no two rows break the unique index.\<close>

definition indexable :: "cell \<Rightarrow> catalog \<Rightarrow> bool" where
  "indexable v c \<longleftrightarrow> ct_fault c = None
     \<and> (case gm_get (ct_tables c) ''domains'' of None \<Rightarrow> True | Some tb \<Rightarrow> at_most_one ''is_default'' v tb)"

text \<open>A table is missing or has at least the given columns.\<close>

definition fits_cols :: "catalog \<Rightarrow> string \<Rightarrow> string list \<Rightarrow> bool" where
  "fits_cols c t cs \<longleftrightarrow> (case gm_get (ct_tables c) t of None \<Rightarrow> True | Some tb \<Rightarrow> set cs \<subseteq> set (tb_cols tb))"

lemma exec_create_table:
  assumes "indexable v c" and "fits_cols c t cs'" and "set cs' \<subseteq> set cs"
  shows "\<exists>c'. exec_ddl (CreateTable t cs) c = (c', None) \<and> grows c c' \<and> indexable v c' \<and> has_cols c' t cs'
    \<and> ct_indexes c' = ct_indexes c \<and> (\<forall>t'. t' \<noteq> t \<longrightarrow> gm_get (ct_tables c') t' = gm_get (ct_tables c) t')"
  using assms
  by (cases "gm_get (ct_tables c) t")
     (auto simp: exec_ddl_def indexable_def fits_cols_def has_cols_def grows_def kept_refl at_most_one_def)

lemma exec_create_index:
  assumes "indexable v c" and "has_cols c t cs" and "\<And>tb. gm_get (ct_tables c) t = Some tb \<Longrightarrow> fits tb"
  shows "\<exists>c'. create_index i t cs fits c = (c', None) \<and> grows c c' \<and> indexable v c' \<and> i \<in> fst ` set (ct_indexes c')
    \<and> set (ct_indexes c') \<subseteq> insert (i, t) (set (ct_indexes c)) \<and> ct_tables c' = ct_tables c"
proof -
  obtain tb where "gm_get (ct_tables c) t = Some tb" "set cs \<subseteq> set (tb_cols tb)"
    using assms(2) by (auto simp: has_cols_def split: option.splits)
  moreover have "find (\<lambda>k. k \<notin> set (tb_cols tb)) cs = None" using calculation(2) by (auto simp: find_None_iff)
  ultimately show ?thesis
    using assms(1,3) by (auto simp: create_index_def indexable_def grows_def kept_refl)
qed

lemma fits_other: "gm_get (ct_tables c') t = gm_get (ct_tables c) t \<Longrightarrow> fits_cols c' t cs = fits_cols c t cs"
  by (simp add: fits_cols_def)

text \<open>A database that can be migrated: every table is missing or has the columns of the first version of
  the schema, at most one domain is the default, and the legacy table has none of the index names of the schema.\<close>

definition legacy :: "cell \<Rightarrow> catalog \<Rightarrow> bool" where
  "legacy v c \<longleftrightarrow> indexable v c \<and> fits_cols c ''nodes'' [''id''] \<and> fits_cols c ''domains'' domains_cols
     \<and> fits_cols c ''users'' [''email'', ''metadata'', ''created_at''] \<and> fits_cols c ''webhook_delivery_jobs'' jobs_cols
     \<and> (''idx_domains_default'', ''agents'') \<notin> set (ct_indexes c) \<and> (''idx_wdj_pending'', ''agents'') \<notin> set (ct_indexes c)"

text \<open>A database with the current schema.\<close>

definition current :: "catalog \<Rightarrow> bool" where
  "current c \<longleftrightarrow> has_cols c ''nodes'' nodes_cols \<and> has_cols c ''domains'' domains_cols \<and> has_cols c ''users'' users_cols
     \<and> has_cols c ''webhook_delivery_jobs'' jobs_cols \<and> gm_get (ct_tables c) ''agents'' = None
     \<and> ''idx_domains_default'' \<in> fst ` set (ct_indexes c) \<and> ''idx_wdj_pending'' \<in> fst ` set (ct_indexes c)
     \<and> ''agents'' \<notin> snd ` set (ct_indexes c)"

lemma exec_schema:
  assumes "legacy v c"
  shows "\<exists>c'. exec_script (schema_with v) c = (c', None) \<and> grows c c' \<and> ct_fault c' = None \<and> has_cols c' ''nodes'' [''id'']
    \<and> has_cols c' ''domains'' domains_cols \<and> has_cols c' ''users'' [''email'', ''metadata'', ''created_at'']
    \<and> has_cols c' ''webhook_delivery_jobs'' jobs_cols
    \<and> ''idx_domains_default'' \<in> fst ` set (ct_indexes c') \<and> ''idx_wdj_pending'' \<in> fst ` set (ct_indexes c')
    \<and> (''idx_domains_default'', ''agents'') \<notin> set (ct_indexes c') \<and> (''idx_wdj_pending'', ''agents'') \<notin> set (ct_indexes c')"
proof -
  note l = assms [unfolded legacy_def]
  obtain c1 where c1: "exec_ddl (CreateTable ''nodes'' nodes_cols) c = (c1, None)" "grows c c1" "indexable v c1" "has_cols c1 ''nodes'' [''id'']"
      "ct_indexes c1 = ct_indexes c" "\<And>t. t \<noteq> ''nodes'' \<Longrightarrow> gm_get (ct_tables c1) t = gm_get (ct_tables c) t"
    using exec_create_table [of v c "''nodes''" "[''id'']" nodes_cols] l by auto
  obtain c2 where c2: "exec_ddl (CreateTable ''domains'' domains_cols) c1 = (c2, None)" "grows c1 c2" "indexable v c2" "has_cols c2 ''domains'' domains_cols"
      "ct_indexes c2 = ct_indexes c1" "\<And>t. t \<noteq> ''domains'' \<Longrightarrow> gm_get (ct_tables c2) t = gm_get (ct_tables c1) t"
    using exec_create_table [of v c1 "''domains''" domains_cols domains_cols] c1(3) l fits_other [of c1 "''domains''" c] c1(6) by auto
  have one: "at_most_one ''is_default'' v tb" if "gm_get (ct_tables c2) ''domains'' = Some tb" for tb
    using c2(3) that by (simp add: indexable_def)
  obtain c3 where c3: "create_index ''idx_domains_default'' ''domains'' [''is_default''] (at_most_one ''is_default'' v) c2 = (c3, None)" "grows c2 c3"
      "indexable v c3" "''idx_domains_default'' \<in> fst ` set (ct_indexes c3)" "ct_tables c3 = ct_tables c2"
      "set (ct_indexes c3) \<subseteq> insert (''idx_domains_default'', ''domains'') (set (ct_indexes c2))"
    using exec_create_index [OF c2(3) has_cols_mono [OF c2(4)], of "[''is_default'']" "at_most_one ''is_default'' v" "''idx_domains_default''"] one by auto
  have u: "fits_cols c3 ''users'' [''email'', ''metadata'', ''created_at'']" and j: "fits_cols c3 ''webhook_delivery_jobs'' jobs_cols"
    using l by (simp_all add: fits_cols_def c3(5) c2(6) c1(6))
  obtain c4 where c4: "exec_ddl (CreateTable ''users'' users_cols) c3 = (c4, None)" "grows c3 c4" "indexable v c4"
      "has_cols c4 ''users'' [''email'', ''metadata'', ''created_at'']" "ct_indexes c4 = ct_indexes c3" "\<And>t. t \<noteq> ''users'' \<Longrightarrow> gm_get (ct_tables c4) t = gm_get (ct_tables c3) t"
    using exec_create_table [of v c3 "''users''" "[''email'', ''metadata'', ''created_at'']" users_cols] c3(3) u by auto
  obtain c5 where c5: "exec_ddl (CreateTable ''webhook_delivery_jobs'' jobs_cols) c4 = (c5, None)" "grows c4 c5" "indexable v c5"
      "has_cols c5 ''webhook_delivery_jobs'' jobs_cols" "ct_indexes c5 = ct_indexes c4"
    using exec_create_table [of v c4 "''webhook_delivery_jobs''" jobs_cols jobs_cols] c4(3) j fits_other [of c4 "''webhook_delivery_jobs''" c3] c4(6) by auto
  obtain c6 where c6: "create_index ''idx_wdj_pending'' ''webhook_delivery_jobs'' [''next_retry_at'', ''status''] (\<lambda>_. True) c5 = (c6, None)" "grows c5 c6"
      "indexable v c6" "''idx_wdj_pending'' \<in> fst ` set (ct_indexes c6)"
      "set (ct_indexes c6) \<subseteq> insert (''idx_wdj_pending'', ''webhook_delivery_jobs'') (set (ct_indexes c5))"
    using exec_create_index [OF c5(3) has_cols_mono [OF c5(4)], of "[''next_retry_at'', ''status'']" "\<lambda>_. True" "''idx_wdj_pending''"] by auto
  have ix: "exec_ddl (CreateUniqueIndex i t k w) d = create_index i t [k] (at_most_one k w) d" "exec_ddl (CreateIndex i t cs) d = create_index i t cs (\<lambda>_. True) d"
    if "indexable v d" for i t k w cs d
    using that by (simp_all add: exec_ddl_def indexable_def)
  have "exec_script (schema_with v) c = (c6, None)"
    unfolding schema_with_def
    by (simp only: exec_script.simps c1(1) c2(1) ix(1) [OF c2(3)] c3(1) c4(1) c5(1) ix(2) [OF c5(3)] c6(1) prod.case option.case)
  moreover have g: "grows c5 c6" "grows c4 c6" "grows c3 c6" "grows c2 c6" "grows c1 c6" "grows c c6"
    using c1(2) c2(2) c3(2) c4(2) c5(2) c6(2) grows_trans by blast+
  moreover have "''idx_domains_default'' \<in> fst ` set (ct_indexes c6)" using c3(4) g(3) by (auto simp: grows_def)
  moreover have "(''idx_domains_default'', ''agents'') \<notin> set (ct_indexes c6)" "(''idx_wdj_pending'', ''agents'') \<notin> set (ct_indexes c6)"
    using l c6(5) c3(6) unfolding c5(5) c4(5) c2(5) c1(5) by auto
  moreover have "ct_fault c6 = None" using c6(3) by (simp add: indexable_def)
  ultimately show ?thesis
    using has_cols_grows [OF g(5) c1(4)] has_cols_grows [OF g(4) c2(4)] has_cols_grows [OF g(2) c4(4)] has_cols_grows [OF g(1) c5(4)] c6(4) by simp
qed

text \<open>On a database with the current schema neither the script nor the migrations change anything.\<close>

lemma exec_schema_current:
  assumes "current c" and "ct_fault c = None"
  shows "exec_script (schema_with v) c = (c, None)"
proof -
  have t: "exec_ddl (CreateTable t cs) c = (c, None)" if "has_cols c t cs'" for t cs cs'
    using that assms(2) by (auto simp: exec_ddl_def has_cols_def split: option.splits)
  have i: "exec_ddl (CreateUniqueIndex ''idx_domains_default'' t k w) c = (c, None)" "exec_ddl (CreateIndex ''idx_wdj_pending'' t cs) c = (c, None)" for t k w cs
    using assms by (simp_all add: exec_ddl_def create_index_def current_def)
  have h: "has_cols c ''nodes'' nodes_cols" "has_cols c ''domains'' domains_cols" "has_cols c ''users'' users_cols" "has_cols c ''webhook_delivery_jobs'' jobs_cols"
    using assms(1) by (simp_all add: current_def)
  show ?thesis
    unfolding schema_with_def by (simp only: exec_script.simps t [OF h(1)] t [OF h(2)] t [OF h(3)] t [OF h(4)] i prod.case option.case)
qed

lemma drop_agents_id: "current c \<Longrightarrow> drop_table ''agents'' c = c"
proof -
  assume c: "current c"
  have "filter (\<lambda>(_, t). t \<noteq> ''agents'') (ct_indexes c) = ct_indexes c"
    using c by (force simp: current_def filter_id_conv)
  moreover have "gm_del ''agents'' (ct_tables c) = ct_tables c"
    using c by (simp add: current_def map_of_eq_None_iff delete_idem)
  ultimately show ?thesis by (simp add: drop_table_def)
qed

section \<open>Migrations\<close>

locale migrator =
  fixes loop :: "ddl list \<Rightarrow> catalog \<Rightarrow> catalog \<times> error option" and ifne :: bool
  assumes loop_Nil: "loop [] c = (c, None)"
    and loop_add: "ct_fault c = None \<Longrightarrow> gm_get (ct_tables c) t \<noteq> None \<Longrightarrow> loop (AddColumn ifne t k # ms) c = loop ms (ensure_col t k c)"
    and loop_drop: "ct_fault c = None \<Longrightarrow> loop (DropTable t # ms) c = loop ms (drop_table t c)"
begin

text \<open>The five migrations on a database that has the tables.\<close>

lemma loop_migrations:
  assumes "ct_fault c = None" and "has_cols c ''nodes'' cn" and "has_cols c ''users'' cu"
  shows "\<exists>c'. loop (migrations_with ifne) c = (drop_table ''agents'' c', None) \<and> grows c c'
    \<and> has_cols c' ''nodes'' (''public_key'' # ''private_key'' # cn) \<and> has_cols c' ''users'' (''type'' # ''public_key'' # cu)
    \<and> ct_indexes c' = ct_indexes c"
proof -
  define c1 where "c1 = ensure_col ''nodes'' ''private_key'' c"
  define c2 where "c2 = ensure_col ''nodes'' ''public_key'' c1"
  define c3 where "c3 = ensure_col ''users'' ''public_key'' c2"
  define c4 where "c4 = ensure_col ''users'' ''type'' c3"
  note g = ensure_col_grows [of c "''nodes''" "''private_key''", folded c1_def] ensure_col_grows [of c1 "''nodes''" "''public_key''", folded c2_def]
    ensure_col_grows [of c2 "''users''" "''public_key''", folded c3_def] ensure_col_grows [of c3 "''users''" "''type''", folded c4_def]
  have f: "ct_fault c1 = None" "ct_fault c2 = None" "ct_fault c3 = None" "ct_fault c4 = None"
    using assms(1) g by (simp_all add: grows_def)
  have n: "has_cols c2 ''nodes'' (''public_key'' # ''private_key'' # cn)"
    unfolding c2_def c1_def by (intro ensure_col_has assms(2))
  have u2: "has_cols c2 ''users'' cu" using has_cols_grows [OF g(2) has_cols_grows [OF g(1) assms(3)]] .
  have u3: "has_cols c3 ''users'' (''public_key'' # cu)" unfolding c3_def by (rule ensure_col_has [OF u2])
  have u4: "has_cols c4 ''users'' (''type'' # ''public_key'' # cu)" unfolding c4_def by (rule ensure_col_has [OF u3])
  have t: "has_cols d t' cs \<Longrightarrow> gm_get (ct_tables d) t' \<noteq> None" for d t' cs by (auto simp: has_cols_def split: option.splits)
  have "loop (migrations_with ifne) c = (drop_table ''agents'' c4, None)"
    using loop_add [OF assms(1) t [OF assms(2)]] loop_add [OF f(1) t [OF has_cols_grows [OF g(1) assms(2)]]]
      loop_add [OF f(2) t [OF u2]] loop_add [OF f(3) t [OF u3]] loop_drop [OF f(4)] loop_Nil
    by (simp add: c1_def [symmetric] c2_def [symmetric] c3_def [symmetric] c4_def [symmetric])
  moreover have "grows c c4" using g grows_trans by blast
  moreover have "ct_indexes c4 = ct_indexes c" by (simp add: c4_def c3_def c2_def c1_def ensure_col_indexes)
  ultimately show ?thesis
    using has_cols_grows [OF g(4) has_cols_grows [OF g(3) n]] u4 by blast
qed

text \<open>The whole migration: the schema script, then the loop.\<close>

lemma upgrade:
  assumes "legacy v c"
  shows "\<exists>c1 c'. ExecContext E (schema_with v) c = (c1, None) \<and> loop (migrations_with ifne) c1 = (c', None) \<and> current c' \<and> ct_fault c' = None
    \<and> (\<forall>t tb. gm_get (ct_tables c) t = Some tb \<longrightarrow> t \<noteq> ''agents'' \<longrightarrow> (\<exists>tb'. gm_get (ct_tables c') t = Some tb' \<and> kept tb tb'))"
proof -
  obtain c1 where c1: "exec_script (schema_with v) c = (c1, None)" "grows c c1" "ct_fault c1 = None" "has_cols c1 ''nodes'' [''id'']"
      "has_cols c1 ''domains'' domains_cols" "has_cols c1 ''users'' [''email'', ''metadata'', ''created_at'']" "has_cols c1 ''webhook_delivery_jobs'' jobs_cols"
      "''idx_domains_default'' \<in> fst ` set (ct_indexes c1)" "''idx_wdj_pending'' \<in> fst ` set (ct_indexes c1)"
      "(''idx_domains_default'', ''agents'') \<notin> set (ct_indexes c1)" "(''idx_wdj_pending'', ''agents'') \<notin> set (ct_indexes c1)"
    using exec_schema [OF assms] by blast
  obtain c2 where c2: "loop (migrations_with ifne) c1 = (drop_table ''agents'' c2, None)" "grows c1 c2"
      "has_cols c2 ''nodes'' [''public_key'', ''private_key'', ''id'']" "has_cols c2 ''users'' [''type'', ''public_key'', ''email'', ''metadata'', ''created_at'']"
      "ct_indexes c2 = ct_indexes c1"
    using loop_migrations [OF c1(3,4,6)] by blast
  have cols: "t \<noteq> ''agents'' \<Longrightarrow> has_cols (drop_table ''agents'' c2) t cs = has_cols c2 t cs" for t cs
    by (simp add: has_cols_def drop_table_def)
  have idx: "i \<in> fst ` set (ct_indexes (drop_table ''agents'' c2))" if "i \<in> fst ` set (ct_indexes c1)" "(i, ''agents'') \<notin> set (ct_indexes c1)" for i
    using that by (force simp: drop_table_def c2(5))
  have "current (drop_table ''agents'' c2)"
    unfolding current_def
    using has_cols_mono [OF c2(3)] has_cols_mono [OF c2(4)] has_cols_grows [OF c2(2) c1(5)] has_cols_grows [OF c2(2) c1(7)] idx [OF c1(8,10)] idx [OF c1(9,11)]
    by (simp add: cols) (auto simp: drop_table_def)
  moreover have "ct_fault (drop_table ''agents'' c2) = None" using c2(2) c1(3) by (simp add: grows_def drop_table_def)
  moreover have "\<exists>tb'. gm_get (ct_tables (drop_table ''agents'' c2)) t = Some tb' \<and> kept tb tb'"
    if "gm_get (ct_tables c) t = Some tb" "t \<noteq> ''agents''" for t tb
    using that grows_trans [OF c1(2) c2(2)] by (auto simp: grows_def drop_table_def)
  ultimately show ?thesis using c1(1) c2(1) by (intro exI [of _ c1] exI [of _ "drop_table ''agents'' c2"]) (simp add: ExecContext_def)
qed

lemma loop_current:
  assumes "current c" and "ct_fault c = None"
  shows "loop (migrations_with ifne) c = (c, None)"
proof -
  have t: "gm_get (ct_tables c) ''nodes'' \<noteq> None" "gm_get (ct_tables c) ''users'' \<noteq> None"
    using assms(1) by (auto simp: current_def has_cols_def split: option.splits)
  have "ensure_col ''nodes'' k c = c" if "k \<in> set nodes_cols" for k
    using assms(1) that by (intro ensure_col_id) (auto simp: current_def)
  moreover have "ensure_col ''users'' k c = c" if "k \<in> set users_cols" for k
    using assms(1) that by (intro ensure_col_id) (auto simp: current_def)
  ultimately show ?thesis
    using loop_add [OF assms(2) t(1)] loop_add [OF assms(2) t(2)] loop_drop [OF assms(2)] loop_Nil drop_agents_id [OF assms(1)] by simp
qed

end

lemma exec_add: "ct_fault c = None \<Longrightarrow> gm_get (ct_tables c) t \<noteq> None \<Longrightarrow>
    exec_ddl (AddColumn b t k) c = (ensure_col t k c, if b \<or> ensure_col t k c \<noteq> c \<or> \<not> has_cols c t [k] then None else Some (DupColumn k))"
  by (auto simp: exec_ddl_def ensure_col_def has_cols_def split: option.splits)

interpretation pgm: migrator "pg_loop E" True for E
  by unfold_locales (simp_all add: ExecContext_def exec_add, simp add: exec_ddl_def)

text \<open>SQLite's loop goes on after an error whose text says that the column exists already.\<close>

lemma sqlite_migrator:
  assumes "\<And>k. contains (ddl_text E (DupColumn k)) ''duplicate column name''"
  shows "migrator (sqlite_loop E) False"
proof (unfold_locales, goal_cases)
  case (2 c t k ms)
  then show ?case
    using assms [of k] by (auto simp: ExecContext_def exec_add ensure_col_def has_cols_def split: option.splits)
next
  case (3 c t ms)
  then show ?case by (simp add: ExecContext_def exec_ddl_def)
qed simp

text \<open>C20: Migrating a SQLite database. Whatever released version of the schema created it (or none: an empty
  database), if SQLite says \<open>duplicate column name\<close> when a column exists already, \<open>migrate\<close> succeeds; afterwards every table
  has the columns and indexes that the statements of the store use, every row of every table but the dropped
  \<open>agents\<close> is still there with its cells, the added columns hold the empty text, and migrating again changes nothing.\<close>

theorem sqlite_migration:
  assumes "\<And>k. contains (ddl_text E (DupColumn k)) ''duplicate column name''" and "legacy (Num 1) c"
  shows "\<exists>c'. sqlite_migrate E c = (c', None) \<and> current c'
    \<and> (\<forall>t tb. gm_get (ct_tables c) t = Some tb \<longrightarrow> t \<noteq> ''agents'' \<longrightarrow> (\<exists>tb'. gm_get (ct_tables c') t = Some tb' \<and> kept tb tb'))
    \<and> sqlite_migrate E c' = (c', None)"
proof -
  note m = sqlite_migrator [OF assms(1)]
  obtain c1 c' where u: "ExecContext E (schema_with (Num 1)) c = (c1, None)" "sqlite_loop E (migrations_with False) c1 = (c', None)" "current c'" "ct_fault c' = None"
      "\<forall>t tb. gm_get (ct_tables c) t = Some tb \<longrightarrow> t \<noteq> ''agents'' \<longrightarrow> (\<exists>tb'. gm_get (ct_tables c') t = Some tb' \<and> kept tb tb')"
    using migrator.upgrade [OF m assms(2)] by blast
  have "sqlite_migrate E c = (c', None)"
    using u(1,2) by (simp add: sqlite_migrate_def sqlite_schema_def sqlite_migrations_def)
  moreover have "sqlite_migrate E c' = (c', None)"
    using exec_schema_current [OF u(3,4)] migrator.loop_current [OF m u(3,4)]
    by (simp add: sqlite_migrate_def sqlite_schema_def sqlite_migrations_def ExecContext_def)
  ultimately show ?thesis using u(3,5) by blast
qed

text \<open>The same for PostgreSQL, whose statements say \<open>IF NOT EXISTS\<close>.\<close>

theorem pg_migration:
  assumes "legacy (Flag True) c"
  shows "\<exists>c'. pg_migrate E c = (c', None) \<and> current c'
    \<and> (\<forall>t tb. gm_get (ct_tables c) t = Some tb \<longrightarrow> t \<noteq> ''agents'' \<longrightarrow> (\<exists>tb'. gm_get (ct_tables c') t = Some tb' \<and> kept tb tb'))
    \<and> pg_migrate E c' = (c', None)"
proof -
  obtain c1 c' where u: "ExecContext E (schema_with (Flag True)) c = (c1, None)" "pg_loop E (migrations_with True) c1 = (c', None)" "current c'" "ct_fault c' = None"
      "\<forall>t tb. gm_get (ct_tables c) t = Some tb \<longrightarrow> t \<noteq> ''agents'' \<longrightarrow> (\<exists>tb'. gm_get (ct_tables c') t = Some tb' \<and> kept tb tb')"
    using pgm.upgrade [OF assms, of E E] by blast
  have "pg_migrate E c = (c', None)"
    using u(1,2) by (simp add: pg_migrate_def pg_schema_def pg_migrations_def)
  moreover have "pg_migrate E c' = (c', None)"
    using exec_schema_current [OF u(3,4)] pgm.loop_current [OF u(3,4), of E]
    by (simp add: pg_migrate_def pg_schema_def pg_migrations_def ExecContext_def)
  ultimately show ?thesis using u(3,5) by blast
qed

text \<open>A database of the first version: a node and two domains, a table of agents, no webhook jobs.\<close>

definition ddl_engine_ex :: ddl_engine where
  "ddl_engine_ex = \<lparr>ddl_text = (\<lambda>e. case e of DupColumn k \<Rightarrow> ''duplicate column name'' | _ \<Rightarrow> ''error''), ddl_atomic = False\<rparr>"

definition catalog_ex :: catalog where
  "catalog_ex = \<lparr>ct_tables =
       [(''nodes'', \<lparr>tb_cols = [''id''], tb_rows = [[(''id'', Txt ''n1'')]]\<rparr>),
        (''domains'', \<lparr>tb_cols = domains_cols, tb_rows = [[(''name'', Txt ''x.org''), (''node_id'', Txt ''n1''), (''is_default'', Num 1)],
           [(''name'', Txt ''y.org''), (''node_id'', Txt ''n1''), (''is_default'', Num 0)]]\<rparr>),
        (''agents'', \<lparr>tb_cols = [''id''], tb_rows = []\<rparr>)],
     ct_indexes = [], ct_fault = None\<rparr>"

theorem sqlite_migration_witness:
  "\<exists>c'. sqlite_migrate ddl_engine_ex catalog_ex = (c', None) \<and> current c' \<and> sqlite_migrate ddl_engine_ex c' = (c', None)"
proof -
  have t: "contains (ddl_text ddl_engine_ex (DupColumn k)) ''duplicate column name''" for k
    by (simp add: ddl_engine_ex_def contains_iff)
  have "legacy (Num 1) catalog_ex"
    by (simp add: legacy_def indexable_def fits_cols_def at_most_one_def catalog_ex_def)
  then show ?thesis using sqlite_migration [OF t] by blast
qed

end
