(* ===== verification/Serve_Run.thy ===== *)
theory Serve_Run
  imports Serve Client Sql_Schema
begin

text \<open>
  The rest of the \<open>serve\<close> command (\<open>runServe\<close> in \<open>cmd/serve.go\<close>): the security guard and the
  interceptors of the gRPC server, the metrics endpoint
  (\<open>internal/observability/metrics.go\<close>), and the order in which \<open>runServe\<close> starts and stops them.

  The mailbox library's \<open>AuthInterceptor\<close> is a parameter, the function that decides with which error it
  answers a call instead of passing it on; what the theorems need of it is \<open>auth_law\<close>: it answers with
  the error of \<open>Authenticate\<close>, and passes every other call on. gRPC does not copy the metadata of an incoming call to the calls made while it is
  handled.
\<close>

section \<open>The metrics endpoint\<close>

record metrics_env =
  mv_exporter :: "error option"
  mv_Listen :: "string \<Rightarrow> error option"

record MetricsServer =
  mx_Addr :: string
  mx_serving :: bool
  mx_provider :: bool

definition NewMetricsServer :: "metrics_env \<Rightarrow> string \<Rightarrow> MetricsServer result" where
  "NewMetricsServer E addr =
     (case mv_exporter E of
        Some e \<Rightarrow> Inl (EWrap ''observability: create prometheus exporter'' e)
      | None \<Rightarrow> Inr \<lparr>mx_Addr = addr, mx_serving = False, mx_provider = True\<rparr>)"

definition metrics_Start :: "metrics_env \<Rightarrow> MetricsServer \<Rightarrow> MetricsServer \<times> error option" where
  "metrics_Start E s =
     (case mv_Listen E (mx_Addr s) of
        Some e \<Rightarrow> (s, Some (EWrap (''observability: listen '' @ mx_Addr s) e))
      | None \<Rightarrow> (s\<lparr>mx_serving := True\<rparr>, None))"

definition metrics_Stop :: "MetricsServer \<Rightarrow> MetricsServer" where
  "metrics_Stop s = s\<lparr>mx_serving := False, mx_provider := False\<rparr>"

section \<open>The gRPC server\<close>

type_synonym metadata = "(string, string list) gomap option"
type_synonym ('w, 'r) handler = "'w \<Rightarrow> 'w \<times> 'r result"
type_synonym ('w, 'r) interceptor = "('w, 'r) handler \<Rightarrow> ('w, 'r) handler"
type_synonym auth_gate = "(metadata \<Rightarrow> string result) \<Rightarrow> metadata \<Rightarrow> error option"

datatype sec_guard = Bearer BearerGuard | AllowAll

definition secGuard :: "string \<Rightarrow> sec_guard" where
  "secGuard token = (case NewBearer token of Some g \<Rightarrow> Bearer g | None \<Rightarrow> AllowAll)"

fun guard_auth :: "sec_guard \<Rightarrow> metadata \<Rightarrow> string result" where
  "guard_auth (Bearer g) md = Authenticate g md"
| "guard_auth AllowAll md = Inr ''anonymous''"

text \<open>\<open>grpc.ChainUnaryInterceptor\<close>: the first interceptor is the outermost. Logging passes every call on;
  recovery turns panics of the handler into errors, and handlers here do not panic.\<close>

definition chain_unary :: "('w, 'r) interceptor list \<Rightarrow> ('w, 'r) interceptor" where
  "chain_unary is h = foldr (\<lambda>i. i) is h"

definition AuthInterceptor :: "auth_gate \<Rightarrow> sec_guard \<Rightarrow> metadata \<Rightarrow> ('w, 'r) interceptor" where
  "AuthInterceptor gate g md h w = (case gate (guard_auth g) md of Some e \<Rightarrow> (w, Inl e) | None \<Rightarrow> h w)"

definition unary_interceptors ::
  "auth_gate \<Rightarrow> string \<Rightarrow> metadata \<Rightarrow> ('w, 'r) interceptor option \<Rightarrow> ('w, 'r) interceptor list" where
  "unary_interceptors gate token md fwd =
     [AuthInterceptor gate (secGuard token) md, \<lambda>h. h, \<lambda>h. h] @ (case fwd of Some i \<Rightarrow> [i] | None \<Rightarrow> [])"

text \<open>How the server answers a call with the metadata \<open>md\<close>.\<close>

definition serve_unary ::
  "auth_gate \<Rightarrow> string \<Rightarrow> metadata \<Rightarrow> ('w, 'r) interceptor option \<Rightarrow> ('w, 'r) handler \<Rightarrow> ('w, 'r) handler" where
  "serve_unary gate token md fwd h = chain_unary (unary_interceptors gate token md fwd) h"

definition auth_law :: "auth_gate \<Rightarrow> bool" where
  "auth_law gate \<longleftrightarrow> (\<forall>auth md. gate auth md = (case auth md of Inl e \<Rightarrow> Some e | Inr _ \<Rightarrow> None))"

lemma serve_unary_eq:
  assumes "auth_law gate"
  shows "serve_unary gate token md fwd h w =
    (case guard_auth (secGuard token) md of Inl e \<Rightarrow> (w, Inl e) | Inr _ \<Rightarrow> (case fwd of Some i \<Rightarrow> i h w | None \<Rightarrow> h w))"
  using assms by (simp add: serve_unary_def chain_unary_def unary_interceptors_def AuthInterceptor_def auth_law_def split: option.split sum.split)

lemma guard_token: "token \<noteq> '''' \<Longrightarrow> secGuard token = Bearer \<lparr>bg_token = token\<rparr>"
  by (simp add: secGuard_def NewBearer_def)

text \<open>C5: With a token configured, no call reaches the forwarder or a handler unless the first value of its
  authorization metadata is the token, with or without \<open>Bearer\<close> before it: every other call is answered
  Unauthenticated and leaves the node as it was. Without a token every call is passed on.\<close>

theorem serve_requires_token:
  assumes "auth_law gate"
  shows "(token = '''' \<longrightarrow> serve_unary gate token md fwd h w = (case fwd of Some i \<Rightarrow> i h w | None \<Rightarrow> h w))
    \<and> (token \<noteq> '''' \<longrightarrow>
         (if \<exists>m v vs. md = Some m \<and> gm_get m ''authorization'' = Some (v # vs) \<and> trim_prefix ''Bearer '' v = token
          then serve_unary gate token md fwd h w = (case fwd of Some i \<Rightarrow> i h w | None \<Rightarrow> h w)
          else \<exists>msg. serve_unary gate token md fwd h w = (w, Inl (EStatus Unauthenticated msg))))"
proof -
  have "guard_auth (secGuard '''') md = Inr ''anonymous''" by (simp add: secGuard_def NewBearer_def)
  then show ?thesis
    unfolding serve_unary_eq [OF assms]
    by (auto simp: guard_token Authenticate_def Let_def split: option.splits list.splits)
qed

definition auth_ex :: auth_gate where
  "auth_ex auth md = (case auth md of Inl e \<Rightarrow> Some e | Inr _ \<Rightarrow> None)"

lemma auth_ex_law: "auth_law auth_ex"
  by (simp add: auth_law_def auth_ex_def)

theorem serve_requires_token_witness:
  "serve_unary auth_ex ''t'' (Some [(''authorization'', [''Bearer t''])]) None (\<lambda>w. (w + 1, Inr ())) (0 :: nat) = (1, Inr ())
   \<and> fst (serve_unary auth_ex ''t'' (Some [(''authorization'', [''Bearer x''])]) None (\<lambda>w. (w + 1, Inr ())) (0 :: nat)) = 0"
proof -
  have "trim_prefix ''Bearer '' ''Bearer t'' = ''t''" "trim_prefix ''Bearer '' ''Bearer x'' = ''x''"
    using trim_prefix_append [of "''Bearer ''"] by fastforce+
  then show ?thesis
    using serve_requires_token [OF auth_ex_law, of "''t''" "Some [(''authorization'', [''Bearer t''])]" None "\<lambda>w. (w + 1, Inr ())" "0 :: nat"]
      serve_requires_token [OF auth_ex_law, of "''t''" "Some [(''authorization'', [''Bearer x''])]" None "\<lambda>w. (w + 1, Inr ())" "0 :: nat"]
    by (auto simp: auth_ex_law)
qed

section \<open>Calls without a token\<close>

text \<open>The metadata of a call that carries no credential.\<close>

definition no_token :: "metadata \<Rightarrow> bool" where
  "no_token md \<longleftrightarrow> (case md of None \<Rightarrow> True | Some m \<Rightarrow> gm_get m ''authorization'' = None)"

lemma no_token_refused:
  assumes "auth_law gate" and "token \<noteq> ''''" and "no_token md"
  shows "\<exists>msg. serve_unary gate token md fwd h w = (w, Inl (EStatus Unauthenticated msg))"
  using assms(2,3) unfolding serve_unary_eq [OF assms(1)] by (auto simp: guard_token Authenticate_def no_token_def split: option.splits)

text \<open>The stubs of a node behind its interceptors, called with the metadata \<open>md\<close>.\<close>

definition guarded :: "auth_gate \<Rightarrow> string \<Rightarrow> metadata \<Rightarrow> ('w, 'q, 'r) rpc \<Rightarrow> ('w, 'q, 'r) rpc" where
  "guarded gate token md call q = serve_unary gate token md None (call q)"

definition pb_guarded :: "auth_gate \<Rightarrow> string \<Rightarrow> metadata \<Rightarrow> 'w pb_client \<Rightarrow> 'w pb_client" where
  "pb_guarded gate token md C =
     \<lparr>cl_RegisterUser = guarded gate token md (cl_RegisterUser C), cl_ListUsers = guarded gate token md (cl_ListUsers C),
      cl_SearchUsers = guarded gate token md (cl_SearchUsers C), cl_GetUser = guarded gate token md (cl_GetUser C),
      cl_RegisterDomain = guarded gate token md (cl_RegisterDomain C), cl_Discover = guarded gate token md (cl_Discover C),
      cl_GetStatus = guarded gate token md (cl_GetStatus C), cl_StartSMTP = guarded gate token md (cl_StartSMTP C),
      cl_StopSMTP = guarded gate token md (cl_StopSMTP C), cl_GetSMTPStatus = guarded gate token md (cl_GetSMTPStatus C),
      cl_ListDomains = guarded gate token md (cl_ListDomains C), cl_RemapDomain = guarded gate token md (cl_RemapDomain C)\<rparr>"

definition mb_guarded :: "auth_gate \<Rightarrow> string \<Rightarrow> metadata \<Rightarrow> 'w mb_client \<Rightarrow> 'w mb_client" where
  "mb_guarded gate token md M =
     \<lparr>mb_SendMessage = guarded gate token md (mb_SendMessage M), mb_ListMessages = guarded gate token md (mb_ListMessages M),
      mb_GetMessage = guarded gate token md (mb_GetMessage M), mb_AddTag = guarded gate token md (mb_AddTag M),
      mb_RemoveTag = guarded gate token md (mb_RemoveTag M), mb_ListFolders = guarded gate token md (mb_ListFolders M),
      mb_MoveMessage = guarded gate token md (mb_MoveMessage M), mb_GetStats = guarded gate token md (mb_GetStats M),
      mb_DeleteMessage = guarded gate token md (mb_DeleteMessage M), mb_RestoreMessage = guarded gate token md (mb_RestoreMessage M),
      mb_PermanentlyDeleteMessage = guarded gate token md (mb_PermanentlyDeleteMessage M)\<rparr>"

lemma pb_guarded_sel [simp]:
  "cl_RegisterUser (pb_guarded gate token md C) = guarded gate token md (cl_RegisterUser C)"
  "cl_ListUsers (pb_guarded gate token md C) = guarded gate token md (cl_ListUsers C)"
  "cl_SearchUsers (pb_guarded gate token md C) = guarded gate token md (cl_SearchUsers C)"
  "cl_GetUser (pb_guarded gate token md C) = guarded gate token md (cl_GetUser C)"
  "cl_RegisterDomain (pb_guarded gate token md C) = guarded gate token md (cl_RegisterDomain C)"
  "cl_Discover (pb_guarded gate token md C) = guarded gate token md (cl_Discover C)"
  "cl_GetStatus (pb_guarded gate token md C) = guarded gate token md (cl_GetStatus C)"
  "cl_StartSMTP (pb_guarded gate token md C) = guarded gate token md (cl_StartSMTP C)"
  "cl_StopSMTP (pb_guarded gate token md C) = guarded gate token md (cl_StopSMTP C)"
  "cl_GetSMTPStatus (pb_guarded gate token md C) = guarded gate token md (cl_GetSMTPStatus C)"
  "cl_ListDomains (pb_guarded gate token md C) = guarded gate token md (cl_ListDomains C)"
  "cl_RemapDomain (pb_guarded gate token md C) = guarded gate token md (cl_RemapDomain C)"
  by (simp_all add: pb_guarded_def)

lemma mb_guarded_sel [simp]:
  "mb_SendMessage (mb_guarded gate token md M) = guarded gate token md (mb_SendMessage M)"
  "mb_ListMessages (mb_guarded gate token md M) = guarded gate token md (mb_ListMessages M)"
  "mb_GetMessage (mb_guarded gate token md M) = guarded gate token md (mb_GetMessage M)"
  "mb_AddTag (mb_guarded gate token md M) = guarded gate token md (mb_AddTag M)"
  "mb_RemoveTag (mb_guarded gate token md M) = guarded gate token md (mb_RemoveTag M)"
  "mb_ListFolders (mb_guarded gate token md M) = guarded gate token md (mb_ListFolders M)"
  "mb_MoveMessage (mb_guarded gate token md M) = guarded gate token md (mb_MoveMessage M)"
  "mb_GetStats (mb_guarded gate token md M) = guarded gate token md (mb_GetStats M)"
  "mb_DeleteMessage (mb_guarded gate token md M) = guarded gate token md (mb_DeleteMessage M)"
  "mb_RestoreMessage (mb_guarded gate token md M) = guarded gate token md (mb_RestoreMessage M)"
  "mb_PermanentlyDeleteMessage (mb_guarded gate token md M) = guarded gate token md (mb_PermanentlyDeleteMessage M)"
  by (simp_all add: mb_guarded_def)

text \<open>The commands with their flags, as the root command dispatches them.\<close>

datatype command =
    CUserRegister string string string "string list" | CUserList | CUserSearch "string list" | CUserGet string
  | CRegister string bool string "string list" | CDiscover string | CStatus
  | CSMTPStart int string bool int64 int real int | CSMTPStop | CSMTPStatus | CDomainList | CDomainRemap string string
  | CMailSend mail_send | CMailList string string int32 int32 | CMailRead string string | CMailTag string string string string
  | CMailFolders string | CMailMove string string string | CMailStats string | CMailTrash string string | CMailRestore string string
  | CMailDelete string string

fun run_command ::
  "golib \<Rightarrow> (string \<Rightarrow> gotime \<Rightarrow> string) \<Rightarrow> (string \<Rightarrow> error option) \<Rightarrow> string \<Rightarrow> 'w pb_client \<Rightarrow> 'w mb_client \<Rightarrow> command \<Rightarrow> 'w \<Rightarrow> 'w cmd_result" where
  "run_command G fmt dl addr C M (CUserRegister e t k ms) = runUserRegister dl addr C e t k ms"
| "run_command G fmt dl addr C M CUserList = runUserList dl addr C"
| "run_command G fmt dl addr C M (CUserSearch ms) = runUserSearch dl addr C ms"
| "run_command G fmt dl addr C M (CUserGet e) = runUserGet dl addr C e"
| "run_command G fmt dl addr C M (CRegister d isd u ms) = runRegister dl addr C d isd u ms"
| "run_command G fmt dl addr C M (CDiscover t) = runDiscover dl addr C t"
| "run_command G fmt dl addr C M CStatus = runStatus dl addr C"
| "run_command G fmt dl addr C M (CSMTPStart p d i mb mr rc rb) = runSMTPStart dl addr C p d i mb mr rc rb"
| "run_command G fmt dl addr C M CSMTPStop = runSMTPStop dl addr C"
| "run_command G fmt dl addr C M CSMTPStatus = runSMTPStatus dl addr C"
| "run_command G fmt dl addr C M CDomainList = runDomainList dl addr C"
| "run_command G fmt dl addr C M (CDomainRemap d n) = runDomainRemap dl addr C d n"
| "run_command G fmt dl addr C M (CMailSend q) = runSend dl addr M q"
| "run_command G fmt dl addr C M (CMailList u f l o') = runList fmt dl addr M u f l o'"
| "run_command G fmt dl addr C M (CMailRead u i) = runRead fmt dl addr M u i"
| "run_command G fmt dl addr C M (CMailTag u i a r) = runTag G dl addr M u i a r"
| "run_command G fmt dl addr C M (CMailFolders u) = runFolders dl addr M u"
| "run_command G fmt dl addr C M (CMailMove u i f) = runMove dl addr M u i f"
| "run_command G fmt dl addr C M (CMailStats u) = runStats dl addr M u"
| "run_command G fmt dl addr C M (CMailTrash u i) = runTrash dl addr M u i"
| "run_command G fmt dl addr C M (CMailRestore u i) = runRestore dl addr M u i"
| "run_command G fmt dl addr C M (CMailDelete u i) = runDelete dl addr M u i"

lemma run_rpc_guarded:
  assumes "auth_law gate" and "token \<noteq> ''''" and "no_token md"
  shows "\<exists>e. run_rpc dl addr what (guarded gate token md call) q pr w = (w, '''', Some e)"
proof -
  obtain msg where "serve_unary gate token md None (call q) w = (w, Inl (EStatus Unauthenticated msg))"
    using no_token_refused [OF assms, of None "call q" w] by blast
  then show ?thesis by (simp add: run_rpc_def guarded_def split: option.split)
qed

lemma runTag_guarded:
  assumes "auth_law gate" and "token \<noteq> ''''" and "no_token md"
  shows "\<exists>e. runTag G dl addr (mb_guarded gate token md M) u i a r w = (w, '''', Some e)"
proof -
  have "\<exists>msg. guarded gate token md call q w = (w, Inl (EStatus Unauthenticated msg))" for call :: "('a, string \<times> string \<times> string, unit) rpc" and q
    using no_token_refused [OF assms, of None "call q" w] by (simp add: guarded_def)
  then obtain f g where "\<And>q. guarded gate token md (mb_AddTag M) q w = (w, Inl (EStatus Unauthenticated (f q)))"
      "\<And>q. guarded gate token md (mb_RemoveTag M) q w = (w, Inl (EStatus Unauthenticated (g q)))"
    by metis
  then show ?thesis by (simp add: runTag_def split: option.split)
qed

text \<open>Whatever the command, without a token it fails, prints nothing and leaves the node as it was.\<close>

lemma cli_refused:
  assumes "auth_law gate" and "token \<noteq> ''''" and "no_token md"
  shows "\<exists>e. run_command G fmt dl addr (pb_guarded gate token md C) (mb_guarded gate token md M) cmd w = (w, '''', Some e)"
  by (cases cmd) (simp_all add: run_rpc_guarded [OF assms] runTag_guarded [OF assms] runUserRegister_def runUserList_def runUserSearch_def
      runUserGet_def runRegister_def runDiscover_def runStatus_def runSMTPStart_def runSMTPStop_def runSMTPStatus_def runDomainList_def
      runDomainRemap_def runSend_def runList_def runRead_def runFolders_def runMove_def runStats_def runTrash_def runRestore_def runDelete_def)

section \<open>Nodes with a token do not reach each other\<close>

text \<open>What a call of the forwarder to the node at \<open>a\<close> comes to: the interceptors of that node answer it. \<open>client.SendMessage\<close>
  sends no metadata of the caller's; \<open>md\<close> is what gRPC adds.\<close>

definition peer_call ::
  "auth_gate \<Rightarrow> (string \<Rightarrow> string) \<Rightarrow> metadata \<Rightarrow> (string \<Rightarrow> ('w, 'r) interceptor option) \<Rightarrow> (string \<Rightarrow> SendMessageRequest \<Rightarrow> ('w, 'r) handler)
    \<Rightarrow> 'w \<Rightarrow> string \<Rightarrow> SendMessageRequest \<Rightarrow> error option" where
  "peer_call gate token md fwd h w a q = (case snd (serve_unary gate (token a) md (fwd a) (h a q) w) of Inl e \<Rightarrow> Some e | Inr _ \<Rightarrow> None)"

lemma peer_call_refused:
  assumes "auth_law gate" and "no_token md" and "token a \<noteq> ''''"
  shows "peer_call gate token md fwd h w a q \<noteq> None"
  using no_token_refused [OF assms(1,3,2), of "fwd a" "h a q" w] by (auto simp: peer_call_def)

lemma forward_all_failing:
  assumes "\<And>a q. a \<in> fst ` set m \<Longrightarrow> fe_Call E a q \<noteq> None" and "forward_all E req m conns l = (conns', calls, l')"
  shows "delivered_remotely calls = {#}"
  using assms
proof (induction m arbitrary: conns l calls)
  case (Cons x m)
  obtain a rs where x: "x = (a, rs)" by (cases x)
  obtain c1 k1 e1 where f: "forward E conns req a rs = (c1, k1, e1)" by (cases "forward E conns req a rs")
  have "fe_Call E a q \<noteq> None" for q using Cons.prems(1) [of a] by (auto simp: x)
  then have e1: "e1 \<noteq> None" using f by (auto simp: forward_def Let_def simp del: not_None_eq split: option.splits prod.splits)
  obtain k2 where k2: "forward_all E req m c1 (l @ rs) = (conns', k2, l')" "calls = map (\<lambda>(a, q). (a, q, e1 = None)) k1 @ k2"
    using Cons.prems(2) e1 by (auto simp: x f split: prod.splits)
  show ?case using Cons.IH [OF _ k2(1)] Cons.prems(1) forward_calls(1) [OF f] e1 by (auto simp: k2(2))
qed simp

text \<open>C27: Nodes that ask for a token do not forward messages to each other: the forwarder sends no credential, so
  when every node that a recipient is routed to has a token, every forwarded call is refused, nothing is delivered remotely, and the local handler is given all the recipients,
  also those that live on other nodes.\<close>

theorem token_isolates_nodes:
  assumes "auth_law gate" and "no_token md" and "fe_Call E = peer_call gate token md fwd h w"
    and "\<forall>u a. routed_to E me a u \<longrightarrow> token a \<noteq> ''''" and "\<forall>m. mset (fe_order E m) = mset m" and "RecipientIds req \<noteq> []"
    and "handle E me conns req handler synth = (conns', calls, r)"
  shows "delivered_remotely calls = {#} \<and> (\<exists>loc. mset loc = mset (RecipientIds req) \<and> r = handler (req\<lparr>RecipientIds := loc\<rparr>))"
proof -
  obtain m l where c: "classify E me (RecipientIds req) = (m, l)" by (cases "classify E me (RecipientIds req)")
  obtain cs ks loc where f: "forward_all E req (fe_order E m) conns l = (cs, ks, loc)" by (cases "forward_all E req (fe_order E m) conns l")
  have cl: "classified E me (RecipientIds req) (m, l)" using classify_classified [of E me "RecipientIds req"] by (simp add: c)
  have t: "token a \<noteq> ''''" if a: "a \<in> fst ` set (fe_order E m)" for a
  proof -
    obtain qs where "(a, qs) \<in> set m" using a mset_eq_setD [OF assms(5) [rule_format, of m]] by auto
    then have "qs \<noteq> []" "\<forall>u \<in> set qs. routed_to E me a u" using cl by (auto simp: classified_def)
    then show ?thesis using assms(4) by (meson list.set_sel(1))
  qed
  have n: "delivered_remotely ks = {#}"
    by (rule forward_all_failing [OF _ f]) (unfold assms(3), rule peer_call_refused [OF assms(1,2)], erule t)
  have "mset loc = mset (RecipientIds req)"
    using forward_all_calls(1) [OF f] n remote_set_perm [of "fe_order E m" m] assms(5) cl
    by (simp add: classified_def)
  moreover from this have "loc \<noteq> []" using assms(6) by auto
  ultimately show ?thesis using assms(7) n by (auto simp: handle_def c f cloneReq_def)
qed

theorem token_isolates_nodes_witness:
  "\<exists>loc. mset loc = {#''a@n1'', ''b@n2''#}
     \<and> snd (snd (handle (fwd_env_ex\<lparr>fe_Lookup := \<lambda>u. Inr (domain_part u), fe_Resolve := Inr, fe_order := \<lambda>m. m,
          fe_Call := peer_call auth_ex (\<lambda>_. ''t'') (Some []) (\<lambda>_. None) (\<lambda>a q w. (w + 1, Inr ())) (0 :: nat)\<rparr>) ''n1'' []
          (req_ex\<lparr>RecipientIds := [''a@n1'', ''b@n2'']\<rparr>) Inr req_ex)) = Inr (req_ex\<lparr>RecipientIds := loc\<rparr>)"
proof -
  let ?E = "fwd_env_ex\<lparr>fe_Lookup := \<lambda>u. Inr (domain_part u), fe_Resolve := Inr, fe_order := \<lambda>m. m,
     fe_Call := peer_call auth_ex (\<lambda>_. ''t'') (Some []) (\<lambda>_. None) (\<lambda>a q w. (w + 1, Inr ())) (0 :: nat)\<rparr>"
  let ?req = "req_ex\<lparr>RecipientIds := [''a@n1'', ''b@n2'']\<rparr>"
  obtain cs ks r where h: "handle ?E ''n1'' [] ?req Inr req_ex = (cs, ks, r)" by (cases "handle ?E ''n1'' [] ?req Inr req_ex")
  have n: "no_token (Some [])" by (simp add: no_token_def)
  show ?thesis
    using token_isolates_nodes [OF auth_ex_law n, where E = ?E and req = ?req and conns' = cs and calls = ks and r = r, OF _ _ _ _ h,
        where token = "\<lambda>_. ''t''" and fwd = "\<lambda>_. None" and h = "\<lambda>a q w. (w + 1, Inr ())" and w = "0 :: nat"] h
    by auto
qed

section \<open>A run of the server\<close>

text \<open>The configuration that \<open>resolveConfig\<close> returns. The token decides which interceptors the gRPC server has (\<open>serve_unary\<close>).\<close>

record run_cfg =
  rc_serve :: serve_cfg
  rc_AuthToken :: string
  rc_RedisURL :: string
  rc_MetricsPort :: int
  rc_HealthEnabled :: bool
  rc_SMTPEnabled :: bool
  rc_SMTP :: cmd_SMTPConfig
  rc_LMTPEnabled :: bool
  rc_LMTP :: cmd_LMTPConfig

text \<open>What happens while the gRPC server serves: calls that start and stop the SMTP listener, listeners that end by
  themselves, and messages that use the forwarder's connections. The run ends with a signal (\<open>None\<close>) or with what
  \<open>Serve\<close> returned.\<close>

datatype serve_event = SListener listener_op | SLMTPExit | SForward fwd_env string SendMessageRequest

record ('r, 'k, 'l) run_env =
  rn_boot :: boot_env
  rn_metrics :: metrics_env
  rn_outbound :: "'k outbound_env"
  rn_ParseURL :: "string \<Rightarrow> 'r redis_ops result"
  rn_mbxserver :: "error option"
  rn_Listen :: "string \<Rightarrow> error option"
  rn_os :: os_env
  rn_limiter :: "'l limiter_ops"
  rn_files :: "string list"
  rn_events :: "serve_event list"
  rn_outcome :: "error option option"
  rn_storeClose :: "error option"

fun serve_step :: "'l limiter_ops \<Rightarrow> serve_event \<Rightarrow> 'l Server node_run \<Rightarrow> 'l Server node_run" where
  "serve_step LM (SListener op) n = n\<lparr>nr_smtp := fst (listener_step LM (nr_smtp n) op)\<rparr>"
| "serve_step LM SLMTPExit n =
     (case nr_lmtp n of
        (None, files) \<Rightarrow> n
      | (Some srv, files) \<Rightarrow> let srv' = lm_serve_exit (srv\<lparr>lm_files := files\<rparr>) in n\<lparr>nr_lmtp := (Some srv', lm_files srv')\<rparr>)"
| "serve_step LM (SForward E me req) n = n\<lparr>nr_pool := map_option (\<lambda>conns. fst (handle E me conns req Inr req)) (nr_pool n)\<rparr>"

text \<open>What the controller runs once \<open>NewController\<close> has returned it.\<close>

definition node_started :: "string list \<Rightarrow> ('g, 'p) Controller \<Rightarrow> 'v node_run" where
  "node_started files c =
     \<lparr>nr_heartbeat = map_option (\<lambda>_. True) (k_heartbeater c), nr_pool = map_option (\<lambda>_. []) (k_resolver c), nr_relay = (k_relaySrv c \<noteq> None),
      nr_smtp = None, nr_lmtp = (None, files), nr_dispatcher = (k_dispatcher c \<noteq> None)\<rparr>"

text \<open>From \<open>net.Listen\<close> to the end of the run: the node, whether the gRPC listener was left open, and the error.\<close>

definition serve_listen :: "('r, 'k, 'l) run_env \<Rightarrow> run_cfg \<Rightarrow> bool \<Rightarrow> 'l Server node_run \<Rightarrow> 'l Server node_run \<times> bool \<times> error option" where
  "serve_listen E cfg hook n =
     (case rn_Listen E ('':'' @ sv_Port (srv_Server (rc_serve cfg))) of
        Some e \<Rightarrow> (n, False, Some (EWrap (''listen :'' @ sv_Port (srv_Server (rc_serve cfg))) e))
      | None \<Rightarrow>
          (case (if rc_SMTPEnabled cfg
                 then ctl_StartSMTP (smtp_lifecycle (rn_os E)) (defaultSMTPFactory (rn_limiter E) (serve_smtp_cfg hook (rc_SMTP cfg))) (nr_smtp n)
                 else (nr_smtp n, None)) of
             (smtp, Some e) \<Rightarrow> (n\<lparr>nr_smtp := smtp\<rparr>, True, Some (EWrap ''start smtp'' e))
           | (smtp, None) \<Rightarrow>
               (case (if rc_LMTPEnabled cfg then ctl_StartLMTP (rn_os E) (serve_lmtp_cfg (rc_LMTP cfg)) (nr_lmtp n) else (nr_lmtp n, None)) of
                  (lmtp, Some e) \<Rightarrow> (n\<lparr>nr_smtp := smtp, nr_lmtp := lmtp\<rparr>, True, Some (EWrap ''start lmtp'' e))
                | (lmtp, None) \<Rightarrow>
                    (fold (serve_step (rn_limiter E)) (rn_events E) (n\<lparr>nr_smtp := smtp, nr_lmtp := lmtp\<rparr>), False,
                     case rn_outcome E of None \<Rightarrow> None | Some err \<Rightarrow> err))))"

definition serve_metrics ::
  "('r, 'k, 'l) run_env \<Rightarrow> run_cfg \<Rightarrow> bool \<Rightarrow> 'l Server node_run \<Rightarrow> 'l Server node_run \<times> MetricsServer option \<times> bool \<times> error option" where
  "serve_metrics E cfg hook n =
     (if 0 < rc_MetricsPort cfg then
        (case NewMetricsServer (rn_metrics E) ('':'' @ itoa (rc_MetricsPort cfg)) of
           Inl e \<Rightarrow> (n, None, False, Some (EWrap ''init metrics server'' e))
         | Inr srv \<Rightarrow>
             (case metrics_Start (rn_metrics E) srv of
                (srv', Some e) \<Rightarrow> (n, Some srv', False, Some (EWrap ''start metrics server'' e))
              | (srv', None) \<Rightarrow> (case serve_listen E cfg hook n of (n', leak, r) \<Rightarrow> (n', Some (metrics_Stop srv'), leak, r))))
      else (case serve_listen E cfg hook n of (n', leak, r) \<Rightarrow> (n', None, leak, r)))"

text \<open>How a run leaves things: \<open>re_node\<close> and \<open>re_close\<close> (what \<open>Close\<close> returned, which is logged) if there was a controller,
  the metrics server if there was one, the Redis client (open or closed), and a gRPC listener left open.\<close>

record 'l run_end =
  re_node :: "'l Server node_run option"
  re_close :: "error option option"
  re_metrics :: "MetricsServer option"
  re_redis :: "bool option"
  re_lis :: bool

definition serve_node :: "('r, 'k, 'l) run_env \<Rightarrow> run_cfg \<Rightarrow> bool \<Rightarrow> bool option \<Rightarrow> 'l Server node_run \<Rightarrow> 'l run_end \<times> error option" where
  "serve_node E cfg hook redis n =
     (case (case rn_mbxserver E of Some e \<Rightarrow> (n, None, False, Some (EWrap ''init mailbox server'' e)) | None \<Rightarrow> serve_metrics E cfg hook n) of
        (n1, mx, leak, r) \<Rightarrow>
          (case ctl_Close (smtp_lifecycle (rn_os E)) (rn_os E) (rn_storeClose E) n1 of
             (n2, ce) \<Rightarrow> (\<lparr>re_node = Some n2, re_close = Some ce, re_metrics = mx, re_redis = redis, re_lis = leak\<rparr>, r)))"

definition nothing_run :: "bool option \<Rightarrow> 'l run_end" where
  "nothing_run redis = \<lparr>re_node = None, re_close = None, re_metrics = None, re_redis = redis, re_lis = False\<rparr>"

definition redis_client :: "(string \<Rightarrow> 'r redis_ops result) \<Rightarrow> string \<Rightarrow> 'r redis_ops option result" where
  "redis_client ParseURL url =
     (if url = '''' then Inr None
      else case ParseURL url of Inl e \<Rightarrow> Inl (EWrap ''parse redis-url'' e) | Inr R \<Rightarrow> Inr (Some R))"

definition runServe ::
  "golib \<Rightarrow> ('r, 'k, 'l) run_env \<Rightarrow> 's store_ops \<Rightarrow> run_cfg result \<Rightarrow> gotime \<Rightarrow> 'r \<times> 's \<Rightarrow> 'l run_end \<times> error option" where
  "runServe G E S resolved now g =
     (case resolved of
        Inl e \<Rightarrow> (nothing_run None, Some e)
      | Inr cfg \<Rightarrow>
          (case redis_client (rn_ParseURL E) (rc_RedisURL cfg) of
             Inl e \<Rightarrow> (nothing_run None, Some e)
           | Inr R \<Rightarrow>
               (let redis = map_option (\<lambda>_. False) R in
                case serve_options G (rn_outbound E) (b_mailbox (rn_boot E)) R (rc_serve cfg) :: ('r, 'l) serve_setup result of
                  Inl e \<Rightarrow> (nothing_run redis, Some e)
                | Inr su \<Rightarrow>
                    (case NewController (rn_boot E) (Some S) (su_options su) now g of
                       (_, Inl e) \<Rightarrow> (nothing_run redis, Some (EWrap ''init controller'' e))
                     | (_, Inr c) \<Rightarrow> serve_node E cfg (su_authHook su \<noteq> None) redis (node_started (rn_files E) c)))))"

section \<open>Whatever happens, nothing is left running\<close>

definition run_ok :: "'v node_run \<Rightarrow> bool" where
  "run_ok n \<longleftrightarrow> nr_heartbeat n \<noteq> Some False
     \<and> (case nr_lmtp n of (None, files) \<Rightarrow> True | (Some srv, files) \<Rightarrow> lm_inv (srv\<lparr>lm_files := files\<rparr>))"

lemma run_ok_lmtp: "run_ok n \<Longrightarrow> lm_inv srv \<Longrightarrow> run_ok (n\<lparr>nr_lmtp := (Some srv, lm_files srv)\<rparr>)"
  by (simp add: run_ok_def)

lemma serve_step_ok: "run_ok n \<Longrightarrow> run_ok (serve_step LM ev n)"
proof (cases ev)
  case SLMTPExit
  assume "run_ok n"
  then show ?thesis
    using lml.exit_inv by (auto simp: SLMTPExit run_ok_def Let_def split: option.splits prod.splits)
qed (simp_all add: run_ok_def)

lemma serve_steps_ok: "run_ok n \<Longrightarrow> run_ok (fold (serve_step LM) evs n)"
  by (induction evs arbitrary: n) (simp_all add: serve_step_ok)

lemma ctl_StartLMTP_ok:
  assumes "ctl_StartLMTP O' cfg (None, files) = ((lmtp, files'), r)"
  shows "case lmtp of None \<Rightarrow> True | Some srv \<Rightarrow> lm_inv (srv\<lparr>lm_files := files'\<rparr>)"
proof -
  have "lm_inv (NewLMTP cfg files)" by (simp add: NewLMTP_def lmtp_applyDefaults_def lm_inv_def)
  then have "lm_inv (fst (lm_Start O' (NewLMTP cfg files)))" by (rule lm_Start_inv)
  then show ?thesis using assms by (auto simp: ctl_StartLMTP_def Let_def split: prod.splits option.splits)
qed

lemma serve_listen_ok:
  assumes "run_ok n" and "nr_lmtp n = (None, files)" and "serve_listen E cfg hook n = (n', leak, r)"
  shows "run_ok n' \<and> \<not> (r = None \<and> leak)"
proof -
  have o: "run_ok (n\<lparr>nr_smtp := smtp, nr_lmtp := (lmtp, files')\<rparr>)"
    if "(if rc_LMTPEnabled cfg then ctl_StartLMTP (rn_os E) (serve_lmtp_cfg (rc_LMTP cfg)) (nr_lmtp n) else (nr_lmtp n, None)) = ((lmtp, files'), e)"
    for smtp lmtp files' e
    using that assms(1,2) ctl_StartLMTP_ok by (auto simp: run_ok_def split: if_splits option.split)
  have "run_ok (n\<lparr>nr_smtp := smtp\<rparr>)" for smtp using assms(1) by (simp add: run_ok_def)
  then show ?thesis
    using assms(1,3) by (auto simp: serve_listen_def split: option.splits prod.splits intro!: serve_steps_ok intro: o)
qed

lemma serve_metrics_ok:
  assumes "run_ok n" and "nr_lmtp n = (None, files)" and "serve_metrics E cfg hook n = (n', mx, leak, r)"
  shows "run_ok n' \<and> \<not> (r = None \<and> leak) \<and> \<not> (\<exists>m. mx = Some m \<and> mx_serving m)"
proof -
  obtain n1 l1 r1 where l: "serve_listen E cfg hook n = (n1, l1, r1)" by (cases "serve_listen E cfg hook n")
  show ?thesis
    using assms serve_listen_ok [OF assms(1,2) l]
    by (auto simp: serve_metrics_def NewMetricsServer_def metrics_Start_def metrics_Stop_def l split: if_splits option.splits sum.splits)
qed

lemma close_ok:
  assumes "run_ok n" and "ctl_Close (smtp_lifecycle O') O' storeClose n = (n', r)"
  shows "r = storeClose \<and> nr_heartbeat n' \<noteq> Some True \<and> \<not> nr_relay n' \<and> \<not> nr_dispatcher n' \<and> \<not> is_running (nr_smtp n')
    \<and> \<not> (\<exists>srv. fst (nr_lmtp n') = Some srv \<and> lm_running srv) \<and> \<not> (\<exists>pool a. nr_pool n' = Some pool \<and> gm_get pool a \<noteq> None)"
proof -
  obtain lmtp files where l: "nr_lmtp n = (lmtp, files)" by (cases "nr_lmtp n")
  have "nr_heartbeat n \<noteq> Some False" "case lmtp of None \<Rightarrow> True | Some srv \<Rightarrow> lm_inv (srv\<lparr>lm_files := files\<rparr>)"
    using assms(1) l by (auto simp: run_ok_def split: option.splits)
  from close_stops_everything [OF this(1) assms(2) l this(2)] show ?thesis by auto
qed

lemma node_started_ok: "run_ok (node_started files c)"
  by (simp add: run_ok_def node_started_def)

definition left_stopped :: "error option \<Rightarrow> 'l run_end \<Rightarrow> error option \<Rightarrow> bool" where
  "left_stopped storeClose z r \<longleftrightarrow>
     re_redis z \<noteq> Some True \<and> \<not> (r = None \<and> re_lis z) \<and> \<not> (\<exists>m. re_metrics z = Some m \<and> mx_serving m)
     \<and> (case re_node z of
          None \<Rightarrow> r \<noteq> None
        | Some n \<Rightarrow> re_close z = Some storeClose \<and> nr_heartbeat n \<noteq> Some True \<and> \<not> nr_relay n \<and> \<not> nr_dispatcher n \<and> \<not> is_running (nr_smtp n)
            \<and> \<not> (\<exists>srv. fst (nr_lmtp n) = Some srv \<and> lm_running srv) \<and> \<not> (\<exists>pool a. nr_pool n = Some pool \<and> gm_get pool a \<noteq> None))"

lemma nothing_run_stopped: "redis \<noteq> Some True \<Longrightarrow> left_stopped sc (nothing_run redis) (Some e)"
  by (simp add: left_stopped_def nothing_run_def)

lemma serve_node_stopped:
  assumes "redis \<noteq> Some True" and "serve_node E cfg hook redis (node_started files c) = (z, r)"
  shows "left_stopped (rn_storeClose E) z r"
proof -
  let ?n = "node_started files c"
  obtain n1 mx leak r1 where m: "(case rn_mbxserver E of Some e \<Rightarrow> (?n, None, False, Some (EWrap ''init mailbox server'' e)) | None \<Rightarrow> serve_metrics E cfg hook ?n)
      = (n1, mx, leak, r1)" by (rule prod_cases4)
  have ok: "run_ok n1 \<and> \<not> (r1 = None \<and> leak) \<and> \<not> (\<exists>m. mx = Some m \<and> mx_serving m)"
  proof (cases "rn_mbxserver E")
    case None
    then show ?thesis using serve_metrics_ok [OF node_started_ok, of files c files E cfg hook] m by (simp add: node_started_def)
  qed (use m node_started_ok in auto)
  obtain n2 ce where c: "ctl_Close (smtp_lifecycle (rn_os E)) (rn_os E) (rn_storeClose E) n1 = (n2, ce)"
    by (cases "ctl_Close (smtp_lifecycle (rn_os E)) (rn_os E) (rn_storeClose E) n1")
  show ?thesis
    using ok close_ok [OF _ c] assms unfolding serve_node_def m prod.case c left_stopped_def by auto
qed


text \<open>The promise is not kept by never starting: when every call of the environment succeeds, the run reaches the end with what ended it.\<close>

lemma serve_node_runs:
  fixes E :: "('r, 'k, 'l) run_env"
  assumes "rn_mbxserver E = None" and "mv_exporter (rn_metrics E) = None" and "\<And>a. mv_Listen (rn_metrics E) a = None"
    and "\<And>a. rn_Listen E a = None" and "\<And>net a. os_Listen (rn_os E) net a = None" and "\<And>p. os_Chmod (rn_os E) p = None"
    and "\<And>c k. os_LoadX509KeyPair (rn_os E) c k = None" and "serve_node E cfg hook redis (node_started files c) = (z, r)"
  shows "r = (case rn_outcome E of None \<Rightarrow> None | Some e \<Rightarrow> e) \<and> re_node z \<noteq> None \<and> \<not> re_lis z"
proof -
  let ?n = "node_started files c :: 'l Server node_run"
  obtain n' leak r' where l: "serve_listen E cfg hook ?n = (n', leak, r')" by (cases "serve_listen E cfg hook ?n")
  have smtp: "snd (ctl_StartSMTP (smtp_lifecycle (rn_os E)) (defaultSMTPFactory (rn_limiter E) sc) (nr_smtp ?n)) = None" for sc
    using assms(5,7)
    by (simp add: ctl_StartSMTP_def node_started_def smtp_lifecycle_def sv_Start_def defaultSMTPFactory_def smtp_New_def NewWithValidator_def Let_def
        split: prod.split option.split)
  have lmtp: "snd (ctl_StartLMTP (rn_os E) lc (nr_lmtp ?n)) = None" for lc
    using assms(5,6) by (simp add: ctl_StartLMTP_def node_started_def lm_Start_def NewLMTP_def lmtp_applyDefaults_def Let_def split: prod.split option.split)
  obtain s1 where s1: "ctl_StartSMTP (smtp_lifecycle (rn_os E)) (defaultSMTPFactory (rn_limiter E) (serve_smtp_cfg hook (rc_SMTP cfg))) (nr_smtp ?n) = (s1, None)"
    using smtp by (metis prod.collapse)
  obtain l1 where l1: "ctl_StartLMTP (rn_os E) (serve_lmtp_cfg (rc_LMTP cfg)) (nr_lmtp ?n) = (l1, None)"
    using lmtp by (metis prod.collapse)
  have lr: "\<not> leak \<and> r' = (case rn_outcome E of None \<Rightarrow> None | Some e \<Rightarrow> e)"
    using l assms(4) s1 l1 by (auto simp: serve_listen_def split: if_splits)
  show ?thesis
    using lr assms(1-3,8)
    by (auto simp: serve_node_def serve_metrics_def NewMetricsServer_def metrics_Start_def l split: prod.splits if_splits)
qed

end
