(* ===== verification/Cmd_Flags.thy ===== *)
theory Cmd_Flags
  imports Go_Strings Complex_Main
begin

text \<open>
  The flags of the \<open>serve\<close> command and their binding to configuration keys (\<open>init\<close> in \<open>cmd/serve.go\<close>), group by group as
  the source has them, and the keys of the configuration structures (\<open>cmd/config.go\<close>). Shown: every flag is
  bound to exactly one key, of the type of its field, and only two fields have no flag.
\<close>

section \<open>Flags, bindings and keys\<close>

datatype flag_value = FString string | FBool bool | FInt int | FInt64 "64 word" | FFloat real | FStrings "string list"
datatype kind = KString | KBool | KInt | KInt64 | KFloat | KStrings | KRules

fun kind_of :: "flag_value \<Rightarrow> kind" where
  "kind_of (FString _) = KString"
| "kind_of (FBool _) = KBool"
| "kind_of (FInt _) = KInt"
| "kind_of (FInt64 _) = KInt64"
| "kind_of (FFloat _) = KFloat"
| "kind_of (FStrings _) = KStrings"

definition server_flags :: "(string \<times> flag_value) list" where
  "server_flags =
     [(''port'', FString ''50051''), (''mode'', FString ''standalone''), (''db'', FString ''postbox.db''), (''node-id'', FString ''''),
      (''host'', FString ''localhost'')]"

definition smtp_flags :: "(string \<times> flag_value) list" where
  "smtp_flags =
     [(''smtp-enabled'', FBool False), (''smtp-port'', FInt 2525), (''smtp-bind-addr'', FString ''''), (''smtp-domain'', FString ''localhost''),
      (''smtp-insecure-auth'', FBool False), (''smtp-max-msg-bytes'', FInt64 0), (''smtp-max-recipients'', FInt 0), (''smtp-max-connections'', FInt 0),
      (''smtp-read-timeout-secs'', FInt 0), (''smtp-write-timeout-secs'', FInt 0), (''smtp-rate-conns'', FFloat 0), (''smtp-rate-burst'', FInt 0),
      (''smtp-rate-conns-per-ip'', FFloat 0), (''smtp-rate-burst-per-ip'', FInt 0), (''smtp-relay-enabled'', FBool False)]"

definition lmtp_flags :: "(string \<times> flag_value) list" where
  "lmtp_flags =
     [(''lmtp-enabled'', FBool False), (''lmtp-socket-path'', FString ''''), (''lmtp-port'', FInt 2424), (''lmtp-bind-addr'', FString ''127.0.0.1''),
      (''lmtp-domain'', FString ''localhost''), (''lmtp-max-msg-bytes'', FInt64 0), (''lmtp-max-recipients'', FInt 0),
      (''lmtp-read-timeout-secs'', FInt 0), (''lmtp-write-timeout-secs'', FInt 0)]"

definition cluster_flags :: "(string \<times> flag_value) list" where
  "cluster_flags =
     [(''redis-url'', FString '''')]"

definition webhook_flags :: "(string \<times> flag_value) list" where
  "webhook_flags =
     [(''webhook-enabled'', FBool False), (''webhook-workers'', FInt 4), (''webhook-max-attempts'', FInt 5), (''webhook-timeout-secs'', FInt 10)]"

definition grpc_flags :: "(string \<times> flag_value) list" where
  "grpc_flags =
     [(''grpc-auth-token'', FString '''')]"

definition smtp_tls_flags :: "(string \<times> flag_value) list" where
  "smtp_tls_flags =
     [(''smtp-tls-cert'', FString ''''), (''smtp-tls-key'', FString ''''), (''smtp-max-auth-failures'', FInt 0), (''smtp-check-spf'', FBool False),
      (''smtp-verify-dkim'', FBool False)]"

definition crowdsec_flags :: "(string \<times> flag_value) list" where
  "crowdsec_flags =
     [(''crowdsec-enabled'', FBool False), (''crowdsec-endpoint'', FString ''http://localhost:8080''), (''crowdsec-api-key'', FString ''''),
      (''crowdsec-timeout-secs'', FInt 2), (''crowdsec-fail-open'', FBool True), (''crowdsec-cache-ttl-secs'', FInt 30)]"

definition dnsbl_flags :: "(string \<times> flag_value) list" where
  "dnsbl_flags =
     [(''dnsbl-enabled'', FBool False), (''dnsbl-zones'', FStrings []), (''dnsbl-cache-ttl-secs'', FInt 300), (''dnsbl-fail-open'', FBool True)]"

definition email_auth_flags :: "(string \<times> flag_value) list" where
  "email_auth_flags =
     [(''email-auth-enabled'', FBool False), (''email-auth-spf-policy'', FString ''off''), (''email-auth-dkim-policy'', FString ''off''),
      (''email-auth-dmarc-policy'', FString ''off'')]"

definition smtp_security_flags :: "(string \<times> flag_value) list" where
  "smtp_security_flags =
     [(''smtp-security-enabled'', FBool False), (''smtp-security-max-auth-failures'', FInt 5), (''smtp-security-lockout-minutes'', FInt 15),
      (''smtp-security-spoof-check'', FBool False), (''smtp-security-require-auth'', FBool False), (''smtp-security-allowed-domains'', FStrings []),
      (''smtp-security-blocked-domains'', FStrings []), (''smtp-security-redis-lockout'', FBool False)]"

definition address_filter_flags :: "(string \<times> flag_value) list" where
  "address_filter_flags =
     [(''address-filter-enabled'', FBool False), (''address-filter-mode'', FString ''block'')]"

definition attachment_flags :: "(string \<times> flag_value) list" where
  "attachment_flags =
     [(''attachment-enabled'', FBool False), (''attachment-max-count'', FInt 0), (''attachment-max-single-bytes'', FInt64 0),
      (''attachment-max-total-bytes'', FInt64 0), (''attachment-allowed-mimes'', FStrings []), (''attachment-blocked-mimes'', FStrings [])]"

definition spam_flags :: "(string \<times> flag_value) list" where
  "spam_flags =
     [(''spam-enabled'', FBool False), (''spam-endpoint'', FString ''''), (''spam-threshold'', FFloat 5), (''spam-tag-only'', FBool False),
      (''spam-timeout-secs'', FInt 5)]"

definition av_flags :: "(string \<times> flag_value) list" where
  "av_flags =
     [(''av-enabled'', FBool False), (''av-endpoint'', FString ''''), (''av-fail-open'', FBool False), (''av-timeout-secs'', FInt 30)]"

definition security_flags :: "(string \<times> flag_value) list" where
  "security_flags =
     [(''security-enabled'', FBool False), (''security-max-recipients'', FInt 0), (''security-max-body-bytes'', FInt 0),
      (''security-rate-per-sender'', FFloat 0), (''security-burst-per-sender'', FInt 1)]"

definition outbound_flags :: "(string \<times> flag_value) list" where
  "outbound_flags =
     [(''outbound-backend'', FString ''''), (''outbound-from'', FString ''''), (''outbound-node-id'', FString ''outbound''),
      (''outbound-smtp-host'', FString ''''), (''outbound-smtp-username'', FString ''''), (''outbound-smtp-password'', FString ''''),
      (''outbound-smtp-timeout-secs'', FInt 30), (''outbound-sendgrid-api-key'', FString ''''), (''outbound-sendgrid-timeout-secs'', FInt 10),
      (''outbound-dkim-private-key-file'', FString ''''), (''outbound-dkim-domain'', FString ''''), (''outbound-dkim-selector'', FString ''''),
      (''outbound-queue'', FBool False), (''outbound-queue-workers'', FInt 4), (''outbound-queue-max-retries'', FInt 7),
      (''outbound-queue-base-delay-secs'', FInt 5), (''outbound-queue-max-delay-secs'', FInt 14400)]"

definition mailbox_flags :: "(string \<times> flag_value) list" where
  "mailbox_flags =
     [(''mailbox-backend'', FString ''memory''), (''mailbox-dsn'', FString ''''), (''mailbox-db'', FString '''')]"

definition observability_flags :: "(string \<times> flag_value) list" where
  "observability_flags =
     [(''metrics-port'', FInt 9090), (''health-enabled'', FBool True)]"

definition serve_flags :: "(string \<times> flag_value) list" where
  "serve_flags =
     server_flags @ smtp_flags @ lmtp_flags @ cluster_flags @ webhook_flags @ grpc_flags @ smtp_tls_flags @ crowdsec_flags @ dnsbl_flags @ email_auth_flags @
     smtp_security_flags @ address_filter_flags @ attachment_flags @ spam_flags @ av_flags @ security_flags @ outbound_flags @ mailbox_flags @ observability_flags"

definition server_bindings :: "(string \<times> string) list" where
  "server_bindings =
     [(''server.port'', ''port''), (''server.mode'', ''mode''), (''server.db'', ''db''), (''server.node_id'', ''node-id''), (''server.host'', ''host'')]"

definition smtp_bindings :: "(string \<times> string) list" where
  "smtp_bindings =
     [(''smtp.enabled'', ''smtp-enabled''), (''smtp.port'', ''smtp-port''), (''smtp.bind_addr'', ''smtp-bind-addr''), (''smtp.domain'', ''smtp-domain''),
      (''smtp.insecure_auth'', ''smtp-insecure-auth''), (''smtp.max_msg_bytes'', ''smtp-max-msg-bytes''),
      (''smtp.max_recipients'', ''smtp-max-recipients''), (''smtp.max_connections'', ''smtp-max-connections''),
      (''smtp.read_timeout_secs'', ''smtp-read-timeout-secs''), (''smtp.write_timeout_secs'', ''smtp-write-timeout-secs''),
      (''smtp.rate_conns'', ''smtp-rate-conns''), (''smtp.rate_burst'', ''smtp-rate-burst''), (''smtp.rate_conns_per_ip'', ''smtp-rate-conns-per-ip''),
      (''smtp.rate_burst_per_ip'', ''smtp-rate-burst-per-ip''), (''smtp.relay_enabled'', ''smtp-relay-enabled''),
      (''smtp.tls_cert_file'', ''smtp-tls-cert''), (''smtp.tls_key_file'', ''smtp-tls-key''),
      (''smtp.max_auth_failures_per_session'', ''smtp-max-auth-failures''), (''smtp.check_spf'', ''smtp-check-spf''),
      (''smtp.verify_dkim'', ''smtp-verify-dkim'')]"

definition grpc_bindings :: "(string \<times> string) list" where
  "grpc_bindings =
     [(''grpc.auth_token'', ''grpc-auth-token'')]"

definition crowdsec_bindings :: "(string \<times> string) list" where
  "crowdsec_bindings =
     [(''plugins.crowdsec.enabled'', ''crowdsec-enabled''), (''plugins.crowdsec.endpoint'', ''crowdsec-endpoint''),
      (''plugins.crowdsec.api_key'', ''crowdsec-api-key''), (''plugins.crowdsec.timeout_secs'', ''crowdsec-timeout-secs''),
      (''plugins.crowdsec.fail_open'', ''crowdsec-fail-open''), (''plugins.crowdsec.cache_ttl_secs'', ''crowdsec-cache-ttl-secs'')]"

definition dnsbl_bindings :: "(string \<times> string) list" where
  "dnsbl_bindings =
     [(''plugins.dnsbl.enabled'', ''dnsbl-enabled''), (''plugins.dnsbl.zones'', ''dnsbl-zones''),
      (''plugins.dnsbl.cache_ttl_secs'', ''dnsbl-cache-ttl-secs''), (''plugins.dnsbl.fail_open'', ''dnsbl-fail-open'')]"

definition email_auth_bindings :: "(string \<times> string) list" where
  "email_auth_bindings =
     [(''plugins.email_auth.enabled'', ''email-auth-enabled''), (''plugins.email_auth.spf_policy'', ''email-auth-spf-policy''),
      (''plugins.email_auth.dkim_policy'', ''email-auth-dkim-policy''), (''plugins.email_auth.dmarc_policy'', ''email-auth-dmarc-policy'')]"

definition lmtp_bindings :: "(string \<times> string) list" where
  "lmtp_bindings =
     [(''lmtp.enabled'', ''lmtp-enabled''), (''lmtp.socket_path'', ''lmtp-socket-path''), (''lmtp.port'', ''lmtp-port''),
      (''lmtp.bind_addr'', ''lmtp-bind-addr''), (''lmtp.domain'', ''lmtp-domain''), (''lmtp.max_msg_bytes'', ''lmtp-max-msg-bytes''),
      (''lmtp.max_recipients'', ''lmtp-max-recipients''), (''lmtp.read_timeout_secs'', ''lmtp-read-timeout-secs''),
      (''lmtp.write_timeout_secs'', ''lmtp-write-timeout-secs'')]"

definition cluster_bindings :: "(string \<times> string) list" where
  "cluster_bindings =
     [(''cluster.redis_url'', ''redis-url'')]"

definition webhook_bindings :: "(string \<times> string) list" where
  "webhook_bindings =
     [(''webhook.enabled'', ''webhook-enabled''), (''webhook.workers'', ''webhook-workers''), (''webhook.max_attempts'', ''webhook-max-attempts''),
      (''webhook.timeout_secs'', ''webhook-timeout-secs'')]"

definition smtp_security_bindings :: "(string \<times> string) list" where
  "smtp_security_bindings =
     [(''plugins.smtp_security.enabled'', ''smtp-security-enabled''),
      (''plugins.smtp_security.max_auth_failures_per_ip'', ''smtp-security-max-auth-failures''),
      (''plugins.smtp_security.lockout_minutes'', ''smtp-security-lockout-minutes''),
      (''plugins.smtp_security.envelope_spoof_check'', ''smtp-security-spoof-check''),
      (''plugins.smtp_security.require_authenticated_sender'', ''smtp-security-require-auth''),
      (''plugins.smtp_security.allowed_sender_domains'', ''smtp-security-allowed-domains''),
      (''plugins.smtp_security.blocked_sender_domains'', ''smtp-security-blocked-domains''),
      (''plugins.smtp_security.redis_lockout'', ''smtp-security-redis-lockout'')]"

definition address_filter_bindings :: "(string \<times> string) list" where
  "address_filter_bindings =
     [(''plugins.address_filter.enabled'', ''address-filter-enabled''), (''plugins.address_filter.mode'', ''address-filter-mode'')]"

definition attachment_bindings :: "(string \<times> string) list" where
  "attachment_bindings =
     [(''plugins.attachment.enabled'', ''attachment-enabled''), (''plugins.attachment.max_count'', ''attachment-max-count''),
      (''plugins.attachment.max_single_bytes'', ''attachment-max-single-bytes''), (''plugins.attachment.max_total_bytes'', ''attachment-max-total-bytes''),
      (''plugins.attachment.allowed_mimes'', ''attachment-allowed-mimes''), (''plugins.attachment.blocked_mimes'', ''attachment-blocked-mimes'')]"

definition spam_bindings :: "(string \<times> string) list" where
  "spam_bindings =
     [(''plugins.spam_checker.enabled'', ''spam-enabled''), (''plugins.spam_checker.endpoint'', ''spam-endpoint''),
      (''plugins.spam_checker.threshold'', ''spam-threshold''), (''plugins.spam_checker.tag_only'', ''spam-tag-only''),
      (''plugins.spam_checker.timeout_secs'', ''spam-timeout-secs'')]"

definition av_bindings :: "(string \<times> string) list" where
  "av_bindings =
     [(''plugins.antivirus.enabled'', ''av-enabled''), (''plugins.antivirus.endpoint'', ''av-endpoint''),
      (''plugins.antivirus.fail_open'', ''av-fail-open''), (''plugins.antivirus.timeout_secs'', ''av-timeout-secs'')]"

definition security_bindings :: "(string \<times> string) list" where
  "security_bindings =
     [(''plugins.security_agent.enabled'', ''security-enabled''), (''plugins.security_agent.max_recipients'', ''security-max-recipients''),
      (''plugins.security_agent.max_body_bytes'', ''security-max-body-bytes''), (''plugins.security_agent.rate_per_sender'', ''security-rate-per-sender''),
      (''plugins.security_agent.burst_per_sender'', ''security-burst-per-sender'')]"

definition outbound_bindings :: "(string \<times> string) list" where
  "outbound_bindings =
     [(''outbound.backend'', ''outbound-backend''), (''outbound.from'', ''outbound-from''), (''outbound.node_id'', ''outbound-node-id''),
      (''outbound.smtp_host'', ''outbound-smtp-host''), (''outbound.smtp_username'', ''outbound-smtp-username''),
      (''outbound.smtp_password'', ''outbound-smtp-password''), (''outbound.smtp_timeout_secs'', ''outbound-smtp-timeout-secs''),
      (''outbound.sendgrid_api_key'', ''outbound-sendgrid-api-key''), (''outbound.sendgrid_timeout_secs'', ''outbound-sendgrid-timeout-secs''),
      (''outbound.dkim_private_key_file'', ''outbound-dkim-private-key-file''), (''outbound.dkim_domain'', ''outbound-dkim-domain''),
      (''outbound.dkim_selector'', ''outbound-dkim-selector''), (''outbound.queue_enabled'', ''outbound-queue''),
      (''outbound.queue_workers'', ''outbound-queue-workers''), (''outbound.queue_max_retries'', ''outbound-queue-max-retries''),
      (''outbound.queue_base_delay_secs'', ''outbound-queue-base-delay-secs''), (''outbound.queue_max_delay_secs'', ''outbound-queue-max-delay-secs'')]"

definition mailbox_bindings :: "(string \<times> string) list" where
  "mailbox_bindings =
     [(''mailbox_store.backend'', ''mailbox-backend''), (''mailbox_store.dsn'', ''mailbox-dsn''), (''mailbox_store.database'', ''mailbox-db'')]"

definition observability_bindings :: "(string \<times> string) list" where
  "observability_bindings =
     [(''observability.metrics_port'', ''metrics-port''), (''observability.health_enabled'', ''health-enabled'')]"

definition flag_bindings :: "(string \<times> string) list" where
  "flag_bindings =
     server_bindings @ smtp_bindings @ grpc_bindings @ crowdsec_bindings @ dnsbl_bindings @ email_auth_bindings @ lmtp_bindings @ cluster_bindings @
     webhook_bindings @ smtp_security_bindings @ address_filter_bindings @ attachment_bindings @ spam_bindings @ av_bindings @ security_bindings @
     outbound_bindings @ mailbox_bindings @ observability_bindings"

text \<open>The keys of the fields of \<open>Config\<close> (the \<open>mapstructure\<close> tags), with the types of the fields.\<close>

definition server_keys :: "(string \<times> kind) list" where
  "server_keys =
     [(''server.port'', KString), (''server.host'', KString), (''server.mode'', KString), (''server.db'', KString), (''server.node_id'', KString)]"

definition smtp_keys :: "(string \<times> kind) list" where
  "smtp_keys =
     [(''smtp.enabled'', KBool), (''smtp.port'', KInt), (''smtp.bind_addr'', KString), (''smtp.domain'', KString), (''smtp.insecure_auth'', KBool),
      (''smtp.max_msg_bytes'', KInt64), (''smtp.max_recipients'', KInt), (''smtp.max_connections'', KInt), (''smtp.read_timeout_secs'', KInt),
      (''smtp.write_timeout_secs'', KInt), (''smtp.rate_conns'', KFloat), (''smtp.rate_burst'', KInt), (''smtp.rate_conns_per_ip'', KFloat),
      (''smtp.rate_burst_per_ip'', KInt), (''smtp.relay_enabled'', KBool), (''smtp.tls_cert_file'', KString), (''smtp.tls_key_file'', KString),
      (''smtp.max_auth_failures_per_session'', KInt), (''smtp.check_spf'', KBool), (''smtp.verify_dkim'', KBool)]"

definition lmtp_keys :: "(string \<times> kind) list" where
  "lmtp_keys =
     [(''lmtp.enabled'', KBool), (''lmtp.socket_path'', KString), (''lmtp.port'', KInt), (''lmtp.bind_addr'', KString), (''lmtp.domain'', KString),
      (''lmtp.max_msg_bytes'', KInt64), (''lmtp.max_recipients'', KInt), (''lmtp.read_timeout_secs'', KInt), (''lmtp.write_timeout_secs'', KInt)]"

definition grpc_keys :: "(string \<times> kind) list" where
  "grpc_keys =
     [(''grpc.auth_token'', KString)]"

definition webhook_keys :: "(string \<times> kind) list" where
  "webhook_keys =
     [(''webhook.enabled'', KBool), (''webhook.workers'', KInt), (''webhook.max_attempts'', KInt), (''webhook.timeout_secs'', KInt)]"

definition cluster_keys :: "(string \<times> kind) list" where
  "cluster_keys =
     [(''cluster.redis_url'', KString)]"

definition crowdsec_keys :: "(string \<times> kind) list" where
  "crowdsec_keys =
     [(''plugins.crowdsec.enabled'', KBool), (''plugins.crowdsec.endpoint'', KString), (''plugins.crowdsec.api_key'', KString),
      (''plugins.crowdsec.timeout_secs'', KInt), (''plugins.crowdsec.fail_open'', KBool), (''plugins.crowdsec.cache_ttl_secs'', KInt)]"

definition dnsbl_keys :: "(string \<times> kind) list" where
  "dnsbl_keys =
     [(''plugins.dnsbl.enabled'', KBool), (''plugins.dnsbl.zones'', KStrings), (''plugins.dnsbl.cache_ttl_secs'', KInt),
      (''plugins.dnsbl.fail_open'', KBool)]"

definition address_filter_keys :: "(string \<times> kind) list" where
  "address_filter_keys =
     [(''plugins.address_filter.enabled'', KBool), (''plugins.address_filter.mode'', KString), (''plugins.address_filter.rules'', KRules)]"

definition attachment_keys :: "(string \<times> kind) list" where
  "attachment_keys =
     [(''plugins.attachment.enabled'', KBool), (''plugins.attachment.max_count'', KInt), (''plugins.attachment.max_single_bytes'', KInt64),
      (''plugins.attachment.max_total_bytes'', KInt64), (''plugins.attachment.allowed_mimes'', KStrings), (''plugins.attachment.blocked_mimes'', KStrings)]"

definition smtp_security_keys :: "(string \<times> kind) list" where
  "smtp_security_keys =
     [(''plugins.smtp_security.enabled'', KBool), (''plugins.smtp_security.max_auth_failures_per_ip'', KInt),
      (''plugins.smtp_security.lockout_minutes'', KInt), (''plugins.smtp_security.envelope_spoof_check'', KBool),
      (''plugins.smtp_security.allowed_sender_domains'', KStrings), (''plugins.smtp_security.blocked_sender_domains'', KStrings),
      (''plugins.smtp_security.max_subject_bytes'', KInt), (''plugins.smtp_security.require_authenticated_sender'', KBool),
      (''plugins.smtp_security.redis_lockout'', KBool)]"

definition email_auth_keys :: "(string \<times> kind) list" where
  "email_auth_keys =
     [(''plugins.email_auth.enabled'', KBool), (''plugins.email_auth.spf_policy'', KString), (''plugins.email_auth.dkim_policy'', KString),
      (''plugins.email_auth.dmarc_policy'', KString)]"

definition spam_keys :: "(string \<times> kind) list" where
  "spam_keys =
     [(''plugins.spam_checker.enabled'', KBool), (''plugins.spam_checker.endpoint'', KString), (''plugins.spam_checker.threshold'', KFloat),
      (''plugins.spam_checker.tag_only'', KBool), (''plugins.spam_checker.timeout_secs'', KInt)]"

definition av_keys :: "(string \<times> kind) list" where
  "av_keys =
     [(''plugins.antivirus.enabled'', KBool), (''plugins.antivirus.endpoint'', KString), (''plugins.antivirus.timeout_secs'', KInt),
      (''plugins.antivirus.fail_open'', KBool)]"

definition security_keys :: "(string \<times> kind) list" where
  "security_keys =
     [(''plugins.security_agent.enabled'', KBool), (''plugins.security_agent.max_recipients'', KInt), (''plugins.security_agent.max_body_bytes'', KInt),
      (''plugins.security_agent.rate_per_sender'', KFloat), (''plugins.security_agent.burst_per_sender'', KInt)]"

definition outbound_keys :: "(string \<times> kind) list" where
  "outbound_keys =
     [(''outbound.backend'', KString), (''outbound.node_id'', KString), (''outbound.from'', KString), (''outbound.smtp_host'', KString),
      (''outbound.smtp_username'', KString), (''outbound.smtp_password'', KString), (''outbound.smtp_timeout_secs'', KInt),
      (''outbound.sendgrid_api_key'', KString), (''outbound.sendgrid_timeout_secs'', KInt), (''outbound.dkim_private_key_file'', KString),
      (''outbound.dkim_domain'', KString), (''outbound.dkim_selector'', KString), (''outbound.queue_enabled'', KBool), (''outbound.queue_workers'', KInt),
      (''outbound.queue_max_retries'', KInt), (''outbound.queue_base_delay_secs'', KInt), (''outbound.queue_max_delay_secs'', KInt)]"

definition mailbox_keys :: "(string \<times> kind) list" where
  "mailbox_keys =
     [(''mailbox_store.backend'', KString), (''mailbox_store.dsn'', KString), (''mailbox_store.database'', KString)]"

definition observability_keys :: "(string \<times> kind) list" where
  "observability_keys =
     [(''observability.metrics_port'', KInt), (''observability.health_enabled'', KBool)]"

definition config_keys :: "(string \<times> kind) list" where
  "config_keys =
     server_keys @ smtp_keys @ lmtp_keys @ grpc_keys @ webhook_keys @ cluster_keys @ crowdsec_keys @ dnsbl_keys @ address_filter_keys @ attachment_keys @
     smtp_security_keys @ email_auth_keys @ spam_keys @ av_keys @ security_keys @ outbound_keys @ mailbox_keys @ observability_keys"

text \<open>\<open>loadConfig\<close> makes viper look up a key in an environment variable with this name.\<close>

definition env_char :: "char \<Rightarrow> char" where
  "env_char c = (if c = CHR ''.'' then CHR ''_'' else if 97 \<le> byte c \<and> byte c \<le> 122 then char_of (byte c - 32) else c)"

definition env_name :: "string \<Rightarrow> string" where
  "env_name k = ''POSTBOX_'' @ map env_char k"

section \<open>Every flag is bound to the field of its type\<close>

definition smtp_all_flags :: "(string \<times> flag_value) list" where
  "smtp_all_flags = smtp_flags @ smtp_tls_flags"

lemmas flag_defs = server_flags_def smtp_flags_def lmtp_flags_def cluster_flags_def webhook_flags_def grpc_flags_def smtp_tls_flags_def
    crowdsec_flags_def dnsbl_flags_def email_auth_flags_def smtp_security_flags_def address_filter_flags_def attachment_flags_def
    spam_flags_def av_flags_def security_flags_def outbound_flags_def mailbox_flags_def observability_flags_def smtp_all_flags_def

lemmas binding_defs = server_bindings_def smtp_bindings_def grpc_bindings_def crowdsec_bindings_def dnsbl_bindings_def email_auth_bindings_def
    lmtp_bindings_def cluster_bindings_def webhook_bindings_def smtp_security_bindings_def address_filter_bindings_def
    attachment_bindings_def spam_bindings_def av_bindings_def security_bindings_def outbound_bindings_def mailbox_bindings_def
    observability_bindings_def

lemmas key_defs = server_keys_def smtp_keys_def lmtp_keys_def grpc_keys_def webhook_keys_def cluster_keys_def crowdsec_keys_def dnsbl_keys_def
    address_filter_keys_def attachment_keys_def smtp_security_keys_def email_auth_keys_def spam_keys_def av_keys_def security_keys_def
    outbound_keys_def mailbox_keys_def observability_keys_def

text \<open>The keys with the types of the flags they are bound to, in the order of the bindings.\<close>

definition bound :: "(string \<times> string) list \<Rightarrow> (string \<times> flag_value) list \<Rightarrow> (string \<times> kind) list" where
  "bound B F = map2 (\<lambda>(k, _) (_, d). (k, kind_of d)) B F"

lemma bound_append: "map snd B = map fst F \<Longrightarrow> bound (B @ B') (F @ F') = bound B F @ bound B' F'"
  using map_eq_imp_length_eq by (fastforce simp: bound_def)

lemma bound_set:
  assumes "map snd B = map fst F" and "distinct (map fst F)"
  shows "{(k, kind_of d) |k f d. (k, f) \<in> set B \<and> (f, d) \<in> set F} = set (bound B F)"
proof -
  have len: "length B = length F" using assms(1) by (rule map_eq_imp_length_eq)
  have same: "snd (B ! i) = fst (F ! i)" if "i < length F" for i
    using that assms(1) len by (metis nth_map)
  have inj: "i = j" if "fst (F ! i) = fst (F ! j)" "i < length F" "j < length F" for i j
    using that assms(2) nth_eq_iff_index_eq [of "map fst F" i j] by simp
  have "bound B F = map (\<lambda>i. (fst (B ! i), kind_of (snd (F ! i)))) [0..<length F]"
    by (rule nth_equalityI) (simp_all add: bound_def len split_beta)
  then have "set (bound B F) = (\<lambda>i. (fst (B ! i), kind_of (snd (F ! i)))) ` {..<length F}" by (simp add: atLeast0LessThan)
  moreover have "\<exists>i < length F. k = fst (B ! i) \<and> d = snd (F ! i)" if m: "(k, f) \<in> set B" "(f, d) \<in> set F" for k f d
  proof -
    obtain i where i: "i < length F" "B ! i = (k, f)" using m(1) len by (metis in_set_conv_nth)
    obtain j where j: "j < length F" "F ! j = (f, d)" using m(2) by (metis in_set_conv_nth)
    have "i = j" using inj [of i j] same [of i] i j by simp
    then show ?thesis using i j by auto
  qed
  moreover have "(fst (B ! i), fst (F ! i)) \<in> set B \<and> (fst (F ! i), snd (F ! i)) \<in> set F" if "i < length F" for i
    using that same [OF that] len nth_mem [of i B] nth_mem [of i F] by (metis prod.collapse)
  ultimately show ?thesis by blast
qed

lemma group_wired:
  "map snd server_bindings = map fst server_flags"
  "map snd smtp_bindings = map fst smtp_all_flags"
  "map snd grpc_bindings = map fst grpc_flags"
  "map snd crowdsec_bindings = map fst crowdsec_flags"
  "map snd dnsbl_bindings = map fst dnsbl_flags"
  "map snd email_auth_bindings = map fst email_auth_flags"
  "map snd lmtp_bindings = map fst lmtp_flags"
  "map snd cluster_bindings = map fst cluster_flags"
  "map snd webhook_bindings = map fst webhook_flags"
  "map snd smtp_security_bindings = map fst smtp_security_flags"
  "map snd address_filter_bindings = map fst address_filter_flags"
  "map snd attachment_bindings = map fst attachment_flags"
  "map snd spam_bindings = map fst spam_flags"
  "map snd av_bindings = map fst av_flags"
  "map snd security_bindings = map fst security_flags"
  "map snd outbound_bindings = map fst outbound_flags"
  "map snd mailbox_bindings = map fst mailbox_flags"
  "map snd observability_bindings = map fst observability_flags"
  by (simp_all add: flag_defs binding_defs)

lemma group_kinds:
  "set (bound server_bindings server_flags) = set server_keys"
  "set (bound smtp_bindings smtp_all_flags) = set smtp_keys"
  "set (bound grpc_bindings grpc_flags) = set grpc_keys"
  "set (bound crowdsec_bindings crowdsec_flags) = set crowdsec_keys"
  "set (bound dnsbl_bindings dnsbl_flags) = set dnsbl_keys"
  "set (bound email_auth_bindings email_auth_flags) = set email_auth_keys"
  "set (bound lmtp_bindings lmtp_flags) = set lmtp_keys"
  "set (bound cluster_bindings cluster_flags) = set cluster_keys"
  "set (bound webhook_bindings webhook_flags) = set webhook_keys"
  "set (bound attachment_bindings attachment_flags) = set attachment_keys"
  "set (bound spam_bindings spam_flags) = set spam_keys"
  "set (bound av_bindings av_flags) = set av_keys"
  "set (bound security_bindings security_flags) = set security_keys"
  "set (bound outbound_bindings outbound_flags) = set outbound_keys"
  "set (bound mailbox_bindings mailbox_flags) = set mailbox_keys"
  "set (bound observability_bindings observability_flags) = set observability_keys"
  by (simp_all only: bound_def flag_defs binding_defs key_defs) auto

lemma group_kinds_unbound:
  "set address_filter_keys = insert (''plugins.address_filter.rules'', KRules) (set (bound address_filter_bindings address_filter_flags))"
  "set smtp_security_keys = insert (''plugins.smtp_security.max_subject_bytes'', KInt) (set (bound smtp_security_bindings smtp_security_flags))"
  by (auto simp: bound_def address_filter_keys_def smtp_security_keys_def address_filter_bindings_def smtp_security_bindings_def
      address_filter_flags_def smtp_security_flags_def)

definition bound_flags :: "(string \<times> flag_value) list" where
  "bound_flags = server_flags @ smtp_all_flags @ grpc_flags @ crowdsec_flags @ dnsbl_flags @ email_auth_flags @ lmtp_flags @ cluster_flags @ webhook_flags @ smtp_security_flags @ address_filter_flags @ attachment_flags @ spam_flags @ av_flags @ security_flags @ outbound_flags @ mailbox_flags @ observability_flags"

lemma flags_wired: "map snd flag_bindings = map fst bound_flags"
  by (simp add: flag_bindings_def bound_flags_def group_wired)

lemma flags_perm: "mset bound_flags = mset serve_flags"
  by (simp add: bound_flags_def serve_flags_def smtp_all_flags_def)

lemma flags_distinct: "distinct (map fst serve_flags)"
  by (simp add: serve_flags_def flag_defs)

lemma bound_kinds:
  "insert (''plugins.address_filter.rules'', KRules) (insert (''plugins.smtp_security.max_subject_bytes'', KInt) (set (bound flag_bindings bound_flags))) = set config_keys"
  unfolding flag_bindings_def bound_flags_def config_keys_def
  by (auto simp: bound_append group_wired group_kinds group_kinds_unbound)

lemma env_char_eq:
  "env_char CHR ''.'' = CHR ''_''" "env_char CHR ''_'' = CHR ''_''" "env_char CHR ''a'' = CHR ''A''" "env_char CHR ''b'' = CHR ''B''"
  "env_char CHR ''c'' = CHR ''C''" "env_char CHR ''d'' = CHR ''D''" "env_char CHR ''e'' = CHR ''E''" "env_char CHR ''f'' = CHR ''F''"
  "env_char CHR ''g'' = CHR ''G''" "env_char CHR ''h'' = CHR ''H''" "env_char CHR ''i'' = CHR ''I''" "env_char CHR ''j'' = CHR ''J''"
  "env_char CHR ''k'' = CHR ''K''" "env_char CHR ''l'' = CHR ''L''" "env_char CHR ''m'' = CHR ''M''" "env_char CHR ''n'' = CHR ''N''"
  "env_char CHR ''o'' = CHR ''O''" "env_char CHR ''p'' = CHR ''P''" "env_char CHR ''q'' = CHR ''Q''" "env_char CHR ''r'' = CHR ''R''"
  "env_char CHR ''s'' = CHR ''S''" "env_char CHR ''t'' = CHR ''T''" "env_char CHR ''u'' = CHR ''U''" "env_char CHR ''v'' = CHR ''V''"
  "env_char CHR ''w'' = CHR ''W''" "env_char CHR ''x'' = CHR ''X''" "env_char CHR ''y'' = CHR ''Y''" "env_char CHR ''z'' = CHR ''Z''"
  by code_simp+

text \<open>The keys of a group share a prefix, and no prefix of a group is one of another group.\<close>

definition key_groups :: "(string \<times> (string \<times> kind) list) list" where
  "key_groups =
     [(''server.'', server_keys), (''smtp.'', smtp_keys), (''lmtp.'', lmtp_keys),
      (''grpc.'', grpc_keys), (''webhook.'', webhook_keys), (''cluster.'', cluster_keys),
      (''plugins.crowdsec.'', crowdsec_keys), (''plugins.dnsbl.'', dnsbl_keys), (''plugins.address_filter.'', address_filter_keys),
      (''plugins.attachment.'', attachment_keys), (''plugins.smtp_security.'', smtp_security_keys), (''plugins.email_auth.'', email_auth_keys),
      (''plugins.spam_checker.'', spam_keys), (''plugins.antivirus.'', av_keys), (''plugins.security_agent.'', security_keys),
      (''outbound.'', outbound_keys), (''mailbox_store.'', mailbox_keys), (''observability.'', observability_keys)]"

fun incomparable :: "string \<Rightarrow> string \<Rightarrow> bool" where
  "incomparable (c # p) (d # q) = (c \<noteq> d \<or> incomparable p q)"
| "incomparable _ _ = False"

lemma incomparable_disjoint: "incomparable p q \<Longrightarrow> p @ s \<noteq> q @ t"
  by (induction p q rule: incomparable.induct) auto

lemma distinct_groups:
  assumes "list_all (\<lambda>(p, ks). distinct ks \<and> list_all (\<lambda>k. take (length p) k = p) ks) gs"
    and "sorted_wrt (\<lambda>(p, _) (q, _). incomparable p q) gs"
  shows "distinct (concat (map snd gs))"
  using assms
proof (induction gs)
  case (Cons g gs)
  obtain p ks where g: "g = (p, ks)" by (cases g)
  have "k \<notin> set ks'" if "k \<in> set ks" "(q, ks') \<in> set gs" for k q ks'
  proof
    assume "k \<in> set ks'"
    then have "take (length p) k = p" "take (length q) k = q" using Cons.prems(1) that g by (auto simp: list_all_iff)
    then have "p @ drop (length p) k = q @ drop (length q) k" by (metis append_take_drop_id)
    moreover have "incomparable p q" using Cons.prems(2) that(2) g by auto
    ultimately show False using incomparable_disjoint by blast
  qed
  then have "set ks \<inter> set (concat (map snd gs)) = {}" by fastforce
  then show ?case using Cons g by simp
qed simp

lemma key_groups_ok:
  "list_all (\<lambda>(p, ks). distinct ks \<and> list_all (\<lambda>k. take (length p) k = p) ks) (map (\<lambda>(p, ks). (env_name p, map (env_name \<circ> fst) ks)) key_groups)"
  by (simp add: key_groups_def key_defs env_name_def env_char_eq)

lemma key_groups_apart: "sorted_wrt (\<lambda>(p, _) (q, _). incomparable p q) (map (\<lambda>(p, ks). (env_name p, map (env_name \<circ> fst) ks)) key_groups)"
  by (simp add: key_groups_def env_name_def env_char_eq)

lemma env_names_distinct: "distinct (map env_name (map fst config_keys))"
proof -
  have "map env_name (map fst config_keys) = concat (map snd (map (\<lambda>(p, ks). (env_name p, map (env_name \<circ> fst) ks)) key_groups))"
    by (simp add: config_keys_def key_groups_def comp_def)
  then show ?thesis using distinct_groups [OF key_groups_ok key_groups_apart] by simp
qed

lemma binding_keys:
  "distinct (map fst flag_bindings)"
  "''plugins.address_filter.rules'' \<notin> set (map fst flag_bindings)"
  "''plugins.smtp_security.max_subject_bytes'' \<notin> set (map fst flag_bindings)"
proof -
  let ?a = "''plugins.address_filter.rules''" and ?b = "''plugins.smtp_security.max_subject_bytes''" and ?K = "set (map fst flag_bindings)"
  have l: "length config_keys = length flag_bindings + 2"
    by (simp add: config_keys_def flag_bindings_def key_defs binding_defs)
  have fst_bound: "map fst (bound B F) = map fst B" if "length B = length F" for B F
    using that by (induction B F rule: list_induct2) (auto simp: bound_def)
  have fb: "fst ` set (bound flag_bindings bound_flags) = ?K"
    using fst_bound [OF map_eq_imp_length_eq [OF flags_wired]] by (simp only: set_map [symmetric])
  have "set (map fst config_keys) = insert ?a (insert ?b ?K)"
    unfolding fb [symmetric] unfolding set_map bound_kinds [symmetric] by (simp only: image_insert fst_conv)
  moreover have "card (set (map fst config_keys)) = length config_keys"
    using distinct_card [OF distinct_map [THEN iffD1, OF env_names_distinct, THEN conjunct1]] by simp
  ultimately have c: "card (insert ?a (insert ?b ?K)) = length flag_bindings + 2"
    by (simp only: l)
  have "card ?K \<le> length flag_bindings" using card_length [of "map fst flag_bindings"] by simp
  moreover have "card (insert ?a (insert ?b ?K)) \<le> card ?K + (if ?a \<in> ?K then 0 else 1) + (if ?b \<in> ?K then 0 else 1)"
    by (simp add: card_insert_if)
  ultimately show "distinct (map fst flag_bindings)" "?a \<notin> ?K" "?b \<notin> ?K"
    using c card_distinct [of "map fst flag_bindings"] by (simp_all split: if_splits)
qed

lemma config_keys_cases:
  assumes "(k, kd) \<in> set config_keys"
  obtains (Flag) f d where "map_of flag_bindings k = Some f" "map_of serve_flags f = Some d" "kd = kind_of d"
    | (File) "map_of flag_bindings k = None" "(k, kd) \<in> {(''plugins.address_filter.rules'', KRules), (''plugins.smtp_security.max_subject_bytes'', KInt)}"
proof -
  have s: "set bound_flags = set serve_flags" using flags_perm by (rule mset_eq_setD)
  have "mset (map fst bound_flags) = mset (map fst serve_flags)" using flags_perm by simp
  then have d: "distinct (map fst bound_flags)" using flags_distinct mset_eq_imp_distinct_iff by blast
  consider f d where "(k, f) \<in> set flag_bindings" "(f, d) \<in> set serve_flags" "kd = kind_of d"
    | "(k, kd) \<in> {(''plugins.address_filter.rules'', KRules), (''plugins.smtp_security.max_subject_bytes'', KInt)}"
    using assms unfolding bound_kinds [symmetric] bound_set [OF flags_wired d, symmetric] s by auto
  then show ?thesis
  proof cases
    case 1
    then show ?thesis using Flag binding_keys(1) flags_distinct by simp
  next
    case 2
    then show ?thesis using File binding_keys(2,3) by (auto simp: map_of_eq_None_iff)
  qed
qed

text \<open>C15: The flags of \<open>serve\<close> and the configuration fit together: flag names are distinct (a second definition would panic
  at start-up), every flag is bound to exactly one key and no binding names a flag that does not exist, the keys are the
  fields of the configuration, each with a flag of the type of the field, apart from two fields without a flag, and no
  two fields are set by the same environment variable.\<close>

theorem flags_cover_config:
  "distinct (map fst serve_flags) \<and> mset (map snd flag_bindings) = mset (map fst serve_flags) \<and> distinct (map fst flag_bindings)
   \<and> set config_keys = {(k, kind_of d) |k f d. (k, f) \<in> set flag_bindings \<and> (f, d) \<in> set serve_flags}
       \<union> {(''plugins.address_filter.rules'', KRules), (''plugins.smtp_security.max_subject_bytes'', KInt)}
   \<and> distinct (map env_name (map fst config_keys))"
proof -
  have s: "set bound_flags = set serve_flags" using flags_perm by (rule mset_eq_setD)
  have m: "mset (map fst bound_flags) = mset (map fst serve_flags)" using flags_perm by simp
  then have d: "distinct (map fst bound_flags)" using flags_distinct mset_eq_imp_distinct_iff by blast
  have k: "set config_keys = {(k, kind_of d) |k f d. (k, f) \<in> set flag_bindings \<and> (f, d) \<in> set serve_flags}
       \<union> {(''plugins.address_filter.rules'', KRules), (''plugins.smtp_security.max_subject_bytes'', KInt)}"
    unfolding bound_kinds [symmetric] bound_set [OF flags_wired d, symmetric] s by simp
  show ?thesis
    using flags_distinct m binding_keys(1) k env_names_distinct by (simp only: flags_wired simp_thms)
qed

end
