(* ===== verification/Cmd_Config.thy ===== *)
theory Cmd_Config
  imports Serve_Run Cmd_Flags
begin

text \<open>
  How \<open>loadConfig\<close> and \<open>resolveConfig\<close> (\<open>cmd/config.go\<close>) turn flags, environment and configuration file into the
  configuration that \<open>runServe\<close> uses.

  The viper library is a parameter: \<open>settings\<close> is what it knows of a key. What is assumed of it is its
  documented order of precedence (\<open>viper_law\<close>), and that \<open>Unmarshal\<close> looks only at the keys it knows, from a bound flag
  or from the configuration file. Decoding a setting into a field is a parameter too; a flag is decoded to its own
  value (\<open>decoder_law\<close>).
\<close>

section \<open>Resolution\<close>

text \<open>A setting comes from a flag, from the environment or from the configuration file.\<close>

datatype 'c raw = RFlag flag_value | REnv string | RFile 'c

type_synonym 'c settings = "string \<Rightarrow> 'c raw option"

record 'c decoder =
  dc_String :: "'c raw \<Rightarrow> string result"
  dc_Bool :: "'c raw \<Rightarrow> bool result"
  dc_Int :: "'c raw \<Rightarrow> int result"
  dc_Int64 :: "'c raw \<Rightarrow> int64 result"
  dc_Float :: "'c raw \<Rightarrow> real result"
  dc_Strings :: "'c raw \<Rightarrow> string list result"
  dc_Rules :: "'c raw \<Rightarrow> AddressRuleConfig list result"
  dc_join :: "error list \<Rightarrow> error"

definition read :: "('c raw \<Rightarrow> 'a result) \<Rightarrow> 'a \<Rightarrow> 'c settings \<Rightarrow> string \<Rightarrow> 'a" where
  "read dc zero get k = (case get k of None \<Rightarrow> zero | Some r \<Rightarrow> (case dc r of Inl _ \<Rightarrow> zero | Inr x \<Rightarrow> x))"

definition error_of :: "'a result \<Rightarrow> error list" where
  "error_of r = (case r of Inl e \<Rightarrow> [e] | Inr _ \<Rightarrow> [])"

fun decode_error :: "'c decoder \<Rightarrow> kind \<Rightarrow> 'c raw \<Rightarrow> error list" where
  "decode_error D KString r = error_of (dc_String D r)"
| "decode_error D KBool r = error_of (dc_Bool D r)"
| "decode_error D KInt r = error_of (dc_Int D r)"
| "decode_error D KInt64 r = error_of (dc_Int64 D r)"
| "decode_error D KFloat r = error_of (dc_Float D r)"
| "decode_error D KStrings r = error_of (dc_Strings D r)"
| "decode_error D KRules r = error_of (dc_Rules D r)"

definition read_plugins :: "'c decoder \<Rightarrow> 'c settings \<Rightarrow> PluginsConfig" where
  "read_plugins D get =
     (let rS = read (dc_String D) '''' get; rB = read (dc_Bool D) False get; rI = read (dc_Int D) 0 get; rL = read (dc_Int64 D) 0 get;
          rF = read (dc_Float D) 0 get; rSs = read (dc_Strings D) [] get; rRs = read (dc_Rules D) [] get
      in \<lparr>p_CrowdSec = \<lparr>pcs_Enabled = rB ''plugins.crowdsec.enabled'', pcs_Endpoint = rS ''plugins.crowdsec.endpoint'',
         pcs_APIKey = rS ''plugins.crowdsec.api_key'', pcs_TimeoutSecs = rI ''plugins.crowdsec.timeout_secs'',
         pcs_FailOpen = rB ''plugins.crowdsec.fail_open'', pcs_CacheTTLSecs = rI ''plugins.crowdsec.cache_ttl_secs''\<rparr>,
        p_DNSBL = \<lparr>pbl_Enabled = rB ''plugins.dnsbl.enabled'', pbl_Zones = rSs ''plugins.dnsbl.zones'',
         pbl_CacheTTLSecs = rI ''plugins.dnsbl.cache_ttl_secs'', pbl_FailOpen = rB ''plugins.dnsbl.fail_open''\<rparr>,
        p_AddressFilter = \<lparr>paf_Enabled = rB ''plugins.address_filter.enabled'', paf_Mode = rS ''plugins.address_filter.mode'',
         paf_Rules = rRs ''plugins.address_filter.rules''\<rparr>,
        p_Attachment = \<lparr>pat_Enabled = rB ''plugins.attachment.enabled'', pat_MaxCount = rI ''plugins.attachment.max_count'',
         pat_MaxSingleBytes = rL ''plugins.attachment.max_single_bytes'', pat_MaxTotalBytes = rL ''plugins.attachment.max_total_bytes'',
         pat_AllowedMIMEs = rSs ''plugins.attachment.allowed_mimes'', pat_BlockedMIMEs = rSs ''plugins.attachment.blocked_mimes''\<rparr>,
        p_SMTPSecurity = \<lparr>pss_Enabled = rB ''plugins.smtp_security.enabled'', pss_MaxAuthFailuresPerIP = rI ''plugins.smtp_security.max_auth_failures_per_ip'',
         pss_LockoutMinutes = rI ''plugins.smtp_security.lockout_minutes'',
         pss_EnvelopeSpoofCheck = rB ''plugins.smtp_security.envelope_spoof_check'',
         pss_AllowedSenderDomains = rSs ''plugins.smtp_security.allowed_sender_domains'',
         pss_BlockedSenderDomains = rSs ''plugins.smtp_security.blocked_sender_domains'',
         pss_MaxSubjectBytes = rI ''plugins.smtp_security.max_subject_bytes'',
         pss_RequireAuthenticatedSender = rB ''plugins.smtp_security.require_authenticated_sender'',
         pss_RedisLockout = rB ''plugins.smtp_security.redis_lockout''\<rparr>,
        p_EmailAuth = \<lparr>pea_Enabled = rB ''plugins.email_auth.enabled'', pea_SPFPolicy = rS ''plugins.email_auth.spf_policy'',
         pea_DKIMPolicy = rS ''plugins.email_auth.dkim_policy'', pea_DMARCPolicy = rS ''plugins.email_auth.dmarc_policy''\<rparr>,
        p_SpamChecker = \<lparr>psc_Enabled = rB ''plugins.spam_checker.enabled'', psc_Endpoint = rS ''plugins.spam_checker.endpoint'',
         psc_Threshold = rF ''plugins.spam_checker.threshold'', psc_TagOnly = rB ''plugins.spam_checker.tag_only'',
         psc_TimeoutSecs = rI ''plugins.spam_checker.timeout_secs''\<rparr>,
        p_AntiVirus = \<lparr>pav_Enabled = rB ''plugins.antivirus.enabled'', pav_Endpoint = rS ''plugins.antivirus.endpoint'',
         pav_TimeoutSecs = rI ''plugins.antivirus.timeout_secs'', pav_FailOpen = rB ''plugins.antivirus.fail_open''\<rparr>,
        p_SecurityAgent = \<lparr>psa_Enabled = rB ''plugins.security_agent.enabled'', psa_MaxRecipients = rI ''plugins.security_agent.max_recipients'',
         psa_MaxBodyBytes = rI ''plugins.security_agent.max_body_bytes'', psa_RatePerSender = rF ''plugins.security_agent.rate_per_sender'',
         psa_BurstPerSender = rI ''plugins.security_agent.burst_per_sender''\<rparr>\<rparr>)"

definition read_config :: "'c decoder \<Rightarrow> 'c settings \<Rightarrow> run_cfg" where
  "read_config D get =
     (let rS = read (dc_String D) '''' get; rB = read (dc_Bool D) False get; rI = read (dc_Int D) 0 get; rL = read (dc_Int64 D) 0 get;
          rF = read (dc_Float D) 0 get
      in \<lparr>rc_serve =
           \<lparr>srv_Server = \<lparr>sv_Port = rS ''server.port'', sv_Host = rS ''server.host'', sv_Mode = rS ''server.mode'', sv_DB = rS ''server.db'',
         sv_NodeID = rS ''server.node_id''\<rparr>,
            srv_Plugins = read_plugins D get,
            srv_MailboxStore = \<lparr>mb_Backend = rS ''mailbox_store.backend'', mb_DSN = rS ''mailbox_store.dsn'', mb_Database = rS ''mailbox_store.database''\<rparr>,
            srv_Outbound = \<lparr>ob_Backend = rS ''outbound.backend'', ob_NodeID = rS ''outbound.node_id'', ob_From = rS ''outbound.from'',
         ob_SMTPHost = rS ''outbound.smtp_host'', ob_SMTPUsername = rS ''outbound.smtp_username'', ob_SMTPPassword = rS ''outbound.smtp_password'',
         ob_SMTPTimeoutSecs = rI ''outbound.smtp_timeout_secs'', ob_SendGridAPIKey = rS ''outbound.sendgrid_api_key'',
         ob_SendGridTimeoutSecs = rI ''outbound.sendgrid_timeout_secs'', ob_DKIMPrivateKeyFile = rS ''outbound.dkim_private_key_file'',
         ob_DKIMDomain = rS ''outbound.dkim_domain'', ob_DKIMSelector = rS ''outbound.dkim_selector'',
         ob_QueueEnabled = rB ''outbound.queue_enabled'', ob_QueueWorkers = rI ''outbound.queue_workers'',
         ob_QueueMaxRetries = rI ''outbound.queue_max_retries'', ob_QueueBaseDelaySecs = rI ''outbound.queue_base_delay_secs'',
         ob_QueueMaxDelaySecs = rI ''outbound.queue_max_delay_secs''\<rparr>,
            srv_Webhook = \<lparr>wh_Enabled = rB ''webhook.enabled'', wh_Workers = rI ''webhook.workers'', wh_MaxAttempts = rI ''webhook.max_attempts'',
         wh_TimeoutSecs = rI ''webhook.timeout_secs''\<rparr>\<rparr>,
          rc_AuthToken = rS ''grpc.auth_token'', rc_RedisURL = rS ''cluster.redis_url'', rc_MetricsPort = rI ''observability.metrics_port'',
          rc_HealthEnabled = rB ''observability.health_enabled'', rc_SMTPEnabled = rB ''smtp.enabled'',
          rc_SMTP = \<lparr>sm_Port = rI ''smtp.port'', sm_BindAddr = rS ''smtp.bind_addr'', sm_Domain = rS ''smtp.domain'',
         sm_InsecureAuth = rB ''smtp.insecure_auth'', sm_MaxMsgBytes = rL ''smtp.max_msg_bytes'', sm_MaxRecipients = rI ''smtp.max_recipients'',
         sm_MaxConnections = rI ''smtp.max_connections'', sm_ReadTimeoutSecs = rI ''smtp.read_timeout_secs'',
         sm_WriteTimeoutSecs = rI ''smtp.write_timeout_secs'', sm_RateConns = rF ''smtp.rate_conns'', sm_RateBurst = rI ''smtp.rate_burst'',
         sm_RateConnsPerIP = rF ''smtp.rate_conns_per_ip'', sm_RateBurstPerIP = rI ''smtp.rate_burst_per_ip'',
         sm_RelayEnabled = rB ''smtp.relay_enabled'', sm_TLSCertFile = rS ''smtp.tls_cert_file'', sm_TLSKeyFile = rS ''smtp.tls_key_file'',
         sm_MaxAuthFailuresPerSession = rI ''smtp.max_auth_failures_per_session'', sm_CheckSPF = rB ''smtp.check_spf'',
         sm_VerifyDKIM = rB ''smtp.verify_dkim''\<rparr>,
          rc_LMTPEnabled = rB ''lmtp.enabled'',
          rc_LMTP = \<lparr>lt_SocketPath = rS ''lmtp.socket_path'', lt_Port = rI ''lmtp.port'', lt_BindAddr = rS ''lmtp.bind_addr'', lt_Domain = rS ''lmtp.domain'',
         lt_MaxMsgBytes = rL ''lmtp.max_msg_bytes'', lt_MaxRecipients = rI ''lmtp.max_recipients'',
         lt_ReadTimeoutSecs = rI ''lmtp.read_timeout_secs'', lt_WriteTimeoutSecs = rI ''lmtp.write_timeout_secs''\<rparr>\<rparr>)"

text \<open>\<open>Unmarshal\<close> decodes every field and reports all errors together.\<close>

definition resolveConfig :: "'c decoder \<Rightarrow> 'c settings \<Rightarrow> run_cfg result" where
  "resolveConfig D get =
     (let errs = concat (map (\<lambda>(k, kd). case get k of None \<Rightarrow> [] | Some r \<Rightarrow> decode_error D kd r) config_keys)
      in if errs \<noteq> [] then Inl (EWrap ''unmarshal config'' (dc_join D errs)) else Inr (read_config D get))"

text \<open>The configuration file, as the settings it holds; without a path there is none.\<close>

definition loadConfig :: "golib \<Rightarrow> (string \<Rightarrow> (string \<Rightarrow> 'c option) result) \<Rightarrow> string \<Rightarrow> (string \<Rightarrow> 'c option) result" where
  "loadConfig G ReadInConfig path =
     (if path = '''' then Inr (\<lambda>_. None)
      else case ReadInConfig path of
             Inl e \<Rightarrow> Inl (EWrap (''read config '' @ quote G path) e)
           | Inr file \<Rightarrow> Inr file)"

section \<open>What is assumed of viper\<close>

definition viper_law :: "(string \<Rightarrow> flag_value option) \<Rightarrow> (string \<Rightarrow> string option) \<Rightarrow> (string \<Rightarrow> 'c option) \<Rightarrow> 'c settings \<Rightarrow> bool" where
  "viper_law changed env file get \<longleftrightarrow>
     (\<forall>k. get k =
        (case map_of flag_bindings k of
           None \<Rightarrow> map_option RFile (file k)
         | Some f \<Rightarrow>
             (case changed f of
                Some v \<Rightarrow> Some (RFlag v)
              | None \<Rightarrow>
                  (case env (env_name k) of
                     Some s \<Rightarrow> if s \<noteq> '''' then Some (REnv s)
                               else (case file k of Some c \<Rightarrow> Some (RFile c) | None \<Rightarrow> map_option RFlag (map_of serve_flags f))
                   | None \<Rightarrow> (case file k of Some c \<Rightarrow> Some (RFile c) | None \<Rightarrow> map_option RFlag (map_of serve_flags f))))))"

definition decoder_law :: "'c decoder \<Rightarrow> bool" where
  "decoder_law D \<longleftrightarrow> (\<forall>s. dc_String D (RFlag (FString s)) = Inr s) \<and> (\<forall>b. dc_Bool D (RFlag (FBool b)) = Inr b)
     \<and> (\<forall>i. dc_Int D (RFlag (FInt i)) = Inr i) \<and> (\<forall>i. dc_Int64 D (RFlag (FInt64 i)) = Inr i)
     \<and> (\<forall>x. dc_Float D (RFlag (FFloat x)) = Inr x) \<and> (\<forall>xs. dc_Strings D (RFlag (FStrings xs)) = Inr xs)"

text \<open>The command, from the \<open>--config\<close> path and the flags on. \<open>viper\<close> is what the library makes of its sources.\<close>

definition serve_command ::
  "golib \<Rightarrow> ('r, 'k, 'l) run_env \<Rightarrow> 's store_ops \<Rightarrow> 'c decoder
    \<Rightarrow> ((string \<Rightarrow> flag_value option) \<Rightarrow> (string \<Rightarrow> string option) \<Rightarrow> (string \<Rightarrow> 'c option) \<Rightarrow> 'c settings)
    \<Rightarrow> (string \<Rightarrow> (string \<Rightarrow> 'c option) result) \<Rightarrow> string \<Rightarrow> (string \<Rightarrow> flag_value option) \<Rightarrow> (string \<Rightarrow> string option)
    \<Rightarrow> gotime \<Rightarrow> 'r \<times> 's \<Rightarrow> 'l run_end \<times> error option" where
  "serve_command G E S D viper ReadInConfig path changed env now g =
     (case loadConfig G ReadInConfig path of
        Inl e \<Rightarrow> (nothing_run None, Some e)
      | Inr file \<Rightarrow> runServe G E S (resolveConfig D (viper changed env file)) now g)"

section \<open>Defaults\<close>

lemma defaults_decode:
  assumes "viper_law (\<lambda>_. None) (\<lambda>_. None) (\<lambda>_. None) get" and "decoder_law D"
  shows "resolveConfig D get = Inr (read_config D get)"
proof -
  have "(case get k of None \<Rightarrow> [] | Some r \<Rightarrow> decode_error D kd r) = []" if "(k, kd) \<in> set config_keys" for k kd
    using that
  proof (cases rule: config_keys_cases)
    case (Flag f d)
    then have "get k = Some (RFlag d)" using assms(1) by (simp add: viper_law_def)
    then show ?thesis using assms(2) Flag(3) by (cases d) (simp_all add: decoder_law_def error_of_def)
  next
    case File
    then have "get k = None" using assms(1) by (simp add: viper_law_def)
    then show ?thesis by simp
  qed
  then show ?thesis by (auto simp: resolveConfig_def Let_def)
qed

lemma unset_fields:
  assumes "viper_law changed env file get" and "file k = None"
    and "k = ''plugins.address_filter.rules'' \<or> k = ''plugins.smtp_security.max_subject_bytes''"
  shows "read dc z get k = z"
proof -
  have "k \<notin> set (map fst flag_bindings)" using assms(3) by (elim disjE) (simp_all only: binding_keys(2,3) not_False_eq_True)
  then have "map_of flag_bindings k = None" by (simp only: map_of_eq_None_iff set_map not_False_eq_True)
  then show ?thesis using assms(1,2) by (simp add: viper_law_def read_def)
qed

text \<open>No flag and no environment variable sets the rules of the address filter or the limit on the length of the
  subject: without the configuration file there are no rules and no limit.\<close>

lemma fields_from_file_only:
  assumes "viper_law changed env (\<lambda>_. None) get"
  shows "paf_Rules (p_AddressFilter (read_plugins D get)) = [] \<and> pss_MaxSubjectBytes (p_SMTPSecurity (read_plugins D get)) = 0"
  by (simp add: read_plugins_def Let_def unset_fields [OF assms refl])

text \<open>The defaults that decide what a node without any configuration does.\<close>

definition default_table :: "(string \<times> string \<times> flag_value) list" where
  "default_table =
     [(''server.port'', ''port'', FString ''50051''), (''server.host'', ''host'', FString ''localhost''),
      (''server.mode'', ''mode'', FString ''standalone''), (''server.db'', ''db'', FString ''postbox.db''),
      (''server.node_id'', ''node-id'', FString ''''), (''grpc.auth_token'', ''grpc-auth-token'', FString ''''),
      (''cluster.redis_url'', ''redis-url'', FString ''''), (''observability.metrics_port'', ''metrics-port'', FInt 9090),
      (''observability.health_enabled'', ''health-enabled'', FBool True), (''smtp.enabled'', ''smtp-enabled'', FBool False),
      (''lmtp.enabled'', ''lmtp-enabled'', FBool False), (''webhook.enabled'', ''webhook-enabled'', FBool False),
      (''outbound.backend'', ''outbound-backend'', FString ''''), (''mailbox_store.backend'', ''mailbox-backend'', FString ''memory''),
      (''plugins.crowdsec.enabled'', ''crowdsec-enabled'', FBool False), (''plugins.dnsbl.enabled'', ''dnsbl-enabled'', FBool False),
      (''plugins.address_filter.enabled'', ''address-filter-enabled'', FBool False),
      (''plugins.attachment.enabled'', ''attachment-enabled'', FBool False),
      (''plugins.smtp_security.enabled'', ''smtp-security-enabled'', FBool False),
      (''plugins.email_auth.enabled'', ''email-auth-enabled'', FBool False), (''plugins.spam_checker.enabled'', ''spam-enabled'', FBool False),
      (''plugins.antivirus.enabled'', ''av-enabled'', FBool False), (''plugins.security_agent.enabled'', ''security-enabled'', FBool False)]"

lemma default_table_bound: "list_all (\<lambda>(k, f, d). (k, f) \<in> set flag_bindings \<and> (f, d) \<in> set serve_flags) default_table"
  by (simp add: default_table_def flag_bindings_def serve_flags_def address_filter_bindings_def attachment_bindings_def av_bindings_def cluster_bindings_def crowdsec_bindings_def dnsbl_bindings_def email_auth_bindings_def grpc_bindings_def lmtp_bindings_def mailbox_bindings_def observability_bindings_def outbound_bindings_def security_bindings_def server_bindings_def smtp_bindings_def smtp_security_bindings_def spam_bindings_def webhook_bindings_def
      address_filter_flags_def attachment_flags_def av_flags_def cluster_flags_def crowdsec_flags_def dnsbl_flags_def email_auth_flags_def grpc_flags_def lmtp_flags_def mailbox_flags_def observability_flags_def outbound_flags_def security_flags_def server_flags_def smtp_flags_def smtp_security_flags_def spam_flags_def webhook_flags_def)

lemma read_table:
  assumes "viper_law (\<lambda>_. None) (\<lambda>_. None) (\<lambda>_. None) get" and "decoder_law D" and "map_of default_table k = Some (f, d)"
  shows "read dc z get k = (case dc (RFlag d) of Inl _ \<Rightarrow> z | Inr x \<Rightarrow> x)"
proof -
  have "(k, f) \<in> set flag_bindings" "(f, d) \<in> set serve_flags"
    using default_table_bound map_of_SomeD [OF assms(3)] by (auto simp: list_all_iff)
  then have "map_of flag_bindings k = Some f" "map_of serve_flags f = Some d" using binding_keys(1) flags_distinct by simp_all
  then show ?thesis using assms(1) by (simp add: viper_law_def read_def)
qed

lemma default_reads:
  assumes "viper_law (\<lambda>_. None) (\<lambda>_. None) (\<lambda>_. None) get" and "decoder_law D"
  shows "read (dc_String D) z get ''server.port'' = ''50051''" "read (dc_String D) z get ''server.host'' = ''localhost''"
    "read (dc_String D) z get ''server.mode'' = ''standalone''" "read (dc_String D) z get ''server.db'' = ''postbox.db''"
    "read (dc_String D) z get ''server.node_id'' = ''''" "read (dc_String D) z get ''grpc.auth_token'' = ''''"
    "read (dc_String D) z get ''cluster.redis_url'' = ''''" "read (dc_Int D) i get ''observability.metrics_port'' = 9090"
    "read (dc_Bool D) b get ''observability.health_enabled'' = True" "read (dc_Bool D) b get ''smtp.enabled'' = False"
    "read (dc_Bool D) b get ''lmtp.enabled'' = False" "read (dc_Bool D) b get ''webhook.enabled'' = False"
    "read (dc_String D) z get ''outbound.backend'' = ''''" "read (dc_String D) z get ''mailbox_store.backend'' = ''memory''"
    "read (dc_Bool D) b get ''plugins.crowdsec.enabled'' = False" "read (dc_Bool D) b get ''plugins.dnsbl.enabled'' = False"
    "read (dc_Bool D) b get ''plugins.address_filter.enabled'' = False" "read (dc_Bool D) b get ''plugins.attachment.enabled'' = False"
    "read (dc_Bool D) b get ''plugins.smtp_security.enabled'' = False" "read (dc_Bool D) b get ''plugins.email_auth.enabled'' = False"
    "read (dc_Bool D) b get ''plugins.spam_checker.enabled'' = False" "read (dc_Bool D) b get ''plugins.antivirus.enabled'' = False"
    "read (dc_Bool D) b get ''plugins.security_agent.enabled'' = False"
  using assms(2) by (simp_all add: read_table [OF assms] default_table_def decoder_law_def)

lemma default_plugins:
  assumes "viper_law (\<lambda>_. None) (\<lambda>_. None) (\<lambda>_. None) get" and "decoder_law D"
  shows "buildPlugins G r (read_plugins D get) = ([], None)"
proof -
  let ?pl = "read_plugins D get"
  note rd = default_reads [OF assms]
  have "\<not> pcs_Enabled (p_CrowdSec ?pl)" "\<not> pbl_Enabled (p_DNSBL ?pl)" "\<not> paf_Enabled (p_AddressFilter ?pl)" "\<not> pat_Enabled (p_Attachment ?pl)"
    "\<not> pss_Enabled (p_SMTPSecurity ?pl)" "\<not> pea_Enabled (p_EmailAuth ?pl)" "\<not> psc_Enabled (p_SpamChecker ?pl)" "\<not> pav_Enabled (p_AntiVirus ?pl)"
    "\<not> psa_Enabled (p_SecurityAgent ?pl)"
    by (simp_all add: read_plugins_def Let_def rd)
  then show ?thesis
    by (simp add: buildPlugins_def build_crowdsec_def build_dnsbl_def build_address_filter_def build_attachment_def build_smtp_security_def
        build_email_auth_def build_spam_def build_antivirus_def build_security_agent_def)
qed

text \<open>C16: A node started without flags, environment and configuration file starts with an open door: it resolves its configuration,
  accepts every caller without a token, runs no plugin and no outbound relay, keeps messages in memory, starts neither SMTP nor LMTP,
  and announces \<open>localhost:50051\<close>; its node data is in \<open>postbox.db\<close> and metrics are served on port 9090.\<close>

theorem default_node_open:
  assumes "viper_law (\<lambda>_. None) (\<lambda>_. None) (\<lambda>_. None) get" and "decoder_law D"
  shows "\<exists>cfg su. resolveConfig D get = Inr cfg \<and> secGuard (rc_AuthToken cfg) = AllowAll
    \<and> serve_options G E M None (rc_serve cfg) = Inr su \<and> su_authHook su = None
    \<and> (let o' = foldl (\<lambda>c opt. opt c) default_options (su_options su)
       in o_address o' = ''localhost:50051'' \<and> o_mode o' = ModeStandalone \<and> o_relayBackend o' = None \<and> \<not> o_webhookEnabled o'
          \<and> o_mailboxPlugins o' = [] \<and> o_mailboxFactory o' = None)
    \<and> redis_client P (rc_RedisURL cfg) = Inr None \<and> db_path (srv_Server (rc_serve cfg)) = ''postbox.db''
    \<and> rc_MetricsPort cfg = 9090 \<and> rc_HealthEnabled cfg \<and> \<not> rc_SMTPEnabled cfg \<and> \<not> rc_LMTPEnabled cfg"
proof -
  let ?cfg = "read_config D get" and ?pl = "read_plugins D get"
  note rd = default_reads [OF assms]
  have sel: "rc_AuthToken ?cfg = ''''" "rc_RedisURL ?cfg = ''''" "rc_MetricsPort ?cfg = 9090" "rc_HealthEnabled ?cfg" "\<not> rc_SMTPEnabled ?cfg"
    "\<not> rc_LMTPEnabled ?cfg" "srv_Plugins (rc_serve ?cfg) = ?pl" "mb_Backend (srv_MailboxStore (rc_serve ?cfg)) = ''memory''"
    "ob_Backend (srv_Outbound (rc_serve ?cfg)) = ''''" "\<not> wh_Enabled (srv_Webhook (rc_serve ?cfg))"
    "srv_Server (rc_serve ?cfg) = \<lparr>sv_Port = ''50051'', sv_Host = ''localhost'', sv_Mode = ''standalone'', sv_DB = ''postbox.db'', sv_NodeID = ''''\<rparr>"
    by (simp_all add: read_config_def Let_def rd)
  show ?thesis
    using defaults_decode [OF assms]
    by (simp add: sel default_plugins [OF assms] secGuard_def NewBearer_def serve_options_def mailbox_opts_def webhook_options_def redis_client_def db_path_def ModeTemp_def ModeStandalone_def
        WithNodeID_def WithMode_def WithAddress_def default_options_def Let_def)
qed

definition viper_ex :: "(string \<Rightarrow> flag_value option) \<Rightarrow> (string \<Rightarrow> string option) \<Rightarrow> (string \<Rightarrow> 'c option) \<Rightarrow> 'c settings" where
  "viper_ex changed env file k =
     (case map_of flag_bindings k of
        None \<Rightarrow> map_option RFile (file k)
      | Some f \<Rightarrow>
          (case changed f of
             Some v \<Rightarrow> Some (RFlag v)
           | None \<Rightarrow>
               if env (env_name k) \<noteq> None \<and> env (env_name k) \<noteq> Some '''' then map_option REnv (env (env_name k))
               else (case file k of Some c \<Rightarrow> Some (RFile c) | None \<Rightarrow> map_option RFlag (map_of serve_flags f))))"

lemma viper_ex_law: "viper_law changed env file (viper_ex changed env file)"
  by (simp add: viper_law_def viper_ex_def split: option.split)

definition decoder_ex :: "unit decoder" where
  "decoder_ex =
     \<lparr>dc_String = (\<lambda>r. case r of RFlag (FString s) \<Rightarrow> Inr s | _ \<Rightarrow> Inl (EText ''string'')), dc_Bool = (\<lambda>r. case r of RFlag (FBool b) \<Rightarrow> Inr b | _ \<Rightarrow> Inl (EText ''bool'')),
      dc_Int = (\<lambda>r. case r of RFlag (FInt i) \<Rightarrow> Inr i | _ \<Rightarrow> Inl (EText ''int'')), dc_Int64 = (\<lambda>r. case r of RFlag (FInt64 i) \<Rightarrow> Inr i | _ \<Rightarrow> Inl (EText ''int64'')),
      dc_Float = (\<lambda>r. case r of RFlag (FFloat x) \<Rightarrow> Inr x | _ \<Rightarrow> Inl (EText ''float'')), dc_Strings = (\<lambda>r. case r of RFlag (FStrings xs) \<Rightarrow> Inr xs | _ \<Rightarrow> Inl (EText ''strings'')),
      dc_Rules = (\<lambda>_. Inl (EText ''rules'')), dc_join = hd\<rparr>"

lemma decoder_ex_law: "decoder_law decoder_ex"
  by (simp add: decoder_law_def decoder_ex_def)

theorem default_node_open_witness:
  "\<exists>cfg. resolveConfig decoder_ex (viper_ex (\<lambda>_. None) (\<lambda>_. None) (\<lambda>_. None)) = Inr cfg \<and> secGuard (rc_AuthToken cfg) = AllowAll \<and> rc_MetricsPort cfg = 9090"
  using default_node_open [OF viper_ex_law decoder_ex_law, of golib_ex _ _ "\<lambda>_. Inl (EText ''url'')"] by blast

end
