(* ===== verification/Cmd_Tree.thy ===== *)
theory Cmd_Tree
  imports Cmd_Config
begin

text \<open>
  The tree of commands (\<open>cmd/root.go\<close> and the \<open>init\<close> functions of the client commands): the flags that every
  command declares, with their types and defaults, which of them are required, which arguments it takes, and which flags
  its \<open>RunE\<close> function reads; and how a command line becomes a call.

  The cobra library is a parameter: \<open>ParseFlags\<close> gives the flags that were set, with their values, and the remaining
  arguments, or refuses the command line. What is assumed of it (\<open>parse_law\<close>) is that it accepts only flags that are
  declared, with values of the declared type. Validation of the arguments, the pre-run hook and
  validation of required flags follow in this order, as cobra documents them.
\<close>

section \<open>Commands\<close>

datatype cli_value = VString string | VBool bool | VInt int | VInt32 int32 | VInt64 int64 | VFloat real | VStringArray "string list"

datatype args_rule = ArbitraryArgs | ExactArgs nat

type_synonym flag_values = "string \<Rightarrow> cli_value option"

text \<open>\<open>cs_RunE\<close> reads the flags and the arguments and calls the service.\<close>

record command_spec =
  cs_Use :: "string list"
  cs_Args :: args_rule
  cs_Flags :: "(string \<times> cli_value) list"
  cs_Required :: "string list"
  cs_RunE :: "flag_values \<Rightarrow> string list \<Rightarrow> command"

text \<open>The getters of a flag set. The error for a flag that is not declared, or declared with another type, is dropped by every
  caller: the flag then has its zero value.\<close>

definition GetString :: "flag_values \<Rightarrow> string \<Rightarrow> string" where
  "GetString f n = (case f n of Some (VString s) \<Rightarrow> s | _ \<Rightarrow> '''')"
definition GetBool :: "flag_values \<Rightarrow> string \<Rightarrow> bool" where
  "GetBool f n = (case f n of Some (VBool b) \<Rightarrow> b | _ \<Rightarrow> False)"
definition GetInt :: "flag_values \<Rightarrow> string \<Rightarrow> int" where
  "GetInt f n = (case f n of Some (VInt i) \<Rightarrow> i | _ \<Rightarrow> 0)"
definition GetInt32 :: "flag_values \<Rightarrow> string \<Rightarrow> int32" where
  "GetInt32 f n = (case f n of Some (VInt32 i) \<Rightarrow> i | _ \<Rightarrow> 0)"
definition GetInt64 :: "flag_values \<Rightarrow> string \<Rightarrow> int64" where
  "GetInt64 f n = (case f n of Some (VInt64 i) \<Rightarrow> i | _ \<Rightarrow> 0)"
definition GetFloat64 :: "flag_values \<Rightarrow> string \<Rightarrow> real" where
  "GetFloat64 f n = (case f n of Some (VFloat x) \<Rightarrow> x | _ \<Rightarrow> 0)"
definition GetStringArray :: "flag_values \<Rightarrow> string \<Rightarrow> string list" where
  "GetStringArray f n = (case f n of Some (VStringArray xs) \<Rightarrow> xs | _ \<Rightarrow> [])"

lemmas getter_defs = GetString_def GetBool_def GetInt_def GetInt32_def GetInt64_def GetFloat64_def GetStringArray_def

subsection \<open>Nodes and domains\<close>

definition registerCmd_flags :: "(string \<times> cli_value) list" where
  "registerCmd_flags = [(''domain'', VString ''''), (''default'', VBool False), (''user'', VString ''''), (''meta'', VStringArray [])]"

definition registerCmd :: command_spec where
  "registerCmd = \<lparr>cs_Use = [''register''], cs_Args = ArbitraryArgs, cs_Flags = registerCmd_flags, cs_Required = [],
     cs_RunE = (\<lambda>f args. CRegister (GetString f ''domain'') (GetBool f ''default'') (GetString f ''user'') (GetStringArray f ''meta''))\<rparr>"

definition discoverCmd :: command_spec where
  "discoverCmd = \<lparr>cs_Use = [''discover''], cs_Args = ExactArgs 1, cs_Flags = [], cs_Required = [], cs_RunE = (\<lambda>f args. CDiscover (args ! 0))\<rparr>"

definition statusCmd :: command_spec where
  "statusCmd = \<lparr>cs_Use = [''status''], cs_Args = ArbitraryArgs, cs_Flags = [], cs_Required = [], cs_RunE = (\<lambda>f args. CStatus)\<rparr>"

definition domainListCmd :: command_spec where
  "domainListCmd = \<lparr>cs_Use = [''domain'', ''list''], cs_Args = ArbitraryArgs, cs_Flags = [], cs_Required = [], cs_RunE = (\<lambda>f args. CDomainList)\<rparr>"

definition domainRemapCmd_flags :: "(string \<times> cli_value) list" where
  "domainRemapCmd_flags = [(''domain'', VString ''''), (''node'', VString '''')]"

definition domainRemapCmd :: command_spec where
  "domainRemapCmd = \<lparr>cs_Use = [''domain'', ''remap''], cs_Args = ArbitraryArgs, cs_Flags = domainRemapCmd_flags, cs_Required = [''domain'', ''node''],
     cs_RunE = (\<lambda>f args. CDomainRemap (GetString f ''domain'') (GetString f ''node''))\<rparr>"

subsection \<open>The SMTP listener\<close>

definition smtpStartCmd_flags :: "(string \<times> cli_value) list" where
  "smtpStartCmd_flags = [(''port'', VInt 2525), (''domain'', VString ''localhost''), (''insecure-auth'', VBool False), (''max-msg-bytes'', VInt64 0),
     (''max-recipients'', VInt 0), (''rate-conns'', VFloat 0), (''rate-burst'', VInt 0)]"

definition smtpStartCmd :: command_spec where
  "smtpStartCmd = \<lparr>cs_Use = [''smtp'', ''start''], cs_Args = ArbitraryArgs, cs_Flags = smtpStartCmd_flags, cs_Required = [],
     cs_RunE = (\<lambda>f args. CSMTPStart (GetInt f ''port'') (GetString f ''domain'') (GetBool f ''insecure-auth'') (GetInt64 f ''max-msg-bytes'')
       (GetInt f ''max-recipients'') (GetFloat64 f ''rate-conns'') (GetInt f ''rate-burst''))\<rparr>"

definition smtpStopCmd :: command_spec where
  "smtpStopCmd = \<lparr>cs_Use = [''smtp'', ''stop''], cs_Args = ArbitraryArgs, cs_Flags = [], cs_Required = [], cs_RunE = (\<lambda>f args. CSMTPStop)\<rparr>"

definition smtpStatusCmd :: command_spec where
  "smtpStatusCmd = \<lparr>cs_Use = [''smtp'', ''status''], cs_Args = ArbitraryArgs, cs_Flags = [], cs_Required = [], cs_RunE = (\<lambda>f args. CSMTPStatus)\<rparr>"

subsection \<open>Users\<close>

definition userRegisterCmd_flags :: "(string \<times> cli_value) list" where
  "userRegisterCmd_flags = [(''email'', VString ''''), (''type'', VString ''''), (''public-key'', VString ''''), (''meta'', VStringArray [])]"

definition userRegisterCmd :: command_spec where
  "userRegisterCmd = \<lparr>cs_Use = [''user'', ''register''], cs_Args = ArbitraryArgs, cs_Flags = userRegisterCmd_flags, cs_Required = [''email''],
     cs_RunE = (\<lambda>f args. CUserRegister (GetString f ''email'') (GetString f ''type'') (GetString f ''public-key'') (GetStringArray f ''meta''))\<rparr>"

definition userListCmd :: command_spec where
  "userListCmd = \<lparr>cs_Use = [''user'', ''list''], cs_Args = ArbitraryArgs, cs_Flags = [], cs_Required = [], cs_RunE = (\<lambda>f args. CUserList)\<rparr>"

definition userSearchCmd :: command_spec where
  "userSearchCmd = \<lparr>cs_Use = [''user'', ''search''], cs_Args = ArbitraryArgs, cs_Flags = [(''meta'', VStringArray [])], cs_Required = [],
     cs_RunE = (\<lambda>f args. CUserSearch (GetStringArray f ''meta''))\<rparr>"

definition userGetCmd :: command_spec where
  "userGetCmd = \<lparr>cs_Use = [''user'', ''get''], cs_Args = ExactArgs 1, cs_Flags = [], cs_Required = [], cs_RunE = (\<lambda>f args. CUserGet (args ! 0))\<rparr>"

subsection \<open>Mailboxes\<close>

definition listCmd :: command_spec where
  "listCmd = \<lparr>cs_Use = [''mail'', ''list''], cs_Args = ArbitraryArgs,
     cs_Flags = [(''user'', VString ''''), (''folder'', VString ''__inbox''), (''limit'', VInt32 20), (''offset'', VInt32 0)], cs_Required = [''user''],
     cs_RunE = (\<lambda>f args. CMailList (GetString f ''user'') (GetString f ''folder'') (GetInt32 f ''limit'') (GetInt32 f ''offset''))\<rparr>"

definition readCmd :: command_spec where
  "readCmd = \<lparr>cs_Use = [''mail'', ''read''], cs_Args = ArbitraryArgs, cs_Flags = [(''user'', VString ''''), (''id'', VString '''')],
     cs_Required = [''user'', ''id''], cs_RunE = (\<lambda>f args. CMailRead (GetString f ''user'') (GetString f ''id''))\<rparr>"

definition sendCmd :: command_spec where
  "sendCmd = \<lparr>cs_Use = [''mail'', ''send''], cs_Args = ArbitraryArgs,
     cs_Flags = [(''from'', VString ''''), (''to'', VStringArray []), (''subject'', VString ''''), (''body'', VString ''''),
       (''reply-to'', VString ''''), (''thread'', VString '''')], cs_Required = [''from'', ''to'', ''subject''],
     cs_RunE = (\<lambda>f args. CMailSend \<lparr>ms_UserId = GetString f ''from'', ms_RecipientIds = GetStringArray f ''to'', ms_Subject = GetString f ''subject'',
       ms_Body = GetString f ''body'', ms_ReplyToId = GetString f ''reply-to'', ms_ThreadId = GetString f ''thread''\<rparr>)\<rparr>"

text \<open>The flags of \<open>trash\<close>, \<open>restore\<close> and \<open>delete\<close>, which one loop declares.\<close>

definition trash_flags :: "(string \<times> cli_value) list" where
  "trash_flags = [(''user'', VString ''''), (''id'', VString '''')]"

definition trashCmd :: command_spec where
  "trashCmd = \<lparr>cs_Use = [''mail'', ''trash''], cs_Args = ArbitraryArgs, cs_Flags = trash_flags, cs_Required = [''user'', ''id''],
     cs_RunE = (\<lambda>f args. CMailTrash (GetString f ''user'') (GetString f ''id''))\<rparr>"

definition restoreCmd :: command_spec where
  "restoreCmd = \<lparr>cs_Use = [''mail'', ''restore''], cs_Args = ArbitraryArgs, cs_Flags = trash_flags, cs_Required = [''user'', ''id''],
     cs_RunE = (\<lambda>f args. CMailRestore (GetString f ''user'') (GetString f ''id''))\<rparr>"

definition deleteCmd :: command_spec where
  "deleteCmd = \<lparr>cs_Use = [''mail'', ''delete''], cs_Args = ArbitraryArgs, cs_Flags = trash_flags, cs_Required = [''user'', ''id''],
     cs_RunE = (\<lambda>f args. CMailDelete (GetString f ''user'') (GetString f ''id''))\<rparr>"

definition moveCmd :: command_spec where
  "moveCmd = \<lparr>cs_Use = [''mail'', ''move''], cs_Args = ArbitraryArgs,
     cs_Flags = [(''user'', VString ''''), (''id'', VString ''''), (''folder'', VString '''')], cs_Required = [''user'', ''id'', ''folder''],
     cs_RunE = (\<lambda>f args. CMailMove (GetString f ''user'') (GetString f ''id'') (GetString f ''folder''))\<rparr>"

definition tagCmd :: command_spec where
  "tagCmd = \<lparr>cs_Use = [''mail'', ''tag''], cs_Args = ArbitraryArgs,
     cs_Flags = [(''user'', VString ''''), (''id'', VString ''''), (''add'', VString ''''), (''remove'', VString '''')], cs_Required = [''user'', ''id''],
     cs_RunE = (\<lambda>f args. CMailTag (GetString f ''user'') (GetString f ''id'') (GetString f ''add'') (GetString f ''remove''))\<rparr>"

definition foldersCmd :: command_spec where
  "foldersCmd = \<lparr>cs_Use = [''mail'', ''folders''], cs_Args = ArbitraryArgs, cs_Flags = [(''user'', VString '''')], cs_Required = [''user''],
     cs_RunE = (\<lambda>f args. CMailFolders (GetString f ''user''))\<rparr>"

definition statsCmd :: command_spec where
  "statsCmd = \<lparr>cs_Use = [''mail'', ''stats''], cs_Args = ArbitraryArgs, cs_Flags = [(''user'', VString '''')], cs_Required = [''user''],
     cs_RunE = (\<lambda>f args. CMailStats (GetString f ''user''))\<rparr>"

definition mail_commands :: "command_spec list" where
  "mail_commands = [listCmd, readCmd, sendCmd, trashCmd, restoreCmd, deleteCmd, moveCmd, tagCmd, foldersCmd, statsCmd]"

text \<open>The client commands below the root command, in the order of registration; \<open>serve\<close> is \<open>serve_command\<close>.\<close>

definition client_commands :: "command_spec list" where
  "client_commands = [registerCmd, discoverCmd, statusCmd, smtpStartCmd, smtpStopCmd, smtpStatusCmd, domainListCmd, domainRemapCmd,
     userRegisterCmd, userListCmd, userSearchCmd, userGetCmd] @ mail_commands"

lemmas command_defs = registerCmd_def registerCmd_flags_def discoverCmd_def statusCmd_def smtpStartCmd_def smtpStartCmd_flags_def smtpStopCmd_def
  smtpStatusCmd_def domainListCmd_def domainRemapCmd_def domainRemapCmd_flags_def userRegisterCmd_def userRegisterCmd_flags_def userListCmd_def
  userSearchCmd_def userGetCmd_def listCmd_def readCmd_def sendCmd_def trash_flags_def trashCmd_def restoreCmd_def deleteCmd_def moveCmd_def
  tagCmd_def foldersCmd_def statsCmd_def

section \<open>A command line\<close>

text \<open>The flags of the root command, which every command inherits.\<close>

definition root_flags :: "(string \<times> cli_value) list" where
  "root_flags = [(''addr'', VString ''localhost:50051''), (''config'', VString '''')]"

definition flag_lookup :: "command_spec \<Rightarrow> (string \<times> cli_value) list \<Rightarrow> flag_values" where
  "flag_lookup s set' n = (case map_of set' n of Some v \<Rightarrow> Some v | None \<Rightarrow> map_of (cs_Flags s @ root_flags) n)"

definition rootAddr :: "flag_values \<Rightarrow> string" where
  "rootAddr f = GetString f ''addr''"

definition validateArgs :: "args_rule \<Rightarrow> string list \<Rightarrow> error option" where
  "validateArgs rule args =
     (case rule of
        ArbitraryArgs \<Rightarrow> None
      | ExactArgs n \<Rightarrow> if length args = n then None
          else Some (EText (''accepts '' @ itoa (int n) @ '' arg(s), received '' @ itoa (int (length args)))))"

definition missing_flags :: "command_spec \<Rightarrow> (string \<times> cli_value) list \<Rightarrow> string list" where
  "missing_flags s set' = filter (\<lambda>n. n \<in> set (cs_Required s) \<and> n \<notin> fst ` set set') (sort (map fst (cs_Flags s)))"

definition validateRequiredFlags :: "command_spec \<Rightarrow> (string \<times> cli_value) list \<Rightarrow> error option" where
  "validateRequiredFlags s set' =
     (if missing_flags s set' = [] then None
      else Some (EText (''required flag(s) '' @ [char_of (34 :: nat)] @ join ([char_of (34 :: nat)] @ '', '' @ [char_of (34 :: nat)]) (missing_flags s set')
             @ [char_of (34 :: nat)] @ '' not set'')))"

definition persistentPreRun :: "golib \<Rightarrow> (string \<Rightarrow> (string \<Rightarrow> 'c option) result) \<Rightarrow> flag_values \<Rightarrow> error option" where
  "persistentPreRun G ReadInConfig f = (case loadConfig G ReadInConfig (GetString f ''config'') of Inl e \<Rightarrow> Some e | Inr _ \<Rightarrow> None)"

type_synonym flag_parser = "command_spec \<Rightarrow> string list \<Rightarrow> ((string \<times> cli_value) list \<times> string list) result"

definition run_client ::
  "golib \<Rightarrow> (string \<Rightarrow> gotime \<Rightarrow> string) \<Rightarrow> (string \<Rightarrow> error option) \<Rightarrow> flag_parser \<Rightarrow> (string \<Rightarrow> (string \<Rightarrow> 'c option) result)
    \<Rightarrow> 'w pb_client \<Rightarrow> 'w mb_client \<Rightarrow> command_spec \<Rightarrow> string list \<Rightarrow> 'w \<Rightarrow> 'w cmd_result" where
  "run_client G fmt dl ParseFlags ReadInConfig C M s raw w =
     (case ParseFlags s raw of
        Inl e \<Rightarrow> (w, '''', Some e)
      | Inr (set', args) \<Rightarrow>
          (case validateArgs (cs_Args s) args of
             Some e \<Rightarrow> (w, '''', Some e)
           | None \<Rightarrow>
               (case persistentPreRun G ReadInConfig (flag_lookup s set') of
                  Some e \<Rightarrow> (w, '''', Some e)
                | None \<Rightarrow>
                    (case validateRequiredFlags s set' of
                       Some e \<Rightarrow> (w, '''', Some e)
                     | None \<Rightarrow> run_command G fmt dl (rootAddr (flag_lookup s set')) C M (cs_RunE s (flag_lookup s set') args) w))))"

text \<open>The exit status of the process.\<close>

definition Execute :: "'w cmd_result \<Rightarrow> int" where
  "Execute r = (if snd (snd r) = None then 0 else 1)"

section \<open>Flags\<close>

fun same_kind :: "cli_value \<Rightarrow> cli_value \<Rightarrow> bool" where
  "same_kind (VString _) (VString _) = True"
| "same_kind (VBool _) (VBool _) = True"
| "same_kind (VInt _) (VInt _) = True"
| "same_kind (VInt32 _) (VInt32 _) = True"
| "same_kind (VInt64 _) (VInt64 _) = True"
| "same_kind (VFloat _) (VFloat _) = True"
| "same_kind (VStringArray _) (VStringArray _) = True"
| "same_kind _ _ = False"

lemma same_kind_iff:
  "same_kind (VString a) v \<longleftrightarrow> (\<exists>s. v = VString s)" "same_kind (VBool b) v \<longleftrightarrow> (\<exists>s. v = VBool s)"
  "same_kind (VInt i) v \<longleftrightarrow> (\<exists>s. v = VInt s)" "same_kind (VInt32 j) v \<longleftrightarrow> (\<exists>s. v = VInt32 s)"
  "same_kind (VInt64 k) v \<longleftrightarrow> (\<exists>s. v = VInt64 s)" "same_kind (VFloat x) v \<longleftrightarrow> (\<exists>s. v = VFloat s)"
  "same_kind (VStringArray xs) v \<longleftrightarrow> (\<exists>s. v = VStringArray s)"
  by (cases v; simp)+

text \<open>A command is well declared: its flags have different names, none of them that of a flag of the root command, required flags
  exist, the command reads declared flags only, and it reads every declared flag with its declared type, so that two
  values of a flag make two different calls.\<close>

definition reads_declared :: "command_spec \<Rightarrow> bool" where
  "reads_declared s \<longleftrightarrow> (\<forall>f f' args. (\<forall>n\<in>fst ` set (cs_Flags s). f n = f' n) \<longrightarrow> cs_RunE s f args = cs_RunE s f' args)"

definition passes_values :: "command_spec \<Rightarrow> bool" where
  "passes_values s \<longleftrightarrow> (\<forall>f args n d v v'. (n, d) \<in> set (cs_Flags s) \<longrightarrow> same_kind d v \<longrightarrow> same_kind d v' \<longrightarrow>
     cs_RunE s (f(n \<mapsto> v)) args = cs_RunE s (f(n \<mapsto> v')) args \<longrightarrow> v = v')"

definition names_fit :: "command_spec \<Rightarrow> bool" where
  "names_fit s \<longleftrightarrow> distinct (map fst (cs_Flags s @ root_flags)) \<and> set (cs_Required s) \<subseteq> fst ` set (cs_Flags s)"

lemma all_commands:
  "(\<forall>s\<in>set client_commands. P s) \<longleftrightarrow> P registerCmd \<and> P discoverCmd \<and> P statusCmd \<and> P smtpStartCmd \<and> P smtpStopCmd \<and> P smtpStatusCmd
     \<and> P domainListCmd \<and> P domainRemapCmd \<and> P userRegisterCmd \<and> P userListCmd \<and> P userSearchCmd \<and> P userGetCmd \<and> P listCmd \<and> P readCmd
     \<and> P sendCmd \<and> P trashCmd \<and> P restoreCmd \<and> P deleteCmd \<and> P moveCmd \<and> P tagCmd \<and> P foldersCmd \<and> P statsCmd"
  by (simp add: client_commands_def mail_commands_def)

lemma commands_read_declared: "\<forall>s\<in>set client_commands. reads_declared s"
  unfolding all_commands by (intro conjI) (simp_all add: reads_declared_def command_defs getter_defs)

lemma commands_pass_values: "\<forall>s\<in>set client_commands. passes_values s"
  unfolding all_commands by (intro conjI) (auto simp: passes_values_def command_defs same_kind_iff getter_defs)

lemma commands_names_fit: "\<forall>s\<in>set client_commands. names_fit s"
  unfolding all_commands by (intro conjI) (simp_all add: names_fit_def command_defs root_flags_def)



section \<open>What stops a command before it calls the node\<close>

text \<open>What is assumed of the parser.\<close>

definition parse_law :: "flag_parser \<Rightarrow> bool" where
  "parse_law P \<longleftrightarrow> (\<forall>s raw set' args n v. P s raw = Inr (set', args) \<longrightarrow> (n, v) \<in> set set' \<longrightarrow>
     (\<exists>d. (n, d) \<in> set (cs_Flags s @ root_flags) \<and> same_kind d v))"

text \<open>Whatever way a command stops before its call, the node is as it was and nothing is printed; and a command that does not stop
  has valid arguments and all its required flags.\<close>

lemma run_client_cases:
  obtains (stopped) e where "run_client G fmt dl P R C M s raw w = (w, '''', Some e)"
    | (called) set' args where "P s raw = Inr (set', args)" and "validateArgs (cs_Args s) args = None" and "missing_flags s set' = []"
        and "run_client G fmt dl P R C M s raw w = run_command G fmt dl (rootAddr (flag_lookup s set')) C M (cs_RunE s (flag_lookup s set') args) w"
proof (cases "P s raw")
  case (Inr r)
  obtain set' args where r: "r = (set', args)" by fastforce
  show ?thesis
    using that Inr r
    by (cases "validateArgs (cs_Args s) args"; cases "persistentPreRun G R (flag_lookup s set')"; cases "missing_flags s set' = []")
       (auto simp: run_client_def validateRequiredFlags_def)
qed (use that in \<open>auto simp: run_client_def\<close>)

text \<open>A flag of the command line has the type with which it was declared, also when it was not set.\<close>

lemma flag_lookup_kind:
  assumes "parse_law P" and "P s raw = Inr (set', args)" and "names_fit s" and "(n, d) \<in> set (cs_Flags s @ root_flags)"
  shows "\<exists>v. flag_lookup s set' n = Some v \<and> same_kind d v"
proof (cases "map_of set' n")
  case (Some v)
  then have "(n, v) \<in> set set'" by (rule map_of_SomeD)
  then obtain d' where d': "(n, d') \<in> set (cs_Flags s @ root_flags)" "same_kind d' v" using assms(1,2) unfolding parse_law_def by blast
  have "distinct (map fst (cs_Flags s @ root_flags))" using assms(3) by (simp add: names_fit_def)
  then have "d' = d" using d'(1) assms(4) by (metis map_of_is_SomeI option.inject)
  then show ?thesis using Some d'(2) by (simp add: flag_lookup_def)
next
  case None
  have "distinct (map fst (cs_Flags s @ root_flags))" using assms(3) by (simp add: names_fit_def)
  then have "map_of (cs_Flags s @ root_flags) n = Some d" using assms(4) by (rule map_of_is_SomeI)
  moreover have "same_kind d d" by (cases d) simp_all
  ultimately show ?thesis using None by (simp add: flag_lookup_def)
qed

text \<open>C28: On a node that asks for a token the command-line client is of no use: it sends no credential, so whatever the
  command line, the command fails with exit status 1, prints no result and leaves the node as it was.\<close>

theorem client_lines_refused:
  assumes "auth_law gate" and "token \<noteq> ''''" and "no_token md"
  shows "case run_client G fmt dl P R (pb_guarded gate token md C) (mb_guarded gate token md M) s raw w of
    (w', out, e) \<Rightarrow> w' = w \<and> out = '''' \<and> Execute (w', out, e) = 1"
proof (cases rule: run_client_cases [of G fmt dl P R "pb_guarded gate token md C" "mb_guarded gate token md M" s raw w])
  case (stopped e)
  then show ?thesis by (simp add: Execute_def)
next
  case (called set' args)
  then show ?thesis
    using cli_refused [OF assms, of G fmt dl "rootAddr (flag_lookup s set')" C M "cs_RunE s (flag_lookup s set') args" w]
    by (auto simp: Execute_def)
qed

theorem client_lines_refused_witness:
  "\<forall>G fmt M. case run_client G fmt (\<lambda>_. None) (\<lambda>s raw. Inr ([], raw)) (\<lambda>_. Inr (\<lambda>_. None :: unit option))
     (pb_guarded auth_ex ''t'' (Some []) client_ex) (mb_guarded auth_ex ''t'' (Some []) M) userGetCmd [''ann@x.org''] (sql_empty, None) of
     (w', out, e) \<Rightarrow> w' = (sql_empty, None) \<and> out = '''' \<and> Execute (w', out, e) = 1"
  by (intro allI, rule client_lines_refused [OF auth_ex_law]) (simp_all add: no_token_def)

section \<open>From one command line to the next\<close>

text \<open>C9: What the client registers, the client shows: after a successful \<open>postbox user register\<close>, \<open>postbox user get\<close> for the same address, with the same
  \<open>--addr\<close> and \<open>--config\<close>, prints the profile with exactly the values of the flags of the first command line: the type, the key and the metadata of the \<open>--meta\<close> flags in
  sorted order, for metadata that is valid UTF-8.\<close>

theorem client_lines_register_get:
  assumes "sqlite_inv (fst w)" and "wired K (sqlite_ops E) (local_ops G' (sqlite_ops E) nid) nid"
    and "P userRegisterCmd line1 = Inr (set1, args1)" and "P userGetCmd line2 = Inr (set2, [GetString (flag_lookup userRegisterCmd set1) ''email''])"
    and "\<forall>n\<in>{''addr'', ''config''}. flag_lookup userGetCmd set2 n = flag_lookup userRegisterCmd set1 n"
    and "\<forall>(k, v) \<in> set (parseMetaFlags (GetStringArray (flag_lookup userRegisterCmd set1) ''meta'')). valid_utf8 k = k \<and> valid_utf8 v = v"
    and "run_client G fmt dl P R (node_client K L factory now) M userRegisterCmd line1 w = (w', out, None)"
  shows "run_client G fmt dl P R (node_client K L factory now) M userGetCmd line2 w' =
    (w', printUser \<lparr>up_Email = GetString (flag_lookup userRegisterCmd set1) ''email'', up_Type = GetString (flag_lookup userRegisterCmd set1) ''type'',
       up_PublicKey = GetString (flag_lookup userRegisterCmd set1) ''public-key'',
       up_Metadata = parseMetaFlags (GetStringArray (flag_lookup userRegisterCmd set1) ''meta''), up_NodeId = nid\<rparr>, None)"
proof -
  let ?f = "flag_lookup userRegisterCmd set1"
  have pre: "persistentPreRun G R ?f = None"
    and "run_command G fmt dl (rootAddr ?f) (node_client K L factory now) M (cs_RunE userRegisterCmd ?f args1) w = (w', out, None)"
    using assms(3,7) by (auto simp: run_client_def split: option.splits)
  then have "runUserRegister dl (rootAddr ?f) (node_client K L factory now) (GetString ?f ''email'') (GetString ?f ''type'') (GetString ?f ''public-key'')
      (GetStringArray ?f ''meta'') w = (w', out, None)" by (simp add: userRegisterCmd_def)
  note get = cli_register_get [OF assms(1,2,6) this]
  have "persistentPreRun G R (flag_lookup userGetCmd set2) = None" "rootAddr (flag_lookup userGetCmd set2) = rootAddr ?f"
    using pre assms(5) by (simp_all add: persistentPreRun_def rootAddr_def GetString_def)
  moreover have "validateArgs (cs_Args userGetCmd) [x] = None" "validateRequiredFlags userGetCmd set2 = None" "cs_RunE userGetCmd f' [x] = CUserGet x" for x f'
    by (simp_all add: userGetCmd_def validateArgs_def validateRequiredFlags_def missing_flags_def)
  ultimately show ?thesis using get assms(4) by (simp add: run_client_def)
qed

definition register_set_ex :: "(string \<times> cli_value) list" where
  "register_set_ex = [(''email'', VString ''ann@x.org''), (''type'', VString ''agent''), (''public-key'', VString ''key''), (''meta'', VStringArray [''lang=en'', ''=x''])]"

definition parser_ex :: flag_parser where
  "parser_ex s raw = (if cs_Use s = [''user'', ''register''] then Inr (register_set_ex, []) else Inr ([], raw))"

lemma register_flags_ex:
  "GetString (flag_lookup userRegisterCmd register_set_ex) ''email'' = ''ann@x.org''" "GetString (flag_lookup userRegisterCmd register_set_ex) ''type'' = ''agent''"
  "GetString (flag_lookup userRegisterCmd register_set_ex) ''public-key'' = ''key''"
  "GetStringArray (flag_lookup userRegisterCmd register_set_ex) ''meta'' = [''lang=en'', ''=x'']"
  "rootAddr (flag_lookup userRegisterCmd register_set_ex) = ''localhost:50051''" "GetString (flag_lookup userRegisterCmd register_set_ex) ''config'' = ''''"
  by (simp_all add: rootAddr_def getter_defs flag_lookup_def register_set_ex_def userRegisterCmd_def userRegisterCmd_flags_def root_flags_def)

theorem client_lines_register_get_witness:
  "\<forall>G fmt M. \<exists>w'. run_client G fmt (\<lambda>_. None) parser_ex (\<lambda>_. Inr (\<lambda>_. None :: unit option)) client_ex M userGetCmd [''ann@x.org''] w' =
     (w', ''email:    ann@x.org'' @ nl @ ''type:     agent'' @ nl @ ''pubkey:   key'' @ nl @ ''metadata: lang=en'' @ nl @ nl, None)"
proof (intro allI)
  fix G fmt M
  obtain w' out where r: "runUserRegister (\<lambda>_. None) ''localhost:50051'' client_ex ''ann@x.org'' ''agent'' ''key'' [''lang=en'', ''=x''] (sql_empty, None) = (w', out, None)"
    using register_ex(1) by blast
  have P: "parser_ex userRegisterCmd [] = Inr (register_set_ex, [])" "parser_ex userGetCmd [x] = Inr ([], [x])" for x
    by (simp_all add: parser_ex_def userRegisterCmd_def userGetCmd_def)
  have miss: "validateRequiredFlags userRegisterCmd register_set_ex = None"
    by (simp add: validateRequiredFlags_def missing_flags_def register_set_ex_def userRegisterCmd_def filter_empty_conv)
  have pre: "persistentPreRun G (\<lambda>_. Inr (\<lambda>_. None :: unit option)) (flag_lookup userRegisterCmd register_set_ex) = None" "validateArgs (cs_Args userRegisterCmd) [] = None"
    by (simp add: persistentPreRun_def loadConfig_def register_flags_ex, simp add: userRegisterCmd_def validateArgs_def)
  have run_e: "cs_RunE userRegisterCmd f args = CUserRegister (GetString f ''email'') (GetString f ''type'') (GetString f ''public-key'') (GetStringArray f ''meta'')" for f args
    by (simp add: userRegisterCmd_def)
  have run: "run_client G fmt (\<lambda>_. None) parser_ex (\<lambda>_. Inr (\<lambda>_. None :: unit option)) client_ex M userRegisterCmd [] (sql_empty, None) = (w', out, None)"
    by (simp add: run_client_def P pre miss run_e register_flags_ex r)
  have v: "\<forall>(k, v) \<in> set (parseMetaFlags (GetStringArray (flag_lookup userRegisterCmd register_set_ex) ''meta'')). valid_utf8 k = k \<and> valid_utf8 v = v"
    by (simp add: register_flags_ex register_ex(2) ascii_def)
  have i: "sqlite_inv (fst (sql_empty, None :: unit option))" using sql_inv_fresh by simp
  have root: "\<forall>n\<in>{''addr'', ''config''}. flag_lookup userGetCmd [] n = flag_lookup userRegisterCmd register_set_ex n"
    by (simp add: flag_lookup_def userGetCmd_def userRegisterCmd_def userRegisterCmd_flags_def register_set_ex_def)
  show "\<exists>w'. run_client G fmt (\<lambda>_. None) parser_ex (\<lambda>_. Inr (\<lambda>_. None :: unit option)) client_ex M userGetCmd [''ann@x.org''] w' =
     (w', ''email:    ann@x.org'' @ nl @ ''type:     agent'' @ nl @ ''pubkey:   key'' @ nl @ ''metadata: lang=en'' @ nl @ nl, None)"
    using client_lines_register_get [OF i ctl_ex_wired P(1) _ root v run, of "[''ann@x.org'']"] P(2)
    by (intro exI [of _ w']) (simp add: register_flags_ex register_ex(2) printUser_def metadata_line_def sort_pairs_sort)
qed

end
