(* ===== verification/Smtp_Policy.thy ===== *)
theory Smtp_Policy
  imports Smtp_Session Smtp_Security
begin

text \<open>
  What the SMTP security plugin (\<open>internal/plugin/smtp_security.go\<close>) does to the messages of the two
  listeners (\<open>internal/smtp/server.go\<close>, \<open>internal/smtp/lmtp.go\<close>). The mailbox library turns the request of a
  session into a draft with the same sender, recipients, subject, body and headers and runs the plugin on
  it; the header that the plugin reads as the remote address, the sender and the subject were all set by
  the session.
\<close>

section \<open>From a request to a draft\<close>

definition drafted :: "string \<Rightarrow> SendRequest \<Rightarrow> draft \<Rightarrow> bool" where
  "drafted sender req d \<longleftrightarrow> GetSenderID d = sender \<and> GetRecipientIDs d = sr_RecipientIDs req \<and> GetSubject d = sr_Subject req
     \<and> GetBody d = sr_Body req \<and> GetHeaders d = sr_Headers req"

definition sender_domain_ok :: "golib \<Rightarrow> SMTPSecurityConfig \<Rightarrow> string \<Rightarrow> bool" where
  "sender_domain_ok G cfg sender \<longleftrightarrow> senderDomain G sender \<notin> to_lower G ` set (BlockedSenderDomains cfg)
     \<and> (AllowedSenderDomains cfg \<noteq> [] \<longrightarrow> senderDomain G sender \<in> to_lower G ` set (AllowedSenderDomains cfg))"

text \<open>A plugin that was built with a configuration keeps it.\<close>

definition configured :: "golib \<Rightarrow> SMTPSecurityConfig \<Rightarrow> SMTPSecurityPlugin \<Rightarrow> bool" where
  "configured G cfg p \<longleftrightarrow> sp_cfg p = smtp_security_defaults cfg \<and> allowedDomains p = toSet G (AllowedSenderDomains cfg)
     \<and> blockedDomains p = toSet G (BlockedSenderDomains cfg)"

lemma configured_New: "configured G cfg (NewSMTPSecurityPlugin G nm cfg)"
  by (simp add: configured_def NewSMTPSecurityPlugin_def)

lemma configured_kept:
  "configured G cfg p \<Longrightarrow> configured G cfg (sp_Init p)"
  "configured G cfg p \<Longrightarrow> configured G cfg (sp_Close p)"
  "configured G cfg p \<Longrightarrow> configured G cfg (sp_tick now p)"
  "configured G cfg p \<Longrightarrow> configured G cfg (snd (fst (RecordAuthFailure store now (l, p) addr)))"
  by (auto simp: configured_def sp_Init_def sp_Close_def sp_tick_def sp_evict_def RecordAuthFailure_def Let_def
      split: prod.split option.split sum.split)

text \<open>Subjects are cut to 998 bytes by both listeners, so only a smaller limit can reject one.\<close>

definition subject_room :: "SMTPSecurityConfig \<Rightarrow> bool" where
  "subject_room cfg \<longleftrightarrow> MaxSubjectBytes cfg \<le> 0 \<or> 998 \<le> MaxSubjectBytes cfg"

lemma subject_fits:
  "subject_room cfg \<Longrightarrow> length subj \<le> 998 \<Longrightarrow>
     0 < (if MaxSubjectBytes cfg = 0 then 998 else MaxSubjectBytes cfg) \<longrightarrow> int (length subj) \<le> (if MaxSubjectBytes cfg = 0 then 998 else MaxSubjectBytes cfg)"
  by (auto simp: subject_room_def)

lemma BeforeSend_drafted:
  assumes "configured G cfg p" and "drafted sender req d" and "subject_room cfg" and "length (sr_Subject req) \<le> 998"
    and "sender = '''' \<or> parseEmailAddr G (gm_str (sr_Headers req) ''X-SMTP-Envelope-From'') = ''''
      \<or> equal_fold G (parseEmailAddr G (gm_str (sr_Headers req) ''X-SMTP-Envelope-From'')) sender"
  shows "sp_BeforeSend G store now (l, p) d = None \<longleftrightarrow>
      \<not> (gm_str (sr_Headers req) ''X-SMTP-Remote-Addr'' \<noteq> '''' \<and> IsLockedOut store now (l, p) (gm_str (sr_Headers req) ''X-SMTP-Remote-Addr''))
      \<and> (sender \<noteq> '''' \<longrightarrow> sender_domain_ok G cfg sender) \<and> (RequireAuthenticatedSender cfg \<longrightarrow> sender \<noteq> '''')"
proof -
  have c: "sp_cfg (snd (l, p)) = smtp_security_defaults cfg" "allowedDomains (snd (l, p)) = toSet G (AllowedSenderDomains cfg)"
    "blockedDomains (snd (l, p)) = toSet G (BlockedSenderDomains cfg)"
    using assms(1) by (simp_all add: configured_def)
  have "smtp_policy_ok G cfg d \<longleftrightarrow> (sender \<noteq> '''' \<longrightarrow> sender_domain_ok G cfg sender) \<and> (RequireAuthenticatedSender cfg \<longrightarrow> sender \<noteq> '''')"
    using assms(2,5) subject_fits [OF assms(3,4)]
    unfolding smtp_policy_ok_def sender_domain_ok_def drafted_def Let_def by (elim conjE) (simp only:, blast)
  then show ?thesis
    using assms(2) by (simp add: sp_BeforeSend_None [OF c] drafted_def)
qed

section \<open>SMTP\<close>

lemma parseEmailAddr_extractAddr: "parseEmailAddr G s = extractAddr G s"
  by (simp add: parseEmailAddr_def extractAddr_def)

lemma build_request_session:
  assumes "build_request G cfg E s raw = Inr (frm, req)"
  shows "length (sr_Subject req) \<le> 998" and "gm_str (sr_Headers req) ''X-SMTP-Remote-Addr'' = remoteAddr s"
  using assms sanitiseHeaderValue_bytes
  by (auto simp: build_request_def Let_def gm_str_def split: sum.splits prod.splits)

lemma smtp_step_addr: "remoteAddr (cn_ses (fst (smtp_step G cfg H c (E, now, cmd)))) = remoteAddr (cn_ses c)"
proof (cases cmd)
  case (CAuth mech identity username password)
  obtain h s e where r: "plain_response cfg H E now (cn_hook c, cn_ses c) identity username password = ((h, s), e)"
    by (metis prod.collapse)
  have "remoteAddr s = remoteAddr (cn_ses c)" using plain_response_cases [OF r] by auto
  then show ?thesis by (auto simp: CAuth r split: option.split)
qed (auto simp: Mail_def Rcpt_def conn_reset_def Reset_def Let_def split: if_splits option.splits prod.splits)

lemma smtp_run_addr: "remoteAddr (cn_ses (smtp_run G cfg H (new_conn h m addr) evs)) = addr"
proof (induction evs rule: rev_induct)
  case (snoc ev evs)
  then show ?case by (cases ev) (simp add: smtp_run_snoc smtp_step_addr)
qed (simp add: smtp_run_def new_conn_def)

lemma smtp_log_session:
  assumes "(frm, req) \<in> set (cn_log (smtp_run G cfg H (new_conn h m addr) evs))"
  shows "length (sr_Subject req) \<le> 998 \<and> gm_str (sr_Headers req) ''X-SMTP-Remote-Addr'' = addr"
  using assms
proof (induction evs rule: rev_induct)
  case (snoc ev evs)
  let ?c = "smtp_run G cfg H (new_conn h m addr) evs"
  obtain E now cmd where ev: "ev = (E, now, cmd)" by (cases ev) auto
  have "(frm, req) \<in> set (cn_log ?c) \<or> (\<exists>raw. build_request G cfg E (cn_ses ?c) raw = Inr (frm, req))"
    using snoc.prems unfolding smtp_run_snoc ev
    by (cases cmd) (force simp: conn_reset_def split: if_splits option.splits prod.splits sum.splits)+
  then show ?case using snoc.IH build_request_session smtp_run_addr by metis
qed (simp add: smtp_run_def new_conn_def)

text \<open>C12: The session and the plugin agree on SMTP mail. On a server with a user resolver, whatever the client sends: of the
  five checks of the plugin only two can reject a message that a session hands over, the lockout of the
  connection's own address and the lists of sender domains; the envelope check, the requirement of an
  authenticated sender and the default subject limit always hold, because the session has enforced them.\<close>

theorem smtp_mail_meets_policy:
  assumes "\<forall>ev\<in>set evs. users (fst ev) \<noteq> None"
    and "(sender, req) \<in> set (cn_log (smtp_run G scfg H (new_conn h m addr) evs))"
    and "drafted sender req d" and "configured G cfg p" and "subject_room cfg"
  shows "sp_BeforeSend G store now (l, p) d = None \<longleftrightarrow>
    \<not> (addr \<noteq> '''' \<and> IsLockedOut store now (l, p) addr) \<and> sender_domain_ok G cfg sender"
proof -
  note b = smtp_log_session [OF assms(2)]
  have "sent_ok G scfg evs (sender, req)"
    using smtp_run_inv [OF assms(1), of G scfg H h m addr] assms(2) unfolding conn_inv_def Let_def by blast
  then have "sender \<noteq> ''''" "equal_fold G (parseEmailAddr G (gm_str (sr_Headers req) ''X-SMTP-Envelope-From'')) sender"
    by (simp_all add: sent_ok_def parseEmailAddr_extractAddr)
  then show ?thesis
    using BeforeSend_drafted [OF assms(4,3,5) conjunct1 [OF b], of store now l] b by simp
qed

text \<open>A plugin with every check switched on, and a draft for a request.\<close>

definition policy_ex :: SMTPSecurityConfig where
  "policy_ex = \<lparr>MaxAuthFailuresPerIP = 5, LockoutDuration = 0, IPLookupTTL = 0, EnvelopeSpoofCheck = True, AllowedSenderDomains = [],
     BlockedSenderDomains = [''Spam.example''], MaxSubjectBytes = 0, RequireAuthenticatedSender = True\<rparr>"

definition draft_of :: "string \<Rightarrow> SendRequest \<Rightarrow> draft" where
  "draft_of sender req = \<lparr>GetSenderID = sender, GetRecipientIDs = sr_RecipientIDs req, GetSubject = sr_Subject req, GetBody = sr_Body req,
     GetHeaders = sr_Headers req, GetAttachments = []\<rparr>"

lemma drafted_ex: "drafted sender req (draft_of sender req)"
  by (simp add: drafted_def draft_of_def)

lemma policy_ex_facts:
  "subject_room policy_ex" "RequireAuthenticatedSender policy_ex"
  "sender_domain_ok golib_ex policy_ex ''ann@x''" "sender_domain_ok golib_ex policy_ex ''ceo@bank''"
  by (simp add: subject_room_def policy_ex_def, simp add: policy_ex_def, code_simp, code_simp)

lemma fresh_not_locked: "\<not> IsLockedOut None now (l, NewSMTPSecurityPlugin G nm cfg) addr"
  by (simp add: IsLockedOut_def NewSMTPSecurityPlugin_def mem_IsLockedOut_def)

theorem smtp_mail_meets_policy_witness:
  "\<exists>req. (''ann@x'', req) \<in> set (cn_log (smtp_run golib_ex smtp_scfg_ex (None :: unit auth_hook option) (new_conn () () ''10.0.0.1:25'') smtp_evs_ex))
     \<and> sp_BeforeSend golib_ex (None :: unit lockout_ops option) 0 ((), NewSMTPSecurityPlugin golib_ex ''p'' policy_ex) (draft_of ''ann@x'' req) = None"
proof -
  obtain req where r: "cn_log (smtp_run golib_ex smtp_scfg_ex (None :: unit auth_hook option) (new_conn () () ''10.0.0.1:25'') smtp_evs_ex) = [(''ann@x'', req)]"
    using smtp_ex_log by blast
  then have m: "(''ann@x'', req) \<in> set (cn_log (smtp_run golib_ex smtp_scfg_ex (None :: unit auth_hook option) (new_conn () () ''10.0.0.1:25'') smtp_evs_ex))" by simp
  show ?thesis
    using smtp_mail_meets_policy [OF smtp_ex_users m drafted_ex configured_New policy_ex_facts(1), of "None :: unit lockout_ops option" 0 "()" "''p''"]
      m policy_ex_facts(3) fresh_not_locked [of 0 "()"] by blast
qed

section \<open>LMTP\<close>

lemma lmtp_request_session:
  assumes "lmtp_request G E s raw = Inr (frm, req)"
  shows "length (sr_Subject req) \<le> 998" and "gm_str (sr_Headers req) ''X-SMTP-Remote-Addr'' = ''''"
    and "gm_str (sr_Headers req) ''X-SMTP-Envelope-From'' = lm_from s" and "lm_from s \<noteq> '''' \<Longrightarrow> frm = lm_from s"
  using assms sanitiseHeaderValue_bytes
  by (auto simp: lmtp_request_def Let_def gm_str_def split: sum.splits prod.splits)

text \<open>C30: The plugin does not distinguish authenticated mail. No LMTP session is ever authenticated, and yet for a message received over
  LMTP (with an envelope sender that address parsing leaves as it is and that equals itself up to case, or the empty one of a bounce) neither lockout nor the
  envelope check can reject it, whatever the state of the plugin, and \<open>RequireAuthenticatedSender\<close>
  rejects it only if neither the envelope nor the \<open>From\<close> header names a sender.\<close>

theorem lmtp_mail_passes_as_authenticated:
  assumes "lmtp_request G E s raw = Inr (sender, req)" and "mail_ParseAddress G (lm_from s) \<in> {None, Some (lm_from s)}"
    and "equal_fold G (lm_from s) (lm_from s)"
    and "drafted sender req d" and "configured G cfg p" and "subject_room cfg"
  shows "sp_BeforeSend G store now (l, p) d = None \<longleftrightarrow>
    (if sender = '''' then \<not> RequireAuthenticatedSender cfg else sender_domain_ok G cfg sender)"
proof -
  note r = lmtp_request_session [OF assms(1)]
  have "parseEmailAddr G (lm_from s) = lm_from s" using assms(2) by (auto simp: parseEmailAddr_def)
  then have "lm_from s = '''' \<and> parseEmailAddr G (lm_from s) = '''' \<or> equal_fold G (parseEmailAddr G (lm_from s)) sender"
    using r(4) assms(3) by auto
  then show ?thesis
    using BeforeSend_drafted [OF assms(5,4,6) r(1), of store now l] r(2,3) by auto
qed

theorem lmtp_mail_passes_as_authenticated_witness:
  "\<exists>req. lmtp_request golib_ex smtp_env_ex \<lparr>lm_remoteAddr = '''', lm_from = ''ceo@bank'', lm_to = [''bob@x'']\<rparr> ''hello'' = Inr (''ceo@bank'', req)
     \<and> RequireAuthenticatedSender policy_ex
     \<and> sp_BeforeSend golib_ex (None :: unit lockout_ops option) 0 ((), NewSMTPSecurityPlugin golib_ex ''p'' policy_ex) (draft_of ''ceo@bank'' req) = None"
proof -
  obtain req where r: "lmtp_request golib_ex smtp_env_ex \<lparr>lm_remoteAddr = '''', lm_from = ''ceo@bank'', lm_to = [''bob@x'']\<rparr> ''hello'' = Inr (''ceo@bank'', req)"
    using lmtp_ex_request by blast
  have "mail_ParseAddress golib_ex a \<in> {None, Some a}" "equal_fold golib_ex ''ceo@bank'' ''ceo@bank''" for a
    by (simp_all add: golib_ex_def equal_fold_def)
  then show ?thesis
    using lmtp_mail_passes_as_authenticated [OF r _ _ drafted_ex configured_New policy_ex_facts(1), of "None :: unit lockout_ops option" 0 "()" "''p''"]
      r policy_ex_facts(2,4) by simp
qed

end
