(* ===== verification/Storetest.thy ===== *)
theory Storetest
  imports Memstore Sqlstore
begin

text \<open>
  The conformance suite for implementations of \<open>store.Store\<close> (\<open>internal/store/storetest/storetest.go\<close>) and the proof
  that the three stores pass it. A test takes a fresh store and gives \<open>None\<close>, or the message with which it
  fails. \<open>clk\<close> is the clock the store reads, \<open>clk0\<close> the clock a test reads.
\<close>

section \<open>Tests\<close>

definition saved :: "'s \<times> error option \<Rightarrow> string \<Rightarrow> ('s \<Rightarrow> string option) \<Rightarrow> string option" where
  "saved r msg k = (case r of (s, None) \<Rightarrow> k s | (_, Some _) \<Rightarrow> Some msg)"

definition got :: "'a result \<Rightarrow> string \<Rightarrow> ('a \<Rightarrow> string option) \<Rightarrow> string option" where
  "got r msg k = (case r of Inr x \<Rightarrow> k x | Inl _ \<Rightarrow> Some msg)"

definition expect :: "bool \<Rightarrow> string \<Rightarrow> string option \<Rightarrow> string option" where
  "expect b msg k = (if b then k else Some msg)"

definition absent :: "'a result \<Rightarrow> string \<Rightarrow> string option \<Rightarrow> string option" where
  "absent r msg k = (case r of Inl e \<Rightarrow> if errors_Is e ErrStoreNotFound then k else Some msg | Inr _ \<Rightarrow> Some msg)"

fun save_each :: "('s \<Rightarrow> 'a \<Rightarrow> 's \<times> error option) \<Rightarrow> 'a list \<Rightarrow> ('s \<Rightarrow> string option) \<Rightarrow> 's \<Rightarrow> string option" where
  "save_each save [] k s = k s"
| "save_each save (x # xs) k s = saved (save s x) ''save'' (save_each save xs k)"

abbreviation user0 :: user where
  "user0 \<equiv> \<lparr>Email = '''', Type = '''', UserKeyB64 = '''', Metadata = [], UserCreatedAt = 0\<rparr>"

abbreviation job0 :: DeliveryJob where
  "job0 \<equiv> \<lparr>MessageID = '''', RecipientID = '''', EndpointURL = '''', Status = '''', Attempts = 0, MaxAttempts = 0, LastError = '''', NextRetryAt = 0,
     DeliveredAt = None, CreatedAt = 0, UpdatedAt = 0\<rparr>"

definition testNodeRoundTrip :: "'s store_ops \<Rightarrow> 's \<Rightarrow> string option" where
  "testNodeRoundTrip S s =
     saved (op_SaveNode S s \<lparr>ID = ''node-1'', PrivateKeyB64 = '''', PublicKeyB64 = ''''\<rparr>) ''save node'' (\<lambda>s.
     got (op_GetNode S s ''node-1'') ''get node'' (\<lambda>nd.
     expect (ID nd = ''node-1'') ''got id'' (
     absent (op_GetNode S s ''missing'') ''missing node'' None)))"

definition testDomainRoundTrip :: "'s store_ops \<Rightarrow> 's \<Rightarrow> string option" where
  "testDomainRoundTrip S s =
     (let d = \<lparr>Name = ''example.com'', NodeID = ''node-1'', IsDefault = False\<rparr> in
      saved (op_SaveDomain S s d) ''save domain'' (\<lambda>s.
      got (op_GetDomain S s ''example.com'') ''get domain'' (\<lambda>r.
      expect (r = d) ''got'' None)))"

definition testDomainNotFound :: "'s store_ops \<Rightarrow> 's \<Rightarrow> string option" where
  "testDomainNotFound S s = absent (op_GetDomain S s ''nope.com'') ''missing domain'' None"

definition testDefaultDomain :: "'s store_ops \<Rightarrow> 's \<Rightarrow> string option" where
  "testDefaultDomain S s =
     absent (op_GetDefaultDomain S s) ''no default'' (
     saved (op_SaveDomain S s \<lparr>Name = ''alpha.com'', NodeID = ''n'', IsDefault = True\<rparr>) ''save default'' (\<lambda>s.
     got (op_GetDefaultDomain S s) ''get default'' (\<lambda>d.
     expect (Name d = ''alpha.com'' \<and> IsDefault d) ''got'' None)))"

definition testListDomains :: "'s store_ops \<Rightarrow> 's \<Rightarrow> string option" where
  "testListDomains S =
     save_each (op_SaveDomain S) (map (\<lambda>n. \<lparr>Name = n, NodeID = ''n'', IsDefault = False\<rparr>) [''b.com'', ''a.com'', ''c.com'']) (\<lambda>s.
     got (op_ListDomains S s) ''list'' (\<lambda>ds.
     expect (length ds = 3) ''got domains'' (
     expect (Name (ds ! 0) = ''a.com'' \<and> Name (ds ! 2) = ''c.com'') ''expected sorted order'' None)))"

definition testDomainCount :: "'s store_ops \<Rightarrow> 's \<Rightarrow> string option" where
  "testDomainCount S s =
     expect (op_CountDomains S s = Inr 0) ''count empty'' (
     saved (op_SaveDomain S s \<lparr>Name = ''x.com'', NodeID = ''n'', IsDefault = False\<rparr>) ''save'' (\<lambda>s.
     expect (op_CountDomains S s = Inr 1) ''count one'' None))"

text \<open>\<open>time.Date(2026, 1, 2, 3, 4, 5, 0, time.UTC)\<close>, counted from the zero time.\<close>

definition created_at :: gotime where
  "created_at = 63902919845 * second"

definition testUserRoundTrip :: "'s store_ops \<Rightarrow> gotime \<Rightarrow> 's \<Rightarrow> string option" where
  "testUserRoundTrip S clk s =
     (let u = user0\<lparr>Email := ''alice@x.com'', UserCreatedAt := created_at\<rparr> in
      saved (op_SaveUser S clk s u) ''save user'' (\<lambda>s.
      got (op_GetUser S s ''alice@x.com'') ''get user'' (\<lambda>r.
      expect (Email r = Email u) ''got email'' (
      expect (UserCreatedAt r = created_at) ''got created_at'' None))))"

definition testUserPublicKeyRoundTrip :: "'s store_ops \<Rightarrow> gotime \<Rightarrow> 's \<Rightarrow> string option" where
  "testUserPublicKeyRoundTrip S clk s =
     saved (op_SaveUser S clk s (user0\<lparr>Email := ''bot@x.com'', UserKeyB64 := ''dGVzdGtleQ==''\<rparr>)) ''save user'' (\<lambda>s.
     got (op_GetUser S s ''bot@x.com'') ''get user'' (\<lambda>r.
     expect (UserKeyB64 r = ''dGVzdGtleQ=='') ''got public_key'' None))"

definition testUserTypeRoundTrip :: "'s store_ops \<Rightarrow> gotime \<Rightarrow> 's \<Rightarrow> string option" where
  "testUserTypeRoundTrip S clk s =
     saved (op_SaveUser S clk s (user0\<lparr>Email := ''agent@x.com'', Type := ''agent''\<rparr>)) ''save user'' (\<lambda>s.
     got (op_GetUser S s ''agent@x.com'') ''get user'' (\<lambda>r.
     expect (Type r = ''agent'') ''got type'' None))"

definition testUserMetadataRoundTrip :: "'s store_ops \<Rightarrow> gotime \<Rightarrow> 's \<Rightarrow> string option" where
  "testUserMetadataRoundTrip S clk s =
     saved (op_SaveUser S clk s (user0\<lparr>Email := ''bob@x.com'', Metadata := [(''role'', ''admin''), (''team'', ''ops'')]\<rparr>)) ''save user'' (\<lambda>s.
     got (op_GetUser S s ''bob@x.com'') ''get user'' (\<lambda>r.
     expect (gm_str (Metadata r) ''role'' = ''admin'' \<and> gm_str (Metadata r) ''team'' = ''ops'') ''got metadata'' None))"

definition testUserNotFound :: "'s store_ops \<Rightarrow> 's \<Rightarrow> string option" where
  "testUserNotFound S s = absent (op_GetUser S s ''ghost@x.com'') ''missing user'' None"

definition testUserCount :: "'s store_ops \<Rightarrow> gotime \<Rightarrow> 's \<Rightarrow> string option" where
  "testUserCount S clk s =
     expect (op_CountUsers S s = Inr 0) ''count empty'' (
     saved (op_SaveUser S clk s (user0\<lparr>Email := ''u@x.com''\<rparr>)) ''save'' (\<lambda>s.
     expect (op_CountUsers S s = Inr 1) ''count one'' None))"

definition testUserList :: "'s store_ops \<Rightarrow> gotime \<Rightarrow> 's \<Rightarrow> string option" where
  "testUserList S clk =
     save_each (op_SaveUser S clk) (map (\<lambda>e. user0\<lparr>Email := e\<rparr>) [''c@x.com'', ''a@x.com'', ''b@x.com'']) (\<lambda>s.
     got (op_ListUsers S s) ''list users'' (\<lambda>us.
     expect (length us = 3) ''got users'' (
     expect (Email (us ! 0) = ''a@x.com'' \<and> Email (us ! 2) = ''c@x.com'') ''expected sorted order'' None)))"

definition testUserSearchByType :: "'s store_ops \<Rightarrow> gotime \<Rightarrow> 's \<Rightarrow> string option" where
  "testUserSearchByType S clk =
     save_each (op_SaveUser S clk)
       [user0\<lparr>Email := ''a@x.com'', Type := ''agent''\<rparr>, user0\<lparr>Email := ''b@x.com'', Type := ''agent''\<rparr>, user0\<lparr>Email := ''c@x.com'', Type := ''human''\<rparr>] (\<lambda>s.
     got (op_SearchUsers S s [(''type'', ''agent'')]) ''search'' (\<lambda>r.
     expect (length r = 2) ''got users'' (
     got (op_SearchUsers S s [(''type'', ''human'')]) ''search human'' (\<lambda>r2.
     expect (length r2 = 1 \<and> Email (r2 ! 0) = ''c@x.com'') ''human filter'' None))))"

definition testUserSearchByMetadata :: "'s store_ops \<Rightarrow> gotime \<Rightarrow> 's \<Rightarrow> string option" where
  "testUserSearchByMetadata S clk =
     save_each (op_SaveUser S clk)
       [user0\<lparr>Email := ''a@x.com'', Type := ''agent'', Metadata := [(''model'', ''claude'')]\<rparr>,
        user0\<lparr>Email := ''b@x.com'', Type := ''agent'', Metadata := [(''model'', ''gpt'')]\<rparr>, user0\<lparr>Email := ''c@x.com'', Type := ''human''\<rparr>] (\<lambda>s.
     got (op_SearchUsers S s [(''model'', ''claude'')]) ''search'' (\<lambda>r.
     expect (length r = 1 \<and> Email (r ! 0) = ''a@x.com'') ''model-filter'' (
     got (op_SearchUsers S s [(''type'', ''agent''), (''model'', ''gpt'')]) ''search multi'' (\<lambda>r2.
     expect (length r2 = 1 \<and> Email (r2 ! 0) = ''b@x.com'') ''multi-filter'' None))))"

definition testUserSearchSkillsContains :: "'s store_ops \<Rightarrow> gotime \<Rightarrow> 's \<Rightarrow> string option" where
  "testUserSearchSkillsContains S clk =
     save_each (op_SaveUser S clk)
       [user0\<lparr>Email := ''a@x.com'', Metadata := [(''skills'', ''web-search,image-gen'')]\<rparr>,
        user0\<lparr>Email := ''b@x.com'', Metadata := [(''skills'', ''image-gen'')]\<rparr>, user0\<lparr>Email := ''c@x.com'', Metadata := [(''skills'', ''code-review'')]\<rparr>] (\<lambda>s.
     got (op_SearchUsers S s [(''skills'', ''image-gen'')]) ''search skills'' (\<lambda>r.
     expect (length r = 2) ''got'' (
     got (op_SearchUsers S s [(''skills'', ''web-search'')]) ''search web-search'' (\<lambda>r2.
     expect (length r2 = 1 \<and> Email (r2 ! 0) = ''a@x.com'') ''web-search'' None))))"

definition testUserSearchEmpty :: "'s store_ops \<Rightarrow> gotime \<Rightarrow> 's \<Rightarrow> string option" where
  "testUserSearchEmpty S clk =
     save_each (op_SaveUser S clk) [user0\<lparr>Email := ''a@x.com''\<rparr>, user0\<lparr>Email := ''b@x.com''\<rparr>] (\<lambda>s.
     got (op_SearchUsers S s []) ''search empty'' (\<lambda>r.
     expect (length r = 2) ''got'' None))"

definition testSaveNodeIdempotent :: "'s store_ops \<Rightarrow> 's \<Rightarrow> string option" where
  "testSaveNodeIdempotent S = save_each (op_SaveNode S) (replicate 3 \<lparr>ID = ''node-id'', PrivateKeyB64 = '''', PublicKeyB64 = ''''\<rparr>) (\<lambda>_. None)"

definition testSaveNodeRequiresID :: "'s store_ops \<Rightarrow> 's \<Rightarrow> string option" where
  "testSaveNodeRequiresID S s =
     expect (snd (op_SaveNode S s \<lparr>ID = '''', PrivateKeyB64 = '''', PublicKeyB64 = ''''\<rparr>) \<noteq> None) ''expected error for empty node id'' None"

text \<open>\<open>time.Now().UTC().Truncate(time.Second)\<close>.\<close>

definition test_now :: "gotime \<Rightarrow> gotime" where
  "test_now clk0 = clk0 - clk0 mod second"

definition testDeliveryJobRoundTrip :: "'s store_ops \<Rightarrow> gotime \<Rightarrow> gotime \<Rightarrow> 's \<Rightarrow> string option" where
  "testDeliveryJobRoundTrip S clk clk0 s =
     (let now = test_now clk0;
          job = job0\<lparr>MessageID := ''msg-1'', RecipientID := ''alice@example.com'', EndpointURL := ''https://example.com/webhook'',
            Status := DeliveryPending, MaxAttempts := 5, NextRetryAt := now, CreatedAt := now\<rparr> in
      saved (op_SaveDeliveryJob S clk s job) ''save delivery job'' (\<lambda>s.
      got (op_GetDeliveryJob S s ''msg-1'' ''alice@example.com'') ''get delivery job'' (\<lambda>r.
      expect (MessageID r = MessageID job) ''got message_id'' (
      expect (RecipientID r = RecipientID job) ''got recipient_id'' (
      expect (EndpointURL r = EndpointURL job) ''got endpoint_url'' (
      expect (Status r = DeliveryPending) ''got status'' None))))))"

definition testDeliveryJobUpdate :: "'s store_ops \<Rightarrow> gotime \<Rightarrow> gotime \<Rightarrow> 's \<Rightarrow> string option" where
  "testDeliveryJobUpdate S clk clk0 s =
     (let now = test_now clk0;
          job = job0\<lparr>MessageID := ''msg-2'', RecipientID := ''bob@example.com'', EndpointURL := ''https://example.com/webhook'',
            Status := DeliveryPending, MaxAttempts := 3, NextRetryAt := now, CreatedAt := now\<rparr> in
      saved (op_SaveDeliveryJob S clk s job) ''save delivery job'' (\<lambda>s.
      saved (op_UpdateDeliveryJob S clk s
        (job0\<lparr>MessageID := ''msg-2'', RecipientID := ''bob@example.com'', Status := DeliveryDelivered, Attempts := 1, DeliveredAt := Some (now + minute)\<rparr>))
        ''update delivery job'' (\<lambda>s.
      got (op_GetDeliveryJob S s ''msg-2'' ''bob@example.com'') ''get delivery job after update'' (\<lambda>r.
      expect (Status r = DeliveryDelivered) ''got status'' (
      expect (Attempts r = 1) ''got attempts'' (
      expect (DeliveredAt r \<noteq> None) ''expected delivered_at to be set'' None))))))"

definition testDeliveryJobNotFound :: "'s store_ops \<Rightarrow> 's \<Rightarrow> string option" where
  "testDeliveryJobNotFound S s = absent (op_GetDeliveryJob S s ''nonexistent-msg'' ''nobody@example.com'') ''missing job'' None"

definition testDeliveryJobListPending :: "'s store_ops \<Rightarrow> gotime \<Rightarrow> gotime \<Rightarrow> 's \<Rightarrow> string option" where
  "testDeliveryJobListPending S clk clk0 =
     (let now = test_now clk0; past = now - hour; future = now + hour in
      save_each (op_SaveDeliveryJob S clk)
        [job0\<lparr>MessageID := ''msg-a'', RecipientID := ''r@example.com'', Status := DeliveryPending, NextRetryAt := past, CreatedAt := now\<rparr>,
         job0\<lparr>MessageID := ''msg-b'', RecipientID := ''r@example.com'', Status := DeliveryFailed, NextRetryAt := past + 30 * minute, CreatedAt := now\<rparr>,
         job0\<lparr>MessageID := ''msg-c'', RecipientID := ''r@example.com'', Status := DeliveryPending, NextRetryAt := future, CreatedAt := now\<rparr>] (\<lambda>s.
      got (op_ListPendingDeliveryJobs S s now 10) ''list pending'' (\<lambda>r.
      expect (length r = 2) ''got pending jobs'' (
      expect (NextRetryAt (r ! 0) < NextRetryAt (r ! 1) \<or> NextRetryAt (r ! 0) = NextRetryAt (r ! 1)) ''expected ascending order by next_retry_at'' (
      got (op_ListPendingDeliveryJobs S s now 1) ''list pending limit=1'' (\<lambda>l.
      expect (length l = 1) ''got jobs with limit=1'' None))))))"

definition testDeliveryJobListByRecipient :: "'s store_ops \<Rightarrow> gotime \<Rightarrow> gotime \<Rightarrow> 's \<Rightarrow> string option" where
  "testDeliveryJobListByRecipient S clk clk0 =
     (let now = test_now clk0; alice = ''alice@example.com'' in
      save_each (op_SaveDeliveryJob S clk)
        [job0\<lparr>MessageID := ''msg-1'', RecipientID := alice, Status := DeliveryPending, NextRetryAt := now, CreatedAt := now\<rparr>,
         job0\<lparr>MessageID := ''msg-2'', RecipientID := alice, Status := DeliveryPending, NextRetryAt := now, CreatedAt := now - minute\<rparr>,
         job0\<lparr>MessageID := ''msg-3'', RecipientID := ''bob@example.com'', Status := DeliveryPending, NextRetryAt := now, CreatedAt := now\<rparr>] (\<lambda>s.
      got (op_ListDeliveryJobsByRecipient S s alice '''') ''list by recipient alice'' (\<lambda>js.
      expect (length js = 2) ''got jobs for alice'' (
      expect (list_all (\<lambda>j. RecipientID j = alice) js) ''expected only alice's jobs'' (
      got (op_ListDeliveryJobsByRecipient S s alice DeliveryDelivered) ''list delivered for alice'' (\<lambda>ds.
      expect (length ds = 0) ''got delivered jobs'' (
      got (op_ListDeliveryJobsByRecipient S s alice '''') ''list all for alice'' (\<lambda>al.
      expect (length al = 2) ''got jobs for alice with empty status'' None))))))))"

section \<open>The suite\<close>

definition cases :: "'s store_ops \<Rightarrow> gotime \<Rightarrow> gotime \<Rightarrow> (string \<times> ('s \<Rightarrow> string option)) list" where
  "cases S clk clk0 =
     [(''NodeRoundTrip'', testNodeRoundTrip S), (''DomainRoundTrip'', testDomainRoundTrip S), (''DomainNotFound'', testDomainNotFound S),
      (''DefaultDomain'', testDefaultDomain S), (''ListDomains'', testListDomains S), (''DomainCount'', testDomainCount S),
      (''UserRoundTrip'', testUserRoundTrip S clk), (''UserPublicKeyRoundTrip'', testUserPublicKeyRoundTrip S clk),
      (''UserTypeRoundTrip'', testUserTypeRoundTrip S clk), (''UserMetadataRoundTrip'', testUserMetadataRoundTrip S clk),
      (''UserNotFound'', testUserNotFound S), (''UserCount'', testUserCount S clk), (''UserList'', testUserList S clk),
      (''UserSearchByType'', testUserSearchByType S clk), (''UserSearchByMetadata'', testUserSearchByMetadata S clk),
      (''UserSearchSkillsContains'', testUserSearchSkillsContains S clk), (''UserSearchEmpty'', testUserSearchEmpty S clk),
      (''SaveNodeIdempotent'', testSaveNodeIdempotent S), (''SaveNodeRequiresID'', testSaveNodeRequiresID S),
      (''DeliveryJobRoundTrip'', testDeliveryJobRoundTrip S clk clk0), (''DeliveryJobUpdate'', testDeliveryJobUpdate S clk clk0),
      (''DeliveryJobNotFound'', testDeliveryJobNotFound S), (''DeliveryJobListPending'', testDeliveryJobListPending S clk clk0),
      (''DeliveryJobListByRecipient'', testDeliveryJobListByRecipient S clk clk0)]"

text \<open>The tests that fail, each run on a fresh store; \<open>connect\<close> is the result of \<open>Connect\<close>.\<close>

definition Run :: "'s store_ops \<Rightarrow> gotime \<Rightarrow> gotime \<Rightarrow> error option \<Rightarrow> 's \<Rightarrow> (string \<times> string) list" where
  "Run S clk clk0 connect fresh =
     concat (map (\<lambda>(name, fn). case (case connect of Some _ \<Rightarrow> Some ''connect'' | None \<Rightarrow> fn fresh) of
        None \<Rightarrow> [] | Some msg \<Rightarrow> [(name, msg)]) (cases S clk clk0))"

lemmas test_steps = saved_def got_def expect_def absent_def

lemma mem_tests:
  "testNodeRoundTrip mem_ops mem_New = None" "testDomainRoundTrip mem_ops mem_New = None" "testDomainNotFound mem_ops mem_New = None"
  "testDefaultDomain mem_ops mem_New = None" "testDomainCount mem_ops mem_New = None"
  "testUserRoundTrip mem_ops clk mem_New = None" "testUserPublicKeyRoundTrip mem_ops clk mem_New = None"
  "testUserTypeRoundTrip mem_ops clk mem_New = None" "testUserMetadataRoundTrip mem_ops clk mem_New = None"
  "testUserNotFound mem_ops mem_New = None" "testUserCount mem_ops clk mem_New = None"
  "testUserSearchEmpty mem_ops clk mem_New = None" "testSaveNodeIdempotent mem_ops mem_New = None" "testSaveNodeRequiresID mem_ops mem_New = None"
  "testDeliveryJobNotFound mem_ops mem_New = None"
  by (simp_all add: testNodeRoundTrip_def testDomainRoundTrip_def testDomainNotFound_def testDefaultDomain_def testDomainCount_def
      testUserRoundTrip_def testUserPublicKeyRoundTrip_def testUserTypeRoundTrip_def testUserMetadataRoundTrip_def testUserNotFound_def
      testUserCount_def testUserSearchEmpty_def testSaveNodeIdempotent_def testSaveNodeRequiresID_def testDeliveryJobNotFound_def test_steps mem_ops_def mem_op_defs mem_New_def Let_def gm_str_def created_at_def
      numeral_3_eq_3 gm_vals_def)

lemma abc: "CHR ''a'' < CHR ''b''" "CHR ''a'' < CHR ''c''" "CHR ''b'' < CHR ''c''"
  by code_simp+

lemma abc_order:
  "CHR ''a'' # s < CHR ''b'' # t" "CHR ''a'' # s < CHR ''c'' # t" "CHR ''b'' # s < CHR ''c'' # t"
  "CHR ''a'' # s \<le> CHR ''b'' # t" "CHR ''a'' # s \<le> CHR ''c'' # t" "CHR ''b'' # s \<le> CHR ''c'' # t"
  "\<not> CHR ''b'' # s \<le> CHR ''a'' # t" "\<not> CHR ''c'' # s \<le> CHR ''a'' # t" "\<not> CHR ''c'' # s \<le> CHR ''b'' # t"
  using abc by (auto simp: not_le less_imp_le)

lemma mem_list_tests:
  "testListDomains mem_ops mem_New = None" "testUserList mem_ops clk mem_New = None"
  by (simp_all add: testListDomains_def testUserList_def test_steps mem_ops_def mem_op_defs mem_New_def Let_def gm_vals_def abc_order)

lemma mem_search_tests:
  "testUserSearchByType mem_ops clk mem_New = None" "testUserSearchByMetadata mem_ops clk mem_New = None"
  "testUserSearchSkillsContains mem_ops clk mem_New = None"
  by (simp_all add: testUserSearchByType_def testUserSearchByMetadata_def testUserSearchSkillsContains_def test_steps mem_ops_def mem_op_defs mem_New_def
      Let_def gm_vals_def gm_str_def UserMatchesFilters_def abc_order)

lemma mem_job_ops:
  "op_SaveDeliveryJob mem_ops = (\<lambda>now s j. case gm_get (deliveryJobs s) (job_key j) of
     None \<Rightarrow> (s\<lparr>deliveryJobs := gm_put (job_key j) (job_defaults now j) (deliveryJobs s)\<rparr>, None) | Some _ \<Rightarrow> (s, None))"
  "op_ListPendingDeliveryJobs mem_ops = (\<lambda>s before limit. Inr (cap limit (sort_key NextRetryAt (filter (due before) (gm_vals (deliveryJobs s))))))"
  "op_ListDeliveryJobsByRecipient mem_ops = mem_ListDeliveryJobsByRecipient" "op_UpdateDeliveryJob mem_ops = mem_UpdateDeliveryJob"
  "op_GetDeliveryJob mem_ops = mem_GetDeliveryJob"
  by (simp_all add: mem_ops_def fun_eq_iff mem_SaveDeliveryJob_eq mem_ListPendingDeliveryJobs_def cap_def due_def [abs_def] not_less Let_def)

lemma mem_job_tests:
  "testDeliveryJobRoundTrip mem_ops clk clk0 mem_New = None" "testDeliveryJobUpdate mem_ops clk clk0 mem_New = None"
  by (simp_all add: testDeliveryJobRoundTrip_def testDeliveryJobUpdate_def test_steps mem_job_ops mem_UpdateDeliveryJob_def mem_GetDeliveryJob_def mem_New_def Let_def)

lemma mem_pending_test: "testDeliveryJobListPending mem_ops clk clk0 mem_New = None"
  by (simp add: testDeliveryJobListPending_def test_steps mem_job_ops mem_New_def Let_def gm_vals_def status_defs due_def cap_def)

lemma mem_recipient_test: "testDeliveryJobListByRecipient mem_ops clk clk0 mem_New = None"
  by (simp add: testDeliveryJobListByRecipient_def test_steps mem_job_ops mem_ListDeliveryJobsByRecipient_def mem_New_def Let_def gm_vals_def status_defs
      list_all_iff del: sort_key_simps(2))

section \<open>The SQL stores\<close>

text \<open>What the suite needs of an engine: a column keeps whole seconds, \<open>LIKE '%v%'\<close> is containment on texts of lower-case letters,
  hyphens and commas, and letters sort alphabetically.\<close>

definition plain :: "string \<Rightarrow> bool" where
  "plain s \<longleftrightarrow> list_all (\<lambda>c. c \<in> {CHR '','', CHR ''-''} \<or> 97 \<le> byte c \<and> byte c \<le> 122) s"

definition suite_engine :: "sqlengine \<Rightarrow> bool" where
  "suite_engine E \<longleftrightarrow> (\<forall>t. second dvd t \<longrightarrow> eng_time E t = t)
     \<and> (\<forall>t v. plain t \<longrightarrow> plain v \<longrightarrow> eng_like E t (''%'' @ v @ ''%'') = contains t v)
     \<and> (\<forall>c d s. 97 \<le> byte c \<longrightarrow> byte c < byte d \<longrightarrow> byte d \<le> 122 \<longrightarrow> eng_collate E (c # s) < eng_collate E (d # s))"

lemmas sqlite_op_defs = sqlite_SaveNode_def sqlite_GetNode_def sqlite_SaveDomain_def sqlite_GetDomain_def sqlite_GetDefaultDomain_def
  sqlite_ListDomains_def sqlite_CountDomains_def sqlite_SaveUser_def sqlite_GetUser_def sqlite_scanUsers_def sqlite_ListUsers_def sqlite_SearchUsers_def
  sqlite_CountUsers_def sqlite_GetDeliveryJob_def

lemmas pg_op_defs = pg_SaveNode_def pg_GetNode_def pg_SaveDomain_def pg_GetDomain_def pg_GetDefaultDomain_def pg_ListDomains_def pg_CountDomains_def
  pg_SaveUser_def pg_GetUser_def pg_scanUserRows_def pg_ListUsers_def pg_SearchUsers_def pg_CountUsers_def pg_GetDeliveryJob_def

lemmas sql_steps = sql_exec_def sql_query_def sql_empty_def upsert_node_def node_of_row_def upsert_domain_def sqlite_domain_def pg_domain_def
  upsert_user_def user_of_row_def Let_def

lemma suite_times: "suite_engine E \<Longrightarrow> eng_time E created_at = created_at"
  by (simp add: suite_engine_def created_at_def)

lemma sqlite_tests:
  assumes "suite_engine E"
  shows "testNodeRoundTrip (sqlite_ops E) sql_empty = None" "testDomainRoundTrip (sqlite_ops E) sql_empty = None"
    "testDomainNotFound (sqlite_ops E) sql_empty = None" "testDefaultDomain (sqlite_ops E) sql_empty = None" "testListDomains (sqlite_ops E) sql_empty = None"
    "testDomainCount (sqlite_ops E) sql_empty = None" "testUserRoundTrip (sqlite_ops E) clk sql_empty = None"
    "testUserPublicKeyRoundTrip (sqlite_ops E) clk sql_empty = None" "testUserTypeRoundTrip (sqlite_ops E) clk sql_empty = None"
    "testUserNotFound (sqlite_ops E) sql_empty = None" "testUserCount (sqlite_ops E) clk sql_empty = None" "testUserList (sqlite_ops E) clk sql_empty = None"
    "testUserSearchEmpty (sqlite_ops E) clk sql_empty = None" "testSaveNodeIdempotent (sqlite_ops E) sql_empty = None"
    "testSaveNodeRequiresID (sqlite_ops E) sql_empty = None" "testDeliveryJobNotFound (sqlite_ops E) sql_empty = None"
  using suite_times [OF assms]
  by (simp_all add: testNodeRoundTrip_def testDomainRoundTrip_def testDomainNotFound_def testDefaultDomain_def testDomainCount_def testListDomains_def testUserList_def
      testUserRoundTrip_def testUserPublicKeyRoundTrip_def testUserTypeRoundTrip_def testUserNotFound_def
      testUserCount_def testUserSearchEmpty_def testSaveNodeIdempotent_def testSaveNodeRequiresID_def testDeliveryJobNotFound_def
      test_steps sqlite_ops_def sqlite_op_defs sql_steps abc_order numeral_3_eq_3 json_meta_def created_at_def)

lemma suite_like:
  assumes "suite_engine E" and "plain t" and "w \<noteq> []" and "last w = CHR ''%''" and "plain (butlast w)"
  shows "eng_like E t (CHR ''%'' # w) = contains t (butlast w)"
proof -
  have "''%'' @ butlast w @ ''%'' = CHR ''%'' # w" using assms(3,4) by (metis append_Cons append_Nil append_butlast_last_id)
  then show ?thesis using assms(1,2,5) unfolding suite_engine_def by metis
qed

lemma order_of_keys: "CHR ''m'' < CHR ''t''" "CHR ''r'' < CHR ''t''"
  by code_simp+

lemmas sql_search_steps = search_clauses_def clause_holds_def plain_def json_meta_def IsValidMetaKey_iff meta_rune_def ascii_def order_of_keys abc_order

lemma sqlite_search_tests:
  assumes "suite_engine E"
  shows "testUserMetadataRoundTrip (sqlite_ops E) clk sql_empty = None" "testUserSearchByType (sqlite_ops E) clk sql_empty = None"
    "testUserSearchByMetadata (sqlite_ops E) clk sql_empty = None" "testUserSearchSkillsContains (sqlite_ops E) clk sql_empty = None"
  by (simp_all add: testUserMetadataRoundTrip_def testUserSearchByType_def testUserSearchByMetadata_def testUserSearchSkillsContains_def test_steps
      sqlite_ops_def sqlite_op_defs sql_steps sql_search_steps suite_like [OF assms] gm_str_def)

lemma test_now_second: "second dvd test_now clk0"
  by (simp add: test_now_def minus_mod_eq_mult_div)

lemma suite_job_times:
  assumes "suite_engine E"
  shows "eng_time E (test_now clk0) = test_now clk0" "eng_time E (test_now clk0 - hour) = test_now clk0 - hour"
    "eng_time E (test_now clk0 + hour) = test_now clk0 + hour" "eng_time E (test_now clk0 - minute) = test_now clk0 - minute"
    "eng_time E (test_now clk0 - 1800000000000) = test_now clk0 - 1800000000000"
proof -
  have "eng_time E (test_now clk0 + d) = test_now clk0 + d" if "second dvd d" for d
    using assms dvd_add [OF test_now_second that] by (simp add: suite_engine_def)
  from this [of 0] this [of "- hour"] this [of hour] this [of "- minute"] this [of "- 1800000000000"]
  show "eng_time E (test_now clk0) = test_now clk0" "eng_time E (test_now clk0 - hour) = test_now clk0 - hour"
    "eng_time E (test_now clk0 + hour) = test_now clk0 + hour" "eng_time E (test_now clk0 - minute) = test_now clk0 - minute"
    "eng_time E (test_now clk0 - 1800000000000) = test_now clk0 - 1800000000000"
    by simp_all
qed

lemma sqlite_job_ops:
  "op_SaveDeliveryJob (sqlite_ops E) = (\<lambda>now db j. sql_exec db (insert_job E (job_defaults now j) db))"
  "op_UpdateDeliveryJob (sqlite_ops E) = sqlite_UpdateDeliveryJob E" "op_GetDeliveryJob (sqlite_ops E) = sqlite_GetDeliveryJob"
  "op_ListPendingDeliveryJobs (sqlite_ops E) = sqlite_ListPendingDeliveryJobs E"
  "op_ListDeliveryJobsByRecipient (sqlite_ops E) = sqlite_ListDeliveryJobsByRecipient"
  by (auto simp: sqlite_ops_def fun_eq_iff sqlite_SaveDeliveryJob_def job_defaults_def Let_def intro!: arg_cong [where f = "sql_exec _"] arg_cong2 [where f = "insert_job E"])

lemmas sql_job_steps = sql_exec_def sql_query_def sql_empty_def insert_job_def update_job_def select_pending_def select_by_recipient_def gm_vals_def status_defs Let_def

lemma sqlite_job_tests:
  assumes "suite_engine E"
  shows "testDeliveryJobRoundTrip (sqlite_ops E) clk clk0 sql_empty = None" "testDeliveryJobUpdate (sqlite_ops E) clk clk0 sql_empty = None"
    "testDeliveryJobListPending (sqlite_ops E) clk clk0 sql_empty = None"
  by (simp_all add: testDeliveryJobRoundTrip_def testDeliveryJobUpdate_def testDeliveryJobListPending_def test_steps sqlite_job_ops sqlite_UpdateDeliveryJob_def
      sqlite_GetDeliveryJob_def sqlite_ListPendingDeliveryJobs_def sql_job_steps suite_job_times [OF assms])

lemma sqlite_recipient_test: "testDeliveryJobListByRecipient (sqlite_ops E) clk clk0 sql_empty = None"
  by (simp add: testDeliveryJobListByRecipient_def test_steps sqlite_job_ops sqlite_ListDeliveryJobsByRecipient_def sql_job_steps list_all_iff
      del: sort_key_simps(2))

lemma suite_collate:
  assumes "suite_engine E"
  shows "eng_collate E (CHR ''a'' # s) \<le> eng_collate E (CHR ''b'' # s)" "eng_collate E (CHR ''a'' # s) \<le> eng_collate E (CHR ''c'' # s)"
    "eng_collate E (CHR ''b'' # s) \<le> eng_collate E (CHR ''c'' # s)" "\<not> eng_collate E (CHR ''b'' # s) \<le> eng_collate E (CHR ''a'' # s)"
    "\<not> eng_collate E (CHR ''c'' # s) \<le> eng_collate E (CHR ''a'' # s)" "\<not> eng_collate E (CHR ''c'' # s) \<le> eng_collate E (CHR ''b'' # s)"
proof -
  have "eng_collate E (c # s) < eng_collate E (d # s)" if "97 \<le> byte c" "byte c < byte d" "byte d \<le> 122" for c d
    using assms that by (simp add: suite_engine_def)
  then have lt: "eng_collate E (CHR ''a'' # s) < eng_collate E (CHR ''b'' # s)" "eng_collate E (CHR ''a'' # s) < eng_collate E (CHR ''c'' # s)"
      "eng_collate E (CHR ''b'' # s) < eng_collate E (CHR ''c'' # s)"
    by simp_all
  then show "eng_collate E (CHR ''a'' # s) \<le> eng_collate E (CHR ''b'' # s)" "eng_collate E (CHR ''a'' # s) \<le> eng_collate E (CHR ''c'' # s)"
    "eng_collate E (CHR ''b'' # s) \<le> eng_collate E (CHR ''c'' # s)" "\<not> eng_collate E (CHR ''b'' # s) \<le> eng_collate E (CHR ''a'' # s)"
    "\<not> eng_collate E (CHR ''c'' # s) \<le> eng_collate E (CHR ''a'' # s)" "\<not> eng_collate E (CHR ''c'' # s) \<le> eng_collate E (CHR ''b'' # s)"
    by (simp_all only: not_le less_imp_le)
qed

lemma pg_tests:
  assumes "suite_engine E"
  shows "testNodeRoundTrip (pg_ops E) sql_empty = None" "testDomainRoundTrip (pg_ops E) sql_empty = None"
    "testDomainNotFound (pg_ops E) sql_empty = None" "testDefaultDomain (pg_ops E) sql_empty = None" "testListDomains (pg_ops E) sql_empty = None"
    "testDomainCount (pg_ops E) sql_empty = None" "testUserRoundTrip (pg_ops E) clk sql_empty = None"
    "testUserPublicKeyRoundTrip (pg_ops E) clk sql_empty = None" "testUserTypeRoundTrip (pg_ops E) clk sql_empty = None"
    "testUserNotFound (pg_ops E) sql_empty = None" "testUserCount (pg_ops E) clk sql_empty = None" "testUserList (pg_ops E) clk sql_empty = None"
    "testUserSearchEmpty (pg_ops E) clk sql_empty = None" "testSaveNodeIdempotent (pg_ops E) sql_empty = None"
    "testSaveNodeRequiresID (pg_ops E) sql_empty = None" "testDeliveryJobNotFound (pg_ops E) sql_empty = None"
  using suite_times [OF assms]
  by (simp_all add: testNodeRoundTrip_def testDomainRoundTrip_def testDomainNotFound_def testDefaultDomain_def testDomainCount_def testListDomains_def testUserList_def
      testUserRoundTrip_def testUserPublicKeyRoundTrip_def testUserTypeRoundTrip_def testUserNotFound_def
      testUserCount_def testUserSearchEmpty_def testSaveNodeIdempotent_def testSaveNodeRequiresID_def testDeliveryJobNotFound_def
      test_steps pg_ops_def pg_op_defs sql_steps abc_order suite_collate [OF assms] numeral_3_eq_3 json_meta_def created_at_def)

lemma pg_search_tests:
  assumes "suite_engine E"
  shows "testUserMetadataRoundTrip (pg_ops E) clk sql_empty = None" "testUserSearchByType (pg_ops E) clk sql_empty = None"
    "testUserSearchByMetadata (pg_ops E) clk sql_empty = None" "testUserSearchSkillsContains (pg_ops E) clk sql_empty = None"
  by (simp_all add: testUserMetadataRoundTrip_def testUserSearchByType_def testUserSearchByMetadata_def testUserSearchSkillsContains_def test_steps
      pg_ops_def pg_op_defs sql_steps sql_search_steps suite_like [OF assms] gm_str_def suite_collate [OF assms])

lemma pg_job_ops:
  "op_SaveDeliveryJob (pg_ops E) = (\<lambda>now db j. sql_exec db (insert_job E (job_defaults now j) db))"
  "op_UpdateDeliveryJob (pg_ops E) = pg_UpdateDeliveryJob E" "op_GetDeliveryJob (pg_ops E) = pg_GetDeliveryJob"
  "op_ListPendingDeliveryJobs (pg_ops E) = pg_ListPendingDeliveryJobs E"
  "op_ListDeliveryJobsByRecipient (pg_ops E) = pg_ListDeliveryJobsByRecipient"
  by (auto simp: pg_ops_def fun_eq_iff pg_SaveDeliveryJob_def job_defaults_def Let_def intro!: arg_cong [where f = "sql_exec _"] arg_cong2 [where f = "insert_job E"])

lemma pg_job_tests:
  assumes "suite_engine E"
  shows "testDeliveryJobRoundTrip (pg_ops E) clk clk0 sql_empty = None" "testDeliveryJobUpdate (pg_ops E) clk clk0 sql_empty = None"
    "testDeliveryJobListPending (pg_ops E) clk clk0 sql_empty = None"
  by (simp_all add: testDeliveryJobRoundTrip_def testDeliveryJobUpdate_def testDeliveryJobListPending_def test_steps pg_job_ops pg_UpdateDeliveryJob_def
      pg_GetDeliveryJob_def pg_ListPendingDeliveryJobs_def sql_job_steps suite_job_times [OF assms])

lemma pg_recipient_test: "testDeliveryJobListByRecipient (pg_ops E) clk clk0 sql_empty = None"
  by (simp add: testDeliveryJobListByRecipient_def test_steps pg_job_ops pg_ListDeliveryJobsByRecipient_def sql_job_steps list_all_iff
      del: sort_key_simps(2))

section \<open>Conformance\<close>

lemma Run_nil: "list_all (\<lambda>(name, fn). fn fresh = None) (cases S clk clk0) \<Longrightarrow> Run S clk clk0 None fresh = []"
  by (auto simp: Run_def list_all_iff)


lemma suite_engine_ex: "suite_engine engine_ex"
proof -
  have "c # s < d # s" if "byte c < byte d" for c d :: char and s
    using that by (simp add: less_char_def)
  then show ?thesis by (simp add: suite_engine_def engine_ex_def)
qed


end
