(* ===== verification/Spec2Isabelle.thy ===== *)
theory Spec2Isabelle
  imports Cmd_Tree Smtp_Policy Storetest
begin

text \<open>
  Verification of postbox, a mail node for people, agents and services (Go, under \<open>src/\<close>).

  \<^bold>\<open>The program.\<close> A node keeps domains, users and webhook jobs in a store. Its gRPC service registers
  them and says which node owns a domain; an interceptor splits every \<open>SendMessage\<close> call between the
  nodes that own its recipients and an outbound relay. Mail also arrives over SMTP and LMTP. Every
  message passes a chain of plugins before the mailbox library stores it, and a dispatcher tells the
  recipients' webhooks about it with signed requests. Nodes find each other through Redis.

  \<^bold>\<open>The theories,\<close> in the order of their imports, and the code they model:
    \<^item> \<open>Prelude\<close>, \<open>Go_Strings\<close>, \<open>Base64\<close>: Go's maps, errors with \<open>errors.Is\<close>, strings, runes and
      base64, as far as the program uses them.
    \<^item> \<open>Store\<close> (\<open>internal/store/store.go\<close>): the records and the interface \<open>store.Store\<close> as the record
      \<open>store_ops\<close>; its contract is the locale \<open>node_store\<close> over an abstract store of maps.
    \<^item> \<open>Memstore\<close>, \<open>Sqlstore\<close> (\<open>internal/store/memstore\<close>, \<open>sqlite\<close>, \<open>sqlstore\<close>): the three stores, each an
      interpretation of \<open>node_store\<close>. \<open>Sql_Schema\<close>: \<open>Connect\<close>, \<open>Close\<close> and the schema migrations of the SQL stores.
      \<open>Storetest\<close> (\<open>internal/store/storetest\<close>): the conformance suite, which the three stores pass.
    \<^item> \<open>Registry\<close> (\<open>internal/registry\<close>, \<open>internal/relay/registry.go\<close>): who owns a target; locale
      \<open>node_registry\<close>, interpreted by the local registry over each store and by the relay's fallback.
    \<^item> \<open>Nodekey\<close> (\<open>internal/nodekey\<close>, \<open>internal/guard\<close>): the node's key pair and the bearer guard.
    \<^item> \<open>Webhook\<close> (\<open>internal/webhook\<close>): retry schedule, signer, and the dispatcher with its workers and
      sweeper as the step relation \<open>d_step\<close>.
    \<^item> \<open>Forwarder\<close> (\<open>internal/forwarder\<close>): the splitting interceptor and its connection pool.
    \<^item> \<open>Relay\<close> (\<open>internal/relay\<close>): the backends, DKIM signing, the relay server and its retry queue with
      the step relation \<open>q_step\<close>.
    \<^item> \<open>Plugin\<close>, \<open>Attachment_Filter\<close>, \<open>Address_Filter\<close>, \<open>Security_Agent\<close>, \<open>Email_Auth\<close>, \<open>Smtp_Security\<close>,
      \<open>Ip_Reputation\<close>, \<open>Scanners\<close> (\<open>internal/plugin\<close>): the plugins; each interprets the locale
      \<open>send_hook\<close>. \<open>rule_store\<close>, \<open>lockout_store\<close> and \<open>ttl_cache\<close> are the contracts of what they keep.
    \<^item> \<open>Smtp_Session\<close>, \<open>Smtp_Server\<close> (\<open>internal/smtp\<close>): sessions, and the two listeners as
      interpretations of the locale \<open>lifecycle\<close>.
      \<open>Smtp_Policy\<close>: what the SMTP security plugin does to the messages of the two listeners.
    \<^item> \<open>Postbox_Server\<close> (\<open>internal/server/server.go\<close>): the gRPC handlers and the control of the
      listeners; locale \<open>registering\<close>, a store with a registry that writes to it.
    \<^item> \<open>Mailbox_Service\<close> (\<open>internal/mbxstore\<close>): the factory of the mailbox service over a durable store.
    \<^item> \<open>Controller\<close> (\<open>internal/server/node.go\<close>, \<open>options.go\<close>): options, start-up with the choice of the mailbox
      factory, assembly, heartbeat, shutdown.
    \<^item> \<open>Serve\<close> (\<open>cmd/serve.go\<close>, \<open>cmd/config.go\<close>): from the configuration to the plugin chain, the outbound
      backend, the controller's options and the listeners.
    \<^item> \<open>Client\<close> (\<open>cmd/user.go\<close>, \<open>domain.go\<close>, \<open>register.go\<close>, \<open>discover.go\<close>, \<open>status.go\<close>, \<open>smtp.go\<close>, \<open>cmd/mail\<close>): the
      command-line client: the requests it sends and what it prints.
    \<^item> \<open>Serve_Run\<close> (\<open>runServe\<close>, \<open>internal/observability\<close>): the metrics endpoint, the security guard and the interceptors of the gRPC server, and a run of
      the server from start-up to its deferred clean-up.
    \<^item> \<open>Cmd_Flags\<close>, \<open>Cmd_Config\<close> (\<open>init\<close> in \<open>cmd/serve.go\<close>, \<open>cmd/config.go\<close>): the flags with their defaults and bindings,
      and how the configuration is resolved.
    \<^item> \<open>Cmd_Tree\<close> (\<open>cmd/root.go\<close> and the \<open>init\<close> functions of the client): the tree of commands with their flags,
      required flags and arguments, and how a command line becomes a call and an exit status.
  This theory holds what spans components.

  \<^bold>\<open>Conventions.\<close> A method that changes state takes the state and returns the new one with \<open>None\<close> for
  \<open>nil\<close> or the error; a query returns a sum with the error on the left. \<open>time.Now()\<close> is an argument.
  \<open>int\<close> is an unbounded integer where the code only counts; \<open>int64\<close> is a 64-bit word where overflow is
  possible (attachment sizes, queue delays) and the counter of failed logins is 32 bits wide. Rates and scores
  are reals. Code outside the repository is an argument, a record of the functions that are called:
  \<open>golib\<close> (Unicode tables, \<open>net/mail\<close>, \<open>mime\<close>, \<open>regexp\<close>), \<open>sqlengine\<close>, \<open>redis_ops\<close>, \<open>ed25519\<close>, \<open>limiter_ops\<close>,
  \<open>dns_env\<close>, \<open>os_env\<close>, \<open>smtp_env\<close>, \<open>fwd_env\<close>, \<open>webhook_env\<close> and \<open>boot_env\<close>. What a theorem needs of them is a
  hypothesis that states documented behaviour (\<open>redis_sound\<close>, \<open>key_pair\<close>), with an instance in its
  witness. Concurrency is interleaving: a critical section is one step, and \<open>d_step\<close>, \<open>q_step\<close>,
  \<open>smtp_step\<close> and the array reads of the address filter are the places where steps interleave. There is no
  fuel: every loop is structural or runs over a finite list, and the endless loops (workers, sweeper,
  heartbeat) are step relations.

  \<^bold>\<open>What is shown.\<close> Stores: the three stores refine the abstract store, pass the conformance suite, keep at most one default
  domain, and a migrated database has the current schema with the old rows. Routing: every recipient
  is delivered exactly once per call; registered domains are discoverable; what a cluster does not
  guarantee. Reception: every SMTP message has an authenticated sender and accepted recipients; guessing
  is stopped across connections; the chain of plugins enforces every enabled policy, and the mailbox service of a
  started node runs exactly that chain; what the plugin for SMTP security can reject of the mail of each listener. Delivery: the
  relay queue loses nothing it accepted, webhook jobs end after their attempts and their signatures
  verify under the published key. Control: starting and stopping listeners refines a one-bit
  specification; however a run of the server ends, nothing is left running; with a token configured no
  call without it is served, neither the client's nor that of another node. Client and configuration: a
  user registered by one command line is shown by the next; every command reads exactly the flags it declares; flags, keys and fields
  fit together, and what a node without configuration does.
  Several theorems show behaviour that the documentation does not promise; they are listed as findings in
  the manifest of the development.

  \<^bold>\<open>Not modelled.\<close> The mailbox library, the gRPC, Redis, SQL and SMTP protocol engines (parameters);
  flag parsing, viper and its decoder (parameters, with their order of precedence as a hypothesis), signal
  handling; loggers; generated protocol code.
\<close>

section \<open>SMTP reception and the DMARC check\<close>

lemma no_From_no_DMARC:
  assumes "''From'' \<notin> set (map fst h)"
  shows "checkDMARC G D p h = None"
proof -
  have "gm_str h ''From'' = ''''" using assms by (simp add: gm_str_def map_of_eq_None_iff [THEN iffD2])
  then have "from_domain G h = None" by (simp add: from_domain_def)
  then show ?thesis by (simp add: checkDMARC_def Let_def)
qed

text \<open>C32: No message received over SMTP or LMTP is ever subject to DMARC: whatever the client sends, the
  request for the mailbox carries only the envelope headers of the session and never the \<open>From\<close> header of the
  message, and without it the DMARC check accepts, whatever the policy of the plugin and of the domain.\<close>

theorem smtp_mail_skips_dmarc:
  assumes "(sender, req) \<in> set (cn_log (smtp_run G cfg H (new_conn h m addr) evs)) \<or> lmtp_request G E s raw = Inr (sender, req)"
    and "GetHeaders d = sr_Headers req"
  shows "checkDMARC G D p (GetHeaders d) = None"
proof -
  have "set (map fst (sr_Headers req)) \<subseteq> set internalHeaders \<union> {''X-LMTP-Remote-Addr''}"
    using assms(1) smtp_log_headers lmtp_request_headers by (fastforce simp: internalHeaders_def)
  then show ?thesis
    unfolding assms(2) by (intro no_From_no_DMARC) (auto simp: internalHeaders_def)
qed

theorem smtp_mail_skips_dmarc_witness:
  "\<exists>req. lmtp_request golib_ex smtp_env_ex \<lparr>lm_remoteAddr = '''', lm_from = ''ceo@bank'', lm_to = [''bob@x'']\<rparr> ''hello'' = Inr (''ceo@bank'', req)
     \<and> checkDMARC golib_ex dns_ex (NewEmailAuth ''ea'' \<lparr>SPFPolicy = ''off'', DKIMPolicy = ''off'', DMARCPolicy = ''reject''\<rparr>) (sr_Headers req) = None"
proof -
  obtain req where r: "lmtp_request golib_ex smtp_env_ex \<lparr>lm_remoteAddr = '''', lm_from = ''ceo@bank'', lm_to = [''bob@x'']\<rparr> ''hello'' = Inr (''ceo@bank'', req)"
    using lmtp_ex_request by blast
  have "checkDMARC golib_ex dns_ex p (GetHeaders ((draft_ex [])\<lparr>GetHeaders := sr_Headers req\<rparr>)) = None" for p
    by (rule smtp_mail_skips_dmarc [OF disjI2 [OF r]]) simp
  then show ?thesis using r by auto
qed

section \<open>Guessing passwords\<close>

text \<open>The plugin as the hook of the SMTP server.\<close>

abbreviation security_hook :: "'l lockout_ops option \<Rightarrow> ('l \<times> SMTPSecurityPlugin) auth_hook" where
  "security_hook store \<equiv> \<lparr>hk_RecordAuthFailure = RecordAuthFailure store, hk_IsLockedOut = IsLockedOut store\<rparr>"

lemma logins_auth_failures:
  "list_all (\<lambda>a. \<not> lg_accepted a) as \<Longrightarrow>
     logins cfg (Some (security_hook store)) st as = auth_failures store st (map (\<lambda>a. (lg_time a, remoteAddr (lg_ses a))) as)"
  by (simp add: logins_recorded auth_failures_def)


definition login_ex :: "unit login" where
  "login_ex = \<lparr>lg_env = smtp_env_ex, lg_time = 0,
     lg_ses = \<lparr>remoteAddr = ''10.0.0.1:25'', authedUser = '''', s_from = '''', s_to = [], authFailures = 0, spfResult = ''''\<rparr>,
     lg_identity = '''', lg_username = ''ann@x'', lg_password = ''guess''\<rparr>"

lemma login_ex_facts: "\<not> lg_accepted login_ex" "hostOnly (remoteAddr (lg_ses login_ex)) = ''10.0.0.1''" "lg_time login_ex = 0"
proof -
  show "\<not> lg_accepted login_ex" by (simp add: lg_accepted_def login_ex_def smtp_env_ex_def)
  have "hostOnly ''10.0.0.1:25'' = ''10.0.0.1''" by code_simp
  then show "hostOnly (remoteAddr (lg_ses login_ex)) = ''10.0.0.1''" by (simp add: login_ex_def)
  show "lg_time login_ex = 0" by (simp add: login_ex_def)
qed


section \<open>Listeners started by RPC\<close>

lemma rpc_listener_cfg:
  assumes "rpc_StartSMTP (smtp_lifecycle O') (defaultSMTPFactory LM) smtp req = (Some srv, Inr rsp)"
  shows "sv_cfg srv = applyDefaults (smtpConfigFromProto req)"
  using assms
  by (auto simp: rpc_StartSMTP_def ctl_StartSMTP_def smtp_lifecycle_def sv_Start_def defaultSMTPFactory_def smtp_New_def NewWithValidator_def Let_def
      split: option.splits if_splits prod.splits)

text \<open>The listener that \<open>serve\<close> starts asks the hook exactly if the plugins have given one.\<close>

lemma serve_listener_hooked:
  "session_hook (sv_cfg (defaultSMTPFactory LM (serve_smtp_cfg (su_authHook su \<noteq> None) c))) hk = (if su_authHook su = None then None else Some hk)"
  by (simp add: session_hook_def defaultSMTPFactory_def smtp_New_def NewWithValidator_def applyDefaults_def serve_smtp_cfg_def Let_def)

lemma logins_unrecorded: "logins cfg None h as = h"
proof (induction as arbitrary: h)
  case (Cons a as)
  have "fst (fst (plain_response cfg None (lg_env a) (lg_time a) (h, lg_ses a) (lg_identity a) (lg_username a) (lg_password a))) = h"
    by (auto simp: plain_response_def authFailed_def Let_def split: option.split)
  then show ?case using Cons by (simp add: logins_def)
qed (simp add: logins_def)

text \<open>C29: A listener that was started by the \<open>StartSMTP\<close> call (as after \<open>postbox smtp stop\<close> and \<open>postbox smtp start\<close>) has lost the protection
  that the configuration of the node asks for, whatever it is: the security plugin is not asked, so that no refused login is recorded
  and a password guessed after any number of refused logins is accepted; there is no TLS certificate and neither SPF nor DKIM
  is checked.\<close>

theorem rpc_listener_unprotected:
  assumes "rpc_StartSMTP (smtp_lifecycle O') (defaultSMTPFactory LM) smtp req = (Some srv, Inr rsp)"
    and "accepted_by u (E, t, CAuth ''PLAIN'' identity username password)" and "\<not> cn_auth c"
  shows "logins (session_cfg_of (sv_cfg srv)) (session_hook (sv_cfg srv) hk) h as = h
    \<and> snd (smtp_step G (session_cfg_of (sv_cfg srv)) (session_hook (sv_cfg srv) hk) c (E, t, CAuth ''PLAIN'' identity username password)) = None
    \<and> cfg_TLSCertFile (sv_cfg srv) = '''' \<and> \<not> cfg_CheckSPF (sv_cfg srv) \<and> \<not> cfg_VerifyDKIM (sv_cfg srv)"
proof -
  have cfg: "session_hook (sv_cfg srv) hk = None" "cfg_TLSCertFile (sv_cfg srv) = ''''" "\<not> cfg_CheckSPF (sv_cfg srv)" "\<not> cfg_VerifyDKIM (sv_cfg srv)"
    by (simp_all add: rpc_listener_cfg [OF assms(1)] session_hook_def applyDefaults_def smtpConfigFromProto_def)
  have "users E \<noteq> None" using assms(2) by (auto split: option.splits)
  then have "Auth (session_cfg_of (sv_cfg srv)) None E t (cn_hook c) (cn_ses c) ''PLAIN'' = None" by (simp add: Auth_def sasl_Plain_def)
  moreover have "snd (plain_response (session_cfg_of (sv_cfg srv)) None E t (cn_hook c, cn_ses c) identity username password) = None"
    using assms(2) by (auto simp: plain_response_def Let_def split: option.splits)
  ultimately have "snd (smtp_step G (session_cfg_of (sv_cfg srv)) None c (E, t, CAuth ''PLAIN'' identity username password)) = None"
    using assms(3) by (simp add: case_prod_beta)
  then show ?thesis using cfg logins_unrecorded by simp
qed

theorem rpc_listener_unprotected_witness:
  "\<exists>(srv :: unit Server) rsp. rpc_StartSMTP (smtp_lifecycle (os_ex None)) (defaultSMTPFactory \<lparr>NewLimiter = \<lambda>_ _. (), Allow = \<lambda>_ _. ((), True)\<rparr>) None smtp_req_ex = (Some srv, Inr rsp)
     \<and> snd (smtp_step golib_ex (session_cfg_of (sv_cfg srv)) (session_hook (sv_cfg srv) \<lparr>hk_RecordAuthFailure = \<lambda>_ h _. (h, True), hk_IsLockedOut = \<lambda>_ _ _. True\<rparr>)
         (new_conn () () ''10.0.0.1:25'') (smtp_env_ex, 9, CAuth ''PLAIN'' '''' ''ann@x'' ''secret'')) = None"
proof -
  define LM :: "unit limiter_ops" where "LM = \<lparr>NewLimiter = \<lambda>_ _. (), Allow = \<lambda>_ _. ((), True)\<rparr>"
  obtain srv :: "unit Server" and rsp where r: "rpc_StartSMTP (smtp_lifecycle (os_ex None)) (defaultSMTPFactory LM) None smtp_req_ex = (Some srv, Inr rsp)"
    by (simp add: rpc_StartSMTP_def ctl_StartSMTP_def smtp_lifecycle_def sv_Start_def defaultSMTPFactory_def smtp_New_def NewWithValidator_def os_ex_def
        smtp_req_ex_def smtpConfigFromProto_def applyDefaults_def Let_def)
  have a: "accepted_by ''ann@x'' (smtp_env_ex, 9, CAuth ''PLAIN'' '''' ''ann@x'' ''secret'')" by (simp add: smtp_env_ex_def)
  have "\<not> cn_auth (new_conn () () ''10.0.0.1:25'')" by (simp add: new_conn_def)
  from rpc_listener_unprotected [OF r a this] r show ?thesis unfolding LM_def by blast
qed

end
